(* ===== verification/Rust_Std.thy ===== *)
theory Rust_Std
  imports Prelude "HOL-Library.Char_ord" "HOL-Library.List_Lexorder"
begin

text \<open>
  The parts of Rust's standard library that the modelled code calls: saturating arithmetic on
  fixed-width integers, the string functions of \<open>str\<close> and the number parsers and formatters.

  A Rust \<open>str\<close> is the list of its Unicode scalar values, here a HOL \<open>string\<close>; the model covers
  the scalar values U+0000 to U+00FF and the functions are exact for such strings (so
  \<open>is_whitespace\<close> includes U+0085 and U+00A0).  The order on strings is the lexicographic order of
  the scalar values, which is also the byte order of UTF-8 that \<open>Ord for str\<close> uses.
\<close>

section \<open>Saturating arithmetic\<close>

definition saturating_add :: "'a::len word \<Rightarrow> 'a word \<Rightarrow> 'a word" where
  "saturating_add a b = (if unat a + unat b < 2 ^ LENGTH('a) then a + b else - 1)"

definition saturating_sub :: "'a::len word \<Rightarrow> 'a word \<Rightarrow> 'a word" where
  "saturating_sub a b = (if b \<le> a then a - b else 0)"

definition saturating_mul :: "'a::len word \<Rightarrow> 'a word \<Rightarrow> 'a word" where
  "saturating_mul a b = (if unat a * unat b < 2 ^ LENGTH('a) then a * b else - 1)"

text \<open>\<open>i64::saturating_add\<close>; a signed 64-bit value is a word read with \<open>sint\<close>.\<close>

definition saturating_add_i64 :: "64 word \<Rightarrow> 64 word \<Rightarrow> 64 word" where
  "saturating_add_i64 a b =
     (let s = sint a + sint b in
      if s > 2 ^ 63 - 1 then word_of_int (2 ^ 63 - 1)
      else if s < - (2 ^ 63) then word_of_int (- (2 ^ 63))
      else a + b)"

lemma unat_max_word: "unat (- 1 :: 'a::len word) = 2 ^ LENGTH('a) - 1"
  by (simp only: unsigned_minus_1_eq_mask mask_eq_exp_minus_1)

lemma unat_saturating_add:
  "unat (saturating_add a b) = min (unat a + unat b) (2 ^ LENGTH('a) - 1)"
  for a b :: "'a::len word"
  by (auto simp: saturating_add_def unat_max_word unat_word_ariths min_def)

lemma unat_saturating_sub: "unat (saturating_sub a b) = unat a - unat b"
  for a b :: "'a::len word"
  by (simp add: saturating_sub_def unat_sub word_le_nat_alt)

lemma unat_saturating_mul:
  "unat (saturating_mul a b) = min (unat a * unat b) (2 ^ LENGTH('a) - 1)"
  for a b :: "'a::len word"
proof (cases "unat a * unat b < 2 ^ LENGTH('a)")
  case True
  then have "unat a * unat b \<le> 2 ^ LENGTH('a) - 1" by linarith
  with True show ?thesis by (simp add: saturating_mul_def unat_word_ariths min_absorb1)
next
  case False
  then have "2 ^ LENGTH('a) - 1 \<le> unat a * unat b" by linarith
  with False show ?thesis by (simp add: saturating_mul_def unat_max_word min_absorb2)
qed

lemmas unat_saturating = unat_saturating_add unat_saturating_sub unat_saturating_mul

lemma saturating_sub_same [simp]: "saturating_sub a a = 0"
  by (simp add: saturating_sub_def)

lemma saturating_mul_zero [simp]: "saturating_mul 0 b = 0"
  by (simp add: saturating_mul_def)

section \<open>Strings\<close>

definition char_code :: "char \<Rightarrow> nat" where
  "char_code c = of_char c"

definition newline :: char where "newline = CHR 0x0A"

definition carriage_return :: char where "carriage_return = CHR 0x0D"

definition backslash :: char where "backslash = CHR 0x5C"

text \<open>\<open>char::is_whitespace\<close> on U+0000 to U+00FF.\<close>

definition is_ws :: "char \<Rightarrow> bool" where
  "is_ws c = (let n = char_code c in (9 \<le> n \<and> n \<le> 13) \<or> n = 32 \<or> n = 0x85 \<or> n = 0xA0)"

definition is_ascii_digit :: "char \<Rightarrow> bool" where
  "is_ascii_digit c = (48 \<le> char_code c \<and> char_code c \<le> 57)"

fun strip_prefix :: "string \<Rightarrow> string \<Rightarrow> string option" where
  "strip_prefix [] s = Some s"
| "strip_prefix (p # ps) [] = None"
| "strip_prefix (p # ps) (c # cs) = (if p = c then strip_prefix ps cs else None)"

definition starts_with :: "string \<Rightarrow> string \<Rightarrow> bool" where
  "starts_with s p = (strip_prefix p s \<noteq> None)"

definition trim_start :: "string \<Rightarrow> string" where
  "trim_start s = dropWhile is_ws s"

definition trim :: "string \<Rightarrow> string" where
  "trim s = rev (dropWhile is_ws (rev (dropWhile is_ws s)))"

definition trim_end_char :: "char \<Rightarrow> string \<Rightarrow> string" where
  "trim_end_char c s = rev (dropWhile (\<lambda>d. d = c) (rev s))"

text \<open>\<open>str::split\<close> with a predicate on characters: never the empty list.\<close>

fun split_on :: "(char \<Rightarrow> bool) \<Rightarrow> string \<Rightarrow> string list" where
  "split_on P [] = [[]]"
| "split_on P (c # cs) =
     (if P c then [] # split_on P cs
      else (case split_on P cs of [] \<Rightarrow> [[c]] | x # xs \<Rightarrow> (c # x) # xs))"

text \<open>\<open>s.split(P).next().unwrap_or_default()\<close>.\<close>

definition split_first :: "(char \<Rightarrow> bool) \<Rightarrow> string \<Rightarrow> string" where
  "split_first P s = (case split_on P s of [] \<Rightarrow> [] | x # _ \<Rightarrow> x)"

definition split_whitespace :: "string \<Rightarrow> string list" where
  "split_whitespace s = filter (\<lambda>w. w \<noteq> []) (split_on is_ws s)"

definition strip_cr :: "string \<Rightarrow> string" where
  "strip_cr s = (if s \<noteq> [] \<and> last s = carriage_return then butlast s else s)"

text \<open>\<open>str::lines\<close>: a final piece without a newline counts when it is not empty, and only a
  carriage return in front of a newline is removed.\<close>

definition lines :: "string \<Rightarrow> string list" where
  "lines s =
     (let ps = split_on (\<lambda>c. c = newline) s in
      map strip_cr (butlast ps) @ (if last ps = [] then [] else [last ps]))"

fun split_once :: "string \<Rightarrow> string \<Rightarrow> (string \<times> string) option" where
  "split_once d [] = (if d = [] then Some ([], []) else None)"
| "split_once d (c # cs) =
     (case strip_prefix d (c # cs) of
        Some r \<Rightarrow> Some ([], r)
      | None \<Rightarrow> map_option (\<lambda>(a, b). (c # a, b)) (split_once d cs))"

definition str_contains :: "string \<Rightarrow> string \<Rightarrow> bool" where
  "str_contains s p = (split_once p s \<noteq> None)"

definition replace_char :: "char \<Rightarrow> string \<Rightarrow> string \<Rightarrow> string" where
  "replace_char c r s = concat (map (\<lambda>d. if d = c then r else [d]) s)"

section \<open>Numbers in text\<close>

text \<open>\<open>char::to_digit(radix)\<close>.\<close>

definition to_digit :: "nat \<Rightarrow> char \<Rightarrow> nat option" where
  "to_digit radix c =
     (let n = char_code c;
          v = (if 48 \<le> n \<and> n \<le> 57 then n - 48
               else if 97 \<le> n \<and> n \<le> 122 then n - 87
               else if 65 \<le> n \<and> n \<le> 90 then n - 55
               else radix)
      in if v < radix then Some v else None)"

fun parse_digits :: "nat \<Rightarrow> nat \<Rightarrow> string \<Rightarrow> nat option" where
  "parse_digits radix acc [] = Some acc"
| "parse_digits radix acc (c # cs) =
     (case to_digit radix c of
        None \<Rightarrow> None
      | Some d \<Rightarrow> parse_digits radix (radix * acc + d) cs)"

text \<open>\<open>from_str_radix\<close> of an unsigned type with the given maximum: one leading plus sign is
  allowed, at least one digit is needed, and a value above the maximum is an error.\<close>

definition parse_unsigned :: "nat \<Rightarrow> nat \<Rightarrow> string \<Rightarrow> nat option" where
  "parse_unsigned maxv radix s =
     (let t = (case s of [] \<Rightarrow> [] | c # cs \<Rightarrow> if c = CHR ''+'' then cs else s) in
      if t = [] then None
      else (case parse_digits radix 0 t of
              None \<Rightarrow> None
            | Some n \<Rightarrow> if n \<le> maxv then Some n else None))"

definition parse_u64 :: "string \<Rightarrow> u64 option" where
  "parse_u64 s = map_option of_nat (parse_unsigned (2 ^ 64 - 1) 10 s)"

definition parse_u32 :: "string \<Rightarrow> u32 option" where
  "parse_u32 s = map_option of_nat (parse_unsigned (2 ^ 32 - 1) 10 s)"

definition digit_char :: "nat \<Rightarrow> char" where
  "digit_char d = char_of (if d < 10 then 48 + d else 87 + d)"

text \<open>\<open>to_string\<close> of an unsigned integer, and \<open>{:0k x}\<close> of one below \<open>16 ^ k\<close>.\<close>

fun show_nat :: "nat \<Rightarrow> string" where
  "show_nat n = (if n < 10 then [digit_char n] else show_nat (n div 10) @ [digit_char (n mod 10)])"

declare show_nat.simps [simp del]

primrec hex_fixed :: "nat \<Rightarrow> nat \<Rightarrow> string" where
  "hex_fixed 0 n = []"
| "hex_fixed (Suc k) n = hex_fixed k (n div 16) @ [digit_char (n mod 16)]"

section \<open>Facts on the string functions\<close>

lemma unat_u64_less: "unat w < 2 ^ 64" for w :: u64
  using unsigned_less [of w, where 'a = nat] by simp

lemma strip_prefix_eq_Some [simp]: "strip_prefix p s = Some r \<longleftrightarrow> s = p @ r"
  by (induction p s rule: strip_prefix.induct) auto

lemma starts_with_iff: "starts_with s p \<longleftrightarrow> (\<exists>r. s = p @ r)"
  by (auto simp: starts_with_def)

lemma starts_with_append [simp]: "starts_with (p @ r) p"
  by (auto simp: starts_with_iff)

lemma starts_with_Nil [simp]: "starts_with s []"
  by (simp add: starts_with_iff)

lemma trim_eq_Nil: "trim s = [] \<longleftrightarrow> (\<forall>c\<in>set s. is_ws c)"
proof
  assume "trim s = []"
  then have "\<forall>c\<in>set (dropWhile is_ws s). is_ws c" by (simp add: trim_def)
  then have "dropWhile is_ws s = []"
    by (metis hd_dropWhile hd_in_set)
  then show "\<forall>c\<in>set s. is_ws c" by simp
next
  assume ws: "\<forall>c\<in>set s. is_ws c"
  then show "trim s = []" by (auto simp: trim_def dest: set_dropWhileD)
qed

lemma trim_id:
  assumes "s \<noteq> []" "\<not> is_ws (hd s)" "\<not> is_ws (last s)"
  shows "trim s = s"
proof -
  have "dropWhile is_ws s = s" using assms by (simp add: dropWhile_none)
  moreover have "dropWhile is_ws (rev s) = rev s"
    using assms by (intro dropWhile_none) (simp add: hd_rev)
  ultimately show ?thesis by (simp add: trim_def)
qed

lemma trim_ends:
  assumes "trim s \<noteq> []"
  shows "\<not> is_ws (hd (trim s))" "\<not> is_ws (last (trim s))"
proof -
  let ?t = "dropWhile is_ws s"
  have ne: "dropWhile is_ws (rev ?t) \<noteq> []" using assms by (simp add: trim_def)
  then show "\<not> is_ws (last (trim s))"
    unfolding trim_def by (metis hd_dropWhile last_rev)
  obtain zs where t: "rev ?t = zs @ dropWhile is_ws (rev ?t)"
    by (metis takeWhile_dropWhile_id)
  then have "?t = trim s @ rev zs"
    by (metis rev_append rev_rev_ident trim_def)
  then have "hd (trim s) = hd ?t" using assms by (metis hd_append2)
  moreover have "?t \<noteq> []" using ne by force
  ultimately show "\<not> is_ws (hd (trim s))" by (metis hd_dropWhile)
qed

lemma trim_trim [simp]: "trim (trim s) = trim s"
proof (cases "trim s = []")
  case True
  moreover have "trim [] = []" by (simp add: trim_def)
  ultimately show ?thesis by metis
next
  case False
  then show ?thesis by (simp add: trim_id trim_ends)
qed

lemma trim_newline [simp]: "trim (s @ [newline]) = trim s"
proof (cases "dropWhile is_ws s = []")
  case True
  then have ws: "\<forall>c\<in>set s. is_ws c" by simp
  moreover have "is_ws newline" by (simp add: is_ws_def newline_def char_code_def)
  ultimately have "trim (s @ [newline]) = []" "trim s = []"
    unfolding trim_eq_Nil by auto
  then show ?thesis by simp
next
  case False
  then have "dropWhile is_ws (s @ [newline]) = dropWhile is_ws s @ [newline]"
    by (metis dropWhile_append1 dropWhile_eq_Nil_conv)
  moreover have "is_ws newline" by (simp add: is_ws_def newline_def char_code_def)
  ultimately show ?thesis by (simp add: trim_def)
qed

lemma split_on_ne [simp]: "split_on P s \<noteq> []"
  by (induction s) (auto split: list.splits)

lemma split_on_no_sep: "\<forall>c\<in>set s. \<not> P c \<Longrightarrow> split_on P s = [s]"
  by (induction s) auto

lemma split_on_sep:
  "\<forall>c\<in>set x. \<not> P c \<Longrightarrow> P d \<Longrightarrow> split_on P (x @ d # y) = x # split_on P y"
  by (induction x) auto

lemma split_on_pieces: "x \<in> set (split_on P s) \<Longrightarrow> \<forall>c\<in>set x. \<not> P c"
proof (induction s arbitrary: x)
  case Nil
  then show ?case by simp
next
  case (Cons c cs)
  show ?case
  proof (cases "split_on P cs")
    case Nil
    then show ?thesis by simp
  next
    case (Cons y ys)
    then show ?thesis using Cons.IH [of y] Cons.IH [of x] Cons.prems Cons
      by (auto split: if_splits)
  qed
qed

lemma split_first_takeWhile: "split_first P s = takeWhile (\<lambda>c. \<not> P c) s"
proof -
  have "hd (split_on P s) = takeWhile (\<lambda>c. \<not> P c) s"
    by (induction s) (auto split: list.splits)
  then show ?thesis by (auto simp: split_first_def split: list.splits)
qed

lemma split_first_stop: "\<forall>c\<in>set x. \<not> P c \<Longrightarrow> P d \<Longrightarrow> split_first P (x @ d # y) = x"
  by (simp add: split_first_takeWhile)

lemma split_first_all: "\<forall>c\<in>set x. \<not> P c \<Longrightarrow> split_first P x = x"
  by (simp add: split_first_takeWhile)

lemma split_whitespace_word:
  "w \<in> set (split_whitespace s) \<Longrightarrow> w \<noteq> [] \<and> (\<forall>c\<in>set w. \<not> is_ws c)"
  by (auto simp: split_whitespace_def dest: split_on_pieces)

text \<open>Words without whitespace, each behind a space, split back into themselves.\<close>

definition spaced :: "string list \<Rightarrow> string" where
  "spaced ws = concat (map (\<lambda>w. CHR '' '' # w) ws)"

lemma is_ws_space [simp]: "is_ws (CHR '' '')"
  by (simp add: is_ws_def char_code_def)

lemma split_whitespace_spaced:
  "\<forall>w\<in>set ws. w \<noteq> [] \<and> (\<forall>c\<in>set w. \<not> is_ws c) \<Longrightarrow> split_whitespace (spaced ws) = ws"
proof -
  have gen: "\<forall>w\<in>set ws. w \<noteq> [] \<and> (\<forall>c\<in>set w. \<not> is_ws c) \<Longrightarrow> split_on is_ws (spaced ws) = [] # ws"
    for ws
  proof (induction ws)
    case Nil
    then show ?case by (simp add: spaced_def)
  next
    case (Cons w ws)
    then have IH: "split_on is_ws (spaced ws) = [] # ws" by simp
    have "split_on is_ws (w @ spaced ws) = w # ws"
    proof (cases ws)
      case Nil
      then show ?thesis using Cons.prems by (simp add: spaced_def split_on_no_sep)
    next
      case (Cons v vs)
      then obtain y where y: "spaced ws = CHR '' '' # y" by (auto simp: spaced_def)
      with IH have "split_on is_ws y = ws" by simp
      with y show ?thesis using Cons.prems by (simp add: split_on_sep)
    qed
    then show ?case by (simp add: spaced_def)
  qed
  assume "\<forall>w\<in>set ws. w \<noteq> [] \<and> (\<forall>c\<in>set w. \<not> is_ws c)"
  with gen [OF this] show ?thesis by (simp add: split_whitespace_def)
qed

definition unlines :: "string list \<Rightarrow> string" where
  "unlines ls = concat (map (\<lambda>l. l @ [newline]) ls)"

text \<open>\<open>lines\<close> undoes \<open>unlines\<close> on lines that hold no newline and end in no carriage return.\<close>

lemma lines_unlines:
  assumes "\<forall>l\<in>set ls. newline \<notin> set l \<and> (l = [] \<or> last l \<noteq> carriage_return)"
  shows "lines (unlines ls) = ls"
proof -
  have "split_on (\<lambda>c. c = newline) (unlines ls) = ls @ [[]]"
    using assms
  proof (induction ls)
    case Nil
    then show ?case by (simp add: unlines_def)
  next
    case (Cons l ls)
    then show ?case
      using split_on_sep [of l "\<lambda>c. c = newline" newline "unlines ls"]
      by (auto simp: unlines_def)
  qed
  moreover have "map strip_cr ls = ls"
    using assms by (intro map_idI) (auto simp: strip_cr_def)
  ultimately show ?thesis by (simp add: lines_def)
qed

lemma split_once_Some: "split_once d s = Some (a, b) \<Longrightarrow> s = a @ d @ b"
proof (induction s arbitrary: a)
  case Nil
  then show ?case by (simp split: if_splits)
next
  case (Cons c cs)
  then show ?case by (auto split: option.splits)
qed

lemma split_once_char:
  "split_once [d] s = Some (a, b) \<longleftrightarrow> s = a @ d # b \<and> d \<notin> set a"
proof (induction s arbitrary: a)
  case Nil
  then show ?case by simp
next
  case (Cons c cs)
  then show ?case by (cases "c = d"; cases a) auto
qed

lemma split_once_char_None: "split_once [d] s = None \<longleftrightarrow> d \<notin> set s"
  by (induction s) auto

section \<open>Facts on numbers in text\<close>

lemma char_code_digit_char: "d < 16 \<Longrightarrow> char_code (digit_char d) = (if d < 10 then 48 + d else 87 + d)"
  by (simp add: char_code_def digit_char_def)

lemma to_digit_digit_char: "d < radix \<Longrightarrow> radix \<le> 16 \<Longrightarrow> to_digit radix (digit_char d) = Some d"
  by (auto simp: to_digit_def char_code_digit_char)

lemma parse_digits_append:
  "parse_digits r acc (xs @ ys) =
     (case parse_digits r acc xs of None \<Rightarrow> None | Some m \<Rightarrow> parse_digits r m ys)"
  by (induction r acc xs rule: parse_digits.induct) (auto split: option.splits)

lemma parse_digits_show_nat: "parse_digits 10 0 (show_nat n) = Some n"
proof (induction n rule: show_nat.induct)
  case (1 n)
  show ?case
  proof (cases "n < 10")
    case True
    then show ?thesis by (subst show_nat.simps) (simp add: to_digit_digit_char)
  next
    case False
    with 1 show ?thesis
      by (subst show_nat.simps) (simp add: parse_digits_append to_digit_digit_char)
  qed
qed

lemma show_nat_digits: "c \<in> set (show_nat n) \<Longrightarrow> 48 \<le> char_code c \<and> char_code c \<le> 57"
proof (induction n rule: show_nat.induct)
  case (1 n)
  then show ?case
    by (subst (asm) (2) show_nat.simps) (auto simp: char_code_digit_char split: if_splits)
qed

lemma show_nat_ne [simp]: "show_nat n \<noteq> []"
  by (subst show_nat.simps) simp

lemma digit_not_ws: "48 \<le> char_code c \<and> char_code c \<le> 57 \<Longrightarrow> \<not> is_ws c"
  by (simp add: is_ws_def)

lemma show_nat_no_ws: "c \<in> set (show_nat n) \<Longrightarrow> \<not> is_ws c"
  using show_nat_digits digit_not_ws by blast

lemma parse_unsigned_show_nat:
  "parse_unsigned m 10 (show_nat n) = (if n \<le> m then Some n else None)"
proof -
  obtain c cs where s: "show_nat n = c # cs" by (meson neq_Nil_conv show_nat_ne)
  then have "char_code c \<ge> 48" using show_nat_digits [of c n] by simp
  then have "c \<noteq> CHR ''+''" by (auto simp: char_code_def)
  then show ?thesis
    using parse_digits_show_nat [of n] by (simp add: parse_unsigned_def s)
qed

text \<open>Parsing the decimal form of a 64-bit value gives it back; larger numbers are rejected.\<close>

lemma parse_u64_show_nat: "parse_u64 (show_nat (unat w)) = Some w"
  using unat_u64_less [of w] by (simp add: parse_u64_def parse_unsigned_show_nat)

lemma parse_u64_overflow: "2 ^ 64 \<le> n \<Longrightarrow> parse_u64 (show_nat n) = None"
  by (simp add: parse_u64_def parse_unsigned_show_nat)

lemma length_hex_fixed [simp]: "length (hex_fixed k n) = k"
  by (induction k arbitrary: n) simp_all

lemma parse_hex_fixed: "parse_digits 16 0 (hex_fixed k n) = Some (n mod 16 ^ k)"
proof (induction k arbitrary: n)
  case 0
  then show ?case by simp
next
  case (Suc k)
  have "16 * (n div 16 mod 16 ^ k) + n mod 16 = n mod 16 ^ Suc k"
    by (simp add: mod_mult2_eq)
  then show ?case
    by (simp add: Suc parse_digits_append to_digit_digit_char)
qed

text \<open>The fixed-width hexadecimal form determines the value.\<close>

lemma hex_fixed_u64_inject:
  "hex_fixed 16 (unat v) = hex_fixed 16 (unat w) \<longleftrightarrow> v = w" for v w :: u64
proof
  assume "hex_fixed 16 (unat v) = hex_fixed 16 (unat w)"
  then have "unat v mod 16 ^ 16 = unat w mod 16 ^ 16"
    by (metis option.inject parse_hex_fixed)
  then show "v = w" using unat_u64_less [of v] unat_u64_less [of w]
    by (auto intro: unsigned_word_eqI)
qed simp

end
