(* ===== verification/Config_Sections.thy ===== *)
theory Config_Sections
  imports Rust_Std
begin

text \<open>
  The runtime configuration of \<open>talia-core/src/config.rs\<close>: one record per section, its defaults
  and its \<open>validate\<close>, and \<open>AgentRuntimeConfig\<close> with the validation both the agent and the control
  server run before a configuration is applied.  A Rust \<open>Result<(), ConfigError>\<close> is a result
  whose value is \<open>()\<close>.
\<close>

section \<open>Errors\<close>

text \<open>I/O and TOML errors come from outside the repository and are opaque.\<close>

type_synonym io_error = string
type_synonym toml_error = string

datatype config_error =
    ConfigRead string io_error
  | ConfigParse string toml_error
  | EmptyVersion
  | EmptyConfigPollInterval
  | EmptyHeartbeatInterval
  | EmptyStorageInterval
  | EmptyStorageMounts
  | RelativeStorageMount string
  | EmptyMemoryInterval
  | EmptyCpuInterval
  | EmptyNetworkInterval
  | EmptyDiskIoInterval
  | EmptyPodDiscoveryCriSocket
  | EmptyTcpInterval
  | InsecureControlUrl string string

type_synonym 'a config_result = "(config_error, 'a) result"

section \<open>Built-in defaults\<close>

definition DEFAULT_CONFIG_POLL_INTERVAL_SECONDS :: u64 where
  "DEFAULT_CONFIG_POLL_INTERVAL_SECONDS = 15 * 60"

definition DEFAULT_HEARTBEAT_INTERVAL_SECONDS :: u64 where
  "DEFAULT_HEARTBEAT_INTERVAL_SECONDS = 60"

definition DEFAULT_STORAGE_INTERVAL_SECONDS :: u64 where
  "DEFAULT_STORAGE_INTERVAL_SECONDS = 60"

definition DEFAULT_MEMORY_INTERVAL_SECONDS :: u64 where
  "DEFAULT_MEMORY_INTERVAL_SECONDS = 60"

definition DEFAULT_CPU_INTERVAL_SECONDS :: u64 where
  "DEFAULT_CPU_INTERVAL_SECONDS = 1"

definition DEFAULT_NETWORK_INTERVAL_SECONDS :: u64 where
  "DEFAULT_NETWORK_INTERVAL_SECONDS = 1"

definition DEFAULT_DISK_IO_INTERVAL_SECONDS :: u64 where
  "DEFAULT_DISK_IO_INTERVAL_SECONDS = 1"

definition DEFAULT_TCP_INTERVAL_SECONDS :: u64 where
  "DEFAULT_TCP_INTERVAL_SECONDS = 15"

definition DEFAULT_POD_DISCOVERY_CRI_SOCKET :: string where
  "DEFAULT_POD_DISCOVERY_CRI_SOCKET = ''all''"

definition LOCAL_CONFIG_VERSION :: string where
  "LOCAL_CONFIG_VERSION = ''local''"

definition default_config_poll_interval_seconds :: u64 where
  "default_config_poll_interval_seconds = DEFAULT_CONFIG_POLL_INTERVAL_SECONDS"

definition default_heartbeat_interval_seconds :: u64 where
  "default_heartbeat_interval_seconds = DEFAULT_HEARTBEAT_INTERVAL_SECONDS"

definition default_storage_interval_seconds :: u64 where
  "default_storage_interval_seconds = DEFAULT_STORAGE_INTERVAL_SECONDS"

definition default_memory_interval_seconds :: u64 where
  "default_memory_interval_seconds = DEFAULT_MEMORY_INTERVAL_SECONDS"

definition default_cpu_interval_seconds :: u64 where
  "default_cpu_interval_seconds = DEFAULT_CPU_INTERVAL_SECONDS"

definition default_network_interval_seconds :: u64 where
  "default_network_interval_seconds = DEFAULT_NETWORK_INTERVAL_SECONDS"

definition default_disk_io_interval_seconds :: u64 where
  "default_disk_io_interval_seconds = DEFAULT_DISK_IO_INTERVAL_SECONDS"

definition default_tcp_interval_seconds :: u64 where
  "default_tcp_interval_seconds = DEFAULT_TCP_INTERVAL_SECONDS"

definition default_pod_discovery_cri_socket :: string where
  "default_pod_discovery_cri_socket = DEFAULT_POD_DISCOVERY_CRI_SOCKET"

definition default_storage_mounts :: "string list" where
  "default_storage_mounts = [''/'']"

lemmas default_interval_defs =
  default_config_poll_interval_seconds_def DEFAULT_CONFIG_POLL_INTERVAL_SECONDS_def
  default_heartbeat_interval_seconds_def DEFAULT_HEARTBEAT_INTERVAL_SECONDS_def
  default_storage_interval_seconds_def DEFAULT_STORAGE_INTERVAL_SECONDS_def
  default_memory_interval_seconds_def DEFAULT_MEMORY_INTERVAL_SECONDS_def
  default_cpu_interval_seconds_def DEFAULT_CPU_INTERVAL_SECONDS_def
  default_network_interval_seconds_def DEFAULT_NETWORK_INTERVAL_SECONDS_def
  default_disk_io_interval_seconds_def DEFAULT_DISK_IO_INTERVAL_SECONDS_def
  default_tcp_interval_seconds_def DEFAULT_TCP_INTERVAL_SECONDS_def

section \<open>Sections\<close>

record agent_runtime_settings =
  config_poll_interval_seconds :: u64
  heartbeat_interval_seconds :: u64

definition agent_settings_default :: agent_runtime_settings where
  "agent_settings_default =
     \<lparr>config_poll_interval_seconds = default_config_poll_interval_seconds,
      heartbeat_interval_seconds = default_heartbeat_interval_seconds\<rparr>"

definition agent_settings_validate :: "agent_runtime_settings \<Rightarrow> unit config_result" where
  "agent_settings_validate a =
     (if config_poll_interval_seconds a = 0 then Inl EmptyConfigPollInterval
      else if heartbeat_interval_seconds a = 0 then Inl EmptyHeartbeatInterval
      else Inr ())"

record storage_config =
  storage_enabled :: bool
  storage_interval_seconds :: u64
  storage_mounts :: "string list"

definition storage_default :: storage_config where
  "storage_default =
     \<lparr>storage_enabled = True,
      storage_interval_seconds = default_storage_interval_seconds,
      storage_mounts = default_storage_mounts\<rparr>"

text \<open>\<open>Path::is_absolute\<close> on Unix.\<close>

definition path_is_absolute :: "string \<Rightarrow> bool" where
  "path_is_absolute p = starts_with p ''/''"

definition storage_validate :: "storage_config \<Rightarrow> unit config_result" where
  "storage_validate s =
     (if storage_interval_seconds s = 0 then Inl EmptyStorageInterval
      else if storage_enabled s \<and> storage_mounts s = [] then Inl EmptyStorageMounts
      else try_each
        (\<lambda>mount. if \<not> path_is_absolute mount then Inl (RelativeStorageMount mount) else Inr ())
        (storage_mounts s))"

record memory_config =
  memory_enabled :: bool
  memory_interval_seconds :: u64

definition memory_default :: memory_config where
  "memory_default =
     \<lparr>memory_enabled = True, memory_interval_seconds = default_memory_interval_seconds\<rparr>"

definition memory_validate :: "memory_config \<Rightarrow> unit config_result" where
  "memory_validate c = (if memory_interval_seconds c = 0 then Inl EmptyMemoryInterval else Inr ())"

record cpu_config =
  cpu_enabled :: bool
  cpu_interval_seconds :: u64

definition cpu_default :: cpu_config where
  "cpu_default =
     \<lparr>cpu_enabled = False, cpu_interval_seconds = default_cpu_interval_seconds\<rparr>"

definition cpu_validate :: "cpu_config \<Rightarrow> unit config_result" where
  "cpu_validate c = (if cpu_interval_seconds c = 0 then Inl EmptyCpuInterval else Inr ())"

record network_config =
  network_enabled :: bool
  network_interval_seconds :: u64

definition network_default :: network_config where
  "network_default =
     \<lparr>network_enabled = False, network_interval_seconds = default_network_interval_seconds\<rparr>"

definition network_validate :: "network_config \<Rightarrow> unit config_result" where
  "network_validate c = (if network_interval_seconds c = 0 then Inl EmptyNetworkInterval else Inr ())"

record disk_io_config =
  disk_io_enabled :: bool
  disk_io_interval_seconds :: u64

definition disk_io_default :: disk_io_config where
  "disk_io_default =
     \<lparr>disk_io_enabled = False, disk_io_interval_seconds = default_disk_io_interval_seconds\<rparr>"

definition disk_io_validate :: "disk_io_config \<Rightarrow> unit config_result" where
  "disk_io_validate c = (if disk_io_interval_seconds c = 0 then Inl EmptyDiskIoInterval else Inr ())"

record pod_discovery_config =
  cri_socket :: string

definition pod_discovery_default :: pod_discovery_config where
  "pod_discovery_default = \<lparr>cri_socket = default_pod_discovery_cri_socket\<rparr>"

definition pod_discovery_validate :: "pod_discovery_config \<Rightarrow> unit config_result" where
  "pod_discovery_validate p =
     (if trim (cri_socket p) = [] then Inl EmptyPodDiscoveryCriSocket else Inr ())"

record tcp_config =
  tcp_enabled :: bool
  tcp_interval_seconds :: u64

definition tcp_default :: tcp_config where
  "tcp_default =
     \<lparr>tcp_enabled = False, tcp_interval_seconds = default_tcp_interval_seconds\<rparr>"

definition tcp_validate :: "tcp_config \<Rightarrow> unit config_result" where
  "tcp_validate c = (if tcp_interval_seconds c = 0 then Inl EmptyTcpInterval else Inr ())"

section \<open>The runtime configuration\<close>

record agent_runtime_config =
  cfg_version :: string
  cfg_agent :: agent_runtime_settings
  cfg_storage :: storage_config
  cfg_memory :: memory_config
  cfg_cpu :: cpu_config
  cfg_network :: network_config
  cfg_disk_io :: disk_io_config
  cfg_pod_discovery :: pod_discovery_config
  cfg_tcp :: tcp_config

definition runtime_default :: agent_runtime_config where
  "runtime_default =
     \<lparr>cfg_version = LOCAL_CONFIG_VERSION,
      cfg_agent = agent_settings_default,
      cfg_storage = storage_default,
      cfg_memory = memory_default,
      cfg_cpu = cpu_default,
      cfg_network = network_default,
      cfg_disk_io = disk_io_default,
      cfg_pod_discovery = pod_discovery_default,
      cfg_tcp = tcp_default\<rparr>"

definition runtime_validate :: "agent_runtime_config \<Rightarrow> unit config_result" where
  "runtime_validate c =
     (if trim (cfg_version c) = [] then Inl EmptyVersion
      else and_then (agent_settings_validate (cfg_agent c)) (\<lambda>_.
           and_then (storage_validate (cfg_storage c)) (\<lambda>_.
           and_then (memory_validate (cfg_memory c)) (\<lambda>_.
           and_then (cpu_validate (cfg_cpu c)) (\<lambda>_.
           and_then (network_validate (cfg_network c)) (\<lambda>_.
           and_then (disk_io_validate (cfg_disk_io c)) (\<lambda>_.
           and_then (pod_discovery_validate (cfg_pod_discovery c)) (\<lambda>_.
           tcp_validate (cfg_tcp c)))))))))"

section \<open>What validation promises\<close>

text \<open>The declarative well-formedness of each section.\<close>

definition storage_wf :: "storage_config \<Rightarrow> bool" where
  "storage_wf s \<longleftrightarrow>
     0 < storage_interval_seconds s \<and>
     (storage_enabled s \<longrightarrow> storage_mounts s \<noteq> []) \<and>
     (\<forall>m\<in>set (storage_mounts s). starts_with m ''/'')"

definition sections_wf :: "agent_runtime_config \<Rightarrow> bool" where
  "sections_wf c \<longleftrightarrow>
     0 < config_poll_interval_seconds (cfg_agent c) \<and>
     0 < heartbeat_interval_seconds (cfg_agent c) \<and>
     storage_wf (cfg_storage c) \<and>
     0 < memory_interval_seconds (cfg_memory c) \<and>
     0 < cpu_interval_seconds (cfg_cpu c) \<and>
     0 < network_interval_seconds (cfg_network c) \<and>
     0 < disk_io_interval_seconds (cfg_disk_io c) \<and>
     (\<exists>ch\<in>set (cri_socket (cfg_pod_discovery c)). \<not> is_ws ch) \<and>
     0 < tcp_interval_seconds (cfg_tcp c)"

definition runtime_wf :: "agent_runtime_config \<Rightarrow> bool" where
  "runtime_wf c \<longleftrightarrow> (\<exists>ch\<in>set (cfg_version c). \<not> is_ws ch) \<and> sections_wf c"

lemma storage_validate_ok [validate_simps]: "storage_validate s = Inr () \<longleftrightarrow> storage_wf s"
  by (auto simp: storage_validate_def storage_wf_def path_is_absolute_def word_gt_0
      validate_simps split: if_splits)

lemma interval_validate_ok [validate_simps]:
  "agent_settings_validate a = Inr () \<longleftrightarrow>
     0 < config_poll_interval_seconds a \<and> 0 < heartbeat_interval_seconds a"
  "memory_validate m = Inr () \<longleftrightarrow> 0 < memory_interval_seconds m"
  "cpu_validate p = Inr () \<longleftrightarrow> 0 < cpu_interval_seconds p"
  "network_validate n = Inr () \<longleftrightarrow> 0 < network_interval_seconds n"
  "disk_io_validate d = Inr () \<longleftrightarrow> 0 < disk_io_interval_seconds d"
  "tcp_validate t = Inr () \<longleftrightarrow> 0 < tcp_interval_seconds t"
  by (auto simp: agent_settings_validate_def memory_validate_def cpu_validate_def network_validate_def
      disk_io_validate_def tcp_validate_def word_gt_0)

lemma pod_discovery_validate_ok [validate_simps]:
  "pod_discovery_validate p = Inr () \<longleftrightarrow> (\<exists>ch\<in>set (cri_socket p). \<not> is_ws ch)"
  by (auto simp: pod_discovery_validate_def trim_eq_Nil)

lemma runtime_validate_iff: "runtime_validate c = Inr () \<longleftrightarrow> runtime_wf c"
  by (auto simp: runtime_validate_def runtime_wf_def sections_wf_def trim_eq_Nil validate_simps)

lemma runtime_default_wf: "runtime_wf runtime_default"
  by (simp add: runtime_wf_def sections_wf_def storage_wf_def runtime_default_def
      agent_settings_default_def storage_default_def memory_default_def cpu_default_def
      network_default_def disk_io_default_def pod_discovery_default_def tcp_default_def
      default_interval_defs LOCAL_CONFIG_VERSION_def default_storage_mounts_def
      default_pod_discovery_cri_socket_def DEFAULT_POD_DISCOVERY_CRI_SOCKET_def
      starts_with_iff is_ws_def char_code_def)

text \<open>Everything but the version is checked independently of it.\<close>

lemma runtime_wf_version:
  "runtime_wf (c\<lparr>cfg_version := v\<rparr>) \<longleftrightarrow> (\<exists>ch\<in>set v. \<not> is_ws ch) \<and> sections_wf c"
  by (simp add: runtime_wf_def sections_wf_def)

section \<open>Properties\<close>

text \<open>C6: Validation of a runtime configuration accepts exactly the well-formed ones: a version that is not
  blank, every interval positive, an enabled storage section with at least one mount and only absolute
  mounts, and a container-runtime socket setting that is not blank.\<close>

theorem runtime_validate_exact:
  "is_ok (runtime_validate c) \<longleftrightarrow>
     (\<exists>ch\<in>set (cfg_version c). \<not> is_ws ch) \<and>
     config_poll_interval_seconds (cfg_agent c) \<noteq> 0 \<and> heartbeat_interval_seconds (cfg_agent c) \<noteq> 0 \<and>
     storage_interval_seconds (cfg_storage c) \<noteq> 0 \<and>
     \<not> (storage_enabled (cfg_storage c) \<and> storage_mounts (cfg_storage c) = []) \<and>
     (\<forall>m\<in>set (storage_mounts (cfg_storage c)). \<exists>rest. m = CHR ''/'' # rest) \<and>
     memory_interval_seconds (cfg_memory c) \<noteq> 0 \<and> cpu_interval_seconds (cfg_cpu c) \<noteq> 0 \<and>
     network_interval_seconds (cfg_network c) \<noteq> 0 \<and> disk_io_interval_seconds (cfg_disk_io c) \<noteq> 0 \<and>
     (\<exists>ch\<in>set (cri_socket (cfg_pod_discovery c)). \<not> is_ws ch) \<and>
     tcp_interval_seconds (cfg_tcp c) \<noteq> 0"
proof -
  have "is_ok (runtime_validate c) \<longleftrightarrow> runtime_wf c"
    by (auto simp: is_ok_iff runtime_validate_iff)
  then show ?thesis
    by (auto simp: runtime_wf_def sections_wf_def storage_wf_def starts_with_iff word_gt_0)
qed

text \<open>The built-in defaults pass it, and a version of blanks does not.\<close>

lemma runtime_validate_exact_witness:
  "is_ok (runtime_validate runtime_default) \<and> \<not> is_ok (runtime_validate (runtime_default\<lparr>cfg_version := ''  ''\<rparr>))"
proof -
  have "is_ok (runtime_validate runtime_default)"
    using runtime_default_wf by (simp add: is_ok_iff runtime_validate_iff)
  moreover have "\<not> is_ok (runtime_validate (runtime_default\<lparr>cfg_version := ''  ''\<rparr>))"
    by (subst runtime_validate_exact) simp
  ultimately show ?thesis by blast
qed

end
