(* ===== verification/Net_Addr.thy ===== *)
theory Net_Addr
  imports Rust_Std
begin

text \<open>
  \<open>str::parse::<IpAddr>()\<close> and \<open>IpAddr::is_loopback\<close> of the standard library, which
  \<open>plaintext_url_is_loopback\<close> in \<open>talia-core/src/config.rs\<close> relies on.  A parser takes the
  remaining input and returns the value and the rest, or \<open>None\<close> without consuming anything
  (\<open>read_atomically\<close>).
\<close>

datatype ip_addr = V4 "nat list" | V6 "nat list"

fun read_digits :: "nat \<Rightarrow> nat \<Rightarrow> nat \<Rightarrow> nat \<Rightarrow> string \<Rightarrow> (nat \<times> nat \<times> string) option" where
  "read_digits radix maxd acc count [] = Some (acc, count, [])"
| "read_digits radix maxd acc count (c # cs) =
     (case to_digit radix c of
        None \<Rightarrow> Some (acc, count, c # cs)
      | Some d \<Rightarrow>
          if maxd < Suc count then None
          else read_digits radix maxd (radix * acc + d) (Suc count) cs)"

definition read_number :: "nat \<Rightarrow> nat \<Rightarrow> bool \<Rightarrow> nat \<Rightarrow> string \<Rightarrow> (nat \<times> string) option" where
  "read_number radix maxd allow_zero_prefix maxv s =
     (case read_digits radix maxd 0 0 s of
        None \<Rightarrow> None
      | Some (v, count, rest) \<Rightarrow>
          if count = 0 then None
          else if \<not> allow_zero_prefix \<and> (case s of [] \<Rightarrow> False | c # _ \<Rightarrow> c = CHR ''0'') \<and> 1 < count then None
          else if v \<le> maxv then Some (v, rest) else None)"

definition read_separator ::
    "char \<Rightarrow> nat \<Rightarrow> (string \<Rightarrow> ('a \<times> string) option) \<Rightarrow> string \<Rightarrow> ('a \<times> string) option" where
  "read_separator sep i inner s =
     (if 0 < i then (case s of [] \<Rightarrow> None | c # cs \<Rightarrow> if c = sep then inner cs else None)
      else inner s)"

fun read_octets :: "nat \<Rightarrow> nat \<Rightarrow> string \<Rightarrow> (nat list \<times> string) option" where
  "read_octets 0 i s = Some ([], s)"
| "read_octets (Suc k) i s =
     (case read_separator CHR ''.'' i (read_number 10 3 False 255) s of
        None \<Rightarrow> None
      | Some (v, s') \<Rightarrow>
          (case read_octets k (Suc i) s' of
             None \<Rightarrow> None
           | Some (vs, s'') \<Rightarrow> Some (v # vs, s'')))"

definition read_ipv4 :: "string \<Rightarrow> (nat list \<times> string) option" where
  "read_ipv4 s = read_octets 4 0 s"

definition octet_pairs :: "nat list \<Rightarrow> nat list" where
  "octet_pairs os = [os ! 0 * 256 + os ! 1, os ! 2 * 256 + os ! 3]"

text \<open>\<open>read_groups\<close> fills the \<open>k\<close> remaining slots, the next one having index \<open>i\<close>; an embedded
  IPv4 address is tried where at least two slots are left and ends the reading.\<close>

fun read_groups :: "nat \<Rightarrow> nat \<Rightarrow> string \<Rightarrow> nat list \<times> bool \<times> string" where
  "read_groups 0 i s = ([], False, s)"
| "read_groups (Suc k) i s =
     (case (if 0 < k then read_separator CHR '':'' i read_ipv4 s else None) of
        Some (os, r) \<Rightarrow> (octet_pairs os, True, r)
      | None \<Rightarrow>
          (case read_separator CHR '':'' i (read_number 16 4 True 65535) s of
             None \<Rightarrow> ([], False, s)
           | Some (g, r) \<Rightarrow> (let (gs, b, r') = read_groups k (Suc i) r in (g # gs, b, r'))))"

definition read_ipv6 :: "string \<Rightarrow> (nat list \<times> string) option" where
  "read_ipv6 s =
     (let (head, v4, r) = read_groups 8 0 s in
      if length head = 8 then Some (head, r)
      else if v4 then None
      else (case strip_prefix ''::'' r of
              None \<Rightarrow> None
            | Some r' \<Rightarrow>
                (let (tail, _, r'') = read_groups (8 - (length head + 1)) 0 r' in
                 Some (head @ replicate (8 - length head - length tail) 0 @ tail, r''))))"

definition read_ip :: "string \<Rightarrow> (ip_addr \<times> string) option" where
  "read_ip s =
     (case read_ipv4 s of
        Some (os, r) \<Rightarrow> Some (V4 os, r)
      | None \<Rightarrow> map_option (\<lambda>(gs, r). (V6 gs, r)) (read_ipv6 s))"

definition parse_ip :: "string \<Rightarrow> ip_addr option" where
  "parse_ip s =
     (case read_ip s of
        Some (a, r) \<Rightarrow> if r = [] then Some a else None
      | None \<Rightarrow> None)"

fun is_loopback :: "ip_addr \<Rightarrow> bool" where
  "is_loopback (V4 os) = (case os of [] \<Rightarrow> False | a # _ \<Rightarrow> a = 127)"
| "is_loopback (V6 gs) = (gs = [0, 0, 0, 0, 0, 0, 0, 1])"

section \<open>Decimal numbers without leading zeros are canonical\<close>

definition dot_tail :: "nat list \<Rightarrow> string" where
  "dot_tail bs = concat (map (\<lambda>b. CHR ''.'' # show_nat b) bs)"

definition dotted :: "nat list \<Rightarrow> string" where
  "dotted os = (case os of [] \<Rightarrow> [] | a # bs \<Rightarrow> show_nat a @ dot_tail bs)"

lemma dot_tail_simps [simp]:
  "dot_tail [] = []"
  "dot_tail (b # bs) = CHR ''.'' # show_nat b @ dot_tail bs"
  by (simp_all add: dot_tail_def)

lemma read_digits_split:
  "read_digits r m acc k s = Some (v, n, rest) \<Longrightarrow>
     \<exists>ds. s = ds @ rest \<and> parse_digits r acc ds = Some v \<and> n = k + length ds \<and> (n \<le> m \<or> ds = []) \<and>
          (rest = [] \<or> to_digit r (hd rest) = None)"
proof (induction r m acc k s rule: read_digits.induct)
  case (1 r m acc k)
  then show ?case by simp
next
  case (2 r m acc k c cs)
  show ?case
  proof (cases "to_digit r c")
    case None
    with 2(2) show ?thesis by (intro exI [of _ "[]"]) auto
  next
    case (Some d)
    with 2(2) have k: "\<not> m < Suc k" and rd: "read_digits r m (r * acc + d) (Suc k) cs = Some (v, n, rest)"
      by (auto split: if_splits)
    from 2(1) [OF Some k rd] obtain ds where
      "cs = ds @ rest" "parse_digits r (r * acc + d) ds = Some v" "n = Suc k + length ds"
      "n \<le> m \<or> ds = []" "rest = [] \<or> to_digit r (hd rest) = None" by blast
    with Some k show ?thesis by (intro exI [of _ "c # ds"]) auto
  qed
qed

lemma read_digits_join:
  "parse_digits r acc ds = Some v \<Longrightarrow> k + length ds \<le> m \<Longrightarrow> rest = [] \<or> to_digit r (hd rest) = None \<Longrightarrow>
     read_digits r m acc k (ds @ rest) = Some (v, k + length ds, rest)"
proof (induction r acc ds arbitrary: k rule: parse_digits.induct)
  case (1 r acc)
  then show ?case by (cases rest) auto
next
  case (2 r acc c cs)
  then show ?case by (auto split: option.splits)
qed

lemma to_digit_10: "to_digit 10 c = Some d \<longleftrightarrow> d < 10 \<and> c = digit_char d"
proof
  assume *: "to_digit 10 c = Some d"
  then have n: "48 \<le> char_code c" "char_code c \<le> 57" "d = char_code c - 48"
    by (auto simp: to_digit_def Let_def split: if_splits)
  then have "digit_char d = char_of (char_code c)" by (simp add: digit_char_def)
  with n show "d < 10 \<and> c = digit_char d" by (simp add: char_code_def)
qed (auto simp: to_digit_digit_char)

lemma show_nat_snoc: "show_nat (10 * m + d) = (if m = 0 then [digit_char d] else show_nat m @ [digit_char d])"
  if "d < 10"
  using that by (subst show_nat.simps) auto

lemma show_nat_small: "d < 10 \<Longrightarrow> show_nat d = [digit_char d]"
  by (simp add: show_nat.simps)

lemma canonical_digits:
  assumes "parse_digits 10 0 ds = Some v" "ds \<noteq> []" "hd ds \<noteq> CHR ''0'' \<or> length ds = 1"
  shows "ds = show_nat v"
  using assms
proof (induction ds arbitrary: v rule: rev_induct)
  case Nil
  then show ?case by simp
next
  case (snoc c ds)
  from snoc.prems(1) obtain m d where m: "parse_digits 10 0 ds = Some m" and d: "to_digit 10 c = Some d"
    and v: "v = 10 * m + d" by (auto simp: parse_digits_append split: option.splits)
  from d have d': "d < 10" "c = digit_char d" by (simp_all add: to_digit_10)
  show ?case
  proof (cases "ds = []")
    case True
    with m v d' show ?thesis by (simp add: show_nat_small)
  next
    case False
    with snoc.prems have h: "hd ds \<noteq> CHR ''0''" by (cases ds) auto
    with snoc.IH [OF m] False have ds: "ds = show_nat m" by simp
    have "show_nat 0 = ''0''" by code_simp
    with ds h have "m \<noteq> 0" by (metis list.sel(1))
    with ds v d' show ?thesis by (simp add: show_nat_snoc)
  qed
qed

lemma show_nat_hd_zero: "hd (show_nat n) = CHR ''0'' \<Longrightarrow> n = 0"
proof (induction n rule: show_nat.induct)
  case (1 n)
  show ?case
  proof (cases "n < 10")
    case True
    then have "show_nat n = [digit_char n]" by (subst show_nat.simps) simp
    with 1 have "char_code (digit_char n) = char_code CHR ''0''" by simp
    with True show ?thesis by (simp add: char_code_digit_char) (simp add: char_code_def)
  next
    case False
    then have "show_nat n = show_nat (n div 10) @ [digit_char (n mod 10)]" by (subst show_nat.simps) simp
    with 1 False have "n div 10 = 0" by simp
    with False show ?thesis by simp
  qed
qed

lemma length_show_nat_le_3: "length (show_nat n) \<le> 3 \<longleftrightarrow> n < 1000"
proof -
  have step: "length (show_nat n) = (if n < 10 then 1 else Suc (length (show_nat (n div 10))))" for n
    by (subst show_nat.simps) simp
  have pos: "0 < length (show_nat n)" for n by simp
  show ?thesis
    using step [of n] step [of "n div 10"] step [of "n div 10 div 10"] pos [of "n div 10 div 10 div 10"]
    by (auto split: if_splits simp flip: div_mult2_eq)
qed

lemma read_octet:
  "read_number 10 3 False 255 s = Some (v, rest) \<longleftrightarrow>
     v \<le> 255 \<and> s = show_nat v @ rest \<and> (rest = [] \<or> to_digit 10 (hd rest) = None)"
proof
  assume rn: "read_number 10 3 False 255 s = Some (v, rest)"
  then obtain n where rd: "read_digits 10 3 0 0 s = Some (v, n, rest)" and n: "n \<noteq> 0"
    and z: "\<not> ((case s of [] \<Rightarrow> False | c # _ \<Rightarrow> c = CHR ''0'') \<and> 1 < n)" and v: "v \<le> 255"
    by (auto simp: read_number_def split: option.splits if_splits)
  from read_digits_split [OF rd] obtain ds where s: "s = ds @ rest" and ds: "parse_digits 10 0 ds = Some v"
    and len: "n = length ds" and r: "rest = [] \<or> to_digit 10 (hd rest) = None" by auto
  have "ds \<noteq> []" "hd ds \<noteq> CHR ''0'' \<or> length ds = 1"
    using n z len s by (cases ds, auto)+
  with ds have "ds = show_nat v" by (rule canonical_digits)
  with s r v show "v \<le> 255 \<and> s = show_nat v @ rest \<and> (rest = [] \<or> to_digit 10 (hd rest) = None)" by simp
next
  assume a: "v \<le> 255 \<and> s = show_nat v @ rest \<and> (rest = [] \<or> to_digit 10 (hd rest) = None)"
  then have len: "length (show_nat v) \<le> 3" by (simp add: length_show_nat_le_3)
  with a have rd: "read_digits 10 3 0 0 s = Some (v, length (show_nat v), rest)"
    using read_digits_join [OF parse_digits_show_nat, of 0 v 3 rest] by simp
  have "\<not> ((case s of [] \<Rightarrow> False | c # _ \<Rightarrow> c = CHR ''0'') \<and> 1 < length (show_nat v))"
  proof
    assume b: "(case s of [] \<Rightarrow> False | c # _ \<Rightarrow> c = CHR ''0'') \<and> 1 < length (show_nat v)"
    then have "hd (show_nat v) = CHR ''0''" using a by (cases "show_nat v") auto
    then have "v = 0" by (rule show_nat_hd_zero)
    with b show False by (simp add: show_nat.simps)
  qed
  with rd a show "read_number 10 3 False 255 s = Some (v, rest)" by (simp add: read_number_def)
qed

lemma to_digit_10_dot [simp]: "to_digit 10 CHR ''.'' = None"
  by (simp add: to_digit_def char_code_def)

lemma dot_tail_hd: "rest = [] \<or> to_digit 10 (hd rest) = None \<Longrightarrow>
    dot_tail ws @ rest = [] \<or> to_digit 10 (hd (dot_tail ws @ rest)) = None"
  by (cases ws) auto

lemma read_octets_tail:
  "read_octets k (Suc i) s = Some (vs, rest) \<and> (rest = [] \<or> to_digit 10 (hd rest) = None) \<longleftrightarrow>
     length vs = k \<and> (\<forall>v\<in>set vs. v \<le> 255) \<and> s = dot_tail vs @ rest \<and>
     (rest = [] \<or> to_digit 10 (hd rest) = None)"
proof (induction k arbitrary: i s vs)
  case 0
  then show ?case by auto
next
  case (Suc k)
  show ?case
  proof (cases s)
    case Nil
    then show ?thesis by (cases vs) (auto simp: read_separator_def)
  next
    case (Cons c cs)
    show ?thesis
    proof
      assume a: "read_octets (Suc k) (Suc i) s = Some (vs, rest) \<and> (rest = [] \<or> to_digit 10 (hd rest) = None)"
      then obtain v s' ws where c: "c = CHR ''.''" and v: "read_number 10 3 False 255 cs = Some (v, s')"
        and ws: "read_octets k (Suc (Suc i)) s' = Some (ws, rest)" and vs: "vs = v # ws"
        using Cons by (auto simp: read_separator_def split: option.splits if_splits)
      with a Suc.IH [of "Suc i" s' ws] v show "length vs = Suc k \<and> (\<forall>v\<in>set vs. v \<le> 255) \<and>
          s = dot_tail vs @ rest \<and> (rest = [] \<or> to_digit 10 (hd rest) = None)"
        using Cons by (auto simp: read_octet)
    next
      assume a: "length vs = Suc k \<and> (\<forall>v\<in>set vs. v \<le> 255) \<and>
          s = dot_tail vs @ rest \<and> (rest = [] \<or> to_digit 10 (hd rest) = None)"
      then obtain v ws where vs: "vs = v # ws" by (cases vs) auto
      let ?s' = "dot_tail ws @ rest"
      have "read_number 10 3 False 255 cs = Some (v, ?s')"
        using a vs Cons dot_tail_hd [of rest ws] unfolding read_octet by auto
      moreover have "read_octets k (Suc (Suc i)) ?s' = Some (ws, rest)"
        using Suc.IH [of "Suc i" ?s' ws] a vs by simp
      ultimately show "read_octets (Suc k) (Suc i) s = Some (vs, rest) \<and> (rest = [] \<or> to_digit 10 (hd rest) = None)"
        using a vs Cons by (simp add: read_separator_def)
    qed
  qed
qed

text \<open>The strings that parse as an IPv4 address are exactly the canonical dotted quads.\<close>

lemma read_ipv4_complete:
  "read_ipv4 s = Some (os, []) \<longleftrightarrow> length os = 4 \<and> (\<forall>v\<in>set os. v \<le> 255) \<and> s = dotted os"
proof -
  have "read_ipv4 s = Some (os, []) \<longleftrightarrow>
      (\<exists>v s' ws. os = v # ws \<and> read_number 10 3 False 255 s = Some (v, s') \<and> read_octets 3 (Suc 0) s' = Some (ws, []))"
    by (auto simp: read_ipv4_def numeral_eq_Suc read_separator_def split: option.splits)
  also have "\<dots> \<longleftrightarrow> (\<exists>v ws. os = v # ws \<and> v \<le> 255 \<and> length ws = 3 \<and> (\<forall>v\<in>set ws. v \<le> 255) \<and>
      s = show_nat v @ dot_tail ws)"
  proof -
    have "read_octets 3 (Suc 0) s' = Some (ws, []) \<longleftrightarrow>
        length ws = 3 \<and> (\<forall>v\<in>set ws. v \<le> 255) \<and> s' = dot_tail ws" for s' ws
      using read_octets_tail [of 3 0 s' ws "[]"] by simp
    moreover have "dot_tail ws = [] \<or> to_digit 10 (hd (dot_tail ws)) = None" for ws
      using dot_tail_hd [of "[]" ws] by simp
    ultimately show ?thesis by (simp add: read_octet) blast
  qed
  also have "\<dots> \<longleftrightarrow> length os = 4 \<and> (\<forall>v\<in>set os. v \<le> 255) \<and> s = dotted os"
    by (cases os) (auto simp: dotted_def)
  finally show ?thesis .
qed

lemma parse_ip_V4: "parse_ip s = Some (V4 os) \<longleftrightarrow> length os = 4 \<and> (\<forall>v\<in>set os. v \<le> 255) \<and> s = dotted os"
  unfolding read_ipv4_complete [symmetric]
  by (auto simp: parse_ip_def read_ip_def split: option.splits if_splits)

section \<open>Properties\<close>

text \<open>The address parser accepts as IPv4 exactly the canonical dotted quads: four decimal numbers up to
  255 without leading zeros, nothing before, between or after.\<close>

lemma parse_ip_v4_canonical:
  "(\<exists>os. parse_ip s = Some (V4 os)) \<longleftrightarrow>
     (\<exists>a b c d. a \<le> 255 \<and> b \<le> 255 \<and> c \<le> 255 \<and> d \<le> 255 \<and>
        s = show_nat a @ ''.'' @ show_nat b @ ''.'' @ show_nat c @ ''.'' @ show_nat d)"
proof
  assume "\<exists>os. parse_ip s = Some (V4 os)"
  then obtain os where os: "length os = 4" "\<forall>v\<in>set os. v \<le> 255" "s = dotted os" by (auto simp: parse_ip_V4)
  then obtain a b c d where "os = [a, b, c, d]" by (auto simp: numeral_eq_Suc length_Suc_conv)
  with os show "\<exists>a b c d. a \<le> 255 \<and> b \<le> 255 \<and> c \<le> 255 \<and> d \<le> 255 \<and>
        s = show_nat a @ ''.'' @ show_nat b @ ''.'' @ show_nat c @ ''.'' @ show_nat d"
    by (auto simp: dotted_def dot_tail_def)
next
  assume "\<exists>a b c d. a \<le> 255 \<and> b \<le> 255 \<and> c \<le> 255 \<and> d \<le> 255 \<and>
        s = show_nat a @ ''.'' @ show_nat b @ ''.'' @ show_nat c @ ''.'' @ show_nat d"
  then obtain a b c d where q: "a \<le> 255" "b \<le> 255" "c \<le> 255" "d \<le> 255"
    "s = show_nat a @ ''.'' @ show_nat b @ ''.'' @ show_nat c @ ''.'' @ show_nat d" by blast
  then have "parse_ip s = Some (V4 [a, b, c, d])"
    unfolding parse_ip_V4 by (simp add: dotted_def dot_tail_def)
  then show "\<exists>os. parse_ip s = Some (V4 os)" by blast
qed

end
