(* ===== verification/Config_Bootstrap.thy ===== *)
theory Config_Bootstrap
  imports Config_Sections Net_Addr
begin

text \<open>
  \<open>AgentBootstrapConfig\<close> of \<open>talia-core/src/config.rs\<close>: the local bootstrap file, its fallback
  runtime configuration and its validation, with the check that keeps plaintext control URLs on
  the loopback interface.
\<close>

definition DEFAULT_CONTROL_HTTP_URL :: string where
  "DEFAULT_CONTROL_HTTP_URL = ''http://127.0.0.1:3501''"

definition DEFAULT_CONTROL_WS_URL :: string where
  "DEFAULT_CONTROL_WS_URL = ''ws://127.0.0.1:3501/agent/control''"

definition DEFAULT_OTLP_ENDPOINT :: string where
  "DEFAULT_OTLP_ENDPOINT = ''http://127.0.0.1:4317''"

definition DEFAULT_STATE_DIR :: string where
  "DEFAULT_STATE_DIR = ''/var/lib/talia''"

definition default_control_http_url :: string where
  "default_control_http_url = DEFAULT_CONTROL_HTTP_URL"

definition default_control_ws_url :: string where
  "default_control_ws_url = DEFAULT_CONTROL_WS_URL"

definition default_otlp_endpoint :: string where
  "default_otlp_endpoint = DEFAULT_OTLP_ENDPOINT"

definition default_state_dir :: string where
  "default_state_dir = DEFAULT_STATE_DIR"

record agent_bootstrap_config =
  bs_control_http_url :: string
  bs_control_ws_url :: string
  bs_allow_insecure_control_url :: bool
  bs_control_token :: "string option"
  bs_agent_config_token :: "string option"
  bs_otlp_endpoint :: string
  bs_state_dir :: string
  bs_agent :: agent_runtime_settings
  bs_storage :: storage_config
  bs_memory :: memory_config
  bs_cpu :: cpu_config
  bs_network :: network_config
  bs_disk_io :: disk_io_config
  bs_pod_discovery :: pod_discovery_config
  bs_tcp :: tcp_config

definition bootstrap_default :: agent_bootstrap_config where
  "bootstrap_default =
     \<lparr>bs_control_http_url = default_control_http_url,
      bs_control_ws_url = default_control_ws_url,
      bs_allow_insecure_control_url = False,
      bs_control_token = None,
      bs_agent_config_token = None,
      bs_otlp_endpoint = default_otlp_endpoint,
      bs_state_dir = default_state_dir,
      bs_agent = agent_settings_default,
      bs_storage = storage_default,
      bs_memory = memory_default,
      bs_cpu = cpu_default,
      bs_network = network_default,
      bs_disk_io = disk_io_default,
      bs_pod_discovery = pod_discovery_default,
      bs_tcp = tcp_default\<rparr>"

definition bootstrap_load ::
    "(string \<Rightarrow> (io_error, string) result) \<Rightarrow> (string \<Rightarrow> (toml_error, agent_bootstrap_config) result) \<Rightarrow>
     string \<Rightarrow> agent_bootstrap_config config_result" where
  "bootstrap_load read_to_string toml path =
     and_then (map_err (ConfigRead path) (read_to_string path)) (\<lambda>contents.
       map_err (ConfigParse path) (toml contents))"

definition fallback_runtime_config :: "agent_bootstrap_config \<Rightarrow> agent_runtime_config" where
  "fallback_runtime_config b =
     \<lparr>cfg_version = LOCAL_CONFIG_VERSION,
      cfg_agent = bs_agent b,
      cfg_storage = bs_storage b,
      cfg_memory = bs_memory b,
      cfg_cpu = bs_cpu b,
      cfg_network = bs_network b,
      cfg_disk_io = bs_disk_io b,
      cfg_pod_discovery = bs_pod_discovery b,
      cfg_tcp = bs_tcp b\<rparr>"

section \<open>Control URLs\<close>

definition plaintext_url_is_loopback :: "string \<Rightarrow> string \<Rightarrow> bool" where
  "plaintext_url_is_loopback value pre =
     (let authority = split_first (\<lambda>c. c \<in> {CHR ''/'', CHR ''?'', CHR ''#''}) (drop (length pre) value) in
      if CHR ''@'' \<in> set authority then False
      else
        (let host =
              (case strip_prefix ''['' authority of
                 Some rest \<Rightarrow> split_first (\<lambda>c. c = CHR '']'') rest
               | None \<Rightarrow> split_first (\<lambda>c. c = CHR '':'') authority)
         in if host = ''localhost'' then True
            else (case parse_ip host of None \<Rightarrow> False | Some address \<Rightarrow> is_loopback address)))"

definition validate_control_url :: "string \<Rightarrow> string \<Rightarrow> string \<Rightarrow> string \<Rightarrow> bool \<Rightarrow> unit config_result" where
  "validate_control_url field value secure_prefix loopback_prefix allow_insecure_control_url =
     (if starts_with value secure_prefix then Inr ()
      else if allow_insecure_control_url \<and> starts_with value loopback_prefix then Inr ()
      else if starts_with value loopback_prefix \<and> plaintext_url_is_loopback value loopback_prefix then Inr ()
      else Inl (InsecureControlUrl field value))"

definition bootstrap_validate :: "agent_bootstrap_config \<Rightarrow> unit config_result" where
  "bootstrap_validate b =
     and_then (validate_control_url ''control_http_url'' (bs_control_http_url b) ''https://'' ''http://''
                 (bs_allow_insecure_control_url b)) (\<lambda>_.
     and_then (validate_control_url ''control_ws_url'' (bs_control_ws_url b) ''wss://'' ''ws://''
                 (bs_allow_insecure_control_url b)) (\<lambda>_.
     runtime_validate (fallback_runtime_config b)))"

section \<open>Which hosts count as loopback\<close>

text \<open>The specification: the host names a plaintext URL may have.\<close>

definition loopback_host :: "string \<Rightarrow> bool" where
  "loopback_host host \<longleftrightarrow>
     host = ''localhost'' \<or>
     (\<exists>a b c. a \<le> 255 \<and> b \<le> 255 \<and> c \<le> 255 \<and> host = dotted [127, a, b, c]) \<or>
     parse_ip host = Some (V6 [0, 0, 0, 0, 0, 0, 0, 1])"

lemma parse_loopback_quad:
  "a \<le> 255 \<Longrightarrow> b \<le> 255 \<Longrightarrow> c \<le> 255 \<Longrightarrow> parse_ip (dotted [127, a, b, c]) = Some (V4 [127, a, b, c])"
  by (simp add: parse_ip_V4)

lemma loopback_host_iff:
  "(if host = ''localhost'' then True
    else (case parse_ip host of None \<Rightarrow> False | Some address \<Rightarrow> is_loopback address)) \<longleftrightarrow> loopback_host host"
proof (cases "parse_ip host")
  case None
  then have "\<not> (\<exists>a b c. a \<le> 255 \<and> b \<le> 255 \<and> c \<le> 255 \<and> host = dotted [127, a, b, c])"
    using parse_loopback_quad by auto
  with None show ?thesis by (simp add: loopback_host_def)
next
  case (Some address)
  show ?thesis
  proof (cases address)
    case (V4 os)
    with Some have os: "length os = 4" "\<forall>v\<in>set os. v \<le> 255" "host = dotted os"
      using parse_ip_V4 by simp_all
    then obtain z a b c where zabc: "os = [z, a, b, c]"
      by (auto simp: numeral_eq_Suc length_Suc_conv)
    have "(\<exists>a b c. a \<le> 255 \<and> b \<le> 255 \<and> c \<le> 255 \<and> host = dotted [127, a, b, c]) \<longleftrightarrow> z = 127"
    proof
      assume "\<exists>a b c. a \<le> 255 \<and> b \<le> 255 \<and> c \<le> 255 \<and> host = dotted [127, a, b, c]"
      then obtain a' b' c' where "a' \<le> 255" "b' \<le> 255" "c' \<le> 255" "host = dotted [127, a', b', c']" by blast
      then have "parse_ip host = Some (V4 [127, a', b', c'])" by (simp add: parse_ip_V4)
      with Some V4 zabc show "z = 127" by simp
    qed (use os zabc in auto)
    with Some V4 zabc show ?thesis by (simp add: loopback_host_def)
  next
    case (V6 gs)
    have "\<not> (\<exists>a b c. a \<le> 255 \<and> b \<le> 255 \<and> c \<le> 255 \<and> host = dotted [127, a, b, c])"
      using parse_loopback_quad Some V6 by auto
    with Some V6 show ?thesis by (auto simp: loopback_host_def)
  qed
qed

text \<open>Authority and host of a URL without its scheme, as the code reads them.\<close>

definition url_authority :: "string \<Rightarrow> string" where
  "url_authority s = takeWhile (\<lambda>c. c \<notin> {CHR ''/'', CHR ''?'', CHR ''#''}) s"

definition authority_host :: "string \<Rightarrow> string" where
  "authority_host a =
     (case a of
        [] \<Rightarrow> []
      | c # cs \<Rightarrow> if c = CHR ''['' then takeWhile (\<lambda>c. c \<noteq> CHR '']'') cs else takeWhile (\<lambda>c. c \<noteq> CHR '':'') a)"

lemma plaintext_url_iff:
  "plaintext_url_is_loopback (pre @ rest) pre \<longleftrightarrow>
     CHR ''@'' \<notin> set (url_authority rest) \<and> loopback_host (authority_host (url_authority rest))"
proof -
  have auth: "split_first (\<lambda>c. c \<in> {CHR ''/'', CHR ''?'', CHR ''#''}) rest = url_authority rest"
    unfolding split_first_takeWhile url_authority_def ..
  have host: "(case strip_prefix ''['' a of
                 Some r \<Rightarrow> split_first (\<lambda>c. c = CHR '']'') r
               | None \<Rightarrow> split_first (\<lambda>c. c = CHR '':'') a) = authority_host a" for a
    by (cases a) (auto simp: authority_host_def split_first_takeWhile)
  show ?thesis
    unfolding plaintext_url_is_loopback_def Let_def append_eq_conv_conj auth host loopback_host_iff [symmetric]
    using auth host by simp
qed

lemma validate_control_url_ok [validate_simps]:
  "validate_control_url field value sec plain allow = Inr () \<longleftrightarrow>
     starts_with value sec \<or> (starts_with value plain \<and> (allow \<or> plaintext_url_is_loopback value plain))"
  by (auto simp: validate_control_url_def)

lemma bootstrap_validate_runtime: "bootstrap_validate b = Inr () \<Longrightarrow> runtime_wf (fallback_runtime_config b)"
  by (simp add: bootstrap_validate_def runtime_validate_iff)

lemma bootstrap_default_ok: "bootstrap_validate bootstrap_default = Inr ()"
proof -
  have "runtime_wf (fallback_runtime_config bootstrap_default)"
    using runtime_default_wf
    by (simp add: fallback_runtime_config_def bootstrap_default_def runtime_default_def)
  moreover have "validate_control_url f DEFAULT_CONTROL_HTTP_URL ''https://'' ''http://'' False = Inr ()" for f
    by code_simp
  moreover have "validate_control_url f DEFAULT_CONTROL_WS_URL ''wss://'' ''ws://'' False = Inr ()" for f
    by code_simp
  ultimately show ?thesis
    by (simp add: bootstrap_validate_def runtime_validate_iff bootstrap_default_def
        default_control_http_url_def default_control_ws_url_def)
qed

section \<open>Properties\<close>

text \<open>The authorities that name this machine: \<open>host\<close> or \<open>host:port\<close> with \<open>localhost\<close> or an address of 127.0.0.0/8,
  and \<open>[address]\<close> or \<open>[address]:port\<close> with the IPv6 loopback address, never with a user part.\<close>

definition is_v6_loopback :: "string \<Rightarrow> bool" where
  "is_v6_loopback h \<longleftrightarrow> parse_ip h = Some (V6 [0, 0, 0, 0, 0, 0, 0, 1])"

definition loopback_authority :: "string \<Rightarrow> bool" where
  "loopback_authority a \<longleftrightarrow>
     CHR ''@'' \<notin> set a \<and>
     (\<exists>h port. (port = [] \<or> (\<exists>t. port = CHR '':'' # t)) \<and>
        (loopback_host h \<and> CHR '':'' \<notin> set h \<and> take 1 h \<noteq> ''['' \<and> a = h @ port \<or>
         is_v6_loopback h \<and> CHR '']'' \<notin> set h \<and> a = CHR ''['' # h @ CHR '']'' # port))"

text \<open>The other authorities the code takes: a loopback host after an opening bracket that is never closed,
  that encloses no IPv6 address, or whose closing bracket is followed by something else than a port.\<close>

definition bracket_slip :: "string \<Rightarrow> bool" where
  "bracket_slip a \<longleftrightarrow>
     CHR ''@'' \<notin> set a \<and>
     (\<exists>h tail. a = CHR ''['' # h @ tail \<and> loopback_host h \<and> CHR '']'' \<notin> set h \<and>
        (tail = [] \<or>
         (\<exists>t. tail = CHR '']'' # t \<and> (is_v6_loopback h \<longrightarrow> t \<noteq> [] \<and> hd t \<noteq> CHR '':''))))"

definition control_url_ok :: "string \<Rightarrow> string \<Rightarrow> bool \<Rightarrow> string \<Rightarrow> bool" where
  "control_url_ok secure plain allow value \<longleftrightarrow>
     (\<exists>rest. value = secure @ rest) \<or>
     (\<exists>a rest. value = plain @ a @ rest \<and> set a \<inter> {CHR ''/'', CHR ''?'', CHR ''#''} = {} \<and>
        (rest = [] \<or> hd rest \<in> {CHR ''/'', CHR ''?'', CHR ''#''}) \<and>
        (allow \<or> loopback_authority a \<or> bracket_slip a))"

lemma takeWhile_until:
  "x \<notin> set h \<Longrightarrow> t = [] \<or> (\<exists>u. t = x # u) \<Longrightarrow> takeWhile (\<lambda>c. c \<noteq> x) (h @ t) = h"
  by (induction h) auto

lemma loopback_host_not_empty: "\<not> loopback_host []"
proof -
  have "parse_ip [] = None" by code_simp
  then show ?thesis unfolding loopback_host_iff [symmetric] by simp
qed

lemma authority_host_iff:
  "CHR ''@'' \<notin> set a \<and> loopback_host (authority_host a) \<longleftrightarrow> loopback_authority a \<or> bracket_slip a"
proof
  assume l: "CHR ''@'' \<notin> set a \<and> loopback_host (authority_host a)"
  show "loopback_authority a \<or> bracket_slip a"
  proof (cases "take 1 a = ''[''")
    case True
    then obtain cs where a: "a = CHR ''['' # cs" by (cases a) simp_all
    let ?h = "takeWhile (\<lambda>c. c \<noteq> CHR '']'') cs" and ?t = "dropWhile (\<lambda>c. c \<noteq> CHR '']'') cs"
    have h: "loopback_host ?h" "cs = ?h @ ?t" "CHR '']'' \<notin> set ?h"
      using l by (auto simp: a authority_host_def dest: set_takeWhileD)
    have "?t = [] \<or> (\<exists>t. ?t = CHR '']'' # t)"
      by (cases ?t) (auto simp: dropWhile_eq_Cons_conv)
    then show ?thesis
    proof (cases "\<exists>t. ?t = CHR '']'' # t \<and> is_v6_loopback ?h \<and> (t = [] \<or> hd t = CHR '':'')")
      case True
      then obtain t where t: "?t = CHR '']'' # t" "is_v6_loopback ?h" "t = [] \<or> (\<exists>u. t = CHR '':'' # u)"
        by (metis list.collapse)
      then have "a = CHR ''['' # ?h @ CHR '']'' # t" using h(2) a by simp
      then have "loopback_authority a"
        using l t h(3) unfolding loopback_authority_def by blast
      then show ?thesis ..
    next
      case False
      have "a = CHR ''['' # ?h @ ?t" using a by simp
      with False h l \<open>?t = [] \<or> (\<exists>t. ?t = CHR '']'' # t)\<close> have "bracket_slip a"
        unfolding bracket_slip_def by blast
      then show ?thesis ..
    qed
  next
    case False
    let ?h = "takeWhile (\<lambda>c. c \<noteq> CHR '':'') a" and ?t = "dropWhile (\<lambda>c. c \<noteq> CHR '':'') a"
    have h: "authority_host a = ?h" using False by (cases a) (auto simp: authority_host_def)
    have t: "?t = [] \<or> (\<exists>t. ?t = CHR '':'' # t)"
      by (cases ?t) (auto simp: dropWhile_eq_Cons_conv)
    have "CHR '':'' \<notin> set ?h" by (auto dest: set_takeWhileD)
    moreover have "take 1 ?h \<noteq> ''[''" using False by (cases a) auto
    moreover have "a = ?h @ ?t" by simp
    ultimately have "loopback_authority a"
      using l t unfolding loopback_authority_def h by blast
    then show ?thesis ..
  qed
next
  assume "loopback_authority a \<or> bracket_slip a"
  then show "CHR ''@'' \<notin> set a \<and> loopback_host (authority_host a)"
  proof
    assume "loopback_authority a"
    then obtain h port where at: "CHR ''@'' \<notin> set a" "port = [] \<or> (\<exists>t. port = CHR '':'' # t)"
      and "loopback_host h \<and> CHR '':'' \<notin> set h \<and> take 1 h \<noteq> ''['' \<and> a = h @ port \<or>
         is_v6_loopback h \<and> CHR '']'' \<notin> set h \<and> a = CHR ''['' # h @ CHR '']'' # port"
      unfolding loopback_authority_def by blast
    then consider "loopback_host h" "CHR '':'' \<notin> set h" "take 1 h \<noteq> ''[''" "a = h @ port"
      | "is_v6_loopback h" "CHR '']'' \<notin> set h" "a = CHR ''['' # h @ CHR '']'' # port" by blast
    then have "loopback_host (authority_host a)"
    proof cases
      case 1
      have "h \<noteq> []" using 1(1) loopback_host_not_empty by blast
      then have "authority_host a = takeWhile (\<lambda>c. c \<noteq> CHR '':'') a"
        using 1(3,4) by (cases h) (auto simp: authority_host_def)
      also have "\<dots> = h" unfolding 1(4) by (rule takeWhile_until) (use 1(2) at(2) in auto)
      finally show ?thesis using 1(1) by simp
    next
      case 2
      have "authority_host a = takeWhile (\<lambda>c. c \<noteq> CHR '']'') (h @ CHR '']'' # port)"
        by (simp add: 2(3) authority_host_def)
      also have "\<dots> = h" by (rule takeWhile_until) (use 2(2) in auto)
      finally show ?thesis using 2(1) by (simp add: loopback_host_def is_v6_loopback_def)
    qed
    with at(1) show ?thesis ..
  next
    assume "bracket_slip a"
    then obtain h tail where b: "CHR ''@'' \<notin> set a" "a = CHR ''['' # h @ tail" "loopback_host h" "CHR '']'' \<notin> set h"
      "tail = [] \<or> (\<exists>t. tail = CHR '']'' # t)"
      unfolding bracket_slip_def by blast
    have "takeWhile (\<lambda>c. c \<noteq> CHR '']'') (h @ tail) = h" by (rule takeWhile_until) (use b(4,5) in auto)
    then show ?thesis using b(1-3) by (simp add: authority_host_def)
  qed
qed

lemma url_authority_iff:
  "(\<exists>a rest. s = a @ rest \<and> set a \<inter> {CHR ''/'', CHR ''?'', CHR ''#''} = {} \<and>
      (rest = [] \<or> hd rest \<in> {CHR ''/'', CHR ''?'', CHR ''#''}) \<and> P a) \<longleftrightarrow> P (url_authority s)"
  (is "(\<exists>a rest. ?split a rest) \<longleftrightarrow> _")
proof
  assume "\<exists>a rest. ?split a rest"
  then obtain a rest where s: "s = a @ rest" "set a \<inter> {CHR ''/'', CHR ''?'', CHR ''#''} = {}"
    "rest = [] \<or> hd rest \<in> {CHR ''/'', CHR ''?'', CHR ''#''}" "P a" by blast
  have "takeWhile (\<lambda>c. c \<notin> {CHR ''/'', CHR ''?'', CHR ''#''}) rest = []" using s(3) by (cases rest) auto
  moreover have "\<forall>c\<in>set a. c \<notin> {CHR ''/'', CHR ''?'', CHR ''#''}" using s(2) by blast
  ultimately have "url_authority s = a"
    unfolding url_authority_def s(1) by (subst takeWhile_append2) auto
  then show "P (url_authority s)" using s(4) by simp
next
  assume P: "P (url_authority s)"
  let ?t = "dropWhile (\<lambda>c. c \<notin> {CHR ''/'', CHR ''?'', CHR ''#''}) s"
  have "s = url_authority s @ ?t" by (simp only: url_authority_def takeWhile_dropWhile_id)
  moreover have "set (url_authority s) \<inter> {CHR ''/'', CHR ''?'', CHR ''#''} = {}"
    unfolding url_authority_def by (auto dest: set_takeWhileD)
  moreover have "?t = [] \<or> hd ?t \<in> {CHR ''/'', CHR ''?'', CHR ''#''}" using hd_dropWhile by blast
  ultimately show "\<exists>a rest. ?split a rest" using P by blast
qed

lemma ex_append_split: "(\<exists>a rest. v = p @ a @ rest \<and> Q a rest) \<longleftrightarrow> (\<exists>s. v = p @ s \<and> (\<exists>a rest. s = a @ rest \<and> Q a rest))"
  by blast

lemma url_authority_after:
  "(\<exists>a rest. v = p @ a @ rest \<and> set a \<inter> {CHR ''/'', CHR ''?'', CHR ''#''} = {} \<and>
      (rest = [] \<or> hd rest \<in> {CHR ''/'', CHR ''?'', CHR ''#''}) \<and> P a) \<longleftrightarrow>
    (\<exists>s. v = p @ s \<and> P (url_authority s))"
  unfolding url_authority_iff [of _ P, symmetric] by (rule ex_append_split)

lemma control_url_ok_iff:
  "validate_control_url field value secure plain allow =
     (if control_url_ok secure plain allow value then Inr () else Inl (InsecureControlUrl field value))"
proof -
  have "control_url_ok secure plain allow value \<longleftrightarrow>
      (\<exists>rest. value = secure @ rest) \<or>
      (\<exists>s. value = plain @ s \<and> (allow \<or> plaintext_url_is_loopback (plain @ s) plain))"
    unfolding control_url_ok_def plaintext_url_iff authority_host_iff
      url_authority_after [of _ _ "\<lambda>a. allow \<or> loopback_authority a \<or> bracket_slip a"] ..
  also have "\<dots> \<longleftrightarrow> validate_control_url field value secure plain allow = Inr ()"
    unfolding validate_control_url_ok starts_with_iff by blast
  finally show ?thesis by (auto simp: validate_control_url_def)
qed

text \<open>No slip names this machine in the way an authority does.\<close>

lemma bracket_slip_not_loopback:
  assumes "bracket_slip a"
  shows "\<not> loopback_authority a"
proof
  assume "loopback_authority a"
  then obtain h port where a: "port = [] \<or> (\<exists>t. port = CHR '':'' # t)"
    "loopback_host h \<and> take 1 h \<noteq> ''['' \<and> a = h @ port \<or>
       is_v6_loopback h \<and> CHR '']'' \<notin> set h \<and> a = CHR ''['' # h @ CHR '']'' # port"
    unfolding loopback_authority_def by blast
  obtain h' tail where b: "a = CHR ''['' # h' @ tail" "CHR '']'' \<notin> set h'"
    "tail = [] \<or> (\<exists>t. tail = CHR '']'' # t \<and> (is_v6_loopback h' \<longrightarrow> t \<noteq> [] \<and> hd t \<noteq> CHR '':''))"
    using assms unfolding bracket_slip_def by blast
  have same: "h' = h \<and> tail = CHR '']'' # port" if "CHR '']'' \<notin> set h" "a = CHR ''['' # h @ CHR '']'' # port"
  proof -
    have eq: "h' @ tail = h @ CHR '']'' # port" using b(1) that(2) by simp
    have "takeWhile (\<lambda>c. c \<noteq> CHR '']'') (h' @ tail) = h'" "takeWhile (\<lambda>c. c \<noteq> CHR '']'') (h @ CHR '']'' # port) = h"
      using b(2,3) that(1) by (auto intro!: takeWhile_until)
    with eq show ?thesis by simp
  qed
  from a(2) show False
  proof
    assume l: "loopback_host h \<and> take 1 h \<noteq> ''['' \<and> a = h @ port"
    then have "h \<noteq> []" using loopback_host_not_empty by blast
    with l b(1) show False by (cases h) simp_all
  next
    assume l: "is_v6_loopback h \<and> CHR '']'' \<notin> set h \<and> a = CHR ''['' # h @ CHR '']'' # port"
    then have "h' = h" "tail = CHR '']'' # port" using same by blast+
    with b(3) l a(1) show False by (elim disjE exE) simp_all
  qed
qed

text \<open>C35: What the bootstrap file's validation accepts as control URLs, for both of them and with its exact error.
  An encrypted URL (\<open>https\<close>, \<open>wss\<close>) always passes, a plaintext one (\<open>http\<close>, \<open>ws\<close>) with the explicit opt-in;
  without it exactly when its authority names this machine (\<open>loopback_authority\<close>) or, which the documented
  rule does not allow, starts with a loopback host in brackets that are not those of an IPv6 address and
  an optional port (\<open>bracket_slip\<close>).  What follows the colon of a port is not looked at.\<close>

theorem control_urls_accepted_iff:
  "bootstrap_validate b =
     (if \<not> control_url_ok ''https://'' ''http://'' (bs_allow_insecure_control_url b) (bs_control_http_url b)
      then Inl (InsecureControlUrl ''control_http_url'' (bs_control_http_url b))
      else if \<not> control_url_ok ''wss://'' ''ws://'' (bs_allow_insecure_control_url b) (bs_control_ws_url b)
      then Inl (InsecureControlUrl ''control_ws_url'' (bs_control_ws_url b))
      else runtime_validate (fallback_runtime_config b))"
  by (simp add: bootstrap_validate_def control_url_ok_iff)

text \<open>The host in brackets ends at the closing bracket and what follows it is not looked at, so a
  plaintext URL whose authority goes on after the bracket still counts as loopback.\<close>

lemma bracketed_host_tail_ignored:
  assumes "\<forall>c\<in>set rest. c \<notin> {CHR ''/'', CHR ''?'', CHR ''#'', CHR ''@''}"
  shows "plaintext_url_is_loopback (''http://[::1]'' @ rest) ''http://''"
proof -
  have t: "url_authority (''[::1]'' @ rest) = ''[::1]'' @ rest"
    using assms by (simp add: url_authority_def takeWhile_eq_all_conv)
  have "parse_ip ''::1'' = Some (V6 [0, 0, 0, 0, 0, 0, 0, 1])" by code_simp
  then have "loopback_host ''::1''" by (simp add: loopback_host_def)
  moreover have "authority_host (''[::1]'' @ rest) = ''::1''" by (simp add: authority_host_def)
  moreover have "CHR ''@'' \<notin> set (''[::1]'' @ rest)" using assms by auto
  ultimately have "plaintext_url_is_loopback (''http://'' @ (''[::1]'' @ rest)) ''http://''"
    by (simp only: plaintext_url_iff t simp_thms)
  then show ?thesis by simp
qed

lemma bracketed_host_tail_ignored_witness:
  "plaintext_url_is_loopback ''http://[::1].example.com:80'' ''http://''"
  using bracketed_host_tail_ignored [of "''.example.com:80''"] by simp

end
