(* ===== verification/Local_Config.thy ===== *)
theory Local_Config
  imports Config_Bootstrap
begin

text \<open>
  The agent's local configuration files (\<open>talia-agent/src/local_config.rs\<close>): the bootstrap file, the
  environment secrets and the last configuration received from the control server.  Files are a
  partial function from paths to contents; serde's JSON printer and parser are the parameters
  \<open>to_json\<close> and \<open>from_json\<close>.
\<close>

datatype 'io local_error =
    LoadAgentConfig string config_error
  | InvalidBootstrap config_error
  | InvalidUnicode string
  | CreateStateDirectory string 'io
  | SerializeLastKnown
  | WriteLastKnown 'io

definition LAST_KNOWN_CONFIG_FILE :: string where
  "LAST_KNOWN_CONFIG_FILE = ''last-config.json''"

definition load_bootstrap_config ::
    "(string \<Rightarrow> (io_error, string) result) \<Rightarrow> (string \<Rightarrow> (toml_error, agent_bootstrap_config) result) \<Rightarrow>
     string option \<Rightarrow> ('io local_error, agent_bootstrap_config) result" where
  "load_bootstrap_config read toml path =
     and_then (case path of
         Some p \<Rightarrow> map_err (LoadAgentConfig p) (bootstrap_load read toml p)
       | None \<Rightarrow> Inr bootstrap_default) (\<lambda>bootstrap.
     and_then (map_err InvalidBootstrap (bootstrap_validate bootstrap)) (\<lambda>_. Inr bootstrap))"

definition load_local_runtime_config ::
    "(string \<Rightarrow> (io_error, string) result) \<Rightarrow> (string \<Rightarrow> (toml_error, agent_bootstrap_config) result) \<Rightarrow>
     string option \<Rightarrow> ('io local_error, agent_runtime_config) result" where
  "load_local_runtime_config read toml path =
     and_then (load_bootstrap_config read toml path) (\<lambda>b. Inr (fallback_runtime_config b))"

datatype env_var = EnvValue string | NotPresent | NotUnicode

definition optional_env_secret :: "(string \<Rightarrow> env_var) \<Rightarrow> string \<Rightarrow> ('io local_error, string option) result" where
  "optional_env_secret env name =
     (case env name of
        EnvValue v \<Rightarrow> Inr (Some v)
      | NotPresent \<Rightarrow> Inr None
      | NotUnicode \<Rightarrow> Inl (InvalidUnicode name))"

text \<open>\<open>Path::join\<close> of a directory and a relative file name.\<close>

definition path_join :: "string \<Rightarrow> string \<Rightarrow> string" where
  "path_join dir name =
     (if dir = [] \<or> last dir = CHR ''/'' then dir @ name else dir @ CHR ''/'' # name)"

definition last_known_config_path :: "string \<Rightarrow> string" where
  "last_known_config_path state_dir = path_join state_dir LAST_KNOWN_CONFIG_FILE"

definition load_last_known_config ::
    "(string \<Rightarrow> agent_runtime_config option) \<Rightarrow> (string \<rightharpoonup> string) \<Rightarrow> string \<Rightarrow> agent_runtime_config option" where
  "load_last_known_config from_json files state_dir =
     Option.bind (files (last_known_config_path state_dir)) (\<lambda>contents.
     Option.bind (from_json contents) (\<lambda>config.
     Option.bind (res_ok (runtime_validate config)) (\<lambda>_. Some config)))"

text \<open>What the file system answers to \<open>create_dir_all\<close> and to the write; a failed write may leave any
  contents behind.\<close>

record 'io save_io =
  sio_create_dir_all :: "('io, unit) result"
  sio_write :: "('io \<times> string option) option"

definition save_last_known_config ::
    "(agent_runtime_config \<Rightarrow> string option) \<Rightarrow> 'io save_io \<Rightarrow> string \<Rightarrow> agent_runtime_config \<Rightarrow>
     (string \<rightharpoonup> string) \<Rightarrow> (string \<rightharpoonup> string) \<times> ('io local_error, unit) result" where
  "save_last_known_config to_json io state_dir config files =
     (case sio_create_dir_all io of
        Inl e \<Rightarrow> (files, Inl (CreateStateDirectory state_dir e))
      | Inr _ \<Rightarrow>
          (case to_json config of
             None \<Rightarrow> (files, Inl SerializeLastKnown)
           | Some json \<Rightarrow>
               (case sio_write io of
                  None \<Rightarrow> (files(last_known_config_path state_dir \<mapsto> json), Inr ())
                | Some (e, left) \<Rightarrow>
                    (case left of
                       None \<Rightarrow> (files, Inl (WriteLastKnown e))
                     | Some part \<Rightarrow>
                         (files(last_known_config_path state_dir \<mapsto> part), Inl (WriteLastKnown e))))))"

section \<open>Facts\<close>

lemma load_bootstrap_valid:
  "load_bootstrap_config read toml path = Inr b \<Longrightarrow> bootstrap_validate b = Inr ()"
  by (auto simp: load_bootstrap_config_def)

lemma load_local_runtime_wf: "load_local_runtime_config read toml path = Inr c \<Longrightarrow> runtime_wf c"
  by (auto simp: load_local_runtime_config_def dest!: load_bootstrap_valid)
    (simp add: bootstrap_validate_def runtime_validate_iff)

lemma load_bootstrap_no_path: "load_bootstrap_config read toml None = Inr bootstrap_default"
  using bootstrap_default_ok by (simp add: load_bootstrap_config_def)

lemma load_last_known_wf: "load_last_known_config from_json files dir = Some c \<Longrightarrow> runtime_wf c"
  by (auto simp: load_last_known_config_def bind_eq_Some_conv runtime_validate_iff)

lemma save_then_load:
  assumes "save_last_known_config to_json io dir config files = (files', Inr ())"
    and "\<And>json. to_json config = Some json \<Longrightarrow> from_json json = Some config"
  shows "load_last_known_config from_json files' dir = (if runtime_wf config then Some config else None)"
proof -
  obtain json where "to_json config = Some json" "files' = files(last_known_config_path dir \<mapsto> json)"
    using assms(1) by (auto simp: save_last_known_config_def split: sum.splits option.splits)
  moreover have "res_ok (runtime_validate config) = (if runtime_wf config then Some () else None)"
    by (cases "runtime_validate config") (auto simp: runtime_validate_iff [symmetric])
  ultimately show ?thesis using assms(2) by (simp add: load_last_known_config_def)
qed

lemma save_touches_one_file:
  "save_last_known_config to_json io dir config files = (files', r) \<Longrightarrow>
     p \<noteq> last_known_config_path dir \<Longrightarrow> files' p = files p"
  by (auto simp: save_last_known_config_def split: sum.splits option.splits)

end
