(* ===== verification/Ordered_Map.thy ===== *)
theory Ordered_Map
  imports Prelude
begin

text \<open>
  Rust's keyed containers.  A \<open>BTreeMap\<close> is the list of its entries in increasing key order, so
  that iteration order is part of the model; a \<open>HashMap\<close>, whose iteration order is unspecified,
  is a partial function.  The laws the components rely on are the locale \<open>keyed_map\<close>; it is
  interpreted on both.
\<close>

section \<open>The interface\<close>

locale keyed_map =
  fixes get :: "'m \<Rightarrow> 'k \<Rightarrow> 'v option"
    and put :: "'k \<Rightarrow> 'v \<Rightarrow> 'm \<Rightarrow> 'm"
    and del :: "'k \<Rightarrow> 'm \<Rightarrow> 'm"
    and none :: "'m"
  assumes get_none: "get none j = None"
    and get_put: "get (put k v m) j = (if j = k then Some v else get m j)"
    and get_del: "get (del k m) j = (if j = k then None else get m j)"
begin

lemma put_put_get: "get (put k v (put k w m)) = get (put k v m)"
  by (simp add: fun_eq_iff get_put)

lemma del_put_get: "get m k = None \<Longrightarrow> get (del k (put k v m)) = get m"
  by (auto simp: fun_eq_iff get_put get_del)

text \<open>Inserting the entries of a list one after the other: the last entry of a key wins.\<close>

lemma get_fold_put:
  "get (fold (\<lambda>(k, v). put k v) es m) j =
     (case map_of (rev es) j of Some v \<Rightarrow> Some v | None \<Rightarrow> get m j)"
proof (induction es arbitrary: m)
  case Nil
  then show ?case by simp
next
  case (Cons e es)
  then show ?case
    by (cases e) (auto simp: get_put map_add_def split: option.splits)
qed

text \<open>An invariant on entries survives insertion and removal.\<close>

lemma all_put:
  "(\<forall>j w. get m j = Some w \<longrightarrow> P j w) \<Longrightarrow> P k v \<Longrightarrow> (\<forall>j w. get (put k v m) j = Some w \<longrightarrow> P j w)"
  by (simp add: get_put)

lemma all_del:
  "(\<forall>j w. get m j = Some w \<longrightarrow> P j w) \<Longrightarrow> (\<forall>j w. get (del k m) j = Some w \<longrightarrow> P j w)"
  by (simp add: get_del)

end

section \<open>BTreeMap\<close>

type_synonym ('k, 'v) btree = "('k \<times> 'v) list"

abbreviation bt_get :: "('k, 'v) btree \<Rightarrow> 'k \<Rightarrow> 'v option" where
  "bt_get m k \<equiv> map_of m k"

fun bt_insert :: "'k::linorder \<Rightarrow> 'v \<Rightarrow> ('k, 'v) btree \<Rightarrow> ('k, 'v) btree" where
  "bt_insert k v [] = [(k, v)]"
| "bt_insert k v ((j, w) # m) =
     (if k < j then (k, v) # (j, w) # m
      else if k = j then (k, v) # m
      else (j, w) # bt_insert k v m)"

definition bt_remove :: "'k \<Rightarrow> ('k, 'v) btree \<Rightarrow> ('k, 'v) btree" where
  "bt_remove k m = filter (\<lambda>(j, _). j \<noteq> k) m"

definition bt_contains_key :: "('k, 'v) btree \<Rightarrow> 'k \<Rightarrow> bool" where
  "bt_contains_key m k = (bt_get m k \<noteq> None)"

definition bt_keys :: "('k, 'v) btree \<Rightarrow> 'k list" where
  "bt_keys m = map fst m"

definition bt_values :: "('k, 'v) btree \<Rightarrow> 'v list" where
  "bt_values m = map snd m"

definition bt_ok :: "('k::linorder, 'v) btree \<Rightarrow> bool" where
  "bt_ok m = sorted_wrt (<) (bt_keys m)"

lemma bt_get_insert [simp]: "bt_get (bt_insert k v m) = (bt_get m)(k \<mapsto> v)"
  by (induction k v m rule: bt_insert.induct) (auto simp: fun_eq_iff)

lemma bt_get_remove [simp]: "bt_get (bt_remove k m) = (bt_get m)(k := None)"
  by (induction m) (auto simp: bt_remove_def fun_eq_iff)

lemma set_bt_insert: "set (bt_keys (bt_insert k v m)) = insert k (set (bt_keys m))"
  by (induction k v m rule: bt_insert.induct) (auto simp: bt_keys_def)

lemma bt_ok_Nil [simp]: "bt_ok []"
  by (simp add: bt_ok_def bt_keys_def)

lemma bt_ok_insert [simp]: "bt_ok m \<Longrightarrow> bt_ok (bt_insert k v m)"
proof (induction k v m rule: bt_insert.induct)
  case (1 k v)
  then show ?case by (simp add: bt_ok_def bt_keys_def)
next
  case (2 k v j w m)
  have *: "bt_ok ((j, w) # xs) \<longleftrightarrow> (\<forall>x\<in>set (bt_keys xs). j < x) \<and> bt_ok xs" for j :: 'a and w :: 'b and xs
    by (simp add: bt_ok_def bt_keys_def)
  from 2 show ?case
    by (auto simp: * set_bt_insert) (auto simp: bt_keys_def)
qed

lemma bt_ok_remove [simp]: "bt_ok m \<Longrightarrow> bt_ok (bt_remove k m)"
  unfolding bt_ok_def bt_keys_def bt_remove_def
  by (simp add: sorted_wrt_filter sorted_wrt_map)

lemma bt_ok_distinct: "bt_ok m \<Longrightarrow> distinct (bt_keys m)"
  by (simp add: bt_ok_def strict_sorted_iff)

lemma set_bt_keys: "set (bt_keys m) = dom (bt_get m)"
  by (simp add: bt_keys_def dom_map_of_conv_image_fst)

text \<open>Two ordered maps with the same lookups are the same list of entries.\<close>

lemma bt_get_entry: "bt_ok m \<Longrightarrow> (k, v) \<in> set m \<Longrightarrow> bt_get m k = Some v"
  by (metis bt_keys_def bt_ok_distinct map_of_eq_Some_iff)

lemma bt_rebuild: "bt_ok m \<Longrightarrow> m = map (\<lambda>k. (k, the (bt_get m k))) (bt_keys m)"
  unfolding bt_keys_def map_map
  by (rule map_idI [symmetric]) (auto simp: bt_get_entry)

lemma bt_ext:
  assumes "bt_ok m" "bt_ok n" "bt_get m = bt_get n"
  shows "m = n"
proof -
  have "bt_keys m = bt_keys n"
    using assms by (metis bt_ok_def set_bt_keys strict_sorted_equal)
  then show ?thesis
    using assms bt_rebuild [of m] bt_rebuild [of n] by simp
qed

interpretation bt: keyed_map bt_get bt_insert bt_remove "[]"
  by unfold_locales simp_all

section \<open>HashMap\<close>

definition hm_insert :: "'k \<Rightarrow> 'v \<Rightarrow> ('k \<rightharpoonup> 'v) \<Rightarrow> ('k \<rightharpoonup> 'v)" where
  "hm_insert k v m = m(k \<mapsto> v)"

definition hm_remove :: "'k \<Rightarrow> ('k \<rightharpoonup> 'v) \<Rightarrow> ('k \<rightharpoonup> 'v)" where
  "hm_remove k m = m(k := None)"

text \<open>\<open>entry(k).or_insert(v)\<close>: the value present stays.\<close>

definition hm_entry_or_insert :: "'k \<Rightarrow> 'v \<Rightarrow> ('k \<rightharpoonup> 'v) \<Rightarrow> ('k \<rightharpoonup> 'v)" where
  "hm_entry_or_insert k v m = (case m k of None \<Rightarrow> m(k \<mapsto> v) | Some _ \<Rightarrow> m)"

definition hm_retain :: "('k \<Rightarrow> bool) \<Rightarrow> ('k \<rightharpoonup> 'v) \<Rightarrow> ('k \<rightharpoonup> 'v)" where
  "hm_retain P m = (\<lambda>k. if P k then m k else None)"

interpretation hm: keyed_map "\<lambda>m. m" hm_insert hm_remove Map.empty
  by unfold_locales (simp_all add: hm_insert_def hm_remove_def)

end
