(* ===== verification/Rust_Float.thy ===== *)
theory Rust_Float
  imports Rust_Std
begin

text \<open>
  The non-negative finite values of \<open>f64\<close> that the code computes, as the rationals they denote.
  Each operation is the exact one followed by rounding to 53 significant bits, ties to even, as
  IEEE 754 binary64 prescribes.  All values in this program lie between \<open>2 ^ -64\<close> and
  \<open>2 ^ 75\<close>, so neither overflow to infinity nor subnormal numbers arise.
\<close>

type_synonym f64 = rat

section \<open>Rounding\<close>

fun bits :: "nat \<Rightarrow> nat" where
  "bits n = (if n = 0 then 0 else Suc (bits (n div 2)))"

declare bits.simps [simp del]

text \<open>The floor of the binary logarithm of a positive rational.\<close>

definition ilog2 :: "rat \<Rightarrow> int" where
  "ilog2 x =
     (let (a, b) = quotient_of x; k = int (bits (nat a)) - int (bits (nat b)) in
      if x < 2 powi k then k - 1 else k)"

definition round_even :: "rat \<Rightarrow> int" where
  "round_even y =
     (let d = \<lfloor>y\<rfloor>; f = y - of_int d in
      if f < 1 / 2 \<or> (f = 1 / 2 \<and> even d) then d else d + 1)"

definition f64_round :: "rat \<Rightarrow> f64" where
  "f64_round x =
     (if x \<le> 0 then 0
      else let e = ilog2 x - 52 in of_int (round_even (x / 2 powi e)) * 2 powi e)"

section \<open>Operations\<close>

definition u64_as_f64 :: "u64 \<Rightarrow> f64" where
  "u64_as_f64 w = f64_round (of_nat (unat w))"

definition f64_div :: "f64 \<Rightarrow> f64 \<Rightarrow> f64" where
  "f64_div x y = f64_round (x / y)"

definition f64_mul :: "f64 \<Rightarrow> f64 \<Rightarrow> f64" where
  "f64_mul x y = f64_round (x * y)"

definition f64_add :: "f64 \<Rightarrow> f64 \<Rightarrow> f64" where
  "f64_add x y = f64_round (x + y)"

section \<open>Correctness of the logarithm and monotonicity of rounding\<close>

lemma bits_less: "n < 2 ^ bits n"
proof (induction n rule: bits.induct)
  case (1 n)
  show ?case
  proof (cases "n = 0")
    case False
    then have "n div 2 < 2 ^ bits (n div 2)" using 1 by blast
    then have "n < 2 * 2 ^ bits (n div 2)" by linarith
    with False show ?thesis by (simp add: bits.simps [of n])
  qed simp
qed

lemma bits_le: "0 < n \<Longrightarrow> 2 ^ bits n \<le> 2 * n"
proof (induction n rule: bits.induct)
  case (1 n)
  show ?case
  proof (cases "n div 2 = 0")
    case True
    then have "n = 1" using 1(2) by (simp add: div_eq_0_iff)
    then show ?thesis by (simp add: bits.simps)
  next
    case False
    then have "2 ^ bits (n div 2) \<le> 2 * (n div 2)" using 1 by (auto simp: div_eq_0_iff)
    then have "2 * 2 ^ bits (n div 2) \<le> 2 * n" by linarith
    with 1(2) show ?thesis by (simp add: bits.simps [of n])
  qed
qed

lemma powi_diff_rat: "(2 :: rat) powi (int m - int n) = 2 ^ m / 2 ^ n"
  by (simp add: power_int_diff)

lemma ilog2_bounds:
  assumes "0 < x"
  shows "2 powi ilog2 x \<le> x" "x < 2 powi (ilog2 x + 1)"
proof -
  obtain a b where q: "quotient_of x = (a, b)" by force
  have b: "0 < b" using quotient_of_denom_pos [OF q] .
  have x: "x = of_int a / of_int b" using quotient_of_div [OF q] .
  have a: "0 < a" using assms b unfolding x by (simp add: zero_less_divide_iff)
  define m n where "m = bits (nat a)" and "n = bits (nat b)"
  have am: "of_int a < (2 :: rat) ^ m" "(2 :: rat) ^ m \<le> 2 * of_int a"
  proof -
    have "nat a < 2 ^ m" "2 ^ m \<le> 2 * nat a"
      using bits_less [of "nat a"] bits_le [of "nat a"] a unfolding m_def by auto
    then have "of_nat (nat a) < (of_nat (2 ^ m) :: rat)" "(of_nat (2 ^ m) :: rat) \<le> of_nat (2 * nat a)"
      using of_nat_less_iff of_nat_le_iff by blast+
    then show "of_int a < (2 :: rat) ^ m" "(2 :: rat) ^ m \<le> 2 * of_int a" using a by simp_all
  qed
  have bn: "of_int b < (2 :: rat) ^ n" "(2 :: rat) ^ n \<le> 2 * of_int b"
  proof -
    have "nat b < 2 ^ n" "2 ^ n \<le> 2 * nat b"
      using bits_less [of "nat b"] bits_le [of "nat b"] b unfolding n_def by auto
    then have "of_nat (nat b) < (of_nat (2 ^ n) :: rat)" "(of_nat (2 ^ n) :: rat) \<le> of_nat (2 * nat b)"
      using of_nat_less_iff of_nat_le_iff by blast+
    then show "of_int b < (2 :: rat) ^ n" "(2 :: rat) ^ n \<le> 2 * of_int b" using b by simp_all
  qed
  have b': "(0 :: rat) < of_int b" using b by simp
  have up: "x < 2 * (2 ^ m / 2 ^ n)"
  proof -
    have "x < 2 ^ m / of_int b" unfolding x using am(1) b' by (rule divide_strict_right_mono)
    also have "\<dots> \<le> 2 ^ m / (2 ^ n / 2)"
      using bn(2) b' by (intro divide_left_mono) auto
    finally show ?thesis by (simp add: mult.commute)
  qed
  have low: "(2 ^ m / 2 ^ n) / 2 \<le> x"
  proof -
    have "(2 ^ m / 2) / 2 ^ n \<le> (2 ^ m / 2) / (of_int b :: rat)"
      using bn(1) b' by (intro divide_left_mono) auto
    also have "\<dots> \<le> x" unfolding x using am(2) b' by (intro divide_right_mono) auto
    finally show ?thesis by (simp add: field_simps)
  qed
  have k: "ilog2 x = (if x < 2 ^ m / 2 ^ n then int m - int n - 1 else int m - int n)"
    by (simp add: ilog2_def q m_def n_def Let_def powi_diff_rat)
  have half: "(2 :: rat) powi (int m - int n - 1) = (2 ^ m / 2 ^ n) / 2"
    by (simp add: power_int_diff)
  have two: "(2 :: rat) powi (int m - int n + 1) = 2 * (2 ^ m / 2 ^ n)"
    by (simp add: power_int_add power_int_diff)
  show "2 powi ilog2 x \<le> x" "x < 2 powi (ilog2 x + 1)"
    using low up unfolding k by (auto simp: powi_diff_rat half two)
qed

lemma ilog2_mono:
  assumes "0 < x" "x \<le> y"
  shows "ilog2 x \<le> ilog2 y"
proof (rule ccontr)
  assume "\<not> ilog2 x \<le> ilog2 y"
  then have "(2 :: rat) powi (ilog2 y + 1) \<le> 2 powi ilog2 x"
    by (intro power_int_increasing) auto
  with ilog2_bounds [of x] ilog2_bounds [of y] assms show False by linarith
qed

lemma round_even_mono: "x \<le> y \<Longrightarrow> round_even x \<le> round_even y"
proof -
  assume le: "x \<le> y"
  then have fl: "\<lfloor>x\<rfloor> \<le> \<lfloor>y\<rfloor>" by (rule floor_mono)
  show ?thesis
  proof (cases "\<lfloor>x\<rfloor> = \<lfloor>y\<rfloor>")
    case True
    with le show ?thesis by (auto simp: round_even_def Let_def)
  next
    case False
    with fl show ?thesis by (auto simp: round_even_def Let_def)
  qed
qed

lemma round_even_of_int [simp]: "round_even (of_int k) = k"
  by (simp add: round_even_def)

lemma round_even_numeral [simp]: "round_even (numeral k) = numeral k"
  using round_even_of_int [of "numeral k"] by simp

lemma f64_round_bounds:
  assumes "0 < x"
  shows "2 powi ilog2 x \<le> f64_round x" "f64_round x \<le> 2 powi (ilog2 x + 1)"
proof -
  define e where "e = ilog2 x - 52"
  have pos: "(0 :: rat) < 2 powi e" by simp
  have r: "f64_round x = of_int (round_even (x / 2 powi e)) * 2 powi e"
    using assms by (simp add: f64_round_def e_def Let_def)
  have l: "(2 :: rat) powi ilog2 x = of_int (2 ^ 52) * 2 powi e"
    unfolding e_def by (simp add: power_int_diff)
  have u: "(2 :: rat) powi (ilog2 x + 1) = of_int (2 ^ 53) * 2 powi e"
    unfolding e_def by (simp add: power_int_diff power_int_add)
  have "of_int (2 ^ 52) \<le> x / 2 powi e" "x / 2 powi e \<le> of_int (2 ^ 53)"
    using ilog2_bounds [OF assms] pos unfolding l u by (simp_all add: field_simps)
  then have "2 ^ 52 \<le> round_even (x / 2 powi e)" "round_even (x / 2 powi e) \<le> 2 ^ 53"
    using round_even_mono round_even_of_int by metis+
  then have "(of_int (2 ^ 52) :: rat) \<le> of_int (round_even (x / 2 powi e))"
    "of_int (round_even (x / 2 powi e)) \<le> (of_int (2 ^ 53) :: rat)"
    using of_int_le_iff by blast+
  then show "2 powi ilog2 x \<le> f64_round x" "f64_round x \<le> 2 powi (ilog2 x + 1)"
    unfolding r l u using pos by (simp_all add: mult_right_mono)
qed

lemma f64_round_nonneg [simp]: "0 \<le> f64_round x"
proof (cases "0 < x")
  case True
  have "(0 :: rat) < 2 powi ilog2 x" by simp
  with f64_round_bounds(1) [OF True] show ?thesis by linarith
qed (simp add: f64_round_def)

lemma f64_round_mono:
  assumes "x \<le> y"
  shows "f64_round x \<le> f64_round y"
proof (cases "0 < x")
  case False
  then have "f64_round x = 0" by (simp add: f64_round_def)
  then show ?thesis by simp
next
  case True
  then have y: "0 < y" using assms by linarith
  have le: "ilog2 x \<le> ilog2 y" using True assms by (rule ilog2_mono)
  show ?thesis
  proof (cases "ilog2 x = ilog2 y")
    case eq: True
    define e where "e = ilog2 y - 52"
    have pos: "(0 :: rat) < 2 powi e" by simp
    have "x / 2 powi e \<le> y / 2 powi e" using assms pos by (simp add: divide_right_mono)
    then have "round_even (x / 2 powi e) \<le> round_even (y / 2 powi e)" by (rule round_even_mono)
    then have "(of_int (round_even (x / 2 powi e)) :: rat) * 2 powi e
        \<le> of_int (round_even (y / 2 powi e)) * 2 powi e"
      using pos by (simp add: mult_right_mono)
    then show ?thesis using True y eq by (simp add: f64_round_def e_def Let_def)
  next
    case False
    with le have "(2 :: rat) powi (ilog2 x + 1) \<le> 2 powi ilog2 y"
      by (intro power_int_increasing) auto
    with f64_round_bounds [OF True] f64_round_bounds [OF y] show ?thesis by linarith
  qed
qed

text \<open>Powers of two, in particular 1, are represented exactly.\<close>

lemma f64_round_1 [simp]: "f64_round 1 = 1"
proof -
  have "ilog2 1 = 0"
  proof -
    have "ilog2 1 < 1" "- 1 < ilog2 1"
    proof -
      show "ilog2 1 < 1"
      proof (rule ccontr)
        assume "\<not> ilog2 1 < 1"
        then have "(2 :: rat) powi 1 \<le> 2 powi ilog2 1" by (intro power_int_increasing) auto
        with ilog2_bounds [of 1] show False by simp
      qed
      show "- 1 < ilog2 1"
      proof (rule ccontr)
        assume "\<not> - 1 < ilog2 1"
        then have "(2 :: rat) powi (ilog2 1 + 1) \<le> 2 powi 0" by (intro power_int_increasing) auto
        with ilog2_bounds [of 1] show False by simp
      qed
    qed
    then show ?thesis by simp
  qed
  moreover have "(1 :: rat) / 2 powi (- 52) = of_int (2 ^ 52)" by (simp add: power_int_def field_simps)
  ultimately show ?thesis
    unfolding f64_round_def Let_def by (simp only:) (simp add: power_int_def field_simps)
qed

lemma f64_round_0 [simp]: "f64_round 0 = 0"
  by (simp add: f64_round_def)

text \<open>A quotient of a part by its whole never rounds above 1.\<close>

lemma f64_div_part_le_1:
  assumes "0 \<le> x" "x \<le> y"
  shows "f64_div x y \<le> 1"
proof -
  have "x / y \<le> 1" using assms by (cases "y = 0") (auto simp: divide_le_eq_1)
  then have "f64_round (x / y) \<le> f64_round 1" by (rule f64_round_mono)
  then show ?thesis by (simp add: f64_div_def)
qed

lemma f64_div_nonneg [simp]: "0 \<le> f64_div x y"
  by (simp add: f64_div_def)

lemma u64_as_f64_nonneg [simp]: "0 \<le> u64_as_f64 w"
  by (simp add: u64_as_f64_def)

lemma u64_as_f64_mono: "v \<le> w \<Longrightarrow> u64_as_f64 v \<le> u64_as_f64 w"
  unfolding u64_as_f64_def by (rule f64_round_mono) (simp only: of_nat_le_iff word_le_nat_alt)

end
