(* ===== verification/Pipeline.thy ===== *)
theory Pipeline
  imports Config_Sections Ordered_Map Rust_Float
begin

text \<open>
  The neutral telemetry model and the pipeline between providers and sinks
  (\<open>talia-core/src/pipeline/\<close>), with the one processor of the agent
  (\<open>talia-agent/src/processors/name_filter.rs\<close>).  A processor is the function its \<open>process\<close> method
  computes.  The contract of a pure filter stage is the locale \<open>filter_stage\<close>.
\<close>

section \<open>Samples\<close>

text \<open>Nanoseconds since the Unix epoch.\<close>

type_synonym system_time = int

datatype sample_value =
    is_Counter: Counter u64
  | is_GaugeU64: GaugeU64 u64
  | is_GaugeI64: GaugeI64 "64 word"
  | is_GaugeF64: GaugeF64 f64

record sample =
  sample_name :: string
  sample_value :: sample_value
  sample_attributes :: "(string, string) btree"
  sample_timestamp :: system_time

text \<open>\<open>ProviderError\<close>: the provider's name and the failure it wraps.\<close>

datatype 'e provider_error = ProviderError string 'e

text \<open>What the conversions of the providers share: samples of one instant.\<close>

abbreviation mk_sample :: "system_time \<Rightarrow> string \<Rightarrow> sample_value \<Rightarrow> (string, string) btree \<Rightarrow> sample" where
  "mk_sample now n v attrs \<equiv>
     \<lparr>sample_name = n, sample_value = v, sample_attributes = attrs, sample_timestamp = now\<rparr>"

section \<open>Processors\<close>

type_synonym processor = "sample \<Rightarrow> sample option"

fun process_sample :: "processor list \<Rightarrow> sample \<Rightarrow> sample option" where
  "process_sample [] current = Some current"
| "process_sample (p # ps) current =
     (case p current of None \<Rightarrow> None | Some next_sample \<Rightarrow> process_sample ps next_sample)"

definition name_filter_process :: "string list \<Rightarrow> processor" where
  "name_filter_process prefixes sample =
     (if prefixes = [] \<or> list_ex (\<lambda>prefix. starts_with (sample_name sample) prefix) prefixes
      then Some sample else None)"

lemma process_sample_append:
  "process_sample (ps @ qs) s =
     (case process_sample ps s of None \<Rightarrow> None | Some t \<Rightarrow> process_sample qs t)"
  by (induction ps s rule: process_sample.induct) (auto split: option.splits)

lemma process_sample_drop: "process_sample ps s = None \<Longrightarrow> process_sample (ps @ qs) s = None"
  by (simp add: process_sample_append)

locale filter_stage =
  fixes process :: processor
  assumes keeps_unchanged: "process s = Some t \<Longrightarrow> t = s"
begin

lemma process_cases: "process s = None \<or> process s = Some s"
  using keeps_unchanged [of s] by (cases "process s") auto

text \<open>A filter acts like a guard in front of the rest of the chain, and running it twice is running
  it once.\<close>

lemma guard: "process_sample (process # ps) s = (if process s = None then None else process_sample ps s)"
  using process_cases [of s] by auto

lemma twice: "process_sample (process # process # ps) s = process_sample (process # ps) s"
  using process_cases [of s] by auto

text \<open>Where every other stage is a filter as well, the order of two stages does not matter.\<close>

lemma commutes:
  assumes "\<And>t. other s = Some t \<Longrightarrow> t = s"
  shows "process_sample (process # other # ps) s = process_sample (other # process # ps) s"
  using process_cases [of s] assms by (cases "other s") auto

end

lemma name_filter_cases: "name_filter_process prefixes s = Some t \<Longrightarrow> t = s"
  by (simp add: name_filter_process_def split: if_splits)

interpretation name_filter: filter_stage "name_filter_process prefixes" for prefixes
  by unfold_locales (rule name_filter_cases)

lemma name_filter_keeps_iff:
  "name_filter_process prefixes s = Some s \<longleftrightarrow>
     prefixes = [] \<or> (\<exists>p\<in>set prefixes. \<exists>rest. sample_name s = p @ rest)"
  by (simp add: name_filter_process_def list_ex_iff starts_with_iff)

text \<open>A chain of filters keeps a sample unchanged exactly when every one of them does.\<close>

lemma process_sample_filters:
  "\<forall>p\<in>set ps. filter_stage p \<Longrightarrow>
     process_sample ps s = (if \<forall>p\<in>set ps. p s \<noteq> None then Some s else None)"
proof (induction ps)
  case Nil
  then show ?case by simp
next
  case (Cons p ps)
  then have "filter_stage p" by simp
  from filter_stage.process_cases [OF this, of s] Cons show ?case by auto
qed

section \<open>Durations and ratios\<close>

text \<open>A \<open>Duration\<close> in nanoseconds; \<open>as_secs_f64\<close> adds whole seconds and the fraction in floating
  point.\<close>

type_synonym duration = nat

definition from_secs :: "u64 \<Rightarrow> duration" where
  "from_secs s = unat s * 1000000000"

definition as_secs_f64 :: "duration \<Rightarrow> f64" where
  "as_secs_f64 d =
     f64_add (f64_round (of_nat (d div 1000000000)))
       (f64_div (f64_round (of_nat (d mod 1000000000))) (f64_round 1000000000))"

text \<open>The \<open>ratio\<close> functions of the memory and CPU modules are the same code.\<close>

definition ratio :: "u64 \<Rightarrow> u64 \<Rightarrow> f64" where
  "ratio part whole = (if whole = 0 then 0 else f64_div (u64_as_f64 part) (u64_as_f64 whole))"

lemma ratio_nonneg [simp]: "0 \<le> ratio v t"
  by (simp add: ratio_def)

lemma ratio_le_1: "v \<le> t \<Longrightarrow> ratio v t \<le> 1"
  by (simp add: ratio_def f64_div_part_le_1 u64_as_f64_mono)

lemma saturating_sub_le: "saturating_sub a b \<le> a" for a b :: "'a::len word"
  by (simp add: word_le_nat_alt unat_saturating_sub)

lemma saturating_add_ge: "a \<le> saturating_add a b" "b \<le> saturating_add a b" for a b :: u64
proof -
  show "a \<le> saturating_add a b" using unat_u64_less [of a]
    by (simp add: word_le_nat_alt unat_saturating_add)
  show "b \<le> saturating_add a b" using unat_u64_less [of b]
    by (simp add: word_le_nat_alt unat_saturating_add)
qed

section \<open>Properties\<close>

text \<open>A chain of name filters passes a sample on unchanged exactly when every filter of the chain has
  an empty prefix list or a prefix of the sample's name, whatever their order; otherwise it drops it.\<close>

lemma name_filter_chain:
  "process_sample (map name_filter_process prefix_lists) s =
     (if list_all (\<lambda>prefixes. prefixes = [] \<or> list_ex (\<lambda>p. take (length p) (sample_name s) = p) prefixes) prefix_lists
      then Some s else None)"
proof -
  have f: "\<forall>p\<in>set (map name_filter_process prefix_lists). filter_stage p"
    using name_filter.filter_stage_axioms by auto
  have sw: "starts_with n p \<longleftrightarrow> take (length p) n = p" for n p
    by (metis append_eq_conv_conj append_take_drop_id starts_with_iff)
  have "name_filter_process prefixes s \<noteq> None \<longleftrightarrow>
      prefixes = [] \<or> list_ex (\<lambda>p. take (length p) (sample_name s) = p) prefixes" for prefixes
    by (simp add: name_filter_process_def sw)
  then show ?thesis by (simp add: process_sample_filters [OF f] list_all_iff)
qed

end
