(* ===== verification/Collector_Error.thy ===== *)
theory Collector_Error
  imports Pipeline
begin

text \<open>
  The errors of the three BPF collectors (\<open>CpuCollectorError\<close>, \<open>NetworkCollectorError\<close> and
  \<open>DiskIoCollectorError\<close>, which differ in the \<open>Btf\<close> case only) and the loading of their tracepoints.
  The eBPF library is third-party code: whether an object loads, a program exists, loads and attaches
  or a map is there are parameters, with errors of type \<open>'e\<close>.
\<close>

datatype 'e collector_error =
    Load 'e
  | Btf 'e
  | MissingProgram string
  | Program 'e
  | MissingMap string
  | Map_Error 'e

text \<open>What the library answers for one embedded object.\<close>

record 'e bpf_object =
  bpf_load :: "('e, unit) result"
  bpf_btf :: "('e, unit) result"
  bpf_program :: "string \<Rightarrow> ('e, unit) result option"
  bpf_program_load :: "string \<Rightarrow> ('e, unit) result"
  bpf_attach :: "string \<Rightarrow> ('e, unit) result"
  bpf_map :: "string \<Rightarrow> ('e, unit) result option"

text \<open>\<open>load_tracepoint\<close> and \<open>load_btf_tracepoint\<close>: look the program up and convert it, load it, attach it.\<close>

definition load_tracepoint :: "'e bpf_object \<Rightarrow> string \<Rightarrow> ('e collector_error, unit) result" where
  "load_tracepoint bpf program_name =
     and_then (ok_or (MissingProgram program_name) (bpf_program bpf program_name)) (\<lambda>conversion.
     and_then (map_err Program conversion) (\<lambda>_.
     and_then (map_err Program (bpf_program_load bpf program_name)) (\<lambda>_.
     map_err Program (bpf_attach bpf program_name))))"

text \<open>\<open>take_map(name).ok_or(MissingMap(name))?.try_into()?\<close>.\<close>

definition take_map :: "'e bpf_object \<Rightarrow> string \<Rightarrow> ('e collector_error, unit) result" where
  "take_map bpf name =
     and_then (ok_or (MissingMap name) (bpf_map bpf name)) (\<lambda>conversion. map_err Map_Error conversion)"

lemma load_tracepoint_ok [validate_simps]:
  "load_tracepoint bpf p = Inr () \<longleftrightarrow>
     bpf_program bpf p = Some (Inr ()) \<and> bpf_program_load bpf p = Inr () \<and> bpf_attach bpf p = Inr ()"
  by (auto simp: load_tracepoint_def)

lemma take_map_ok [validate_simps]: "take_map bpf m = Inr () \<longleftrightarrow> bpf_map bpf m = Some (Inr ())"
  by (auto simp: take_map_def)

end
