(* ===== verification/Build_Script.thy ===== *)
theory Build_Script
  imports Local_Config Collector_Error
begin

text \<open>
  The build script of the agent (\<open>talia-agent/build.rs\<close>): which BPF objects it compiles and what it embeds
  when they cannot be built.  The environment and clang's answers are parameters.  The files of
  \<open>OUT_DIR\<close> are a partial map; a compiled object is named by the command that made it.
\<close>

record bpf_source =
  bo_name :: string
  bo_source_path :: string
  bo_object_path :: string

definition bpf_sources :: "string \<Rightarrow> bpf_source list" where
  "bpf_sources out_dir =
     [\<lparr>bo_name = ''CPU'', bo_source_path = ''src/modules/cpu/cpu.bpf.c'',
       bo_object_path = path_join out_dir ''talia_cpu.bpf.o''\<rparr>,
      \<lparr>bo_name = ''network'', bo_source_path = ''src/modules/network/network.bpf.c'',
       bo_object_path = path_join out_dir ''talia_network.bpf.o''\<rparr>,
      \<lparr>bo_name = ''disk I/O'', bo_source_path = ''src/modules/disk_io/disk_io.bpf.c'',
       bo_object_path = path_join out_dir ''talia_disk_io.bpf.o''\<rparr>]"

record clang_command =
  cl_program :: string
  cl_args :: "string list"

datatype 'io clang_answer = CannotRun 'io | Exited bool

datatype 'io build_error =
    UnsupportedArch string
  | ArchUnreadable
  | ClangNotRun string string 'io
  | ClangFailed string string string

definition target_arch_define :: "(string \<Rightarrow> env_var) \<Rightarrow> ('io build_error, string) result" where
  "target_arch_define env =
     (case env ''CARGO_CFG_TARGET_ARCH'' of
        EnvValue arch \<Rightarrow>
          if arch = ''x86'' \<or> arch = ''x86_64'' then Inr ''__TARGET_ARCH_x86''
          else if arch = ''aarch64'' then Inr ''__TARGET_ARCH_arm64''
          else if arch = ''arm'' then Inr ''__TARGET_ARCH_arm''
          else if arch = ''riscv64'' then Inr ''__TARGET_ARCH_riscv''
          else if arch = ''powerpc64'' then Inr ''__TARGET_ARCH_powerpc''
          else if arch = ''s390x'' then Inr ''__TARGET_ARCH_s390''
          else if arch = ''loongarch64'' then Inr ''__TARGET_ARCH_loongarch''
          else Inl (UnsupportedArch arch)
      | _ \<Rightarrow> Inl ArchUnreadable)"

definition bpf_build_required :: "(string \<Rightarrow> env_var) \<Rightarrow> bool" where
  "bpf_build_required env =
     (case env ''TALIA_AGENT_REQUIRE_BPF'' of
        EnvValue v \<Rightarrow> v \<in> {''1'', ''true'', ''TRUE'', ''yes'', ''on''}
      | _ \<Rightarrow> False)"

definition clang_program :: "(string \<Rightarrow> env_var) \<Rightarrow> string" where
  "clang_program env = (case env ''CLANG'' of EnvValue v \<Rightarrow> v | _ \<Rightarrow> ''clang'')"

definition clang_invocation :: "string \<Rightarrow> string \<Rightarrow> bpf_source \<Rightarrow> clang_command" where
  "clang_invocation clang target_arch object =
     \<lparr>cl_program = clang,
      cl_args = [''-O2'', ''-g'', ''-target'', ''bpf'', ''-Wall'', ''-Werror'', ''-Wno-missing-declarations'',
         ''-Isrc/bpf'', ''-c'', ''-D'' @ target_arch, bo_source_path object, ''-o'', bo_object_path object]\<rparr>"

text \<open>The contents of an object file; a failing clang may leave anything, which is written over or the build
  has ended.\<close>

datatype object_file = CompiledBy clang_command | EmptyObject

record build_state =
  bd_files :: "string \<Rightarrow> object_file option"
  bd_warnings :: "string list"

definition compile_bpf_object ::
    "(string \<Rightarrow> env_var) \<Rightarrow> (clang_command \<Rightarrow> 'io clang_answer) \<Rightarrow> bpf_source \<Rightarrow> build_state \<Rightarrow>
     build_state \<times> ('io build_error, unit) result" where
  "compile_bpf_object env clang object st =
     (case target_arch_define env of
        Inl e \<Rightarrow> (st, Inl e)
      | Inr target_arch \<Rightarrow>
          (let invocation = clang_invocation (clang_program env) target_arch object in
           case clang invocation of
             CannotRun e \<Rightarrow> (st, Inl (ClangNotRun (clang_program env) (bo_name object) e))
           | Exited success \<Rightarrow>
               if \<not> success
               then (st, Inl (ClangFailed (clang_program env) (bo_source_path object) (bo_object_path object)))
               else (st\<lparr>bd_files := (bd_files st)(bo_object_path object \<mapsto> CompiledBy invocation)\<rparr>, Inr ())))"

text \<open>How the script ends: it finishes, or panics with the message of an error, on a missing \<open>OUT_DIR\<close> or
  on a placeholder that cannot be written.\<close>

datatype 'io build_end = Finished | Panicked "'io build_error" | NoOutDir | PlaceholderUnwritable string

definition write_placeholder_bpf_object :: "(string \<Rightarrow> bool) \<Rightarrow> string \<Rightarrow> build_state \<Rightarrow> build_state \<times> 'io build_end" where
  "write_placeholder_bpf_object writable object_path st =
     (if writable object_path
      then (st\<lparr>bd_files := (bd_files st)(object_path \<mapsto> EmptyObject)\<rparr>, Finished)
      else (st, PlaceholderUnwritable object_path))"

fun write_placeholders :: "(string \<Rightarrow> bool) \<Rightarrow> bpf_source list \<Rightarrow> build_state \<Rightarrow> build_state \<times> 'io build_end" where
  "write_placeholders writable [] st = (st, Finished)"
| "write_placeholders writable (object # objects) st =
     (case write_placeholder_bpf_object writable (bo_object_path object) st of
        (st', Finished) \<Rightarrow> write_placeholders writable objects st'
      | (st', stop) \<Rightarrow> (st', stop))"

fun build_objects ::
    "(string \<Rightarrow> env_var) \<Rightarrow> (clang_command \<Rightarrow> 'io clang_answer) \<Rightarrow> (string \<Rightarrow> bool) \<Rightarrow> bpf_source list \<Rightarrow> build_state \<Rightarrow>
     build_state \<times> 'io build_end" where
  "build_objects env clang writable [] st = (st, Finished)"
| "build_objects env clang writable (object # objects) st =
     (case compile_bpf_object env clang object st of
        (st', Inr _) \<Rightarrow> build_objects env clang writable objects st'
      | (st', Inl error) \<Rightarrow>
          if bpf_build_required env then (st', Panicked error)
          else
            (case write_placeholder_bpf_object writable (bo_object_path object)
                    (st'\<lparr>bd_warnings := bd_warnings st' @ [bo_name object]\<rparr>) of
               (st'', Finished) \<Rightarrow> build_objects env clang writable objects st''
             | (st'', stop) \<Rightarrow> (st'', stop)))"

definition build_main ::
    "(string \<Rightarrow> env_var) \<Rightarrow> (clang_command \<Rightarrow> 'io clang_answer) \<Rightarrow> (string \<Rightarrow> bool) \<Rightarrow> build_state \<Rightarrow>
     build_state \<times> 'io build_end" where
  "build_main env clang writable st =
     (case env ''OUT_DIR'' of
        EnvValue out_dir \<Rightarrow>
          (let objects = bpf_sources out_dir in
           if env ''CARGO_CFG_TARGET_OS'' \<noteq> EnvValue ''linux'' then write_placeholders writable objects st
           else build_objects env clang writable objects st)
      | _ \<Rightarrow> (st, NoOutDir))"

section \<open>Facts\<close>

text \<open>A source compiles when the architecture is known and clang succeeds on its command.\<close>

definition compiles :: "(string \<Rightarrow> env_var) \<Rightarrow> (clang_command \<Rightarrow> 'io clang_answer) \<Rightarrow> bpf_source \<Rightarrow> clang_command \<Rightarrow> bool" where
  "compiles env clang object invocation \<longleftrightarrow>
     (\<exists>arch. target_arch_define env = (Inr arch :: ('io build_error, string) result) \<and>
        invocation = clang_invocation (clang_program env) arch object \<and> clang invocation = Exited True)"

lemma compile_cases:
  obtains invocation where "compiles env clang object invocation"
    "compile_bpf_object env clang object st =
       (st\<lparr>bd_files := (bd_files st)(bo_object_path object \<mapsto> CompiledBy invocation)\<rparr>, Inr ())"
  | e where "\<nexists>invocation. compiles env clang object invocation" "compile_bpf_object env clang object st = (st, Inl e)"
proof (cases "\<exists>invocation. compiles env clang object invocation")
  case True
  then show ?thesis by (auto simp: compiles_def compile_bpf_object_def Let_def intro: that(1))
next
  case False
  then have "\<exists>e. compile_bpf_object env clang object st = (st, Inl e)"
    by (auto simp: compiles_def compile_bpf_object_def Let_def split: sum.splits clang_answer.splits)
  with False that(2) show ?thesis by blast
qed

text \<open>The object a finished build leaves for a source.\<close>

definition object_of :: "(string \<Rightarrow> env_var) \<Rightarrow> (clang_command \<Rightarrow> 'io clang_answer) \<Rightarrow> bpf_source \<Rightarrow> object_file" where
  "object_of env clang object =
     (case target_arch_define env :: ('io build_error, string) result of
        Inl _ \<Rightarrow> EmptyObject
      | Inr arch \<Rightarrow>
          (let invocation = clang_invocation (clang_program env) arch object in
           case clang invocation of Exited True \<Rightarrow> CompiledBy invocation | _ \<Rightarrow> EmptyObject))"

lemma object_of_compiles: "compiles env clang object invocation \<Longrightarrow> object_of env clang object = CompiledBy invocation"
  by (auto simp: compiles_def object_of_def Let_def)

lemma object_of_fails: "\<nexists>invocation. compiles env clang object invocation \<Longrightarrow> object_of env clang object = EmptyObject"
  by (auto simp: compiles_def object_of_def Let_def split: sum.splits clang_answer.splits bool.splits)

lemma object_of_empty_iff: "object_of env clang object = EmptyObject \<longleftrightarrow> (\<nexists>invocation. compiles env clang object invocation)"
  using object_of_compiles object_of_fails by (metis object_file.distinct(1))

fun put_objects :: "(bpf_source \<Rightarrow> object_file) \<Rightarrow> bpf_source list \<Rightarrow> (string \<Rightarrow> object_file option) \<Rightarrow> string \<Rightarrow> object_file option" where
  "put_objects f [] files = files"
| "put_objects f (object # objects) files = put_objects f objects (files(bo_object_path object \<mapsto> f object))"

lemma put_objects_other: "p \<notin> bo_object_path ` set objects \<Longrightarrow> put_objects f objects files p = files p"
  by (induction objects arbitrary: files) auto

lemma put_objects_at:
  "distinct (map bo_object_path objects) \<Longrightarrow> object \<in> set objects \<Longrightarrow>
     put_objects f objects files (bo_object_path object) = Some (f object)"
  by (induction objects arbitrary: files) (auto simp: put_objects_other)

lemma placeholders_written:
  "\<forall>object\<in>set objects. writable (bo_object_path object) \<Longrightarrow>
     write_placeholders writable objects st = (st\<lparr>bd_files := put_objects (\<lambda>_. EmptyObject) objects (bd_files st)\<rparr>, Finished)"
  by (induction objects arbitrary: st) (auto simp: write_placeholder_bpf_object_def)

lemma objects_built:
  assumes "\<not> bpf_build_required env" "\<forall>object\<in>set objects. writable (bo_object_path object)"
  shows "build_objects env clang writable objects st =
    (st\<lparr>bd_files := put_objects (object_of env clang) objects (bd_files st),
        bd_warnings := bd_warnings st @ map bo_name (filter (\<lambda>object. object_of env clang object = EmptyObject) objects)\<rparr>,
     Finished)"
  using assms(2)
proof (induction objects arbitrary: st)
  case (Cons object objects)
  show ?case
  proof (cases rule: compile_cases [of env clang object st])
    case (1 invocation)
    with Cons show ?thesis by (simp add: object_of_compiles)
  next
    case (2 e)
    with Cons assms(1) show ?thesis by (simp add: object_of_fails write_placeholder_bpf_object_def)
  qed
qed simp

lemma required_objects_built:
  assumes "bpf_build_required env"
  shows "snd (build_objects env clang writable objects st) = Finished \<longleftrightarrow>
    (\<forall>object\<in>set objects. \<exists>invocation. compiles env clang object invocation)"
    and "snd (build_objects env clang writable objects st) = Finished \<Longrightarrow>
      fst (build_objects env clang writable objects st) =
        st\<lparr>bd_files := put_objects (object_of env clang) objects (bd_files st)\<rparr>"
proof (induction objects arbitrary: st)
  case (Cons object objects)
  {
    case 1
    show ?case using Cons assms by (cases rule: compile_cases [of env clang object st]) auto
  next
    case 2
    then show ?case
      using Cons assms by (cases rule: compile_cases [of env clang object st]) (auto simp: object_of_compiles)
  }
qed simp_all

lemma path_join_cancel: "path_join dir a = path_join dir b \<longleftrightarrow> a = b"
  by (simp add: path_join_def)

lemma object_paths_distinct: "distinct (map bo_object_path (bpf_sources out_dir))"
  by (simp add: bpf_sources_def path_join_cancel)

section \<open>Properties\<close>

text \<open>C25: Every build for Linux that finishes has, for each of the three objects, what clang made of its source
  or the empty placeholder, the placeholder exactly where the source does not compile and with a warning
  that names it; with \<open>TALIA_AGENT_REQUIRE_BPF\<close> set it finishes exactly when all three compile, and
  without it always, as long as the output directory can be written.\<close>

theorem build_embeds_compiled_or_placeholder:
  assumes "env ''OUT_DIR'' = EnvValue out_dir" "env ''CARGO_CFG_TARGET_OS'' = EnvValue ''linux''"
    and "\<forall>object\<in>set (bpf_sources out_dir). writable (bo_object_path object)"
    and "build_main env clang writable st = (st', end_state)"
  shows "(end_state = Finished \<longleftrightarrow>
      (bpf_build_required env \<longrightarrow> (\<forall>object\<in>set (bpf_sources out_dir). \<exists>invocation. compiles env clang object invocation))) \<and>
    (end_state = Finished \<longrightarrow>
      (\<forall>object\<in>set (bpf_sources out_dir).
         bd_files st' (bo_object_path object) = Some (object_of env clang object) \<and>
         (object_of env clang object = EmptyObject \<longleftrightarrow> (\<nexists>invocation. compiles env clang object invocation))) \<and>
      bd_warnings st' = bd_warnings st @
        map bo_name (filter (\<lambda>object. object_of env clang object = EmptyObject) (bpf_sources out_dir)))"
proof -
  have b: "build_objects env clang writable (bpf_sources out_dir) st = (st', end_state)"
    using assms by (simp add: build_main_def)
  show ?thesis
  proof (cases "bpf_build_required env")
    case True
    have "filter (\<lambda>object. object_of env clang object = EmptyObject) (bpf_sources out_dir) = []"
      if "\<forall>object\<in>set (bpf_sources out_dir). \<exists>invocation. compiles env clang object invocation"
      using that by (auto simp: filter_empty_conv object_of_empty_iff)
    with True required_objects_built [OF True, of clang writable "bpf_sources out_dir" st] b show ?thesis
      by (auto simp: put_objects_at [OF object_paths_distinct] object_of_empty_iff)
  next
    case False
    with objects_built [OF False assms(3), of clang st] b show ?thesis
      by (auto simp: put_objects_at [OF object_paths_distinct] object_of_empty_iff)
  qed
qed

definition demo_build_env :: "string \<Rightarrow> env_var" where
  "demo_build_env name =
     (if name = ''OUT_DIR'' then EnvValue ''/out'' else if name = ''CARGO_CFG_TARGET_OS'' then EnvValue ''linux''
      else if name = ''CARGO_CFG_TARGET_ARCH'' then EnvValue ''mips'' else NotPresent)"

lemma build_embeds_compiled_or_placeholder_witness:
  "bd_warnings (fst (build_main demo_build_env (\<lambda>_. Exited True :: io_error clang_answer) (\<lambda>_. True)
     \<lparr>bd_files = Map.empty, bd_warnings = []\<rparr>)) = [''CPU'', ''network'', ''disk I/O'']"
proof -
  let ?st = "\<lparr>bd_files = Map.empty, bd_warnings = []\<rparr>"
  let ?run = "build_main demo_build_env (\<lambda>_. Exited True :: io_error clang_answer) (\<lambda>_. True) ?st"
  have e: "demo_build_env ''OUT_DIR'' = EnvValue ''/out''" "demo_build_env ''CARGO_CFG_TARGET_OS'' = EnvValue ''linux''"
    "\<not> bpf_build_required demo_build_env"
    by (simp_all add: demo_build_env_def bpf_build_required_def)
  have "object_of demo_build_env (\<lambda>_. Exited True :: io_error clang_answer) object = EmptyObject" for object
    by (simp add: object_of_def target_arch_define_def demo_build_env_def)
  then show ?thesis
    using build_embeds_compiled_or_placeholder [OF e(1,2) _ prod.collapse [symmetric], of "\<lambda>_. True" "\<lambda>_. Exited True :: io_error clang_answer" ?st] e(3)
    by (simp add: bpf_sources_def)
qed

end
