(* ===== verification/Json.thy ===== *)
theory Json
  imports Rust_Std Ordered_Map Rust_Float "HOL-Library.Sublist"
begin

text \<open>
  JSON values as \<open>serde_json::Value\<close> has them: numbers are kept as unsigned, negative or floating, an
  object is an ordered map.  Besides the accessors the source calls there are the decoders that
  \<open>#[derive(Deserialize)]\<close> gives for the field types of the configuration, with their defaults, and the
  objects \<open>#[derive(Serialize)]\<close> writes.
\<close>

datatype json =
    JsonNull
  | JsonBool bool
  | JsonU64 u64
  | JsonNegative int
  | JsonFloat f64
  | JsonString string
  | JsonArray "json list"
  | JsonObject "(string, json) btree"

definition json_get :: "json \<Rightarrow> string \<Rightarrow> json option" where
  "json_get j k = (case j of JsonObject kvs \<Rightarrow> bt_get kvs k | _ \<Rightarrow> None)"

definition json_as_u64 :: "json \<Rightarrow> u64 option" where
  "json_as_u64 j = (case j of JsonU64 n \<Rightarrow> Some n | _ \<Rightarrow> None)"

definition json_as_str :: "json \<Rightarrow> string option" where
  "json_as_str j = (case j of JsonString s \<Rightarrow> Some s | _ \<Rightarrow> None)"

definition json_as_bool :: "json \<Rightarrow> bool option" where
  "json_as_bool j = (case j of JsonBool b \<Rightarrow> Some b | _ \<Rightarrow> None)"

definition json_as_strings :: "json \<Rightarrow> string list option" where
  "json_as_strings j = (case j of JsonArray xs \<Rightarrow> those (map json_as_str xs) | _ \<Rightarrow> None)"

definition json_object :: "(string \<times> json) list \<Rightarrow> json" where
  "json_object kvs = JsonObject (fold (\<lambda>(k, v). bt_insert k v) kvs [])"

section \<open>Derived decoders\<close>

text \<open>A struct of \<open>n\<close> fields is read from an object, by name, or from an array of at most \<open>n\<close> elements, by
  position.\<close>

definition struct_shape :: "nat \<Rightarrow> json \<Rightarrow> bool" where
  "struct_shape n j = (case j of JsonObject _ \<Rightarrow> True | JsonArray xs \<Rightarrow> length xs \<le> n | _ \<Rightarrow> False)"

definition struct_field :: "json \<Rightarrow> nat \<Rightarrow> string \<Rightarrow> json option" where
  "struct_field j i name =
     (case j of
        JsonObject kvs \<Rightarrow> bt_get kvs name
      | JsonArray xs \<Rightarrow> if i < length xs then Some (xs ! i) else None
      | _ \<Rightarrow> None)"

definition required :: "(json \<Rightarrow> 'a option) \<Rightarrow> json option \<Rightarrow> 'a option" where
  "required decode field = Option.bind field decode"

definition defaulted :: "(json \<Rightarrow> 'a option) \<Rightarrow> 'a \<Rightarrow> json option \<Rightarrow> 'a option" where
  "defaulted decode default_value field = (case field of None \<Rightarrow> Some default_value | Some j \<Rightarrow> decode j)"

text \<open>Without defaults an array has to hold exactly the \<open>n\<close> fields.\<close>

definition variant_shape :: "nat \<Rightarrow> json \<Rightarrow> bool" where
  "variant_shape n j = (case j of JsonObject _ \<Rightarrow> True | JsonArray xs \<Rightarrow> length xs = n | _ \<Rightarrow> False)"

text \<open>An \<open>Option\<close> field may be missing or null.\<close>

definition optional :: "(json \<Rightarrow> 'a option) \<Rightarrow> json option \<Rightarrow> 'a option option" where
  "optional decode field =
     (case field of
        None \<Rightarrow> Some None
      | Some JsonNull \<Rightarrow> Some None
      | Some j \<Rightarrow> map_option Some (decode j))"

text \<open>A map from strings, in the order of its keys.\<close>

fun decode_entries :: "(json \<Rightarrow> 'a option) \<Rightarrow> (string \<times> json) list \<Rightarrow> (string \<times> 'a) list option" where
  "decode_entries decode [] = Some []"
| "decode_entries decode ((k, v) # rest) =
     Option.bind (decode v) (\<lambda>x. Option.bind (decode_entries decode rest) (\<lambda>xs. Some ((k, x) # xs)))"

definition json_as_map :: "(json \<Rightarrow> 'a option) \<Rightarrow> json \<Rightarrow> (string, 'a) btree option" where
  "json_as_map decode j = (case j of JsonObject kvs \<Rightarrow> decode_entries decode kvs | _ \<Rightarrow> None)"

section \<open>Updating along a path\<close>

datatype 'a path_error = NotAnObject | NoSuchField "string list" | UpdateFailed 'a

fun json_update :: "string list \<Rightarrow> (json \<Rightarrow> ('a, json) result) \<Rightarrow> json \<Rightarrow> ('a path_error, json) result" where
  "json_update [] f target = map_err UpdateFailed (f target)"
| "json_update (field # fields) f target =
     (case target of
        JsonObject table \<Rightarrow>
          (case bt_get table field of
             None \<Rightarrow> Inl (NoSuchField (bt_keys table))
           | Some inner \<Rightarrow>
               and_then (json_update fields f inner) (\<lambda>inner'. Inr (JsonObject (bt_insert field inner' table))))
      | _ \<Rightarrow> Inl NotAnObject)"

fun json_at :: "string list \<Rightarrow> json \<Rightarrow> json option" where
  "json_at [] j = Some j"
| "json_at (field # fields) j = Option.bind (json_get j field) (json_at fields)"

section \<open>Facts\<close>

lemma json_get_object [simp]: "json_get (JsonObject kvs) k = bt_get kvs k"
  by (simp add: json_get_def)

lemma json_as_simps [simp]:
  "json_as_u64 (JsonU64 n) = Some n" "json_as_str (JsonString s) = Some s" "json_as_bool (JsonBool b) = Some b"
  by (simp_all add: json_as_u64_def json_as_str_def json_as_bool_def)

lemma those_strings [simp]: "those (map (json_as_str \<circ> JsonString) xs) = Some xs"
  by (induction xs) simp_all

lemma json_as_strings_array [simp]: "json_as_strings (JsonArray (map JsonString xs)) = Some xs"
  by (simp add: json_as_strings_def)

lemma bt_get_fold_insert:
  "distinct (map fst kvs) \<Longrightarrow>
     bt_get (fold (\<lambda>(k, v). bt_insert k v) kvs m) k =
       (case map_of kvs k of None \<Rightarrow> bt_get m k | Some v \<Rightarrow> Some v)"
proof (induction kvs arbitrary: m)
  case Nil
  then show ?case by simp
next
  case (Cons kv kvs)
  obtain a b where kv: "kv = (a, b)" by fastforce
  have "map_of kvs a = None" using Cons.prems kv by (simp add: map_of_eq_None_iff)
  then show ?case using Cons kv by (auto split: option.splits)
qed

lemma json_get_json_object: "distinct (map fst kvs) \<Longrightarrow> json_get (json_object kvs) k = map_of kvs k"
  by (simp add: json_object_def bt_get_fold_insert split: option.splits)

lemma struct_json_object:
  "struct_shape n (json_object kvs)"
  "distinct (map fst kvs) \<Longrightarrow> struct_field (json_object kvs) i k = map_of kvs k"
  by (simp_all add: json_object_def struct_shape_def struct_field_def bt_get_fold_insert split: option.splits)

lemma required_simps [simp]: "required d (Some j) = d j" "required d None = None"
  by (simp_all add: required_def)

lemma defaulted_simps [simp]: "defaulted d v (Some j) = d j" "defaulted d v None = Some v"
  by (simp_all add: defaulted_def)

lemma variant_shape_json_object [simp]: "variant_shape n (json_object kvs)"
  by (simp add: variant_shape_def json_object_def)

lemma optional_simps [simp]:
  "optional d None = Some None" "optional d (Some JsonNull) = Some None"
  by (simp_all add: optional_def)

text \<open>A field with a default and the same field as an option: the default fills in.\<close>

lemma defaulted_optional:
  assumes "defaulted d v f = Some x" "d JsonNull = None"
  shows "\<exists>y. optional d f = Some y \<and> x = (case y of None \<Rightarrow> v | Some z \<Rightarrow> z)"
proof (cases f)
  case None
  then show ?thesis using assms by simp
next
  case (Some j)
  then show ?thesis using assms by (cases j) (auto simp: optional_def)
qed

lemma scalars_not_null [simp]:
  "json_as_u64 JsonNull = None" "json_as_str JsonNull = None" "json_as_bool JsonNull = None"
  "json_as_strings JsonNull = None"
  by (simp_all add: json_as_u64_def json_as_str_def json_as_bool_def json_as_strings_def)

text \<open>What an update along a path leaves and what it changes.\<close>

lemma json_update_other:
  "json_update (field # fields) f j = Inr j' \<Longrightarrow> k \<noteq> field \<Longrightarrow> json_get j' k = json_get j k"
  by (auto split: json.splits option.splits)

lemma json_update_object:
  "json_update (field # fields) f j = Inr j' \<Longrightarrow> \<exists>table. j' = JsonObject table"
  by (auto split: json.splits option.splits)

lemma json_update_at:
  "json_update fields f j = Inr j' \<Longrightarrow>
     \<exists>old new. json_at fields j = Some old \<and> f old = Inr new \<and> json_at fields j' = Some new"
proof (induction fields arbitrary: j j')
  case Nil
  then show ?case by auto
next
  case (Cons field fields)
  from Cons.prems obtain table inner inner' where j: "j = JsonObject table" "bt_get table field = Some inner"
    "json_update fields f inner = Inr inner'" "j' = JsonObject (bt_insert field inner' table)"
    by (auto split: json.splits option.splits)
  with Cons.IH show ?case by auto
qed

lemma json_update_elsewhere:
  "json_update path f j = Inr j' \<Longrightarrow> \<not> prefix path q \<Longrightarrow> \<not> prefix q path \<Longrightarrow> json_at q j' = json_at q j"
proof (induction path arbitrary: j j' q)
  case Nil
  then show ?case by simp
next
  case (Cons field path)
  from Cons.prems(1) obtain table inner inner' where j: "j = JsonObject table" "bt_get table field = Some inner"
    "json_update path f inner = Inr inner'" "j' = JsonObject (bt_insert field inner' table)"
    by (auto split: json.splits option.splits)
  obtain k ks where q: "q = k # ks" using Cons.prems(3) by (cases q) auto
  show ?case
  proof (cases "k = field")
    case True
    then show ?thesis using Cons.IH [OF j(3), of ks] Cons.prems(2,3) q j by auto
  next
    case False
    then show ?thesis using q j by simp
  qed
qed

end
