(* ===== verification/Config_Json.thy ===== *)
theory Config_Json
  imports Json Config_Sections
begin

text \<open>
  The JSON form of a runtime configuration, as the \<open>Serialize\<close> and \<open>Deserialize\<close> derivations of the
  structs in \<open>talia-core/src/config.rs\<close> define it: the field names, the defaults of missing fields and
  the alias of the TCP section.  Unknown fields are ignored.  Writing a configuration and reading it
  back gives the configuration.
\<close>

section \<open>Writing\<close>

definition agent_settings_to_value :: "agent_runtime_settings \<Rightarrow> json" where
  "agent_settings_to_value s =
     json_object [(''config_poll_interval_seconds'', JsonU64 (config_poll_interval_seconds s)),
                  (''heartbeat_interval_seconds'', JsonU64 (heartbeat_interval_seconds s))]"

definition storage_to_value :: "storage_config \<Rightarrow> json" where
  "storage_to_value s =
     json_object [(''enabled'', JsonBool (storage_enabled s)),
                  (''interval_seconds'', JsonU64 (storage_interval_seconds s)),
                  (''mounts'', JsonArray (map JsonString (storage_mounts s)))]"

definition scheduled_to_value :: "bool \<Rightarrow> u64 \<Rightarrow> json" where
  "scheduled_to_value enabled interval_seconds =
     json_object [(''enabled'', JsonBool enabled), (''interval_seconds'', JsonU64 interval_seconds)]"

definition memory_to_value :: "memory_config \<Rightarrow> json" where
  "memory_to_value c = scheduled_to_value (memory_enabled c) (memory_interval_seconds c)"

definition cpu_to_value :: "cpu_config \<Rightarrow> json" where
  "cpu_to_value c = scheduled_to_value (cpu_enabled c) (cpu_interval_seconds c)"

definition network_to_value :: "network_config \<Rightarrow> json" where
  "network_to_value c = scheduled_to_value (network_enabled c) (network_interval_seconds c)"

definition disk_io_to_value :: "disk_io_config \<Rightarrow> json" where
  "disk_io_to_value c = scheduled_to_value (disk_io_enabled c) (disk_io_interval_seconds c)"

definition tcp_to_value :: "tcp_config \<Rightarrow> json" where
  "tcp_to_value c = scheduled_to_value (tcp_enabled c) (tcp_interval_seconds c)"

definition pod_discovery_to_value :: "pod_discovery_config \<Rightarrow> json" where
  "pod_discovery_to_value p = json_object [(''cri_socket'', JsonString (cri_socket p))]"

definition runtime_to_value :: "agent_runtime_config \<Rightarrow> json" where
  "runtime_to_value c =
     json_object
       [(''version'', JsonString (cfg_version c)),
        (''agent'', agent_settings_to_value (cfg_agent c)),
        (''storage'', storage_to_value (cfg_storage c)),
        (''memory'', memory_to_value (cfg_memory c)),
        (''cpu'', cpu_to_value (cfg_cpu c)),
        (''network'', network_to_value (cfg_network c)),
        (''disk_io'', disk_io_to_value (cfg_disk_io c)),
        (''pod_discovery'', pod_discovery_to_value (cfg_pod_discovery c)),
        (''tcp'', tcp_to_value (cfg_tcp c))]"

section \<open>Reading\<close>

definition agent_settings_from_value :: "json \<Rightarrow> agent_runtime_settings option" where
  "agent_settings_from_value j =
     (if \<not> struct_shape 2 j then None
      else
        Option.bind (defaulted json_as_u64 default_config_poll_interval_seconds
            (struct_field j 0 ''config_poll_interval_seconds'')) (\<lambda>poll.
        Option.bind (defaulted json_as_u64 default_heartbeat_interval_seconds
            (struct_field j 1 ''heartbeat_interval_seconds'')) (\<lambda>beat.
          Some \<lparr>config_poll_interval_seconds = poll, heartbeat_interval_seconds = beat\<rparr>)))"

definition storage_from_value :: "json \<Rightarrow> storage_config option" where
  "storage_from_value j =
     (if \<not> struct_shape 3 j then None
      else
        Option.bind (defaulted json_as_bool True (struct_field j 0 ''enabled'')) (\<lambda>enabled.
        Option.bind (defaulted json_as_u64 default_storage_interval_seconds
            (struct_field j 1 ''interval_seconds'')) (\<lambda>interval_seconds.
        Option.bind (defaulted json_as_strings default_storage_mounts (struct_field j 2 ''mounts'')) (\<lambda>mounts.
          Some \<lparr>storage_enabled = enabled, storage_interval_seconds = interval_seconds,
                storage_mounts = mounts\<rparr>))))"

definition scheduled_from_value :: "bool \<Rightarrow> u64 \<Rightarrow> json \<Rightarrow> (bool \<times> u64) option" where
  "scheduled_from_value default_enabled default_interval j =
     (if \<not> struct_shape 2 j then None
      else
        Option.bind (defaulted json_as_bool default_enabled (struct_field j 0 ''enabled'')) (\<lambda>enabled.
        Option.bind (defaulted json_as_u64 default_interval (struct_field j 1 ''interval_seconds'')) (\<lambda>interval_seconds.
          Some (enabled, interval_seconds))))"

definition memory_from_value :: "json \<Rightarrow> memory_config option" where
  "memory_from_value j =
     map_option (\<lambda>(enabled, interval_seconds).
         \<lparr>memory_enabled = enabled, memory_interval_seconds = interval_seconds\<rparr>)
       (scheduled_from_value True default_memory_interval_seconds j)"

definition cpu_from_value :: "json \<Rightarrow> cpu_config option" where
  "cpu_from_value j =
     map_option (\<lambda>(enabled, interval_seconds).
         \<lparr>cpu_enabled = enabled, cpu_interval_seconds = interval_seconds\<rparr>)
       (scheduled_from_value False default_cpu_interval_seconds j)"

definition network_from_value :: "json \<Rightarrow> network_config option" where
  "network_from_value j =
     map_option (\<lambda>(enabled, interval_seconds).
         \<lparr>network_enabled = enabled, network_interval_seconds = interval_seconds\<rparr>)
       (scheduled_from_value False default_network_interval_seconds j)"

definition disk_io_from_value :: "json \<Rightarrow> disk_io_config option" where
  "disk_io_from_value j =
     map_option (\<lambda>(enabled, interval_seconds).
         \<lparr>disk_io_enabled = enabled, disk_io_interval_seconds = interval_seconds\<rparr>)
       (scheduled_from_value False default_disk_io_interval_seconds j)"

definition tcp_from_value :: "json \<Rightarrow> tcp_config option" where
  "tcp_from_value j =
     map_option (\<lambda>(enabled, interval_seconds).
         \<lparr>tcp_enabled = enabled, tcp_interval_seconds = interval_seconds\<rparr>)
       (scheduled_from_value False default_tcp_interval_seconds j)"

definition pod_discovery_from_value :: "json \<Rightarrow> pod_discovery_config option" where
  "pod_discovery_from_value j =
     (if \<not> struct_shape 1 j then None
      else
        Option.bind (defaulted json_as_str default_pod_discovery_cri_socket (struct_field j 0 ''cri_socket'')) (\<lambda>socket.
          Some \<lparr>cri_socket = socket\<rparr>))"

text \<open>The TCP section may be written under its old name, but not under both.\<close>

definition tcp_field :: "json \<Rightarrow> (string, json option) result" where
  "tcp_field j =
     (case (struct_field j 8 ''tcp'', json_get j ''tcp_pod_retrans'') of
        (Some _, Some _) \<Rightarrow> Inl ''duplicate field `tcp`''
      | (Some v, None) \<Rightarrow> Inr (Some v)
      | (None, alias) \<Rightarrow> Inr alias)"

definition runtime_from_value :: "json \<Rightarrow> agent_runtime_config option" where
  "runtime_from_value j =
     (if \<not> struct_shape 9 j then None
      else
        Option.bind (required json_as_str (struct_field j 0 ''version'')) (\<lambda>version.
        Option.bind (defaulted agent_settings_from_value agent_settings_default (struct_field j 1 ''agent'')) (\<lambda>agent.
        Option.bind (defaulted storage_from_value storage_default (struct_field j 2 ''storage'')) (\<lambda>storage.
        Option.bind (defaulted memory_from_value memory_default (struct_field j 3 ''memory'')) (\<lambda>memory.
        Option.bind (defaulted cpu_from_value cpu_default (struct_field j 4 ''cpu'')) (\<lambda>cpu.
        Option.bind (defaulted network_from_value network_default (struct_field j 5 ''network'')) (\<lambda>network.
        Option.bind (defaulted disk_io_from_value disk_io_default (struct_field j 6 ''disk_io'')) (\<lambda>disk_io.
        Option.bind (defaulted pod_discovery_from_value pod_discovery_default (struct_field j 7 ''pod_discovery'')) (\<lambda>pods.
        Option.bind (res_ok (tcp_field j)) (\<lambda>tcp_value.
        Option.bind (defaulted tcp_from_value tcp_default tcp_value) (\<lambda>tcp.
          Some \<lparr>cfg_version = version, cfg_agent = agent, cfg_storage = storage, cfg_memory = memory,
                cfg_cpu = cpu, cfg_network = network, cfg_disk_io = disk_io,
                cfg_pod_discovery = pods, cfg_tcp = tcp\<rparr>)))))))))))"

section \<open>Reading back\<close>

lemma agent_settings_value [simp]: "agent_settings_from_value (agent_settings_to_value s) = Some s"
  by (simp add: agent_settings_from_value_def agent_settings_to_value_def struct_json_object)

lemma storage_value [simp]: "storage_from_value (storage_to_value s) = Some s"
  by (simp add: storage_from_value_def storage_to_value_def struct_json_object)

lemma scheduled_value [simp]: "scheduled_from_value e i (scheduled_to_value enabled interval) = Some (enabled, interval)"
  by (simp add: scheduled_from_value_def scheduled_to_value_def struct_json_object)

lemma memory_value [simp]: "memory_from_value (memory_to_value c) = Some c"
  by (simp add: memory_from_value_def memory_to_value_def)

lemma cpu_value [simp]: "cpu_from_value (cpu_to_value c) = Some c"
  by (simp add: cpu_from_value_def cpu_to_value_def)

lemma network_value [simp]: "network_from_value (network_to_value c) = Some c"
  by (simp add: network_from_value_def network_to_value_def)

lemma disk_io_value [simp]: "disk_io_from_value (disk_io_to_value c) = Some c"
  by (simp add: disk_io_from_value_def disk_io_to_value_def)

lemma tcp_value [simp]: "tcp_from_value (tcp_to_value c) = Some c"
  by (simp add: tcp_from_value_def tcp_to_value_def)

lemma pod_discovery_value [simp]: "pod_discovery_from_value (pod_discovery_to_value p) = Some p"
  by (simp add: pod_discovery_from_value_def pod_discovery_to_value_def struct_json_object)

lemma runtime_value_fields:
  "json_get (runtime_to_value c) k = map_of
       [(''version'', JsonString (cfg_version c)),
        (''agent'', agent_settings_to_value (cfg_agent c)),
        (''storage'', storage_to_value (cfg_storage c)),
        (''memory'', memory_to_value (cfg_memory c)),
        (''cpu'', cpu_to_value (cfg_cpu c)),
        (''network'', network_to_value (cfg_network c)),
        (''disk_io'', disk_io_to_value (cfg_disk_io c)),
        (''pod_discovery'', pod_discovery_to_value (cfg_pod_discovery c)),
        (''tcp'', tcp_to_value (cfg_tcp c))] k"
  unfolding runtime_to_value_def by (rule json_get_json_object) simp

lemma runtime_value_object: "\<exists>kvs. runtime_to_value c = JsonObject kvs"
  by (simp add: runtime_to_value_def json_object_def)

lemma struct_field_object [simp]: "struct_field (JsonObject kvs) i k = bt_get kvs k"
  by (simp add: struct_field_def)

lemma struct_shape_object [simp]: "struct_shape n (JsonObject kvs)"
  by (simp add: struct_shape_def)

text \<open>What reading an object gives depends on the values of the nine names and the alias only.\<close>

lemma runtime_from_object:
  "runtime_from_value (JsonObject kvs) = Some c \<Longrightarrow>
     required json_as_str (bt_get kvs ''version'') = Some (cfg_version c) \<and>
     defaulted agent_settings_from_value agent_settings_default (bt_get kvs ''agent'') = Some (cfg_agent c) \<and>
     defaulted storage_from_value storage_default (bt_get kvs ''storage'') = Some (cfg_storage c) \<and>
     defaulted memory_from_value memory_default (bt_get kvs ''memory'') = Some (cfg_memory c) \<and>
     defaulted cpu_from_value cpu_default (bt_get kvs ''cpu'') = Some (cfg_cpu c) \<and>
     defaulted network_from_value network_default (bt_get kvs ''network'') = Some (cfg_network c) \<and>
     defaulted disk_io_from_value disk_io_default (bt_get kvs ''disk_io'') = Some (cfg_disk_io c) \<and>
     defaulted pod_discovery_from_value pod_discovery_default (bt_get kvs ''pod_discovery'') = Some (cfg_pod_discovery c) \<and>
     (bt_get kvs ''tcp_pod_retrans'' = None \<longrightarrow>
        defaulted tcp_from_value tcp_default (bt_get kvs ''tcp'') = Some (cfg_tcp c))"
  by (auto simp: runtime_from_value_def bind_eq_Some_conv tcp_field_def split: option.splits)

text \<open>The object in full, in the order of its keys.\<close>

lemma runtime_to_value_object:
  "runtime_to_value c = JsonObject
     [(''agent'', agent_settings_to_value (cfg_agent c)),
      (''cpu'', cpu_to_value (cfg_cpu c)),
      (''disk_io'', disk_io_to_value (cfg_disk_io c)),
      (''memory'', memory_to_value (cfg_memory c)),
      (''network'', network_to_value (cfg_network c)),
      (''pod_discovery'', pod_discovery_to_value (cfg_pod_discovery c)),
      (''storage'', storage_to_value (cfg_storage c)),
      (''tcp'', tcp_to_value (cfg_tcp c)),
      (''version'', JsonString (cfg_version c))]"
  by (simp add: runtime_to_value_def json_object_def)

lemma runtime_from_to_value [simp]: "runtime_from_value (runtime_to_value c) = Some c"
proof -
  obtain kvs where v: "runtime_to_value c = JsonObject kvs" using runtime_value_object by blast
  then have "bt_get kvs k = json_get (runtime_to_value c) k" for k by simp
  note g = this [unfolded runtime_value_fields]
  show ?thesis
    unfolding v by (simp add: runtime_from_value_def g tcp_field_def)
qed

section \<open>Properties\<close>

text \<open>C17: The JSON form loses nothing: every runtime configuration, written as the derived serializer writes
  it and read as the derived deserializer reads it, is itself again, with the list of mounts, the
  version and every flag and interval.\<close>

theorem runtime_json_roundtrip: "runtime_from_value (runtime_to_value c) = Some c"
  by (rule runtime_from_to_value)

end
