(* ===== verification/Memory.thy ===== *)
theory Memory
  imports Pipeline
begin

text \<open>
  Memory pressure (\<open>talia-agent/src/modules/memory/memory.rs\<close> and \<open>provider.rs\<close>): the parsers of
  \<open>/proc/meminfo\<close> and \<open>/proc/vmstat\<close>, the collector with its swap baseline, and the twelve samples of
  a collection.  \<open>read\<close> stands for \<open>fs::read_to_string\<close>, the page size is part of the state.
\<close>

definition MEMINFO_PATH :: string where "MEMINFO_PATH = ''/proc/meminfo''"
definition VMSTAT_PATH :: string where "VMSTAT_PATH = ''/proc/vmstat''"

record memory_sample =
  ms_total_bytes :: u64
  ms_available_bytes :: u64
  ms_used_bytes :: u64
  ms_free_bytes :: u64
  ms_cached_bytes :: u64
  ms_swap_total_bytes :: u64
  ms_swap_free_bytes :: u64
  ms_swap_used_bytes :: u64
  ms_used_ratio :: f64
  ms_swap_used_ratio :: f64
  ms_swap_in_bytes :: u64
  ms_swap_out_bytes :: u64

datatype memory_error =
    ReadProc string io_error
  | MissingMemField string string
  | InvalidField string string string

record mem_info =
  mi_total_bytes :: u64
  mi_available_bytes :: u64
  mi_free_bytes :: u64
  mi_cached_bytes :: u64
  mi_swap_total_bytes :: u64
  mi_swap_free_bytes :: u64

record swap_counters =
  sc_in_pages :: u64
  sc_out_pages :: u64

record memory_collector =
  mc_page_size_bytes :: u64
  mc_previous_swap :: "swap_counters option"

section \<open>Parsing\<close>

text \<open>One line of \<open>parse_kib_fields\<close>: \<open>None\<close> is a skipped line.\<close>

definition kib_line :: "string \<Rightarrow> string \<Rightarrow> (memory_error, (string \<times> u64) option) result" where
  "kib_line path line =
     (case split_once '':'' line of
        None \<Rightarrow> Inr None
      | Some (name, rest) \<Rightarrow>
          (case split_whitespace rest of
             [] \<Rightarrow> Inr None
           | raw_value # _ \<Rightarrow>
               and_then (ok_or (InvalidField path name raw_value) (parse_u64 raw_value)) (\<lambda>value.
                 Inr (Some (name, saturating_mul value 1024)))))"

fun kib_lines :: "string \<Rightarrow> (string, u64) btree \<Rightarrow> string list \<Rightarrow> (memory_error, (string, u64) btree) result" where
  "kib_lines path kvs [] = Inr kvs"
| "kib_lines path kvs (line # ls) =
     and_then (kib_line path line) (\<lambda>entry.
       kib_lines path (case entry of None \<Rightarrow> kvs | Some (name, value) \<Rightarrow> bt_insert name value kvs) ls)"

definition parse_kib_fields :: "string \<Rightarrow> string \<Rightarrow> (memory_error, (string, u64) btree) result" where
  "parse_kib_fields path contents = kib_lines path [] (filter (\<lambda>line. trim line \<noteq> []) (lines contents))"

definition required_field :: "(string, u64) btree \<Rightarrow> string \<Rightarrow> string \<Rightarrow> (memory_error, u64) result" where
  "required_field kvs path field = ok_or (MissingMemField path field) (bt_get kvs field)"

definition parse_meminfo :: "string \<Rightarrow> (memory_error, mem_info) result" where
  "parse_meminfo contents =
     and_then (parse_kib_fields MEMINFO_PATH contents) (\<lambda>kvs.
     and_then (required_field kvs MEMINFO_PATH ''MemTotal'') (\<lambda>total_bytes.
     and_then (required_field kvs MEMINFO_PATH ''MemAvailable'') (\<lambda>available_bytes.
     and_then (required_field kvs MEMINFO_PATH ''MemFree'') (\<lambda>free_bytes.
     and_then (required_field kvs MEMINFO_PATH ''Cached'') (\<lambda>cached.
     let cached_bytes = saturating_add cached
           (case bt_get kvs ''SReclaimable'' of None \<Rightarrow> 0 | Some v \<Rightarrow> v) in
     and_then (required_field kvs MEMINFO_PATH ''SwapTotal'') (\<lambda>swap_total_bytes.
     and_then (required_field kvs MEMINFO_PATH ''SwapFree'') (\<lambda>swap_free_bytes.
       Inr \<lparr>mi_total_bytes = total_bytes, mi_available_bytes = available_bytes,
            mi_free_bytes = free_bytes, mi_cached_bytes = cached_bytes,
            mi_swap_total_bytes = swap_total_bytes, mi_swap_free_bytes = swap_free_bytes\<rparr>)))))))"

fun vmstat_lines ::
    "u64 option \<Rightarrow> u64 option \<Rightarrow> string list \<Rightarrow> (memory_error, u64 option \<times> u64 option) result" where
  "vmstat_lines in_pages out_pages [] = Inr (in_pages, out_pages)"
| "vmstat_lines in_pages out_pages (line # ls) =
     (case split_whitespace line of
        name # raw_value # _ \<Rightarrow>
          if name \<noteq> ''pswpin'' \<and> name \<noteq> ''pswpout'' then vmstat_lines in_pages out_pages ls
          else and_then (ok_or (InvalidField VMSTAT_PATH name raw_value) (parse_u64 raw_value)) (\<lambda>value.
                 if name = ''pswpin'' then vmstat_lines (Some value) out_pages ls
                 else vmstat_lines in_pages (Some value) ls)
      | _ \<Rightarrow> vmstat_lines in_pages out_pages ls)"

definition parse_vmstat_swap :: "string \<Rightarrow> (memory_error, swap_counters) result" where
  "parse_vmstat_swap contents =
     and_then (vmstat_lines None None (filter (\<lambda>line. trim line \<noteq> []) (lines contents))) (\<lambda>(i, out).
     and_then (ok_or (MissingMemField VMSTAT_PATH ''pswpin'') i) (\<lambda>in_pages.
     and_then (ok_or (MissingMemField VMSTAT_PATH ''pswpout'') out) (\<lambda>out_pages.
       Inr \<lparr>sc_in_pages = in_pages, sc_out_pages = out_pages\<rparr>)))"

section \<open>The collector\<close>

definition sample_from_proc :: "mem_info \<Rightarrow> swap_counters \<Rightarrow> swap_counters \<Rightarrow> u64 \<Rightarrow> memory_sample" where
  "sample_from_proc meminfo swap previous_swap page_size_bytes =
     (let used_bytes = saturating_sub (mi_total_bytes meminfo) (mi_available_bytes meminfo);
          swap_used_bytes = saturating_sub (mi_swap_total_bytes meminfo) (mi_swap_free_bytes meminfo)
      in \<lparr>ms_total_bytes = mi_total_bytes meminfo,
          ms_available_bytes = mi_available_bytes meminfo,
          ms_used_bytes = used_bytes,
          ms_free_bytes = mi_free_bytes meminfo,
          ms_cached_bytes = mi_cached_bytes meminfo,
          ms_swap_total_bytes = mi_swap_total_bytes meminfo,
          ms_swap_free_bytes = mi_swap_free_bytes meminfo,
          ms_swap_used_bytes = swap_used_bytes,
          ms_used_ratio = ratio used_bytes (mi_total_bytes meminfo),
          ms_swap_used_ratio = ratio swap_used_bytes (mi_swap_total_bytes meminfo),
          ms_swap_in_bytes =
            saturating_mul (saturating_sub (sc_in_pages swap) (sc_in_pages previous_swap)) page_size_bytes,
          ms_swap_out_bytes =
            saturating_mul (saturating_sub (sc_out_pages swap) (sc_out_pages previous_swap)) page_size_bytes\<rparr>)"

definition read_meminfo :: "(string \<Rightarrow> (io_error, string) result) \<Rightarrow> (memory_error, mem_info) result" where
  "read_meminfo read = and_then (map_err (ReadProc MEMINFO_PATH) (read MEMINFO_PATH)) parse_meminfo"

definition read_vmstat_swap :: "(string \<Rightarrow> (io_error, string) result) \<Rightarrow> (memory_error, swap_counters) result" where
  "read_vmstat_swap read = and_then (map_err (ReadProc VMSTAT_PATH) (read VMSTAT_PATH)) parse_vmstat_swap"

definition memory_collector_new :: "u64 \<Rightarrow> memory_collector" where
  "memory_collector_new page_size = \<lparr>mc_page_size_bytes = page_size, mc_previous_swap = None\<rparr>"

definition memory_collect ::
    "(string \<Rightarrow> (io_error, string) result) \<Rightarrow> memory_collector \<Rightarrow>
     memory_collector \<times> (memory_error, memory_sample) result" where
  "memory_collect read c =
     (case read_meminfo read of
        Inl e \<Rightarrow> (c, Inl e)
      | Inr meminfo \<Rightarrow>
          (case read_vmstat_swap read of
             Inl e \<Rightarrow> (c, Inl e)
           | Inr swap \<Rightarrow>
               (let previous = (case mc_previous_swap c of None \<Rightarrow> swap | Some p \<Rightarrow> p)
                in (c\<lparr>mc_previous_swap := Some swap\<rparr>,
                    Inr (sample_from_proc meminfo swap previous (mc_page_size_bytes c))))))"

section \<open>The provider\<close>

definition MEMORY_USAGE_SAMPLE :: string where
  "MEMORY_USAGE_SAMPLE = ''system.memory.usage''"
definition MEMORY_UTILIZATION_SAMPLE :: string where
  "MEMORY_UTILIZATION_SAMPLE = ''system.memory.utilization''"
definition SWAP_USAGE_SAMPLE :: string where
  "SWAP_USAGE_SAMPLE = ''system.linux.memory.swap.usage''"
definition SWAP_UTILIZATION_SAMPLE :: string where
  "SWAP_UTILIZATION_SAMPLE = ''system.linux.memory.swap.utilization''"
definition SWAP_IO_SAMPLE :: string where
  "SWAP_IO_SAMPLE = ''system.linux.memory.swap.io''"
definition MEMORY_STATE_ATTRIBUTE :: string where
  "MEMORY_STATE_ATTRIBUTE = ''system.memory.state''"
definition SWAP_STATE_ATTRIBUTE :: string where
  "SWAP_STATE_ATTRIBUTE = ''system.linux.memory.swap.state''"
definition SWAP_DIRECTION_ATTRIBUTE :: string where
  "SWAP_DIRECTION_ATTRIBUTE = ''system.linux.memory.swap.direction''"

definition state_attributes :: "string \<Rightarrow> string \<Rightarrow> (string, string) btree" where
  "state_attributes key val = bt_insert key val []"

definition memory_samples :: "system_time \<Rightarrow> memory_sample \<Rightarrow> sample list" where
  "memory_samples now s =
     map (\<lambda>(state, bytes). mk_sample now MEMORY_USAGE_SAMPLE (GaugeU64 bytes)
            (state_attributes MEMORY_STATE_ATTRIBUTE state))
       [(''total'', ms_total_bytes s), (''used'', ms_used_bytes s), (''available'', ms_available_bytes s),
        (''free'', ms_free_bytes s), (''cached'', ms_cached_bytes s)]
     @ [mk_sample now MEMORY_UTILIZATION_SAMPLE (GaugeF64 (ms_used_ratio s)) []]
     @ map (\<lambda>(state, bytes). mk_sample now SWAP_USAGE_SAMPLE (GaugeU64 bytes)
            (state_attributes SWAP_STATE_ATTRIBUTE state))
       [(''total'', ms_swap_total_bytes s), (''used'', ms_swap_used_bytes s), (''free'', ms_swap_free_bytes s)]
     @ [mk_sample now SWAP_UTILIZATION_SAMPLE (GaugeF64 (ms_swap_used_ratio s)) []]
     @ map (\<lambda>(direction, bytes). mk_sample now SWAP_IO_SAMPLE (Counter bytes)
            (state_attributes SWAP_DIRECTION_ATTRIBUTE direction))
       [(''in'', ms_swap_in_bytes s), (''out'', ms_swap_out_bytes s)]"

definition memory_provider_collect ::
    "(string \<Rightarrow> (io_error, string) result) \<Rightarrow> system_time \<Rightarrow> memory_collector \<Rightarrow>
     memory_collector \<times> (memory_error provider_error, sample list) result" where
  "memory_provider_collect read now c =
     (let (c', r) = memory_collect read c
      in (c', case r of Inl e \<Rightarrow> Inl (ProviderError ''memory'' e) | Inr s \<Rightarrow> Inr (memory_samples now s)))"

section \<open>Facts on the parsers\<close>

lemma kib_lines_append:
  "kib_lines path kvs (xs @ ys) = and_then (kib_lines path kvs xs) (\<lambda>f. kib_lines path f ys)"
  by (induction path kvs xs rule: kib_lines.induct) (simp_all add: and_then_assoc)

lemma kib_lines_ok: "kib_lines path kvs ls = Inr kvs' \<Longrightarrow> bt_ok kvs \<Longrightarrow> bt_ok kvs'"
proof (induction path kvs ls rule: kib_lines.induct)
  case (1 path kvs)
  then show ?case by simp
next
  case (2 path kvs line ls)
  then obtain entry where "kib_line path line = Inr entry"
    "kib_lines path (case entry of None \<Rightarrow> kvs | Some (name, value) \<Rightarrow> bt_insert name value kvs) ls = Inr kvs'"
    by auto
  then show ?case using 2 by (fastforce split: option.splits prod.splits)
qed

text \<open>The printer of the line format: name, colon, right-aligned value and unit.\<close>

definition show_kib :: "string \<times> nat \<Rightarrow> u64 \<Rightarrow> string" where
  "show_kib entry v = fst entry @ '':'' @ replicate (snd entry) (CHR '' '') @ CHR '' '' # show_nat (unat v) @ '' kB''"

lemma replicate_spaced_split:
  "split_whitespace (replicate n (CHR '' '') @ s) = split_whitespace s"
  by (induction n) (simp_all add: split_whitespace_def)

lemma split_whitespace_first:
  assumes "w \<noteq> []" "\<forall>c\<in>set w. \<not> is_ws c"
  shows "split_whitespace (w @ CHR '' '' # rest) = w # split_whitespace rest"
  using assms by (simp add: split_whitespace_def split_on_sep)

lemma kib_line_show:
  assumes "CHR '':'' \<notin> set name"
  shows "kib_line path (show_kib (name, n) v) = Inr (Some (name, saturating_mul v 1024))"
proof -
  have "split_once '':'' (show_kib (name, n) v) =
      Some (name, replicate n (CHR '' '') @ CHR '' '' # show_nat (unat v) @ '' kB'')"
    using assms by (simp add: split_once_char show_kib_def)
  moreover have "split_whitespace (replicate n (CHR '' '') @ CHR '' '' # show_nat (unat v) @ '' kB'') =
      show_nat (unat v) # split_whitespace ''kB''"
  proof -
    have "split_whitespace (CHR '' '' # s) = split_whitespace s" for s
      by (simp add: split_whitespace_def)
    moreover have "split_whitespace (show_nat (unat v) @ CHR '' '' # ''kB'') =
        show_nat (unat v) # split_whitespace ''kB''"
      by (rule split_whitespace_first) (auto dest: show_nat_no_ws)
    ultimately show ?thesis by (simp add: replicate_spaced_split)
  qed
  ultimately show ?thesis by (simp add: kib_line_def parse_u64_show_nat)
qed

lemma kib_lines_show:
  "\<forall>(e, v)\<in>set es. CHR '':'' \<notin> set (fst e) \<Longrightarrow>
     kib_lines path kvs (map (\<lambda>(e, v). show_kib e v) es) =
       Inr (fold (\<lambda>(k, v). bt_insert k v) (map (\<lambda>(e, v). (fst e, saturating_mul v 1024)) es) kvs)"
  by (induction es arbitrary: kvs) (auto simp: kib_line_show)

section \<open>Facts on the collector\<close>

lemma memory_collect_error_keeps: "snd (memory_collect read c) = Inl e \<Longrightarrow> fst (memory_collect read c) = c"
  by (auto simp: memory_collect_def Let_def split: sum.splits)

lemma memory_collect_ok:
  "snd (memory_collect read c) = Inr s \<longleftrightarrow>
     (\<exists>meminfo swap. read_meminfo read = Inr meminfo \<and> read_vmstat_swap read = Inr swap \<and>
        s = sample_from_proc meminfo swap (case mc_previous_swap c of None \<Rightarrow> swap | Some p \<Rightarrow> p)
              (mc_page_size_bytes c) \<and>
        fst (memory_collect read c) = c\<lparr>mc_previous_swap := Some swap\<rparr>)"
  by (auto simp: memory_collect_def Let_def split: sum.splits)

lemma sample_from_proc_ratios:
  "0 \<le> ms_used_ratio (sample_from_proc m s p z)" "ms_used_ratio (sample_from_proc m s p z) \<le> 1"
  "0 \<le> ms_swap_used_ratio (sample_from_proc m s p z)" "ms_swap_used_ratio (sample_from_proc m s p z) \<le> 1"
  by (simp_all add: sample_from_proc_def Let_def ratio_le_1 saturating_sub_le)

lemma sample_from_proc_used:
  "unat (ms_used_bytes (sample_from_proc m s p z)) = unat (mi_total_bytes m) - unat (mi_available_bytes m)"
  "unat (ms_swap_used_bytes (sample_from_proc m s p z)) = unat (mi_swap_total_bytes m) - unat (mi_swap_free_bytes m)"
  by (simp_all add: sample_from_proc_def Let_def unat_saturating_sub)

lemma sample_from_proc_swap_io:
  "unat (ms_swap_in_bytes (sample_from_proc m s p z)) =
     min ((unat (sc_in_pages s) - unat (sc_in_pages p)) * unat z) (2 ^ 64 - 1)"
  "unat (ms_swap_out_bytes (sample_from_proc m s p z)) =
     min ((unat (sc_out_pages s) - unat (sc_out_pages p)) * unat z) (2 ^ 64 - 1)"
  by (simp_all add: sample_from_proc_def Let_def unat_saturating)

lemma memory_samples_names:
  "sample_name ` set (memory_samples now s) =
     {MEMORY_USAGE_SAMPLE, MEMORY_UTILIZATION_SAMPLE, SWAP_USAGE_SAMPLE, SWAP_UTILIZATION_SAMPLE, SWAP_IO_SAMPLE}"
  by (auto simp: memory_samples_def)

section \<open>Properties\<close>

text \<open>C34: The parser of \<open>/proc/meminfo\<close> reads back what is printed in the kernel's format: every printed
  entry is found under its name with its value in bytes (saturating), the last one when a name is
  repeated.\<close>

theorem meminfo_fields_roundtrip:
  assumes "\<forall>(name, width, v)\<in>set es. name \<noteq> [] \<and> CHR '':'' \<notin> set name \<and> newline \<notin> set name"
  shows "\<exists>kvs. parse_kib_fields MEMINFO_PATH
       (unlines (map (\<lambda>(name, width, v). show_kib (name, width) v) es)) = Inr kvs \<and>
     bt_get kvs = map_of (rev (map (\<lambda>(name, width, v). (name, saturating_mul v 1024)) es))"
proof -
  let ?ls = "map (\<lambda>(name, width, v). show_kib (name, width) v) es"
  have kb: "last (x @ '' kB'') = CHR ''B''" for x :: string by simp
  have ok: "newline \<notin> set l \<and> (l = [] \<or> last l \<noteq> carriage_return) \<and> trim l \<noteq> []" if l: "l \<in> set ?ls" for l
  proof -
    from l obtain name width v where e: "(name, width, v) \<in> set es" "l = show_kib (name, width) v" by auto
    have "newline \<notin> set (show_nat n)" for n
      using show_nat_no_ws [of newline n] by (auto simp: is_ws_def newline_def char_code_def)
    moreover have "\<not> is_ws (CHR '':'')" "CHR '':'' \<in> set l" "CHR ''B'' \<noteq> carriage_return"
      by (simp_all add: is_ws_def char_code_def e show_kib_def carriage_return_def)
    ultimately show ?thesis
      using assms e by (auto simp: show_kib_def trim_eq_Nil newline_def)
  qed
  then have "lines (unlines ?ls) = ?ls" by (intro lines_unlines) blast
  moreover have "filter (\<lambda>line. trim line \<noteq> []) ?ls = ?ls" using ok by (simp add: filter_id_conv)
  moreover have "?ls = map (\<lambda>(e, v). show_kib e v) (map (\<lambda>(name, width, v). ((name, width), v)) es)"
    by auto
  ultimately have "parse_kib_fields MEMINFO_PATH (unlines ?ls) =
      Inr (fold (\<lambda>(k, v). bt_insert k v) (map (\<lambda>(name, width, v). (name, saturating_mul v 1024)) es) [])"
    using assms kib_lines_show [of "map (\<lambda>(name, width, v). ((name, width), v)) es" MEMINFO_PATH "[]"]
    by (auto simp: parse_kib_fields_def comp_def split_def)
  then show ?thesis by (auto simp: fun_eq_iff bt.get_fold_put split: option.splits)
qed

lemma meminfo_fields_roundtrip_witness:
  "\<exists>kvs. parse_kib_fields MEMINFO_PATH
       (unlines [show_kib (''MemTotal'', 7) 1000, show_kib (''MemFree'', 9) 100]) = Inr kvs \<and>
     bt_get kvs ''MemFree'' = Some 102400"
  using meminfo_fields_roundtrip [of "[(''MemTotal'', 7, 1000), (''MemFree'', 9, 100)]"]
  by (auto simp: newline_def saturating_mul_def)

text \<open>A memory collection that succeeds reports used bytes as total minus available (never below
  zero), ratios between 0 and 1, and as swap traffic the page counters' growth since the previous
  successful collection times the page size (zero on the first one); a failed collection leaves the
  baseline alone.\<close>

lemma memory_collection:
  assumes "memory_collect read c = (c', Inr s)" "mc_previous_swap c = Some p"
    and "read_meminfo read = Inr m" "read_vmstat_swap read = Inr sw"
  shows "unat (ms_used_bytes s) = unat (mi_total_bytes m) - unat (mi_available_bytes m) \<and>
    0 \<le> ms_used_ratio s \<and> ms_used_ratio s \<le> 1 \<and> 0 \<le> ms_swap_used_ratio s \<and> ms_swap_used_ratio s \<le> 1 \<and>
    unat (ms_swap_in_bytes s) =
      min ((unat (sc_in_pages sw) - unat (sc_in_pages p)) * unat (mc_page_size_bytes c)) (2 ^ 64 - 1) \<and>
    unat (ms_swap_out_bytes s) =
      min ((unat (sc_out_pages sw) - unat (sc_out_pages p)) * unat (mc_page_size_bytes c)) (2 ^ 64 - 1) \<and>
    mc_previous_swap c' = Some sw"
proof -
  have "s = sample_from_proc m sw p (mc_page_size_bytes c)" "c' = c\<lparr>mc_previous_swap := Some sw\<rparr>"
    using assms by (simp_all add: memory_collect_def)
  then show ?thesis
    by (simp add: sample_from_proc_used sample_from_proc_ratios sample_from_proc_swap_io)
qed

definition demo_proc :: "string \<Rightarrow> (io_error, string) result" where
  "demo_proc path =
     (if path = MEMINFO_PATH
      then Inr (unlines [''MemTotal: 1000 kB'', ''MemFree: 100 kB'', ''MemAvailable: 400 kB'', ''Cached: 200 kB'',
                         ''SwapTotal: 500 kB'', ''SwapFree: 300 kB''])
      else Inr (unlines [''pswpin 13'', ''pswpout 25'']))"

definition demo_collector :: memory_collector where
  "demo_collector = \<lparr>mc_page_size_bytes = 4096, mc_previous_swap = Some \<lparr>sc_in_pages = 10, sc_out_pages = 20\<rparr>\<rparr>"

definition demo_meminfo :: mem_info where
  "demo_meminfo =
     \<lparr>mi_total_bytes = 1024000, mi_available_bytes = 409600, mi_free_bytes = 102400, mi_cached_bytes = 204800,
      mi_swap_total_bytes = 512000, mi_swap_free_bytes = 307200\<rparr>"

lemma demo_proc_files:
  "read_meminfo demo_proc = Inr demo_meminfo"
  "read_vmstat_swap demo_proc = Inr \<lparr>sc_in_pages = 13, sc_out_pages = 25\<rparr>"
  by code_simp+

lemma memory_collection_witness:
  "unat (ms_swap_in_bytes (sample_from_proc
     \<lparr>mi_total_bytes = 1024000, mi_available_bytes = 409600, mi_free_bytes = 102400, mi_cached_bytes = 204800,
      mi_swap_total_bytes = 512000, mi_swap_free_bytes = 307200\<rparr>
     \<lparr>sc_in_pages = 13, sc_out_pages = 25\<rparr> \<lparr>sc_in_pages = 10, sc_out_pages = 20\<rparr> 4096)) = 12288"
proof -
  have "unat (ms_swap_in_bytes s) = 12288" if "memory_collect demo_proc demo_collector = (c', Inr s)" for c' s
    using memory_collection [OF that _ demo_proc_files] by (simp add: demo_collector_def)
  then show ?thesis by (simp add: memory_collect_def demo_proc_files demo_collector_def demo_meminfo_def)
qed

end
