(* ===== verification/Storage.thy ===== *)
theory Storage
  imports Pipeline
begin

text \<open>
  Filesystem storage (\<open>talia-agent/src/modules/storage/storage.rs\<close> and \<open>provider.rs\<close>): the parser of
  \<open>/proc/self/mountinfo\<close> with its octal escapes, the byte accounting of one \<open>statvfs\<close> result and the
  samples of the watched mount points.  \<open>statvfs\<close> and \<open>read\<close> are parameters.
\<close>

definition MOUNTINFO_PATH :: string where "MOUNTINFO_PATH = ''/proc/self/mountinfo''"

record filesystem_sample =
  fs_mountpoint :: string
  fs_filesystem_type :: "string option"
  fs_mode :: "string option"
  fs_limit_bytes :: u64
  fs_used_bytes :: u64
  fs_free_bytes :: u64
  fs_reserved_bytes :: u64
  fs_used_ratio :: f64

record mount_info =
  mnt_filesystem_type :: string
  mnt_mode :: "string option"

datatype 'errno storage_error =
    ReadMountInfo string io_error
  | InvalidMountInfo string
  | StatVfsFailed string 'errno
  | NoFilesystemSamples

record stat_vfs =
  f_frsize :: u64
  f_blocks :: u64
  f_bfree :: u64
  f_bavail :: u64

section \<open>Mount information\<close>

definition is_octal :: "char \<Rightarrow> bool" where
  "is_octal c = (is_ascii_digit c \<and> char_code c < 56)"

function decode_mountinfo_path :: "string \<Rightarrow> string" where
  "decode_mountinfo_path [] = []"
| "decode_mountinfo_path (c # cs) =
     (if c \<noteq> backslash then c # decode_mountinfo_path cs
      else
        (let octal = takeWhile is_octal (take 3 cs); rest = drop (length octal) cs in
         case (if length octal = 3 then parse_unsigned 255 8 octal else None) of
           Some byte \<Rightarrow> char_of byte # decode_mountinfo_path rest
         | None \<Rightarrow> backslash # octal @ decode_mountinfo_path rest))"
  by pat_completeness auto

termination
  by (relation "measure length") auto

definition mount_line :: "string \<Rightarrow> ('errno storage_error, string \<times> mount_info) result" where
  "mount_line line =
     (case split_once '' - '' line of
        None \<Rightarrow> Inl (InvalidMountInfo line)
      | Some (before_dash, after_dash) \<Rightarrow>
          (let before = split_whitespace before_dash; fs_fields = split_whitespace after_dash in
           if length before < 6 \<or> fs_fields = [] then Inl (InvalidMountInfo line)
           else (let mountpoint = decode_mountinfo_path (before ! 4);
                     option = split_first (\<lambda>c. c = CHR '','') (before ! 5);
                     mode = (if option = ''rw'' \<or> option = ''ro'' then Some option else None)
                 in Inr (mountpoint, \<lparr>mnt_filesystem_type = fs_fields ! 0, mnt_mode = mode\<rparr>))))"

fun mount_lines ::
    "(string, mount_info) btree \<Rightarrow> string list \<Rightarrow> ('errno storage_error, (string, mount_info) btree) result" where
  "mount_lines mounts [] = Inr mounts"
| "mount_lines mounts (line # ls) =
     and_then (mount_line line) (\<lambda>(mountpoint, info). mount_lines (bt_insert mountpoint info mounts) ls)"

definition parse_mount_info :: "string \<Rightarrow> ('errno storage_error, (string, mount_info) btree) result" where
  "parse_mount_info contents = mount_lines [] (filter (\<lambda>line. trim line \<noteq> []) (lines contents))"

definition read_mount_info ::
    "(string \<Rightarrow> (io_error, string) result) \<Rightarrow> ('errno storage_error, (string, mount_info) btree) result" where
  "read_mount_info read =
     and_then (map_err (ReadMountInfo MOUNTINFO_PATH) (read MOUNTINFO_PATH)) parse_mount_info"

section \<open>Byte accounting\<close>

record filesystem_bytes =
  fb_limit :: u64
  fb_used :: u64
  fb_free :: u64
  fb_reserved :: u64

definition used_ratio :: "filesystem_bytes \<Rightarrow> f64" where
  "used_ratio b =
     (if fb_limit b = 0 then 0 else f64_div (u64_as_f64 (fb_used b)) (u64_as_f64 (fb_limit b)))"

definition filesystem_bytes_from_blocks :: "u64 \<Rightarrow> u64 \<Rightarrow> u64 \<Rightarrow> u64 \<Rightarrow> filesystem_bytes" where
  "filesystem_bytes_from_blocks fragment_size blocks blocks_free blocks_available =
     (let limit = saturating_mul blocks fragment_size;
          free_all = saturating_mul blocks_free fragment_size;
          free = saturating_mul blocks_available fragment_size;
          reserved = saturating_mul (saturating_sub blocks_free blocks_available) fragment_size;
          used = saturating_sub limit free_all
      in \<lparr>fb_limit = limit, fb_used = used, fb_free = free, fb_reserved = reserved\<rparr>)"

definition filesystem_bytes_of :: "stat_vfs \<Rightarrow> filesystem_bytes" where
  "filesystem_bytes_of stat =
     filesystem_bytes_from_blocks (f_frsize stat) (f_blocks stat) (f_bfree stat) (f_bavail stat)"

section \<open>Collection\<close>

definition collect_filesystem ::
    "(string \<Rightarrow> ('errno, stat_vfs) result) \<Rightarrow> string \<Rightarrow> (string, mount_info) btree \<Rightarrow>
     ('errno storage_error, filesystem_sample) result" where
  "collect_filesystem statvfs mountpoint infos =
     and_then (map_err (StatVfsFailed mountpoint) (statvfs mountpoint)) (\<lambda>stat.
       (let info = bt_get infos mountpoint; bytes = filesystem_bytes_of stat in
        Inr \<lparr>fs_mountpoint = mountpoint,
             fs_filesystem_type = map_option mnt_filesystem_type info,
             fs_mode = Option.bind info mnt_mode,
             fs_limit_bytes = fb_limit bytes, fs_used_bytes = fb_used bytes,
             fs_free_bytes = fb_free bytes, fs_reserved_bytes = fb_reserved bytes,
             fs_used_ratio = used_ratio bytes\<rparr>))"

definition collect_filesystems ::
    "(string \<Rightarrow> (io_error, string) result) \<Rightarrow> (string \<Rightarrow> ('errno, stat_vfs) result) \<Rightarrow> string list \<Rightarrow>
     ('errno storage_error, filesystem_sample list) result" where
  "collect_filesystems read statvfs mounts =
     and_then (read_mount_info read) (\<lambda>infos.
       (let samples = List.map_filter (\<lambda>mount. res_ok (collect_filesystem statvfs mount infos)) mounts in
        if mounts \<noteq> [] \<and> samples = [] then Inl NoFilesystemSamples else Inr samples))"

section \<open>The provider\<close>

definition FILESYSTEM_LIMIT_SAMPLE :: string where
  "FILESYSTEM_LIMIT_SAMPLE = ''system.filesystem.limit''"
definition FILESYSTEM_USAGE_SAMPLE :: string where
  "FILESYSTEM_USAGE_SAMPLE = ''system.filesystem.usage''"
definition FILESYSTEM_UTILIZATION_SAMPLE :: string where
  "FILESYSTEM_UTILIZATION_SAMPLE = ''system.filesystem.utilization''"
definition MOUNTPOINT_ATTRIBUTE :: string where
  "MOUNTPOINT_ATTRIBUTE = ''system.filesystem.mountpoint''"
definition FILESYSTEM_TYPE_ATTRIBUTE :: string where
  "FILESYSTEM_TYPE_ATTRIBUTE = ''system.filesystem.type''"
definition FILESYSTEM_MODE_ATTRIBUTE :: string where
  "FILESYSTEM_MODE_ATTRIBUTE = ''system.filesystem.mode''"
definition FILESYSTEM_STATE_ATTRIBUTE :: string where
  "FILESYSTEM_STATE_ATTRIBUTE = ''system.filesystem.state''"

definition base_attributes :: "filesystem_sample \<Rightarrow> (string, string) btree" where
  "base_attributes s =
     (let a0 = bt_insert MOUNTPOINT_ATTRIBUTE (fs_mountpoint s) [];
          a1 = (case fs_filesystem_type s of None \<Rightarrow> a0 | Some t \<Rightarrow> bt_insert FILESYSTEM_TYPE_ATTRIBUTE t a0)
      in (case fs_mode s of None \<Rightarrow> a1 | Some m \<Rightarrow> bt_insert FILESYSTEM_MODE_ATTRIBUTE m a1))"

definition filesystem_samples :: "system_time \<Rightarrow> filesystem_sample \<Rightarrow> sample list" where
  "filesystem_samples now s =
     (let base = base_attributes s in
      [mk_sample now FILESYSTEM_LIMIT_SAMPLE (GaugeU64 (fs_limit_bytes s)) base]
      @ map (\<lambda>(state, bytes). mk_sample now FILESYSTEM_USAGE_SAMPLE (GaugeU64 bytes)
               (bt_insert FILESYSTEM_STATE_ATTRIBUTE state base))
          [(''used'', fs_used_bytes s), (''free'', fs_free_bytes s), (''reserved'', fs_reserved_bytes s)]
      @ [mk_sample now FILESYSTEM_UTILIZATION_SAMPLE (GaugeF64 (fs_used_ratio s))
           (bt_insert FILESYSTEM_STATE_ATTRIBUTE ''used'' base)])"

text \<open>The state of \<open>StorageProvider\<close> is its mount list.  \<open>now\<close> gives the clock reading of each
  converted filesystem sample.\<close>

definition storage_provider_collect ::
    "(string \<Rightarrow> (io_error, string) result) \<Rightarrow> (string \<Rightarrow> ('errno, stat_vfs) result) \<Rightarrow>
     (filesystem_sample \<Rightarrow> system_time) \<Rightarrow> string list \<Rightarrow>
     ('errno storage_error provider_error, sample list) result" where
  "storage_provider_collect read statvfs now mounts =
     (case collect_filesystems read statvfs mounts of
        Inl e \<Rightarrow> Inl (ProviderError ''storage'' e)
      | Inr samples \<Rightarrow> Inr (concat (map (\<lambda>s. filesystem_samples (now s) s) samples)))"

definition storage_reconfigure :: "agent_runtime_config \<Rightarrow> string list \<Rightarrow> string list" where
  "storage_reconfigure config mounts =
     (if mounts \<noteq> storage_mounts (cfg_storage config) then storage_mounts (cfg_storage config) else mounts)"

section \<open>The escapes of mount paths\<close>

text \<open>The kernel's side of the format: a set of characters, the backslash among them, is written as
  three octal digits.\<close>

definition octal_escape :: "char \<Rightarrow> string" where
  "octal_escape c =
     (let n = char_code c in
      [backslash, digit_char (n div 64), digit_char (n div 8 mod 8), digit_char (n mod 8)])"

definition encode_mountinfo_path :: "(char \<Rightarrow> bool) \<Rightarrow> string \<Rightarrow> string" where
  "encode_mountinfo_path escaped s = concat (map (\<lambda>c. if escaped c then octal_escape c else [c]) s)"

lemma is_octal_digit_char: "d < 8 \<Longrightarrow> is_octal (digit_char d)"
  by (simp add: is_octal_def is_ascii_digit_def char_code_digit_char)

lemma digit_char_not_plus: "d < 16 \<Longrightarrow> digit_char d \<noteq> CHR ''+''"
proof
  assume "d < 16" "digit_char d = CHR ''+''"
  then have "char_code (CHR ''+'') = (if d < 10 then 48 + d else 87 + d)"
    by (metis char_code_digit_char)
  then show False by (simp add: char_code_def split: if_splits)
qed

lemma parse_octal3:
  assumes "a < 8" "b < 8" "d < 8" "64 * a + 8 * b + d \<le> 255"
  shows "parse_unsigned 255 8 [digit_char a, digit_char b, digit_char d] = Some (64 * a + 8 * b + d)"
  using assms digit_char_not_plus [of a]
  by (simp add: parse_unsigned_def to_digit_digit_char)

lemma decode_octal_escape:
  "decode_mountinfo_path (octal_escape c @ s) = c # decode_mountinfo_path s"
proof -
  let ?n = "char_code c"
  have n: "?n < 256" by (simp add: char_code_def)
  have "?n div 64 = ?n div 8 div 8" by (simp add: div_mult2_eq [symmetric])
  then have dec: "64 * (?n div 64) + 8 * (?n div 8 mod 8) + ?n mod 8 = ?n"
    using div_mult_mod_eq [of ?n 8] div_mult_mod_eq [of "?n div 8" 8] by linarith
  have lt: "?n div 64 < 8" "?n div 8 mod 8 < 8" "?n mod 8 < 8" using n by auto
  have "parse_unsigned 255 8 [digit_char (?n div 64), digit_char (?n div 8 mod 8), digit_char (?n mod 8)]
      = Some ?n"
    using parse_octal3 [OF lt] dec n by simp
  moreover have "char_of ?n = c" by (simp add: char_code_def)
  moreover have "takeWhile is_octal (take 3 (digit_char (?n div 64) # digit_char (?n div 8 mod 8) # digit_char (?n mod 8) # s))
      = [digit_char (?n div 64), digit_char (?n div 8 mod 8), digit_char (?n mod 8)]"
    using lt by (simp add: is_octal_digit_char)
  ultimately show ?thesis
    unfolding octal_escape_def Let_def append_Cons append_Nil decode_mountinfo_path.simps(2) by simp
qed

lemma decode_encode_mountinfo_path:
  assumes "escaped backslash"
  shows "decode_mountinfo_path (encode_mountinfo_path escaped s) = s"
proof (induction s)
  case Nil
  then show ?case by (simp add: encode_mountinfo_path_def)
next
  case (Cons c s)
  then show ?case
    using assms decode_octal_escape [of c "encode_mountinfo_path escaped s"]
    by (auto simp: encode_mountinfo_path_def)
qed

section \<open>Facts on the accounting\<close>

lemma limit64: "2 ^ LENGTH(64) - (1 :: nat) = 18446744073709551615"
  by simp

lemma filesystem_bytes_exact:
  assumes "unat blocks * unat fragment < 2 ^ 64" "blocks_free \<le> blocks" "blocks_available \<le> blocks_free"
  shows "unat (fb_used (filesystem_bytes_from_blocks fragment blocks blocks_free blocks_available)) +
         unat (fb_free (filesystem_bytes_from_blocks fragment blocks blocks_free blocks_available)) +
         unat (fb_reserved (filesystem_bytes_from_blocks fragment blocks blocks_free blocks_available)) =
         unat (fb_limit (filesystem_bytes_from_blocks fragment blocks blocks_free blocks_available))"
proof -
  let ?n = "unat blocks" and ?f = "unat blocks_free" and ?a = "unat blocks_available" and ?s = "unat fragment"
  have le: "?f \<le> ?n" "?a \<le> ?f" using assms(2,3) by (simp_all add: word_le_nat_alt)
  have fs: "?f * ?s \<le> ?n * ?s" "?a * ?s \<le> ?f * ?s" "(?f - ?a) * ?s \<le> ?f * ?s"
    using le by (simp_all add: mult_le_mono1)
  have m: "min (x * ?s) 18446744073709551615 = x * ?s" if "x * ?s \<le> ?n * ?s" for x
    using order_le_less_trans [OF that assms(1)] by (intro min_absorb1) simp
  have "(?f - ?a) * ?s = ?f * ?s - ?a * ?s" by (simp add: diff_mult_distrib)
  with fs have "?n * ?s - ?f * ?s + ?a * ?s + (?f - ?a) * ?s = ?n * ?s" by linarith
  moreover have "?n * ?s - ?f * ?s + ?a * ?s + (?f - ?a) * ?s =
      (?n * ?s - ?f * ?s) + (?a * ?s + (?f - ?a) * ?s)" by simp
  ultimately show ?thesis
    by (simp only: filesystem_bytes_from_blocks_def Let_def unat_saturating limit64 m [OF order_refl]
        m [OF fs(1)] m [OF order_trans [OF fs(2,1)]] m [OF order_trans [OF fs(3,1)]]
        filesystem_bytes.simps add.assoc)
qed

lemma filesystem_bytes_used_le: "fb_used (filesystem_bytes_from_blocks z n f a) \<le> fb_limit (filesystem_bytes_from_blocks z n f a)"
  by (simp add: filesystem_bytes_from_blocks_def Let_def saturating_sub_le)

lemma used_ratio_bounds:
  "0 \<le> used_ratio (filesystem_bytes_of stat)" "used_ratio (filesystem_bytes_of stat) \<le> 1"
  by (simp_all add: used_ratio_def filesystem_bytes_of_def f64_div_part_le_1 u64_as_f64_mono
      filesystem_bytes_used_le)

lemma mount_lines_ok: "mount_lines mounts ls = Inr mounts' \<Longrightarrow> bt_ok mounts \<Longrightarrow> bt_ok mounts'"
proof (induction mounts ls rule: mount_lines.induct)
  case (2 mounts line ls)
  then show ?case by (fastforce split: prod.splits)
qed simp

text \<open>A collection fails only when the mount information is unreadable or every watched mount
  fails.\<close>

lemma map_filter_eq_Nil: "List.map_filter f xs = [] \<longleftrightarrow> (\<forall>x\<in>set xs. f x = None)"
  by (induction xs) (auto simp: List.map_filter_simps split: option.splits)

lemma collect_filesystem_ok_iff:
  "is_ok (collect_filesystem statvfs m infos) \<longleftrightarrow> is_ok (statvfs m)"
  by (cases "statvfs m") (simp_all add: collect_filesystem_def Let_def)

lemma collect_filesystems_ok_iff:
  "is_ok (collect_filesystems read statvfs mounts) \<longleftrightarrow>
     is_ok (read_mount_info read :: ('errno storage_error, (string, mount_info) btree) result) \<and>
     (mounts = [] \<or> (\<exists>m\<in>set mounts. is_ok (statvfs m :: ('errno, stat_vfs) result)))"
proof (cases "read_mount_info read :: ('errno storage_error, (string, mount_info) btree) result")
  case (Inl e)
  then show ?thesis by (simp add: collect_filesystems_def)
next
  case (Inr infos)
  have none: "res_ok r = None \<longleftrightarrow> \<not> is_ok r" for r :: "('errno storage_error, filesystem_sample) result"
    by (cases r) simp_all
  have "List.map_filter (\<lambda>m. res_ok (collect_filesystem statvfs m infos)) mounts = [] \<longleftrightarrow>
      (\<forall>m\<in>set mounts. \<not> is_ok (statvfs m))"
    by (simp add: map_filter_eq_Nil none collect_filesystem_ok_iff)
  with Inr show ?thesis by (auto simp: collect_filesystems_def Let_def)
qed

lemma filesystem_samples_names:
  "sample_name ` set (filesystem_samples now s) =
     {FILESYSTEM_LIMIT_SAMPLE, FILESYSTEM_USAGE_SAMPLE, FILESYSTEM_UTILIZATION_SAMPLE}"
  by (auto simp: filesystem_samples_def Let_def)

section \<open>Properties\<close>

text \<open>Decoding a mount path undoes the kernel's escaping, whatever characters are escaped, as long as
  the backslash is among them.\<close>

lemma mountinfo_path_roundtrip:
  assumes "escaped backslash"
  shows "decode_mountinfo_path
     (concat (map (\<lambda>c. if escaped c then octal_escape c else [c]) s)) = s"
  using decode_encode_mountinfo_path [of escaped s, OF assms] by (simp add: encode_mountinfo_path_def)

lemma mountinfo_path_roundtrip_witness:
  "decode_mountinfo_path (''/mnt/data'' @ [backslash] @ ''040disk'') = ''/mnt/data disk''"
proof -
  let ?escaped = "\<lambda>c. c = backslash \<or> c = CHR '' ''"
  have "concat (map (\<lambda>c. if ?escaped c then octal_escape c else [c]) ''/mnt/data disk'') =
      ''/mnt/data'' @ [backslash] @ ''040disk''"
    by code_simp
  with mountinfo_path_roundtrip [of ?escaped "''/mnt/data disk''"] show ?thesis by (simp only: simp_thms)
qed

text \<open>The byte accounting of a filesystem adds up: used, free and reserved bytes are the capacity, as
  long as the capacity fits in 64 bits and the block counts are consistent, and the used fraction is
  between 0 and 1 in every case.\<close>

lemma filesystem_accounting:
  assumes "unat (f_blocks stat) * unat (f_frsize stat) < 2 ^ 64"
    and "f_bfree stat \<le> f_blocks stat" "f_bavail stat \<le> f_bfree stat"
  shows "unat (fb_used (filesystem_bytes_of stat)) + unat (fb_free (filesystem_bytes_of stat)) +
      unat (fb_reserved (filesystem_bytes_of stat)) = unat (f_blocks stat) * unat (f_frsize stat) \<and>
    0 \<le> used_ratio (filesystem_bytes_of stat) \<and> used_ratio (filesystem_bytes_of stat) \<le> 1"
proof -
  have "unat (fb_limit (filesystem_bytes_of stat)) = unat (f_blocks stat) * unat (f_frsize stat)"
    using assms(1) by (simp add: filesystem_bytes_of_def filesystem_bytes_from_blocks_def Let_def unat_saturating_mul)
  then show ?thesis
    using filesystem_bytes_exact [OF assms] used_ratio_bounds by (simp add: filesystem_bytes_of_def)
qed

lemma filesystem_accounting_witness:
  "unat (fb_used (filesystem_bytes_of \<lparr>f_frsize = 4096, f_blocks = 100, f_bfree = 20, f_bavail = 15\<rparr>)) +
   unat (fb_free (filesystem_bytes_of \<lparr>f_frsize = 4096, f_blocks = 100, f_bfree = 20, f_bavail = 15\<rparr>)) +
   unat (fb_reserved (filesystem_bytes_of \<lparr>f_frsize = 4096, f_blocks = 100, f_bfree = 20, f_bavail = 15\<rparr>)) = 409600"
  using filesystem_accounting [of "\<lparr>f_frsize = 4096, f_blocks = 100, f_bfree = 20, f_bavail = 15\<rparr>"] by simp

text \<open>Collecting the watched mounts succeeds exactly when the mount information can be read and parsed
  and, unless no mount is watched, at least one of them can be examined; one failing mount does not
  take the others with it.\<close>

lemma collect_filesystems_tolerates_failures:
  fixes statvfs :: "string \<Rightarrow> ('errno, stat_vfs) result"
  shows "is_ok (collect_filesystems read statvfs mounts) \<longleftrightarrow>
     is_ok (read_mount_info read :: ('errno storage_error, (string, mount_info) btree) result) \<and>
     (mounts = [] \<or> list_ex (\<lambda>m. is_ok (statvfs m)) mounts)"
  by (simp add: collect_filesystems_ok_iff list_ex_iff)

end
