(* ===== verification/Counter_Delta.thy ===== *)
theory Counter_Delta
  imports Rust_Std
begin

text \<open>
  The contract of the collectors that turn a cumulative counter into interval deltas: they remember
  the last reading and report the saturating difference.  \<open>baseline\<close> is the remembered reading of one
  counter in the collector's state, \<open>reading\<close> what one collection reads for it, and \<open>step\<close> one
  collection with the delta it reports.  The network, disk and CPU collectors provide it.
\<close>

locale delta_collector =
  fixes baseline :: "'s \<Rightarrow> u64"
    and reading :: "'r \<Rightarrow> u64"
    and readable :: "'r \<Rightarrow> bool"
    and step :: "'s \<Rightarrow> 'r \<Rightarrow> 's \<times> u64"
  assumes baseline_step: "readable r \<Longrightarrow> baseline (fst (step s r)) = reading r"
    and delta_step: "readable r \<Longrightarrow> snd (step s r) = saturating_sub (reading r) (baseline s)"
begin

primrec reported :: "'s \<Rightarrow> 'r list \<Rightarrow> nat" where
  "reported s [] = 0"
| "reported s (r # rs) = unat (snd (step s r)) + reported (fst (step s r)) rs"

primrec final :: "'s \<Rightarrow> 'r list \<Rightarrow> 's" where
  "final s [] = s"
| "final s (r # rs) = final (fst (step s r)) rs"

lemma baseline_final:
  "\<forall>r\<in>set rs. readable r \<Longrightarrow> baseline (final s rs) = (if rs = [] then baseline s else reading (last rs))"
  by (induction rs arbitrary: s) (simp_all add: baseline_step)

text \<open>The deltas never lose counts: together they are at least the growth of the counter.\<close>

lemma reported_ge_growth:
  "\<forall>r\<in>set rs. readable r \<Longrightarrow> unat (baseline (final s rs)) \<le> unat (baseline s) + reported s rs"
proof (induction rs arbitrary: s)
  case Nil
  then show ?case by simp
next
  case (Cons r rs)
  then have "unat (baseline (final (fst (step s r)) rs)) \<le> unat (reading r) + reported (fst (step s r)) rs"
    using Cons.IH [of "fst (step s r)"] by (simp add: baseline_step)
  moreover have "unat (reading r) \<le> unat (baseline s) + unat (snd (step s r))"
    using Cons.prems by (simp add: delta_step unat_saturating_sub)
  ultimately show ?case by simp
qed

text \<open>While the counter never decreases they are exactly its growth.\<close>

lemma reported_telescopes:
  "\<forall>r\<in>set rs. readable r \<Longrightarrow> sorted (unat (baseline s) # map (\<lambda>r. unat (reading r)) rs) \<Longrightarrow>
     unat (baseline s) + reported s rs = unat (baseline (final s rs))"
proof (induction rs arbitrary: s)
  case Nil
  then show ?case by simp
next
  case (Cons r rs)
  then have "unat (reading r) + reported (fst (step s r)) rs = unat (baseline (final (fst (step s r)) rs))"
    using Cons.IH [of "fst (step s r)"] by (simp add: baseline_step)
  moreover have "unat (baseline s) + unat (snd (step s r)) = unat (reading r)"
    using Cons.prems by (simp add: delta_step unat_saturating_sub)
  ultimately show ?case by simp
qed

text \<open>A reset counter reports nothing and becomes the new baseline.\<close>

lemma reset_reports_zero:
  "readable r \<Longrightarrow> reading r \<le> baseline s \<Longrightarrow> snd (step s r) = 0 \<and> baseline (fst (step s r)) = reading r"
  by (auto simp: delta_step baseline_step saturating_sub_def)

end

end
