(* ===== verification/Cpu.thy ===== *)
theory Cpu
  imports Collector_Error Counter_Delta
begin

text \<open>
  CPU scheduler accounting (\<open>talia-agent/src/modules/cpu/cpu.rs\<close> and \<open>provider.rs\<close>): per-CPU deltas
  against the previous reading, their ratios, and the samples.  What the BPF map holds is a parameter.
\<close>

record cpu_snapshot =
  cs_cpu :: u32
  cs_window_duration :: duration
  cs_idle_ns :: u64
  cs_user_ns :: u64
  cs_system_ns :: u64

definition total_ns :: "cpu_snapshot \<Rightarrow> u64" where
  "total_ns s = saturating_add (saturating_add (cs_idle_ns s) (cs_user_ns s)) (cs_system_ns s)"

definition idle_ratio :: "cpu_snapshot \<Rightarrow> f64" where
  "idle_ratio s = ratio (cs_idle_ns s) (total_ns s)"

definition user_ratio :: "cpu_snapshot \<Rightarrow> f64" where
  "user_ratio s = ratio (cs_user_ns s) (total_ns s)"

definition system_ratio :: "cpu_snapshot \<Rightarrow> f64" where
  "system_ratio s = ratio (cs_system_ns s) (total_ns s)"

record raw_cpu_counters =
  rc_last_switch_ns :: u64
  rc_active_task_user_ns :: u64
  rc_active_task_system_ns :: u64
  rc_idle_ns :: u64
  rc_user_ns :: u64
  rc_system_ns :: u64

definition raw_cpu_default :: raw_cpu_counters where
  "raw_cpu_default =
     \<lparr>rc_last_switch_ns = 0, rc_active_task_user_ns = 0, rc_active_task_system_ns = 0,
      rc_idle_ns = 0, rc_user_ns = 0, rc_system_ns = 0\<rparr>"

text \<open>\<open>CpuCollector::load\<close>; the collector starts without a previous reading.\<close>

definition cpu_collector_load :: "'e bpf_object \<Rightarrow> ('e collector_error, raw_cpu_counters list) result" where
  "cpu_collector_load bpf =
     and_then (map_err Load (bpf_load bpf)) (\<lambda>_.
     and_then (map_err Btf (bpf_btf bpf)) (\<lambda>_.
     and_then (load_tracepoint bpf ''talia_sched_switch'') (\<lambda>_.
     and_then (take_map bpf ''cpu_counters_per_cpu_map'') (\<lambda>_. Inr []))))"

definition cpu_delta :: "nat \<Rightarrow> duration \<Rightarrow> raw_cpu_counters \<Rightarrow> raw_cpu_counters \<Rightarrow> cpu_snapshot" where
  "cpu_delta cpu window current previous =
     \<lparr>cs_cpu = of_nat cpu, cs_window_duration = window,
      cs_idle_ns = saturating_sub (rc_idle_ns current) (rc_idle_ns previous),
      cs_user_ns = saturating_sub (rc_user_ns current) (rc_user_ns previous),
      cs_system_ns = saturating_sub (rc_system_ns current) (rc_system_ns previous)\<rparr>"

text \<open>The closure over \<open>iter().enumerate()\<close>: read the old entry, store the new one.\<close>

fun cpu_loop ::
    "duration \<Rightarrow> nat \<Rightarrow> raw_cpu_counters list \<Rightarrow> raw_cpu_counters list \<Rightarrow>
     raw_cpu_counters list \<times> cpu_snapshot list" where
  "cpu_loop window cpu previous [] = (previous, [])"
| "cpu_loop window cpu previous (current # rest) =
     (let old = previous ! cpu;
          (previous', snapshots) = cpu_loop window (Suc cpu) (previous[cpu := current]) rest
      in (previous', cpu_delta cpu window current old # snapshots))"

definition resize :: "nat \<Rightarrow> 'a \<Rightarrow> 'a list \<Rightarrow> 'a list" where
  "resize n x xs = take n xs @ replicate (n - length xs) x"

definition cpu_snapshots ::
    "duration \<Rightarrow> raw_cpu_counters list \<Rightarrow> raw_cpu_counters list \<Rightarrow> raw_cpu_counters list \<times> cpu_snapshot list" where
  "cpu_snapshots window previous counters =
     (let previous1 = (if length previous < length counters
                       then resize (length counters) raw_cpu_default previous else previous)
      in cpu_loop window 0 previous1 counters)"

text \<open>\<open>collect\<close>: \<open>read\<close> is the answer of the per-CPU array for key 0.\<close>

definition cpu_collect ::
    "('e, raw_cpu_counters list) result \<Rightarrow> duration \<Rightarrow> raw_cpu_counters list \<Rightarrow>
     raw_cpu_counters list \<times> ('e collector_error, cpu_snapshot list) result" where
  "cpu_collect read window previous =
     (case read of
        Inl e \<Rightarrow> (previous, Inl (Map_Error e))
      | Inr counters \<Rightarrow> (let (previous', s) = cpu_snapshots window previous counters in (previous', Inr s)))"

section \<open>The provider\<close>

definition CPU_UTILIZATION_SAMPLE :: string where
  "CPU_UTILIZATION_SAMPLE = ''system.cpu.utilization''"
definition CPU_LOGICAL_NUMBER_ATTRIBUTE :: string where
  "CPU_LOGICAL_NUMBER_ATTRIBUTE = ''system.cpu.logical_number''"
definition CPU_STATE_ATTRIBUTE :: string where
  "CPU_STATE_ATTRIBUTE = ''system.cpu.state''"

definition cpu_samples :: "system_time \<Rightarrow> cpu_snapshot \<Rightarrow> sample list" where
  "cpu_samples timestamp snapshot =
     (let cpu = show_nat (unat (cs_cpu snapshot)) in
      map (\<lambda>(state, v).
          mk_sample timestamp CPU_UTILIZATION_SAMPLE (GaugeF64 v)
            (bt_insert CPU_STATE_ATTRIBUTE state (bt_insert CPU_LOGICAL_NUMBER_ATTRIBUTE cpu [])))
        [(''idle'', idle_ratio snapshot), (''user'', user_ratio snapshot), (''system'', system_ratio snapshot)])"

record cpu_provider =
  cp_previous :: "raw_cpu_counters list"
  cp_window :: duration

definition cpu_provider_load ::
    "'e bpf_object \<Rightarrow> duration \<Rightarrow> ('e collector_error provider_error, cpu_provider) result" where
  "cpu_provider_load bpf window =
     map_err (ProviderError ''cpu'')
       (and_then (cpu_collector_load bpf) (\<lambda>previous. Inr \<lparr>cp_previous = previous, cp_window = window\<rparr>))"

definition cpu_set_window :: "duration \<Rightarrow> cpu_provider \<Rightarrow> cpu_provider" where
  "cpu_set_window window p = p\<lparr>cp_window := window\<rparr>"

definition cpu_provider_collect ::
    "('e, raw_cpu_counters list) result \<Rightarrow> system_time \<Rightarrow> cpu_provider \<Rightarrow>
     cpu_provider \<times> ('e collector_error provider_error, sample list) result" where
  "cpu_provider_collect read timestamp p =
     (let (previous, r) = cpu_collect read (cp_window p) (cp_previous p) in
      (p\<lparr>cp_previous := previous\<rparr>,
       map_err (ProviderError ''cpu'')
         (and_then r (\<lambda>snapshots. Inr (concat (map (cpu_samples timestamp) snapshots))))))"

section \<open>Facts\<close>

text \<open>The loop in closed form.\<close>

lemma cpu_loop_eq:
  "cpu + length cs \<le> length previous \<Longrightarrow>
     cpu_loop window cpu previous cs =
       (take cpu previous @ cs @ drop (cpu + length cs) previous,
        map (\<lambda>i. cpu_delta (cpu + i) window (cs ! i) (previous ! (cpu + i))) [0..<length cs])"
proof (induction cs arbitrary: cpu previous)
  case Nil
  then show ?case by simp
next
  case (Cons c cs)
  have up: "[0..<length (c # cs)] = 0 # map Suc [0..<length cs]"
    by (simp add: upt_conv_Cons map_Suc_upt del: upt_Suc)
  have tk: "take (Suc cpu) (previous[cpu := c]) = take cpu previous @ [c]"
    using Cons.prems by (simp add: take_Suc_conv_app_nth)
  have m: "map (\<lambda>i. cpu_delta (Suc cpu + i) window (cs ! i) (previous[cpu := c] ! (Suc cpu + i))) [0..<length cs]
      = map (\<lambda>i. cpu_delta (cpu + i) window ((c # cs) ! i) (previous ! (cpu + i))) (map Suc [0..<length cs])"
    by simp
  show ?case
    using Cons.IH [of "Suc cpu" "previous[cpu := c]"] Cons.prems tk m unfolding up by simp
qed

definition cpu_baseline :: "raw_cpu_counters list \<Rightarrow> nat \<Rightarrow> raw_cpu_counters" where
  "cpu_baseline previous i = (if i < length previous then previous ! i else raw_cpu_default)"

lemma resize_nth: "i < n \<Longrightarrow> resize n x xs ! i = (if i < length xs then xs ! i else x)"
  by (auto simp: resize_def nth_append)

lemma cpu_snapshots_eq:
  "cpu_snapshots window previous cs =
     (cs @ drop (length cs) previous,
      map (\<lambda>i. cpu_delta i window (cs ! i) (cpu_baseline previous i)) [0..<length cs])"
proof (cases "length previous < length cs")
  case True
  have "length (resize (length cs) raw_cpu_default previous) = length cs"
    using True by (simp add: resize_def)
  moreover have "map (\<lambda>i. cpu_delta i window (cs ! i) (resize (length cs) raw_cpu_default previous ! i)) [0..<length cs]
      = map (\<lambda>i. cpu_delta i window (cs ! i) (cpu_baseline previous i)) [0..<length cs]"
    by (simp add: resize_nth cpu_baseline_def)
  ultimately show ?thesis using True by (simp add: cpu_snapshots_def cpu_loop_eq)
next
  case False
  then show ?thesis by (simp add: cpu_snapshots_def cpu_loop_eq cpu_baseline_def)
qed

lemma cpu_baseline_after:
  "i < length cs \<Longrightarrow> cpu_baseline (fst (cpu_snapshots window previous cs)) i = cs ! i"
  by (simp add: cpu_snapshots_eq cpu_baseline_def nth_append)

text \<open>Each of the three times of each CPU is a counter turned into deltas.\<close>

abbreviation cpu_step ::
    "(cpu_snapshot \<Rightarrow> u64) \<Rightarrow> duration \<Rightarrow> nat \<Rightarrow> raw_cpu_counters list \<Rightarrow> raw_cpu_counters list \<Rightarrow>
     raw_cpu_counters list \<times> u64" where
  "cpu_step f window i previous cs \<equiv>
     (fst (cpu_snapshots window previous cs), f (snd (cpu_snapshots window previous cs) ! i))"

interpretation cpu_idle: delta_collector
    "\<lambda>s. rc_idle_ns (cpu_baseline s i)" "\<lambda>cs. rc_idle_ns (cs ! i)" "\<lambda>cs. i < length cs"
    "cpu_step cs_idle_ns window i" for i window
  by unfold_locales (simp_all add: cpu_baseline_after, simp add: cpu_snapshots_eq cpu_delta_def)

interpretation cpu_user: delta_collector
    "\<lambda>s. rc_user_ns (cpu_baseline s i)" "\<lambda>cs. rc_user_ns (cs ! i)" "\<lambda>cs. i < length cs"
    "cpu_step cs_user_ns window i" for i window
  by unfold_locales (simp_all add: cpu_baseline_after, simp add: cpu_snapshots_eq cpu_delta_def)

interpretation cpu_system: delta_collector
    "\<lambda>s. rc_system_ns (cpu_baseline s i)" "\<lambda>cs. rc_system_ns (cs ! i)" "\<lambda>cs. i < length cs"
    "cpu_step cs_system_ns window i" for i window
  by unfold_locales (simp_all add: cpu_baseline_after, simp add: cpu_snapshots_eq cpu_delta_def)

lemma total_ns_ge: "cs_idle_ns s \<le> total_ns s" "cs_user_ns s \<le> total_ns s" "cs_system_ns s \<le> total_ns s"
  unfolding total_ns_def by (blast intro: order_trans saturating_add_ge)+

lemma cpu_ratio_bounds:
  "0 \<le> idle_ratio s" "idle_ratio s \<le> 1" "0 \<le> user_ratio s" "user_ratio s \<le> 1"
  "0 \<le> system_ratio s" "system_ratio s \<le> 1"
  by (simp_all add: idle_ratio_def user_ratio_def system_ratio_def ratio_le_1 total_ns_ge)

lemma cpu_samples_names: "sample_name ` set (cpu_samples now s) = {CPU_UTILIZATION_SAMPLE}"
  by (simp add: cpu_samples_def Let_def)

section \<open>Properties\<close>

text \<open>Over any run of collections that all report a CPU, as long as its idle counter never decreases,
  the idle times reported for it add up to exactly the counter's growth; the CPU may appear late, and
  other CPUs do not matter.\<close>

lemma cpu_idle_exact:
  assumes "\<forall>cs\<in>set rs. i < length cs" "rs \<noteq> []"
    and "sorted (unat (rc_idle_ns (cpu_baseline s i)) # map (\<lambda>cs. unat (rc_idle_ns (cs ! i))) rs)"
  shows "unat (rc_idle_ns (cpu_baseline s i)) + cpu_idle.reported window i s rs = unat (rc_idle_ns (last rs ! i))"
  using cpu_idle.reported_telescopes [of rs i s window] cpu_idle.baseline_final [of rs i window s] assms by simp

lemma cpu_idle_exact_witness:
  "cpu_idle.reported 1 0 [] [[raw_cpu_default\<lparr>rc_idle_ns := 40\<rparr>], [raw_cpu_default\<lparr>rc_idle_ns := 100\<rparr>]] = 100"
  using cpu_idle_exact [of "[[raw_cpu_default\<lparr>rc_idle_ns := 40\<rparr>], [raw_cpu_default\<lparr>rc_idle_ns := 100\<rparr>]]" 0 "[]" 1]
  by (simp add: cpu_baseline_def raw_cpu_default_def)

text \<open>A CPU collection returns one snapshot per CPU of the reading, in order, with the saturating
  deltas against the last reading of the same CPU; the state keeps the new readings and those of CPUs
  the reading did not mention, and every reported ratio is between 0 and 1.\<close>

lemma cpu_collection:
  "cpu_snapshots window previous cs =
     (cs @ drop (length cs) previous,
      map (\<lambda>i. cpu_delta i window (cs ! i) (cpu_baseline previous i)) [0..<length cs]) \<and>
   0 \<le> idle_ratio s \<and> idle_ratio s \<le> 1 \<and> 0 \<le> user_ratio s \<and> user_ratio s \<le> 1 \<and>
   0 \<le> system_ratio s \<and> system_ratio s \<le> 1"
  by (simp add: cpu_snapshots_eq cpu_ratio_bounds)

end
