(* ===== verification/Network.thy ===== *)
theory Network
  imports Collector_Error Counter_Delta
begin

text \<open>
  Network byte accounting (\<open>talia-agent/src/modules/network/collector.rs\<close> and \<open>provider.rs\<close>).  One
  collection walks the keys of the BPF map; \<open>read_keys\<close> is what the key iterator yields and \<open>read\<close> the
  per-CPU values of a key.  A failed read ends the collection, with the baselines of the keys before
  it already replaced.
\<close>

datatype network_direction = Ingress | Egress

definition direction_str :: "network_direction \<Rightarrow> string" where
  "direction_str d = (case d of Ingress \<Rightarrow> ''receive'' | Egress \<Rightarrow> ''transmit'')"

record network_sample =
  ns_direction :: network_direction
  ns_bytes :: u64
  ns_packets :: u64

record network_snapshot =
  nss_window_duration :: duration
  nss_samples :: "network_sample list"

datatype raw_network_key = RawNetworkKey (nk_direction: u8) (nk_pad: "u8 list")

text \<open>The derived order: field by field.\<close>

instantiation raw_network_key :: linorder
begin

definition less_eq_raw_network_key :: "raw_network_key \<Rightarrow> raw_network_key \<Rightarrow> bool" where
  "less_eq_raw_network_key a b \<longleftrightarrow>
     nk_direction a < nk_direction b \<or> nk_direction a = nk_direction b \<and> nk_pad a \<le> nk_pad b"

definition less_raw_network_key :: "raw_network_key \<Rightarrow> raw_network_key \<Rightarrow> bool" where
  "less_raw_network_key a b \<longleftrightarrow>
     nk_direction a < nk_direction b \<or> nk_direction a = nk_direction b \<and> nk_pad a < nk_pad b"

instance
  by intro_classes
    (auto simp: less_eq_raw_network_key_def less_raw_network_key_def raw_network_key.expand)

end

definition key_direction :: "raw_network_key \<Rightarrow> network_direction option" where
  "key_direction key =
     (if nk_direction key = 1 then Some Ingress
      else if nk_direction key = 2 then Some Egress
      else None)"

record raw_network_counters =
  rn_bytes :: u64
  rn_packets :: u64

definition raw_network_default :: raw_network_counters where
  "raw_network_default = \<lparr>rn_bytes = 0, rn_packets = 0\<rparr>"

definition sum_network_counters :: "raw_network_counters list \<Rightarrow> raw_network_counters" where
  "sum_network_counters counters =
     fold (\<lambda>v t. \<lparr>rn_bytes = saturating_add (rn_bytes t) (rn_bytes v),
                   rn_packets = saturating_add (rn_packets t) (rn_packets v)\<rparr>)
       counters raw_network_default"

type_synonym network_baselines = "(raw_network_key, raw_network_counters) btree"

definition network_collector_load :: "'e bpf_object \<Rightarrow> ('e collector_error, network_baselines) result" where
  "network_collector_load bpf =
     and_then (map_err Load (bpf_load bpf)) (\<lambda>_.
     and_then (load_tracepoint bpf ''talia_netif_receive_skb'') (\<lambda>_.
     and_then (load_tracepoint bpf ''talia_net_dev_xmit'') (\<lambda>_.
     and_then (take_map bpf ''network_counters_per_cpu_map'') (\<lambda>_. Inr []))))"

text \<open>The loop body for a key with a direction: the summed reading replaces the baseline, the sample is
  the difference.\<close>

definition network_observe ::
    "raw_network_key \<Rightarrow> network_direction \<Rightarrow> raw_network_counters list \<Rightarrow> network_baselines \<Rightarrow>
     network_baselines \<times> network_sample" where
  "network_observe key direction values_per_cpu previous =
     (let current = sum_network_counters values_per_cpu;
          old = (case bt_get previous key of None \<Rightarrow> raw_network_default | Some p \<Rightarrow> p)
      in (bt_insert key current previous,
          \<lparr>ns_direction = direction,
           ns_bytes = saturating_sub (rn_bytes current) (rn_bytes old),
           ns_packets = saturating_sub (rn_packets current) (rn_packets old)\<rparr>))"

fun network_loop ::
    "(raw_network_key \<Rightarrow> ('e, raw_network_counters list) result) \<Rightarrow> network_baselines \<Rightarrow> network_sample list \<Rightarrow>
     ('e, raw_network_key) result list \<Rightarrow>
     network_baselines \<times> ('e collector_error, network_sample list) result" where
  "network_loop read previous samples [] = (previous, Inr samples)"
| "network_loop read previous samples (Inl e # rest) = (previous, Inl (Map_Error e))"
| "network_loop read previous samples (Inr key # rest) =
     (case key_direction key of
        None \<Rightarrow> network_loop read previous samples rest
      | Some direction \<Rightarrow>
          (case read key of
             Inl e \<Rightarrow> (previous, Inl (Map_Error e))
           | Inr values_per_cpu \<Rightarrow>
               (let (previous', s) = network_observe key direction values_per_cpu previous
                in network_loop read previous' (samples @ [s]) rest)))"

definition network_collect ::
    "('e, raw_network_key) result list \<Rightarrow> (raw_network_key \<Rightarrow> ('e, raw_network_counters list) result) \<Rightarrow>
     duration \<Rightarrow> network_baselines \<Rightarrow>
     network_baselines \<times> ('e collector_error, network_snapshot) result" where
  "network_collect read_keys read window previous =
     (let (previous', r) = network_loop read previous [] read_keys in
      (previous', and_then r (\<lambda>samples. Inr \<lparr>nss_window_duration = window, nss_samples = samples\<rparr>)))"

section \<open>The provider\<close>

definition NETWORK_IO_SAMPLE :: string where
  "NETWORK_IO_SAMPLE = ''system.network.io''"
definition NETWORK_DIRECTION_ATTRIBUTE :: string where
  "NETWORK_DIRECTION_ATTRIBUTE = ''network.io.direction''"

definition network_sample_of :: "system_time \<Rightarrow> network_sample \<Rightarrow> sample" where
  "network_sample_of timestamp s =
     mk_sample timestamp NETWORK_IO_SAMPLE (Counter (ns_bytes s))
       (bt_insert NETWORK_DIRECTION_ATTRIBUTE (direction_str (ns_direction s)) [])"

record network_provider =
  np_previous :: network_baselines
  np_window :: duration

definition network_provider_load ::
    "'e bpf_object \<Rightarrow> duration \<Rightarrow> ('e collector_error provider_error, network_provider) result" where
  "network_provider_load bpf window =
     map_err (ProviderError ''network'')
       (and_then (network_collector_load bpf) (\<lambda>previous. Inr \<lparr>np_previous = previous, np_window = window\<rparr>))"

definition network_set_window :: "duration \<Rightarrow> network_provider \<Rightarrow> network_provider" where
  "network_set_window window p = p\<lparr>np_window := window\<rparr>"

definition network_provider_collect ::
    "('e, raw_network_key) result list \<Rightarrow> (raw_network_key \<Rightarrow> ('e, raw_network_counters list) result) \<Rightarrow>
     system_time \<Rightarrow> network_provider \<Rightarrow>
     network_provider \<times> ('e collector_error provider_error, sample list) result" where
  "network_provider_collect read_keys read timestamp p =
     (let (previous, r) = network_collect read_keys read (np_window p) (np_previous p) in
      (p\<lparr>np_previous := previous\<rparr>,
       map_err (ProviderError ''network'')
         (and_then r (\<lambda>snapshot. Inr (map (network_sample_of timestamp) (nss_samples snapshot))))))"

section \<open>Facts\<close>

definition network_baseline :: "network_baselines \<Rightarrow> raw_network_key \<Rightarrow> raw_network_counters" where
  "network_baseline previous key =
     (case bt_get previous key of None \<Rightarrow> raw_network_default | Some p \<Rightarrow> p)"

lemma network_observe_baseline:
  "network_baseline (fst (network_observe key d vs previous)) k =
     (if k = key then sum_network_counters vs else network_baseline previous k)"
  by (simp add: network_observe_def network_baseline_def Let_def)

lemma network_observe_sample:
  "snd (network_observe key d vs previous) =
     \<lparr>ns_direction = d,
      ns_bytes = saturating_sub (rn_bytes (sum_network_counters vs)) (rn_bytes (network_baseline previous key)),
      ns_packets = saturating_sub (rn_packets (sum_network_counters vs)) (rn_packets (network_baseline previous key))\<rparr>"
  by (simp add: network_observe_def network_baseline_def Let_def)

interpretation network_bytes: delta_collector
    "\<lambda>s. rn_bytes (network_baseline s key)" "\<lambda>vs. rn_bytes (sum_network_counters vs)" "\<lambda>_. True"
    "\<lambda>s vs. (fst (network_observe key d vs s), ns_bytes (snd (network_observe key d vs s)))" for key d
  by unfold_locales (simp_all add: network_observe_baseline network_observe_sample)

interpretation network_packets: delta_collector
    "\<lambda>s. rn_packets (network_baseline s key)" "\<lambda>vs. rn_packets (sum_network_counters vs)" "\<lambda>_. True"
    "\<lambda>s vs. (fst (network_observe key d vs s), ns_packets (snd (network_observe key d vs s)))" for key d
  by unfold_locales (simp_all add: network_observe_baseline network_observe_sample)

text \<open>A whole collection, when every read works: one sample per known key in iteration order.\<close>

lemma network_loop_ok:
  assumes "distinct keys" "\<forall>k\<in>set keys. key_direction k \<noteq> None \<longrightarrow> read k = Inr (vals k)"
  shows "network_loop read previous samples (map Inr keys) =
     (fold (\<lambda>k. bt_insert k (sum_network_counters (vals k))) (filter (\<lambda>k. key_direction k \<noteq> None) keys) previous,
      Inr (samples @ map (\<lambda>k. snd (network_observe k (the (key_direction k)) (vals k) previous))
             (filter (\<lambda>k. key_direction k \<noteq> None) keys)))"
  using assms
proof (induction keys arbitrary: previous samples)
  case Nil
  then show ?case by simp
next
  case (Cons k ks)
  show ?case
  proof (cases "key_direction k")
    case None
    then show ?thesis using Cons by simp
  next
    case (Some d)
    let ?p = "bt_insert k (sum_network_counters (vals k)) previous"
    have step: "network_observe k d (vals k) previous = (?p, snd (network_observe k d (vals k) previous))"
      by (simp add: network_observe_def Let_def)
    have same: "map (\<lambda>k. snd (network_observe k (the (key_direction k)) (vals k) ?p))
          (filter (\<lambda>k. key_direction k \<noteq> None) ks) =
        map (\<lambda>k. snd (network_observe k (the (key_direction k)) (vals k) previous))
          (filter (\<lambda>k. key_direction k \<noteq> None) ks)"
      using Cons.prems(1) by (auto simp: network_observe_def Let_def)
    have rd: "read k = Inr (vals k)" using Cons.prems(2) Some by simp
    have "network_loop read previous samples (map Inr (k # ks)) =
        network_loop read ?p (samples @ [snd (network_observe k d (vals k) previous)]) (map Inr ks)"
      by (simp only: list.map network_loop.simps Some rd option.simps sum.simps)
        (subst step, simp only: Let_def prod.case)
    with Cons.IH [of ?p "samples @ [snd (network_observe k d (vals k) previous)]"] Cons.prems same Some
    show ?thesis by simp
  qed
qed

lemma unat_sum_network_bytes:
  "unat (rn_bytes (sum_network_counters vs)) = min (sum_list (map (\<lambda>v. unat (rn_bytes v)) vs)) (2 ^ 64 - 1)"
proof -
  have "unat (rn_bytes (fold (\<lambda>v t. \<lparr>rn_bytes = saturating_add (rn_bytes t) (rn_bytes v),
                   rn_packets = saturating_add (rn_packets t) (rn_packets v)\<rparr>) vs t)) =
      min (unat (rn_bytes t) + sum_list (map (\<lambda>v. unat (rn_bytes v)) vs)) (2 ^ 64 - 1)" for t
  proof (induction vs arbitrary: t)
    case Nil
    then show ?case using unat_u64_less [of "rn_bytes t"] by simp
  next
    case (Cons v vs)
    then show ?case by (simp add: unat_saturating_add)
  qed
  then show ?thesis by (simp add: sum_network_counters_def raw_network_default_def)
qed

lemma network_sample_of_name: "sample_name (network_sample_of now s) = NETWORK_IO_SAMPLE"
  by (simp add: network_sample_of_def)

text \<open>What a failed read loses: the keys read before it have new baselines, their deltas are gone.\<close>

lemma network_loop_lost_delta:
  assumes "key_direction k = Some d" "read k = Inr vs"
  shows "network_loop read previous [] [Inr k, Inl e] =
     (fst (network_observe k d vs previous), Inl (Map_Error e))"
  using assms by (simp add: network_observe_def Let_def)

section \<open>Properties\<close>

text \<open>A network collection whose reads all work yields one sample per key with a known direction, in the
  order of the keys: the direction of the key and the saturating growth of the summed counters since
  the key was last collected (since zero on the first time); afterwards the baseline of each of these
  keys is its reading and every other baseline is as before.\<close>

lemma network_collection:
  assumes "distinct keys" "\<forall>k\<in>set keys. key_direction k \<noteq> None \<longrightarrow> read k = Inr (vals k)"
    and "network_collect (map Inr keys) read window previous = (previous', r)"
  shows "r = Inr \<lparr>nss_window_duration = window, nss_samples =
      map (\<lambda>k. \<lparr>ns_direction = the (key_direction k),
                ns_bytes = saturating_sub (rn_bytes (sum_network_counters (vals k))) (rn_bytes (network_baseline previous k)),
                ns_packets = saturating_sub (rn_packets (sum_network_counters (vals k))) (rn_packets (network_baseline previous k))\<rparr>)
        (filter (\<lambda>k. key_direction k \<noteq> None) keys)\<rparr> \<and>
    (\<forall>k. network_baseline previous' k =
       (if k \<in> set keys \<and> key_direction k \<noteq> None then sum_network_counters (vals k)
        else network_baseline previous k))"
proof -
  let ?ks = "filter (\<lambda>k. key_direction k \<noteq> None) keys"
  have base: "network_baseline (fold (\<lambda>k. bt_insert k (sum_network_counters (vals k))) ks p) k =
      (if k \<in> set ks then sum_network_counters (vals k) else network_baseline p k)" for ks p k
    by (induction ks arbitrary: p) (auto simp: network_baseline_def)
  show ?thesis
    using assms(3) network_loop_ok [OF assms(1,2), of previous "[]"]
    by (auto simp: network_collect_def network_observe_sample base)
qed

lemma network_collection_witness:
  "snd (network_collect [Inr (RawNetworkKey 1 []), Inr (RawNetworkKey 7 [])]
      (\<lambda>_. Inr [\<lparr>rn_bytes = 700, rn_packets = 3\<rparr>, \<lparr>rn_bytes = 300, rn_packets = 2\<rparr>] :: (string, _) result) 5
      [(RawNetworkKey 1 [], \<lparr>rn_bytes = 400, rn_packets = 1\<rparr>)]) =
    Inr \<lparr>nss_window_duration = 5, nss_samples = [\<lparr>ns_direction = Ingress, ns_bytes = 600, ns_packets = 4\<rparr>]\<rparr>"
proof -
  let ?read = "\<lambda>_. Inr [\<lparr>rn_bytes = 700, rn_packets = 3\<rparr>, \<lparr>rn_bytes = 300, rn_packets = 2\<rparr>] :: (string, raw_network_counters list) result"
  let ?p = "[(RawNetworkKey 1 [], \<lparr>rn_bytes = 400, rn_packets = 1\<rparr>)]"
  have d: "distinct [RawNetworkKey 1 [], RawNetworkKey 7 []]" by simp
  have s: "sum_network_counters [\<lparr>rn_bytes = 700, rn_packets = 3\<rparr>, \<lparr>rn_bytes = 300, rn_packets = 2\<rparr>] =
      \<lparr>rn_bytes = 1000, rn_packets = 5\<rparr>" by code_simp
  have m: "saturating_sub 1000 400 = (600 :: u64)" "saturating_sub 5 1 = (4 :: u64)" by code_simp+
  show ?thesis
    using network_collection [of "[RawNetworkKey 1 [], RawNetworkKey 7 []]" ?read
        "\<lambda>_. [\<lparr>rn_bytes = 700, rn_packets = 3\<rparr>, \<lparr>rn_bytes = 300, rn_packets = 2\<rparr>]" 5 ?p
        "fst (network_collect (map Inr [RawNetworkKey 1 [], RawNetworkKey 7 []]) ?read 5 ?p)"
        "snd (network_collect (map Inr [RawNetworkKey 1 [], RawNetworkKey 7 []]) ?read 5 ?p)", OF d]
    by (simp add: key_direction_def s network_baseline_def m)
qed

text \<open>A run of the provider's collections: each with what the key iterator yields, the reads and the time.\<close>

type_synonym 'e network_round =
  "('e, raw_network_key) result list \<times> (raw_network_key \<Rightarrow> ('e, raw_network_counters list) result) \<times> system_time"

fun network_rounds ::
    "network_provider \<Rightarrow> 'e network_round list \<Rightarrow>
     network_provider \<times> ('e collector_error provider_error, sample list) result list" where
  "network_rounds p [] = (p, [])"
| "network_rounds p ((read_keys, read, timestamp) # rounds) =
     (let (p', r) = network_provider_collect read_keys read timestamp p;
          (p'', rs) = network_rounds p' rounds
      in (p'', r # rs))"

text \<open>The bytes a collection reports for a direction: a failed one reports none.\<close>

fun counter_value :: "sample_value \<Rightarrow> nat" where
  "counter_value (Counter v) = unat v"
| "counter_value _ = 0"

definition direction_bytes :: "network_direction \<Rightarrow> ('x, sample list) result \<Rightarrow> nat" where
  "direction_bytes d r =
     (case r of
        Inl _ \<Rightarrow> 0
      | Inr samples \<Rightarrow> sum_list (map (\<lambda>s. counter_value (sample_value s))
          (filter (\<lambda>s. sample_attributes s = bt_insert NETWORK_DIRECTION_ATTRIBUTE (direction_str d) []) samples)))"

definition sample_bytes :: "network_direction \<Rightarrow> network_sample list \<Rightarrow> nat" where
  "sample_bytes d ss = sum_list (map (\<lambda>s. unat (ns_bytes s)) (filter (\<lambda>s. ns_direction s = d) ss))"

lemma direction_bytes_samples:
  "direction_bytes d (Inr (map (network_sample_of now) ss)) = sample_bytes d ss"
proof -
  have "sample_attributes (network_sample_of now s) = bt_insert NETWORK_DIRECTION_ATTRIBUTE (direction_str d) [] \<longleftrightarrow>
      ns_direction s = d" for s
    by (cases "ns_direction s"; cases d) (simp_all add: network_sample_of_def direction_str_def)
  then show ?thesis
    by (simp add: direction_bytes_def sample_bytes_def filter_map comp_def) (simp add: network_sample_of_def)
qed

text \<open>The account of a direction: its keys' baselines together.\<close>

definition key_bytes :: "network_baselines \<Rightarrow> raw_network_key \<Rightarrow> nat" where
  "key_bytes previous k = unat (rn_bytes (network_baseline previous k))"

definition direction_keys :: "network_direction \<Rightarrow> raw_network_key set \<Rightarrow> raw_network_key set" where
  "direction_keys d ks = {k\<in>ks. key_direction k = Some d}"

text \<open>What a collection may read: every counter it can read is \<open>c\<close>, and no baseline is ahead of it.\<close>

definition reads_counters ::
    "(raw_network_key \<Rightarrow> nat) \<Rightarrow> (raw_network_key \<Rightarrow> ('e, raw_network_counters list) result) \<Rightarrow> bool" where
  "reads_counters c read \<longleftrightarrow> (\<forall>k vs. read k = Inr vs \<longrightarrow> unat (rn_bytes (sum_network_counters vs)) = c k)"

lemma network_observe_account:
  assumes "unat (rn_bytes (sum_network_counters vs)) = c k" "key_bytes previous k \<le> c k"
    and "network_observe k d vs previous = (previous', s)"
  shows "key_bytes previous' = (key_bytes previous)(k := c k)" "ns_direction s = d"
    "unat (ns_bytes s) = c k - key_bytes previous k"
proof -
  show "key_bytes previous' = (key_bytes previous)(k := c k)"
    using assms(1,3) network_observe_baseline [of k d vs previous]
    by (auto simp: fun_eq_iff key_bytes_def)
  show "ns_direction s = d" using assms(3) by (auto simp: network_observe_def Let_def)
  show "unat (ns_bytes s) = c k - key_bytes previous k"
    using assms network_bytes.delta_step [where r = vs and s = previous and key = k and d = d]
    by (simp add: key_bytes_def unat_saturating_sub)
qed

lemma sum_one_raised:
  fixes f :: "'k \<Rightarrow> nat"
  assumes "finite K" "k \<in> K" "f k \<le> v"
  shows "sum (f(k := v)) K = sum f K + (v - f k)"
proof -
  have "sum (f(k := v)) (K - {k}) = sum f (K - {k})" by (rule sum.cong) auto
  then show ?thesis using assms by (simp add: sum.remove)
qed

text \<open>The loop over the keys: whether or not it ends in an error, baselines only move up to the counters;
  when it does not, the samples are what the account of the direction has grown by.\<close>

lemma network_loop_account:
  assumes "network_loop read previous samples ks = (previous', r)"
    and "reads_counters c read" "\<forall>k. key_bytes previous k \<le> c k"
    and "finite K" "\<forall>k. Inr k \<in> set ks \<longrightarrow> k \<in> K"
  shows "(\<forall>k. key_bytes previous k \<le> key_bytes previous' k \<and> key_bytes previous' k \<le> c k) \<and>
    (\<forall>k. Inr k \<notin> set ks \<longrightarrow> key_bytes previous' k = key_bytes previous k) \<and>
    (\<forall>samples'. r = Inr samples' \<longrightarrow>
       sample_bytes d samples' + sum (key_bytes previous) (direction_keys d K) =
         sample_bytes d samples + sum (key_bytes previous') (direction_keys d K) \<and>
       (\<forall>k. Inr k \<in> set ks \<and> key_direction k \<noteq> None \<longrightarrow> key_bytes previous' k = c k))"
  using assms
proof (induction read previous samples ks rule: network_loop.induct)
  case (1 read previous samples)
  then show ?case by (auto simp: le_refl)
next
  case (2 read previous samples e rest)
  then show ?case by auto
next
  case (3 read previous samples key rest)
  show ?case
  proof (cases "key_direction key")
    case None
    then show ?thesis using "3.IH"(1) "3.prems" by auto
  next
    case (Some direction)
    show ?thesis
    proof (cases "read key")
      case (Inl e)
      then show ?thesis using "3.prems" Some by auto
    next
      case (Inr vs)
      obtain p1 s where o: "network_observe key direction vs previous = (p1, s)" by fastforce
      have c: "unat (rn_bytes (sum_network_counters vs)) = c key"
        using "3.prems"(2) Inr by (simp add: reads_counters_def)
      have le: "key_bytes previous key \<le> c key" using "3.prems"(3) by blast
      note acc = network_observe_account [where c = c, OF c le o]
      have loop: "network_loop read p1 (samples @ [s]) rest = (previous', r)"
        using "3.prems"(1) Some Inr o by simp
      have le1: "\<forall>k. key_bytes p1 k \<le> c k" using acc(1) "3.prems"(3) by simp
      have "\<forall>k. Inr k \<in> set rest \<longrightarrow> k \<in> K" using "3.prems"(5) by simp
      note ih = "3.IH"(2) [OF Some Inr o [symmetric] refl loop "3.prems"(2) le1 "3.prems"(4) this]
      have mono: "key_bytes previous k \<le> key_bytes p1 k" for k using acc(1) le by simp
      have raised: "sum (key_bytes p1) (direction_keys d K) =
          sum (key_bytes previous) (direction_keys d K) + (if direction = d then c key - key_bytes previous key else 0)"
      proof (cases "direction = d")
        case True
        then have "key \<in> direction_keys d K" using Some "3.prems"(5) by (simp add: direction_keys_def)
        then show ?thesis
          using sum_one_raised [of "direction_keys d K" key "key_bytes previous" "c key"] le "3.prems"(4) True
          by (simp add: acc(1) direction_keys_def)
      next
        case False
        then have "key \<notin> direction_keys d K" using Some by (simp add: direction_keys_def)
        then show ?thesis using False by (auto simp: acc(1) intro: sum.cong)
      qed
      have added: "sample_bytes d (samples @ [s]) =
          sample_bytes d samples + (if direction = d then c key - key_bytes previous key else 0)"
        using acc(2,3) by (simp add: sample_bytes_def)
      have "key_bytes p1 key = c key" using acc(1) by simp
      then have "key_bytes previous' key = c key" using ih by (metis order_antisym)
      moreover have "key_bytes p1 k = key_bytes previous k" if "k \<noteq> key" for k using acc(1) that by simp
      ultimately show ?thesis using ih mono raised added by (fastforce intro: order_trans)
    qed
  qed
qed

text \<open>One collection of the provider.\<close>

lemma network_provider_account:
  assumes "network_provider_collect ks read now p = (p', r)"
    and "reads_counters c read" "\<forall>k. key_bytes (np_previous p) k \<le> c k"
    and "finite K" "\<forall>k. Inr k \<in> set ks \<longrightarrow> k \<in> K"
  shows "(\<forall>k. key_bytes (np_previous p) k \<le> key_bytes (np_previous p') k \<and> key_bytes (np_previous p') k \<le> c k) \<and>
    (\<forall>k. Inr k \<notin> set ks \<longrightarrow> key_bytes (np_previous p') k = key_bytes (np_previous p) k) \<and>
    (is_ok r \<longrightarrow>
       direction_bytes d r + sum (key_bytes (np_previous p)) (direction_keys d K) =
         sum (key_bytes (np_previous p')) (direction_keys d K) \<and>
       (\<forall>k. Inr k \<in> set ks \<and> key_direction k \<noteq> None \<longrightarrow> key_bytes (np_previous p') k = c k)) \<and>
    (\<not> is_ok r \<longrightarrow> direction_bytes d r = 0)"
proof -
  obtain previous' x where l: "network_loop read (np_previous p) [] ks = (previous', x)" by fastforce
  have p': "np_previous p' = previous'"
    using assms(1) l by (auto simp: network_provider_collect_def network_collect_def)
  note account = network_loop_account [OF l assms(2-5), of d]
  show ?thesis
  proof (cases x)
    case (Inl e)
    then have "r = Inl (ProviderError ''network'' e)"
      using assms(1) l by (auto simp: network_provider_collect_def network_collect_def)
    then show ?thesis using account by (simp add: p' direction_bytes_def)
  next
    case (Inr samples)
    then have "r = Inr (map (network_sample_of now) samples)"
      using assms(1) l by (auto simp: network_provider_collect_def network_collect_def)
    then show ?thesis
      using account Inr by (simp add: p' direction_bytes_samples) (simp add: sample_bytes_def)
  qed
qed

text \<open>A run: the keys it lists, and its account.\<close>

fun round_keys :: "'e network_round list \<Rightarrow> raw_network_key list" where
  "round_keys [] = []"
| "round_keys ((ks, _) # rounds) = List.map_filter res_ok ks @ round_keys rounds"

lemma set_map_filter_res_ok: "set (List.map_filter res_ok ks) = {k. Inr k \<in> set ks}"
  by (induction ks) (auto simp: List.map_filter_simps res_ok_def split: sum.splits option.splits)

lemma round_keys_nth: "k \<in> set (round_keys rounds) \<longleftrightarrow> (\<exists>i<length rounds. Inr k \<in> set (fst (rounds ! i)))"
  by (induction rounds rule: round_keys.induct) (auto simp: set_map_filter_res_ok less_Suc_eq_0_disj)

text \<open>The last round of a run in which a key was listed decides its baseline.\<close>

definition last_listed :: "'e network_round list \<Rightarrow> nat \<Rightarrow> raw_network_key \<Rightarrow> bool" where
  "last_listed rounds j k \<longleftrightarrow>
     j < length rounds \<and> Inr k \<in> set (fst (rounds ! j)) \<and>
     (\<forall>i<length rounds. j < i \<longrightarrow> Inr k \<notin> set (fst (rounds ! i)))"

lemma last_listed_Cons:
  "last_listed (met # rounds) j k \<longleftrightarrow>
     (case j of 0 \<Rightarrow> Inr k \<in> set (fst met) \<and> k \<notin> set (round_keys rounds) | Suc i \<Rightarrow> last_listed rounds i k)"
  by (cases j) (auto simp: last_listed_def round_keys_nth less_Suc_eq_0_disj)

lemma network_rounds_account:
  assumes "network_rounds p rounds = (p', rs)"
    and "\<forall>i<length rounds. reads_counters (c i) (fst (snd (rounds ! i)))" "\<forall>i k. c i k \<le> c (Suc i) k"
    and "\<forall>k. key_bytes (np_previous p) k \<le> c 0 k" "finite K" "set (round_keys rounds) \<subseteq> K"
  shows "sum_list (map (direction_bytes d) rs) + sum (key_bytes (np_previous p)) (direction_keys d K)
      \<le> sum (key_bytes (np_previous p')) (direction_keys d K) \<and>
    (\<forall>k. k \<notin> set (round_keys rounds) \<longrightarrow> key_bytes (np_previous p') k = key_bytes (np_previous p) k) \<and>
    (list_all is_ok rs \<longrightarrow>
       sum_list (map (direction_bytes d) rs) + sum (key_bytes (np_previous p)) (direction_keys d K) =
         sum (key_bytes (np_previous p')) (direction_keys d K) \<and>
       (\<forall>j k. key_direction k \<noteq> None \<and> last_listed rounds j k \<longrightarrow> key_bytes (np_previous p') k = c j k))"
  using assms
proof (induction p rounds arbitrary: p' rs c rule: network_rounds.induct)
  case (1 p)
  then show ?case by (simp add: last_listed_def)
next
  case (2 p ks read now rounds)
  obtain p1 x where x: "network_provider_collect ks read now p = (p1, x)" by fastforce
  obtain p2 xs where xs: "network_rounds p1 rounds = (p2, xs)" by fastforce
  have run: "p' = p2" "rs = x # xs" using 2(2) x xs by auto
  have r0: "reads_counters (c 0) read" using 2(3) by force
  have k0: "\<forall>k. Inr k \<in> set ks \<longrightarrow> k \<in> K" using 2(7) by (auto simp: set_map_filter_res_ok)
  note one = network_provider_account [OF x r0 2(5,6) k0, of d]
  have r1: "\<forall>i<length rounds. reads_counters (c (Suc i)) (fst (snd (rounds ! i)))" using 2(3) by auto
  have c1: "\<forall>k. key_bytes (np_previous p1) k \<le> c (Suc 0) k" using one 2(4) by (meson order_trans)
  have rising: "\<forall>i k. c (Suc i) k \<le> c (Suc (Suc i)) k" using 2(4) by blast
  have k1: "set (round_keys rounds) \<subseteq> K" using 2(7) by simp
  note rest = "2.IH" [OF x [symmetric] refl xs r1 rising c1 2(6) k1]
  let ?D = "direction_keys d K" and ?b = "\<lambda>q. key_bytes (np_previous q)"
  have up: "sum (?b p) ?D \<le> sum (?b p1) ?D" using one by (intro sum_mono) blast
  show ?case
  proof (intro conjI impI allI; (elim conjE)?)
    show "sum_list (map (direction_bytes d) rs) + sum (?b p) ?D \<le> sum (?b p') ?D"
      using one rest up by (cases "is_ok x") (simp_all add: run)
    show "?b p' k = ?b p k" if "k \<notin> set (round_keys ((ks, read, now) # rounds))" for k
      using that one rest by (simp add: run set_map_filter_res_ok)
    assume ok: "list_all is_ok rs"
    show "sum_list (map (direction_bytes d) rs) + sum (?b p) ?D = sum (?b p') ?D"
      using ok one rest by (simp add: run)
    show "?b p' k = c j k" if "key_direction k \<noteq> None" "last_listed ((ks, read, now) # rounds) j k" for j k
      using that ok one rest by (cases j) (simp_all add: run last_listed_Cons)
  qed
qed

text \<open>C28: The bytes reported over a run of the network provider, per direction.  When the per-CPU sums a round
  can read are those of counters that never decrease and start no lower than the baselines, the
  counter samples of the direction never add up to more than the growth of its keys' baselines, even
  when collections fail half way; and when no collection fails they add up to exactly that growth, and
  the final baseline of every key is its counter in the last round that listed it.\<close>

theorem network_bytes_exact:
  assumes counters: "\<forall>i<length rounds. reads_counters (c i) (fst (snd (rounds ! i)))" "\<forall>i k. c i k \<le> c (Suc i) k"
    and start: "\<forall>k. key_bytes (np_previous p) k \<le> c 0 k"
    and run: "network_rounds p rounds = (p', rs)"
    and keys: "keys = direction_keys d (set (round_keys rounds))"
  shows "sum_list (map (direction_bytes d) rs) + sum (key_bytes (np_previous p)) keys
      \<le> sum (key_bytes (np_previous p')) keys \<and>
    (list_all is_ok rs \<longrightarrow>
       sum_list (map (direction_bytes d) rs) + sum (key_bytes (np_previous p)) keys =
         sum (key_bytes (np_previous p')) keys \<and>
       (\<forall>j k. k \<in> keys \<and> last_listed rounds j k \<longrightarrow> key_bytes (np_previous p') k = c j k))"
  using network_rounds_account [OF run counters start finite_set subset_refl, of d]
  by (auto simp: keys direction_keys_def)

text \<open>A provider just loaded, and a key that counts 9 bytes in two rounds.\<close>

definition demo_network_rounds :: "string network_round list" where
  "demo_network_rounds =
     [([Inr (RawNetworkKey 1 [])], \<lambda>_. Inr [\<lparr>rn_bytes = 5, rn_packets = 1\<rparr>], 0),
      ([Inr (RawNetworkKey 1 []), Inr (RawNetworkKey 7 [])],
       \<lambda>_. Inr [\<lparr>rn_bytes = 7, rn_packets = 1\<rparr>, \<lparr>rn_bytes = 2, rn_packets = 1\<rparr>], 1)]"

lemma network_bytes_exact_witness:
  "list_all is_ok (snd (network_rounds \<lparr>np_previous = [], np_window = 5\<rparr> demo_network_rounds)) \<and>
   sum_list (map (direction_bytes Ingress)
     (snd (network_rounds \<lparr>np_previous = [], np_window = 5\<rparr> demo_network_rounds))) = 9"
proof -
  let ?p = "\<lparr>np_previous = [], np_window = 5\<rparr>" and ?k = "RawNetworkKey 1 []"
  let ?c = "\<lambda>i (k :: raw_network_key). if i = 0 then 5 else 9 :: nat"
  obtain p' rs where run: "network_rounds ?p demo_network_rounds = (p', rs)" by fastforce
  have sums: "unat (rn_bytes (sum_network_counters [\<lparr>rn_bytes = 5, rn_packets = 1\<rparr>])) = 5"
    "unat (rn_bytes (sum_network_counters [\<lparr>rn_bytes = 7, rn_packets = 1\<rparr>, \<lparr>rn_bytes = 2, rn_packets = 1\<rparr>])) = 9"
    by code_simp+
  have counters: "\<forall>i<length demo_network_rounds. reads_counters (?c i) (fst (snd (demo_network_rounds ! i)))"
    using sums by (auto simp: demo_network_rounds_def reads_counters_def less_Suc_eq)
  have start: "\<forall>k. key_bytes (np_previous ?p) k \<le> ?c 0 k"
    by (simp add: key_bytes_def network_baseline_def raw_network_default_def)
  have rising: "\<forall>i k. ?c i k \<le> ?c (Suc i) k" by simp
  have keys: "direction_keys Ingress (set (round_keys demo_network_rounds)) = {?k}"
    by (auto simp: direction_keys_def demo_network_rounds_def set_map_filter_res_ok key_direction_def)
  have last: "last_listed demo_network_rounds 1 ?k" by (simp add: last_listed_def demo_network_rounds_def)
  have ok: "list_all is_ok rs"
    using run
    by (auto simp: demo_network_rounds_def network_provider_collect_def network_collect_def key_direction_def is_ok_def
        split: prod.splits)
  from network_bytes_exact [OF counters rising start run keys [symmetric]] ok last show ?thesis
    by (auto simp: run key_bytes_def network_baseline_def raw_network_default_def)
qed

text \<open>A collection that fails half way loses traffic: when the reading after a key fails, the provider
  reports an error and no samples, but the key's baseline has moved, so the bytes counted up to then
  are in no later delta either.\<close>

lemma failed_collection_loses_bytes:
  assumes "key_direction k = Some d" "read k = Inr vs"
    and "network_provider_collect [Inr k, Inl e] read now p = (p', r)"
  shows "r = Inl (ProviderError ''network'' (Map_Error e)) \<and>
    network_provider_collect [Inr k] read now p' = (p', Inr [network_sample_of now \<lparr>ns_direction = d, ns_bytes = 0, ns_packets = 0\<rparr>])"
proof -
  have p': "p' = p\<lparr>np_previous := bt_insert k (sum_network_counters vs) (np_previous p)\<rparr>"
    and r: "r = Inl (ProviderError ''network'' (Map_Error e))"
    using assms by (auto simp: network_provider_collect_def network_collect_def network_loop_lost_delta
        network_observe_def Let_def)
  have idem: "bt_insert k v (bt_insert k v m) = bt_insert k v m" for v :: raw_network_counters and m :: network_baselines
    by (induction k v m rule: bt_insert.induct) auto
  show ?thesis
    using assms(1,2) r by (simp add: p' network_provider_collect_def network_collect_def network_observe_def idem)
qed

lemma failed_collection_loses_bytes_witness:
  "network_provider_collect [Inr (RawNetworkKey 1 [])] (\<lambda>_. Inr [\<lparr>rn_bytes = 500, rn_packets = 1\<rparr>] :: (string, _) result) 0
     \<lparr>np_previous = [(RawNetworkKey 1 [], \<lparr>rn_bytes = 500, rn_packets = 1\<rparr>)], np_window = 1\<rparr> =
   (\<lparr>np_previous = [(RawNetworkKey 1 [], \<lparr>rn_bytes = 500, rn_packets = 1\<rparr>)], np_window = 1\<rparr>,
    Inr [network_sample_of 0 \<lparr>ns_direction = Ingress, ns_bytes = 0, ns_packets = 0\<rparr>])"
proof -
  let ?read = "\<lambda>_. Inr [\<lparr>rn_bytes = 500, rn_packets = 1\<rparr>] :: (string, raw_network_counters list) result"
  have s: "sum_network_counters [\<lparr>rn_bytes = 500, rn_packets = 1\<rparr>] = \<lparr>rn_bytes = 500, rn_packets = 1\<rparr>" by code_simp
  have "network_provider_collect [Inr (RawNetworkKey 1 []), Inl ''EINTR''] ?read 0 \<lparr>np_previous = [], np_window = 1\<rparr> =
      (\<lparr>np_previous = [(RawNetworkKey 1 [], \<lparr>rn_bytes = 500, rn_packets = 1\<rparr>)], np_window = 1\<rparr>,
       Inl (ProviderError ''network'' (Map_Error ''EINTR'')))"
    by (simp add: network_provider_collect_def network_collect_def network_observe_def key_direction_def s)
  from failed_collection_loses_bytes [OF _ _ this, of Ingress] show ?thesis by (simp add: key_direction_def)
qed

end
