(* ===== verification/Disk_Io.thy ===== *)
theory Disk_Io
  imports Collector_Error Counter_Delta
begin

text \<open>
  Disk I/O accounting (\<open>talia-agent/src/modules/disk_io/collector.rs\<close> and \<open>provider.rs\<close>): bytes,
  operations, errors and latency as deltas, the in-flight gauges as they are read (signed), and the
  average latency of the operations completed in the window.
\<close>

datatype disk_io_direction = Read | Write

definition disk_direction_str :: "disk_io_direction \<Rightarrow> string" where
  "disk_direction_str d = (case d of Read \<Rightarrow> ''read'' | Write \<Rightarrow> ''write'')"

record disk_io_sample =
  ds_direction :: disk_io_direction
  ds_bytes :: u64
  ds_operations :: u64
  ds_errors :: u64
  ds_average_latency :: "duration option"
  ds_in_flight_operations :: "64 word"
  ds_in_flight_bytes :: "64 word"

record disk_io_snapshot =
  dss_window_duration :: duration
  dss_samples :: "disk_io_sample list"

datatype raw_disk_io_key = RawDiskIoKey (dk_direction: u8) (dk_pad: "u8 list")

instantiation raw_disk_io_key :: linorder
begin

definition less_eq_raw_disk_io_key :: "raw_disk_io_key \<Rightarrow> raw_disk_io_key \<Rightarrow> bool" where
  "less_eq_raw_disk_io_key a b \<longleftrightarrow>
     dk_direction a < dk_direction b \<or> dk_direction a = dk_direction b \<and> dk_pad a \<le> dk_pad b"

definition less_raw_disk_io_key :: "raw_disk_io_key \<Rightarrow> raw_disk_io_key \<Rightarrow> bool" where
  "less_raw_disk_io_key a b \<longleftrightarrow>
     dk_direction a < dk_direction b \<or> dk_direction a = dk_direction b \<and> dk_pad a < dk_pad b"

instance
  by intro_classes
    (auto simp: less_eq_raw_disk_io_key_def less_raw_disk_io_key_def raw_disk_io_key.expand)

end

definition disk_key_direction :: "raw_disk_io_key \<Rightarrow> disk_io_direction option" where
  "disk_key_direction key =
     (if dk_direction key = 1 then Some Read
      else if dk_direction key = 2 then Some Write
      else None)"

record raw_disk_io_counters =
  rd_bytes :: u64
  rd_operations :: u64
  rd_latency_ns :: u64
  rd_errors :: u64
  rd_in_flight_bytes :: "64 word"
  rd_in_flight_operations :: "64 word"

definition raw_disk_io_default :: raw_disk_io_counters where
  "raw_disk_io_default =
     \<lparr>rd_bytes = 0, rd_operations = 0, rd_latency_ns = 0, rd_errors = 0,
      rd_in_flight_bytes = 0, rd_in_flight_operations = 0\<rparr>"

definition add_disk_counters :: "raw_disk_io_counters \<Rightarrow> raw_disk_io_counters \<Rightarrow> raw_disk_io_counters" where
  "add_disk_counters v t =
     \<lparr>rd_bytes = saturating_add (rd_bytes t) (rd_bytes v),
      rd_operations = saturating_add (rd_operations t) (rd_operations v),
      rd_latency_ns = saturating_add (rd_latency_ns t) (rd_latency_ns v),
      rd_errors = saturating_add (rd_errors t) (rd_errors v),
      rd_in_flight_bytes = saturating_add_i64 (rd_in_flight_bytes t) (rd_in_flight_bytes v),
      rd_in_flight_operations = saturating_add_i64 (rd_in_flight_operations t) (rd_in_flight_operations v)\<rparr>"

definition sum_disk_counters :: "raw_disk_io_counters list \<Rightarrow> raw_disk_io_counters" where
  "sum_disk_counters counters = fold add_disk_counters counters raw_disk_io_default"

definition average_latency :: "u64 \<Rightarrow> u64 \<Rightarrow> duration option" where
  "average_latency latency_ns operations =
     (if operations = 0 then None else Some (unat (latency_ns div operations)))"

type_synonym disk_io_baselines = "(raw_disk_io_key, raw_disk_io_counters) btree"

definition disk_io_collector_load :: "'e bpf_object \<Rightarrow> ('e collector_error, disk_io_baselines) result" where
  "disk_io_collector_load bpf =
     and_then (map_err Load (bpf_load bpf)) (\<lambda>_.
     and_then (load_tracepoint bpf ''talia_block_rq_issue'') (\<lambda>_.
     and_then (load_tracepoint bpf ''talia_block_rq_complete'') (\<lambda>_.
     and_then (take_map bpf ''disk_io_counters_per_cpu_map'') (\<lambda>_. Inr []))))"

definition disk_io_observe ::
    "raw_disk_io_key \<Rightarrow> disk_io_direction \<Rightarrow> raw_disk_io_counters list \<Rightarrow> disk_io_baselines \<Rightarrow>
     disk_io_baselines \<times> disk_io_sample" where
  "disk_io_observe key direction values_per_cpu previous =
     (let current = sum_disk_counters values_per_cpu;
          old = (case bt_get previous key of None \<Rightarrow> raw_disk_io_default | Some p \<Rightarrow> p);
          bytes = saturating_sub (rd_bytes current) (rd_bytes old);
          operations = saturating_sub (rd_operations current) (rd_operations old);
          latency_ns = saturating_sub (rd_latency_ns current) (rd_latency_ns old);
          errors = saturating_sub (rd_errors current) (rd_errors old)
      in (bt_insert key current previous,
          \<lparr>ds_direction = direction, ds_bytes = bytes, ds_operations = operations, ds_errors = errors,
           ds_average_latency = average_latency latency_ns operations,
           ds_in_flight_operations = rd_in_flight_operations current,
           ds_in_flight_bytes = rd_in_flight_bytes current\<rparr>))"

fun disk_io_loop ::
    "(raw_disk_io_key \<Rightarrow> ('e, raw_disk_io_counters list) result) \<Rightarrow> disk_io_baselines \<Rightarrow> disk_io_sample list \<Rightarrow>
     ('e, raw_disk_io_key) result list \<Rightarrow>
     disk_io_baselines \<times> ('e collector_error, disk_io_sample list) result" where
  "disk_io_loop read previous samples [] = (previous, Inr samples)"
| "disk_io_loop read previous samples (Inl e # rest) = (previous, Inl (Map_Error e))"
| "disk_io_loop read previous samples (Inr key # rest) =
     (case disk_key_direction key of
        None \<Rightarrow> disk_io_loop read previous samples rest
      | Some direction \<Rightarrow>
          (case read key of
             Inl e \<Rightarrow> (previous, Inl (Map_Error e))
           | Inr values_per_cpu \<Rightarrow>
               (let (previous', s) = disk_io_observe key direction values_per_cpu previous
                in disk_io_loop read previous' (samples @ [s]) rest)))"

definition disk_io_collect ::
    "('e, raw_disk_io_key) result list \<Rightarrow> (raw_disk_io_key \<Rightarrow> ('e, raw_disk_io_counters list) result) \<Rightarrow>
     duration \<Rightarrow> disk_io_baselines \<Rightarrow>
     disk_io_baselines \<times> ('e collector_error, disk_io_snapshot) result" where
  "disk_io_collect read_keys read window previous =
     (let (previous', r) = disk_io_loop read previous [] read_keys in
      (previous', and_then r (\<lambda>samples. Inr \<lparr>dss_window_duration = window, dss_samples = samples\<rparr>)))"

section \<open>The provider\<close>

definition DISK_IO_SAMPLE :: string where
  "DISK_IO_SAMPLE = ''system.disk.io''"
definition DISK_OPERATIONS_SAMPLE :: string where
  "DISK_OPERATIONS_SAMPLE = ''system.disk.operations''"
definition DISK_ERRORS_SAMPLE :: string where
  "DISK_ERRORS_SAMPLE = ''system.disk.errors''"
definition DISK_LATENCY_SAMPLE :: string where
  "DISK_LATENCY_SAMPLE = ''system.disk.io.latency''"
definition DISK_QUEUE_DEPTH_SAMPLE :: string where
  "DISK_QUEUE_DEPTH_SAMPLE = ''system.disk.io.queue_depth''"
definition DISK_IN_FLIGHT_BYTES_SAMPLE :: string where
  "DISK_IN_FLIGHT_BYTES_SAMPLE = ''system.disk.io.in_flight''"
definition DISK_DIRECTION_ATTRIBUTE :: string where
  "DISK_DIRECTION_ATTRIBUTE = ''disk.io.direction''"

definition disk_io_samples :: "system_time \<Rightarrow> disk_io_sample \<Rightarrow> sample list" where
  "disk_io_samples timestamp s =
     (let attributes = bt_insert DISK_DIRECTION_ATTRIBUTE (disk_direction_str (ds_direction s)) [];
          push = (\<lambda>name v. mk_sample timestamp name v attributes)
      in [push DISK_IO_SAMPLE (Counter (ds_bytes s)),
          push DISK_OPERATIONS_SAMPLE (Counter (ds_operations s)),
          push DISK_ERRORS_SAMPLE (Counter (ds_errors s))]
         @ (case ds_average_latency s of
              None \<Rightarrow> []
            | Some latency \<Rightarrow> [push DISK_LATENCY_SAMPLE (GaugeF64 (f64_mul (as_secs_f64 latency) 1000))])
         @ [push DISK_QUEUE_DEPTH_SAMPLE (GaugeI64 (ds_in_flight_operations s)),
            push DISK_IN_FLIGHT_BYTES_SAMPLE (GaugeI64 (ds_in_flight_bytes s))])"

record disk_io_provider =
  dp_previous :: disk_io_baselines
  dp_window :: duration

definition disk_io_provider_load ::
    "'e bpf_object \<Rightarrow> duration \<Rightarrow> ('e collector_error provider_error, disk_io_provider) result" where
  "disk_io_provider_load bpf window =
     map_err (ProviderError ''disk_io'')
       (and_then (disk_io_collector_load bpf) (\<lambda>previous. Inr \<lparr>dp_previous = previous, dp_window = window\<rparr>))"

definition disk_io_set_window :: "duration \<Rightarrow> disk_io_provider \<Rightarrow> disk_io_provider" where
  "disk_io_set_window window p = p\<lparr>dp_window := window\<rparr>"

definition disk_io_provider_collect ::
    "('e, raw_disk_io_key) result list \<Rightarrow> (raw_disk_io_key \<Rightarrow> ('e, raw_disk_io_counters list) result) \<Rightarrow>
     system_time \<Rightarrow> disk_io_provider \<Rightarrow>
     disk_io_provider \<times> ('e collector_error provider_error, sample list) result" where
  "disk_io_provider_collect read_keys read timestamp p =
     (let (previous, r) = disk_io_collect read_keys read (dp_window p) (dp_previous p) in
      (p\<lparr>dp_previous := previous\<rparr>,
       map_err (ProviderError ''disk_io'')
         (and_then r (\<lambda>snapshot. Inr (concat (map (disk_io_samples timestamp) (dss_samples snapshot)))))))"

section \<open>Facts\<close>

definition disk_io_baseline :: "disk_io_baselines \<Rightarrow> raw_disk_io_key \<Rightarrow> raw_disk_io_counters" where
  "disk_io_baseline previous key =
     (case bt_get previous key of None \<Rightarrow> raw_disk_io_default | Some p \<Rightarrow> p)"

lemma disk_io_observe_baseline [step_simps]:
  "disk_io_baseline (fst (disk_io_observe key d vs previous)) k =
     (if k = key then sum_disk_counters vs else disk_io_baseline previous k)"
  by (simp add: disk_io_observe_def disk_io_baseline_def Let_def)

lemma disk_io_observe_deltas [step_simps]:
  "ds_bytes (snd (disk_io_observe key d vs previous)) =
     saturating_sub (rd_bytes (sum_disk_counters vs)) (rd_bytes (disk_io_baseline previous key))"
  "ds_operations (snd (disk_io_observe key d vs previous)) =
     saturating_sub (rd_operations (sum_disk_counters vs)) (rd_operations (disk_io_baseline previous key))"
  "ds_errors (snd (disk_io_observe key d vs previous)) =
     saturating_sub (rd_errors (sum_disk_counters vs)) (rd_errors (disk_io_baseline previous key))"
  by (simp_all add: disk_io_observe_def disk_io_baseline_def Let_def)

abbreviation disk_step ::
    "(disk_io_sample \<Rightarrow> u64) \<Rightarrow> raw_disk_io_key \<Rightarrow> disk_io_direction \<Rightarrow> disk_io_baselines \<Rightarrow>
     raw_disk_io_counters list \<Rightarrow> disk_io_baselines \<times> u64" where
  "disk_step f key d s vs \<equiv>
     (fst (disk_io_observe key d vs s), f (snd (disk_io_observe key d vs s)))"

interpretation disk_bytes: delta_collector
    "\<lambda>s. rd_bytes (disk_io_baseline s key)" "\<lambda>vs. rd_bytes (sum_disk_counters vs)" "\<lambda>_. True"
    "disk_step ds_bytes key d" for key d
  by unfold_locales (simp_all add: step_simps)

interpretation disk_operations: delta_collector
    "\<lambda>s. rd_operations (disk_io_baseline s key)" "\<lambda>vs. rd_operations (sum_disk_counters vs)" "\<lambda>_. True"
    "disk_step ds_operations key d" for key d
  by unfold_locales (simp_all add: step_simps)

interpretation disk_errors: delta_collector
    "\<lambda>s. rd_errors (disk_io_baseline s key)" "\<lambda>vs. rd_errors (sum_disk_counters vs)" "\<lambda>_. True"
    "disk_step ds_errors key d" for key d
  by unfold_locales (simp_all add: step_simps)

text \<open>The latency of a window is the average of what its operations took, and is reported exactly when
  the window completed one.\<close>

lemma average_latency_bounds:
  assumes "average_latency l n = Some t"
  shows "t * unat n \<le> unat l" "unat l < (t + 1) * unat n"
proof -
  have n: "0 < unat n" and t: "t = unat l div unat n"
    using assms by (auto simp: average_latency_def unat_div unat_gt_0 split: if_splits)
  show "t * unat n \<le> unat l" unfolding t by (rule div_times_less_eq_dividend)
  show "unat l < (t + 1) * unat n"
    unfolding t using dividend_less_div_times [OF n, of "unat l"] by (simp add: algebra_simps)
qed

lemma disk_io_samples_names:
  "sample_name ` set (disk_io_samples now s) \<subseteq>
     {DISK_IO_SAMPLE, DISK_OPERATIONS_SAMPLE, DISK_ERRORS_SAMPLE, DISK_LATENCY_SAMPLE,
      DISK_QUEUE_DEPTH_SAMPLE, DISK_IN_FLIGHT_BYTES_SAMPLE}"
  by (auto simp: disk_io_samples_def Let_def split: option.splits)

lemma sint_saturating_add_i64:
  "sint (saturating_add_i64 a b) = max (- (2 ^ 63)) (min (sint a + sint b) (2 ^ 63 - 1))"
proof -
  have r: "- (2 ^ 63) \<le> sint (w :: 64 word) \<and> sint w < 2 ^ 63" for w
    using sint_range_size [of w] by (simp add: word_size)
  show ?thesis
  proof (cases "sint a + sint b > 2 ^ 63 - 1 \<or> sint a + sint b < - (2 ^ 63)")
    case True
    then show ?thesis
      by (auto simp: saturating_add_i64_def Let_def sint_word_ariths(1) signed_take_bit_int_eq_self sint_sbintrunc')
  next
    case False
    then show ?thesis
      by (simp add: saturating_add_i64_def Let_def sint_word_ariths(1) signed_take_bit_int_eq_self)
  qed
qed

section \<open>Properties\<close>

text \<open>The latency sample of a window is there exactly when the window completed an operation, and it is
  the average, rounded down to whole nanoseconds, of the latency the completed operations added.\<close>

lemma disk_latency_reported:
  assumes "disk_io_observe key d vs previous = (previous', s)"
  shows "(ds_average_latency s = None \<longleftrightarrow> ds_operations s = 0) \<and>
    (\<forall>t. ds_average_latency s = Some t \<longrightarrow>
       t = unat (saturating_sub (rd_latency_ns (sum_disk_counters vs)) (rd_latency_ns (disk_io_baseline previous key)))
             div unat (ds_operations s)) \<and>
    (DISK_LATENCY_SAMPLE \<in> sample_name ` set (disk_io_samples now s) \<longleftrightarrow> ds_operations s \<noteq> 0)"
proof -
  have s: "s = snd (disk_io_observe key d vs previous)" using assms by simp
  have lat: "ds_average_latency s = average_latency
      (saturating_sub (rd_latency_ns (sum_disk_counters vs)) (rd_latency_ns (disk_io_baseline previous key)))
      (ds_operations s)"
    by (simp add: s disk_io_observe_def disk_io_baseline_def Let_def)
  then have none: "ds_average_latency s = None \<longleftrightarrow> ds_operations s = 0" by (simp add: average_latency_def)
  have "DISK_LATENCY_SAMPLE \<in> sample_name ` set (disk_io_samples now s) \<longleftrightarrow> ds_average_latency s \<noteq> None"
    by (cases "ds_average_latency s")
      (auto simp: disk_io_samples_def Let_def DISK_IO_SAMPLE_def DISK_OPERATIONS_SAMPLE_def DISK_ERRORS_SAMPLE_def
        DISK_LATENCY_SAMPLE_def DISK_QUEUE_DEPTH_SAMPLE_def DISK_IN_FLIGHT_BYTES_SAMPLE_def)
  then show ?thesis using lat none by (auto simp: average_latency_def unat_div)
qed

lemma disk_latency_reported_witness:
  "DISK_LATENCY_SAMPLE \<in> sample_name ` set (disk_io_samples 0 (snd (disk_io_observe (RawDiskIoKey 1 []) Read
      [\<lparr>rd_bytes = 4096, rd_operations = 2, rd_latency_ns = 9, rd_errors = 0, rd_in_flight_bytes = 0,
        rd_in_flight_operations = 0\<rparr>] [])))"
proof -
  let ?vs = "[\<lparr>rd_bytes = 4096, rd_operations = 2, rd_latency_ns = 9, rd_errors = 0, rd_in_flight_bytes = 0,
        rd_in_flight_operations = 0\<rparr>]"
  have "ds_operations (snd (disk_io_observe (RawDiskIoKey 1 []) Read ?vs [])) = 2" by code_simp
  with disk_latency_reported [OF surjective_pairing, of "RawDiskIoKey 1 []" Read ?vs "[]" 0]
  show ?thesis by simp
qed

text \<open>The in-flight gauges are the signed sums over the CPUs of the current reading, clamped to 64
  bits at every addition and independent of the previous collection.\<close>

lemma disk_in_flight_gauges:
  assumes "disk_io_observe key d vs previous = (previous', s)"
  shows "ds_in_flight_bytes s = fold (\<lambda>v t. saturating_add_i64 t (rd_in_flight_bytes v)) vs 0 \<and>
    (\<forall>a b. sint (saturating_add_i64 a b) = max (- (2 ^ 63)) (min (sint a + sint b) (2 ^ 63 - 1)))"
proof -
  have "rd_in_flight_bytes (fold add_disk_counters vs t) =
      fold (\<lambda>v t. saturating_add_i64 t (rd_in_flight_bytes v)) vs (rd_in_flight_bytes t)" for t
    by (induction vs arbitrary: t) (simp_all add: add_disk_counters_def)
  moreover have "ds_in_flight_bytes s = rd_in_flight_bytes (sum_disk_counters vs)"
    using assms by (auto simp: disk_io_observe_def Let_def)
  ultimately show ?thesis
    by (simp add: sum_disk_counters_def raw_disk_io_default_def sint_saturating_add_i64)
qed

lemma disk_in_flight_gauges_witness:
  "ds_in_flight_bytes (snd (disk_io_observe (RawDiskIoKey 2 []) Write
      [raw_disk_io_default\<lparr>rd_in_flight_bytes := 4096\<rparr>, raw_disk_io_default\<lparr>rd_in_flight_bytes := - 1024\<rparr>] [])) = 3072"
proof -
  let ?vs = "[raw_disk_io_default\<lparr>rd_in_flight_bytes := 4096\<rparr>, raw_disk_io_default\<lparr>rd_in_flight_bytes := - 1024\<rparr>]"
  have "saturating_add_i64 (saturating_add_i64 0 4096) (- 1024) = 3072" by code_simp
  with disk_in_flight_gauges [OF surjective_pairing, of "RawDiskIoKey 2 []" Write ?vs "[]"] show ?thesis by simp
qed

end
