(* ===== verification/Tcp_Parse.thy ===== *)
theory Tcp_Parse
  imports Rust_Std
begin

text \<open>
  The parsers of \<open>/proc/net/snmp\<close> and \<open>/proc/net/netstat\<close>
  (\<open>talia-agent/src/modules/tcp/proc_generic_parser.rs\<close>, \<open>proc_net_snmp.rs\<close>, \<open>proc_net_netstat.rs\<close>)
  and the combined snapshot (\<open>tcp_snapshot.rs\<close>).  A section is a header line with the field names
  and a line with the values; \<open>show_section\<close> prints one, and the parsers give back the values of the
  required names whatever the other columns and the column order are.
\<close>

datatype parse_error =
    MissingHeader string
  | MissingValues string
  | FieldCountMismatch string nat nat
  | MissingField string string
  | InvalidInteger string string string

definition section_values :: "string \<Rightarrow> string \<Rightarrow> (parse_error, (string \<times> string) list) result" where
  "section_values content prefix =
     (case filter (\<lambda>line. starts_with line prefix) (lines content) of
        [] \<Rightarrow> Inl (MissingHeader prefix)
      | [_] \<Rightarrow> Inl (MissingValues prefix)
      | headers_line # values_line # _ \<Rightarrow>
          (let headers = split_whitespace (drop (length prefix) headers_line);
               vals = split_whitespace (drop (length prefix) values_line)
           in if length headers \<noteq> length vals
              then Inl (FieldCountMismatch prefix (length headers) (length vals))
              else Inr (zip headers vals)))"

definition required_u64 :: "(string \<times> string) list \<Rightarrow> string \<Rightarrow> string \<Rightarrow> (parse_error, u64) result" where
  "required_u64 vals prefix field =
     (case find (\<lambda>(name, _). name = field) vals of
        None \<Rightarrow> Inl (MissingField prefix field)
      | Some (_, raw) \<Rightarrow> ok_or (InvalidInteger prefix field raw) (parse_u64 raw))"

record tcp_snmp_counters =
  snmp_retrans_segs :: u64
  snmp_out_segs :: u64
  snmp_in_segs :: u64
  snmp_curr_estab :: u64

definition SNMP_FIELDS :: "string list" where
  "SNMP_FIELDS = [''RetransSegs'', ''OutSegs'', ''InSegs'', ''CurrEstab'']"

definition parse_snmp :: "string \<Rightarrow> (parse_error, tcp_snmp_counters) result" where
  "parse_snmp content =
     and_then (section_values content ''Tcp:'') (\<lambda>vals.
     and_then (required_u64 vals ''Tcp:'' (SNMP_FIELDS ! 0)) (\<lambda>retrans_segs.
     and_then (required_u64 vals ''Tcp:'' (SNMP_FIELDS ! 1)) (\<lambda>out_segs.
     and_then (required_u64 vals ''Tcp:'' (SNMP_FIELDS ! 2)) (\<lambda>in_segs.
     and_then (required_u64 vals ''Tcp:'' (SNMP_FIELDS ! 3)) (\<lambda>curr_estab.
       Inr \<lparr>snmp_retrans_segs = retrans_segs, snmp_out_segs = out_segs,
            snmp_in_segs = in_segs, snmp_curr_estab = curr_estab\<rparr>)))))"

record tcp_netstat_counters =
  netstat_tcp_timeouts :: u64
  netstat_tcp_fast_retrans :: u64

definition NETSTAT_FIELDS :: "string list" where
  "NETSTAT_FIELDS = [''TCPTimeouts'', ''TCPFastRetrans'']"

definition parse_netstat :: "string \<Rightarrow> (parse_error, tcp_netstat_counters) result" where
  "parse_netstat content =
     and_then (section_values content ''TcpExt:'') (\<lambda>vals.
     and_then (required_u64 vals ''TcpExt:'' (NETSTAT_FIELDS ! 0)) (\<lambda>tcp_timeouts.
     and_then (required_u64 vals ''TcpExt:'' (NETSTAT_FIELDS ! 1)) (\<lambda>tcp_fast_retrans.
       Inr \<lparr>netstat_tcp_timeouts = tcp_timeouts, netstat_tcp_fast_retrans = tcp_fast_retrans\<rparr>)))"

record tcp_snapshot =
  ts_retrans_segs :: u64
  ts_out_segs :: u64
  ts_in_segs :: u64
  ts_curr_estab :: u64
  ts_tcp_timeouts :: u64
  ts_tcp_fast_retrans :: u64

definition snapshot_combine :: "tcp_snmp_counters \<Rightarrow> tcp_netstat_counters \<Rightarrow> tcp_snapshot" where
  "snapshot_combine snmp netstat =
     \<lparr>ts_retrans_segs = snmp_retrans_segs snmp, ts_out_segs = snmp_out_segs snmp,
      ts_in_segs = snmp_in_segs snmp, ts_curr_estab = snmp_curr_estab snmp,
      ts_tcp_timeouts = netstat_tcp_timeouts netstat,
      ts_tcp_fast_retrans = netstat_tcp_fast_retrans netstat\<rparr>"

section \<open>Printing a section\<close>

text \<open>A column is a name and a value, both words.\<close>

definition word_ok :: "string \<Rightarrow> bool" where
  "word_ok w \<longleftrightarrow> w \<noteq> [] \<and> (\<forall>c\<in>set w. \<not> is_ws c)"

definition columns_ok :: "(string \<times> string) list \<Rightarrow> bool" where
  "columns_ok cols \<longleftrightarrow> (\<forall>(n, v)\<in>set cols. word_ok n \<and> word_ok v)"

definition show_section :: "string \<Rightarrow> (string \<times> string) list \<Rightarrow> string list" where
  "show_section prefix cols = [prefix @ spaced (map fst cols), prefix @ spaced (map snd cols)]"

text \<open>The file: lines of other sections, the section, and anything after it.\<close>

definition show_file :: "string list \<Rightarrow> string \<Rightarrow> (string \<times> string) list \<Rightarrow> string list \<Rightarrow> string" where
  "show_file before prefix cols after = unlines (before @ show_section prefix cols @ after)"

definition line_ok :: "string \<Rightarrow> bool" where
  "line_ok l \<longleftrightarrow> newline \<notin> set l \<and> (l = [] \<or> last l \<noteq> carriage_return)"

lemma is_ws_line_ends [simp]: "is_ws newline" "is_ws carriage_return"
  by (simp_all add: is_ws_def newline_def carriage_return_def char_code_def)

lemma spaced_Cons: "spaced (w # ws) = CHR '' '' # w @ spaced ws"
  by (simp add: spaced_def)

lemma spaced_no_newline: "\<forall>w\<in>set ws. word_ok w \<Longrightarrow> newline \<notin> set (spaced ws)"
  by (induction ws) (auto simp: spaced_def word_ok_def newline_def is_ws_def char_code_def)

lemma spaced_last: "\<forall>w\<in>set ws. word_ok w \<Longrightarrow> ws \<noteq> [] \<Longrightarrow> \<not> is_ws (last (p @ spaced ws))"
proof (induction ws rule: rev_induct)
  case Nil
  then show ?case by simp
next
  case (snoc w ws)
  then have w: "word_ok w" by simp
  have "spaced (ws @ [w]) = spaced ws @ CHR '' '' # w" by (simp add: spaced_def)
  then have "last (p @ spaced (ws @ [w])) = last w" using w by (auto simp: word_ok_def)
  with w show ?case by (auto simp: word_ok_def)
qed

lemma section_line_ok:
  assumes "\<forall>w\<in>set ws. word_ok w" "line_ok p"
  shows "line_ok (p @ spaced ws)"
proof (cases "ws = []")
  case True
  then show ?thesis using assms by (simp add: spaced_def)
next
  case False
  then have "\<not> is_ws (last (p @ spaced ws))" using assms spaced_last by blast
  then have "last (p @ spaced ws) \<noteq> carriage_return" by (metis is_ws_line_ends(2))
  then show ?thesis using assms spaced_no_newline by (simp add: line_ok_def)
qed

lemma columns_words:
  "columns_ok cols \<Longrightarrow> \<forall>w\<in>set (map fst cols). word_ok w" "columns_ok cols \<Longrightarrow> \<forall>w\<in>set (map snd cols). word_ok w"
  by (auto simp: columns_ok_def)

lemma section_values_show:
  assumes "columns_ok cols" "line_ok prefix"
    and "\<forall>l\<in>set before. line_ok l \<and> \<not> starts_with l prefix" "\<forall>l\<in>set after. line_ok l"
  shows "section_values (show_file before prefix cols after) prefix = Inr cols"
proof -
  let ?h = "prefix @ spaced (map fst cols)" and ?v = "prefix @ spaced (map snd cols)"
  have w: "\<forall>w\<in>set (map fst cols). word_ok w" "\<forall>w\<in>set (map snd cols). word_ok w"
    using columns_words [OF assms(1)] .
  have "line_ok ?h" "line_ok ?v" using section_line_ok w assms(2) by blast+
  then have "lines (show_file before prefix cols after) = before @ [?h, ?v] @ after"
    unfolding show_file_def show_section_def
    using assms(3,4) by (intro lines_unlines) (auto simp: line_ok_def)
  moreover have "filter (\<lambda>line. starts_with line prefix) before = []"
    using assms(3) by (simp add: filter_empty_conv)
  moreover have "split_whitespace (spaced (map fst cols)) = map fst cols"
    "split_whitespace (spaced (map snd cols)) = map snd cols"
    using w unfolding word_ok_def by (blast intro!: split_whitespace_spaced)+
  ultimately show ?thesis by (simp add: section_values_def zip_map_fst_snd)
qed

lemma required_u64_map_of:
  "map_of cols field = Some (show_nat (unat v)) \<Longrightarrow> required_u64 cols prefix field = Inr v"
proof -
  assume "map_of cols field = Some (show_nat (unat v))"
  moreover have "find (\<lambda>(name, _). name = field) cols = map_option (\<lambda>x. (field, x)) (map_of cols field)"
    by (induction cols) auto
  ultimately show ?thesis by (simp add: required_u64_def parse_u64_show_nat)
qed

lemma required_u64_ok_iff:
  "required_u64 cols prefix field = Inr v \<longleftrightarrow>
     (\<exists>raw. map_of cols field = Some raw \<and> parse_u64 raw = Some v)"
proof -
  have "find (\<lambda>(name, _). name = field) cols = map_option (\<lambda>x. (field, x)) (map_of cols field)"
    by (induction cols) auto
  then show ?thesis by (cases "map_of cols field") (simp_all add: required_u64_def)
qed

text \<open>The parsers read the section's columns by name.\<close>

lemma parse_snmp_ok_iff:
  "parse_snmp content = Inr c \<longleftrightarrow>
     (\<exists>cols. section_values content ''Tcp:'' = Inr cols \<and>
        required_u64 cols ''Tcp:'' ''RetransSegs'' = Inr (snmp_retrans_segs c) \<and>
        required_u64 cols ''Tcp:'' ''OutSegs'' = Inr (snmp_out_segs c) \<and>
        required_u64 cols ''Tcp:'' ''InSegs'' = Inr (snmp_in_segs c) \<and>
        required_u64 cols ''Tcp:'' ''CurrEstab'' = Inr (snmp_curr_estab c))"
  by (cases c) (auto simp: parse_snmp_def SNMP_FIELDS_def numeral_3_eq_3)

lemma parse_netstat_ok_iff:
  "parse_netstat content = Inr c \<longleftrightarrow>
     (\<exists>cols. section_values content ''TcpExt:'' = Inr cols \<and>
        required_u64 cols ''TcpExt:'' ''TCPTimeouts'' = Inr (netstat_tcp_timeouts c) \<and>
        required_u64 cols ''TcpExt:'' ''TCPFastRetrans'' = Inr (netstat_tcp_fast_retrans c))"
  by (cases c) (auto simp: parse_netstat_def NETSTAT_FIELDS_def)

section \<open>Properties\<close>

text \<open>C33: The parser of \<open>/proc/net/snmp\<close> pairs names with values whatever the order and number of columns
  and whatever other sections surround the one it needs: printing any columns, among them the four
  required counters, and parsing the file gives back exactly those four values.\<close>

theorem parse_snmp_by_name:
  assumes "columns_ok cols"
    and "\<forall>l\<in>set before. line_ok l \<and> \<not> starts_with l ''Tcp:''" "\<forall>l\<in>set after. line_ok l"
    and "map_of cols ''RetransSegs'' = Some (show_nat (unat (snmp_retrans_segs c)))"
    and "map_of cols ''OutSegs'' = Some (show_nat (unat (snmp_out_segs c)))"
    and "map_of cols ''InSegs'' = Some (show_nat (unat (snmp_in_segs c)))"
    and "map_of cols ''CurrEstab'' = Some (show_nat (unat (snmp_curr_estab c)))"
  shows "parse_snmp (show_file before ''Tcp:'' cols after) = Inr c"
proof -
  have "line_ok ''Tcp:''" by (simp add: line_ok_def newline_def carriage_return_def)
  from section_values_show [OF assms(1) this assms(2,3)] show ?thesis
    unfolding parse_snmp_ok_iff using assms(4-7) by (auto intro: required_u64_map_of)
qed

lemma parse_snmp_by_name_witness:
  "parse_snmp (show_file [''Ip: Forwarding'', ''Ip: 2'']  ''Tcp:''
     [(''MaxConn'', ''-1''), (''InSegs'', ''7170''), (''RetransSegs'', ''42''), (''OutSegs'', ''5542''), (''CurrEstab'', ''7'')]
     [''Udp: NoPorts'', ''Udp: 0'']) =
   Inr \<lparr>snmp_retrans_segs = 42, snmp_out_segs = 5542, snmp_in_segs = 7170, snmp_curr_estab = 7\<rparr>"
proof -
  let ?cols = "[(''MaxConn'', ''-1''), (''InSegs'', ''7170''), (''RetransSegs'', ''42''), (''OutSegs'', ''5542''), (''CurrEstab'', ''7'')]"
  have n: "show_nat 42 = ''42''" "show_nat 5542 = ''5542''" "show_nat 7170 = ''7170''" "show_nat 7 = ''7''"
    by code_simp+
  have c: "columns_ok ?cols" by code_simp
  have l: "\<forall>l\<in>set [''Ip: Forwarding'', ''Ip: 2'']. line_ok l \<and> \<not> starts_with l ''Tcp:''"
    "\<forall>l\<in>set [''Udp: NoPorts'', ''Udp: 0'']. line_ok l"
    by code_simp+
  show ?thesis by (rule parse_snmp_by_name [OF c l]) (simp_all add: n)
qed

text \<open>When \<open>parse_netstat\<close> succeeds, both counters are in the header and their values are the numbers it
  returns.\<close>

lemma parsed_counters_present:
  assumes "parse_netstat content = Inr c"
  shows "\<exists>cols. section_values content ''TcpExt:'' = Inr cols \<and>
    Option.bind (map_of cols ''TCPTimeouts'') parse_u64 = Some (netstat_tcp_timeouts c) \<and>
    Option.bind (map_of cols ''TCPFastRetrans'') parse_u64 = Some (netstat_tcp_fast_retrans c)"
  using assms unfolding parse_netstat_ok_iff required_u64_ok_iff by (auto simp: bind_eq_Some_conv)

lemma parsed_counters_example:
  "\<exists>cols. section_values (show_file [] ''TcpExt:'' [(''TCPFastRetrans'', ''15''), (''TCPTimeouts'', ''9'')] []) ''TcpExt:'' =
      Inr cols \<and> Option.bind (map_of cols ''TCPTimeouts'') parse_u64 = Some 9"
proof -
  have "parse_netstat (show_file [] ''TcpExt:'' [(''TCPFastRetrans'', ''15''), (''TCPTimeouts'', ''9'')] []) =
      Inr \<lparr>netstat_tcp_timeouts = 9, netstat_tcp_fast_retrans = 15\<rparr>"
    by code_simp
  from parsed_counters_present [OF this] show ?thesis by auto
qed

end
