(* ===== verification/Pod_Pid.thy ===== *)
theory Pod_Pid
  imports Json
begin

text \<open>
  From a pod to a process in its network namespace (\<open>talia-agent/src/pod_discovery/pid.rs\<close>).  The
  view of \<open>/proc\<close> is a record: the numeric entries come from directory names in the order they are
  listed, \<open>proc_cgroup\<close> is the readable content of a \<open>cgroup\<close> file and \<open>proc_net_snmp\<close> says whether
  \<open>net/snmp\<close> is a file.  The single pass over \<open>/proc\<close> with its early exit is proved equal to a
  separate search for every pod.
\<close>

type_synonym pod_uid = string

definition u32_try_from :: "u64 \<Rightarrow> u32 option" where
  "u32_try_from n = (if unat n < 2 ^ 32 then Some (ucast n) else None)"

definition positive_pid :: "u32 option \<Rightarrow> u32 option" where
  "positive_pid p = (case p of None \<Rightarrow> None | Some pid \<Rightarrow> if 0 < pid then Some pid else None)"

definition pid_from_status_info :: "(string \<Rightarrow> json option) \<Rightarrow> (string \<rightharpoonup> string) \<Rightarrow> u32 option" where
  "pid_from_status_info from_json info =
     (case positive_pid (Option.bind (info ''pid'') parse_u32) of
        Some pid \<Rightarrow> Some pid
      | None \<Rightarrow>
          Option.bind (info ''info'') (\<lambda>text.
          Option.bind (from_json text) (\<lambda>nested.
          Option.bind (json_get nested ''pid'') (\<lambda>val.
          Option.bind (case json_as_u64 val of
                         Some n \<Rightarrow> Some n
                       | None \<Rightarrow> Option.bind (json_as_str val) parse_u64) (\<lambda>pid.
            positive_pid (u32_try_from pid))))))"

record proc_view =
  proc_entries :: "string list"
  proc_cgroup :: "u32 \<Rightarrow> string option"
  proc_net_snmp :: "u32 \<Rightarrow> bool"

definition uid_spellings :: "pod_uid \<Rightarrow> string list" where
  "uid_spellings uid =
     [uid, replace_char (CHR ''-'') ''_'' uid, replace_char (CHR ''-'') (backslash # ''x2d'') uid,
      filter (\<lambda>c. c \<noteq> CHR ''-'') uid]"

definition mentions_uid :: "string \<Rightarrow> string list \<Rightarrow> bool" where
  "mentions_uid cgroup variants = list_ex (\<lambda>v. str_contains cgroup v) variants"

definition cgroup_matches_uid :: "proc_view \<Rightarrow> u32 \<Rightarrow> pod_uid \<Rightarrow> bool" where
  "cgroup_matches_uid proc pid uid =
     (case proc_cgroup proc pid of None \<Rightarrow> False | Some cgroup \<Rightarrow> mentions_uid cgroup (uid_spellings uid))"

text \<open>The inner loop over the wanted pods for one process: fills the empty slots it matches and counts
  the remaining ones down.\<close>

fun scan_uids :: "proc_view \<Rightarrow> u32 \<Rightarrow> string \<Rightarrow> string list list \<Rightarrow> u32 option list \<Rightarrow> nat \<Rightarrow> u32 option list \<times> nat" where
  "scan_uids proc pid cgroup (variants # vs) (f # fs) remaining =
     (if f = None \<and> mentions_uid cgroup variants \<and> proc_net_snmp proc pid
      then (let (fs', remaining') = scan_uids proc pid cgroup vs fs (remaining - 1) in (Some pid # fs', remaining'))
      else (let (fs', remaining') = scan_uids proc pid cgroup vs fs remaining in (f # fs', remaining')))"
| "scan_uids proc pid cgroup vs fs remaining = (fs, remaining)"

fun scan_entries :: "proc_view \<Rightarrow> string list list \<Rightarrow> string list \<Rightarrow> u32 option list \<Rightarrow> nat \<Rightarrow> u32 option list" where
  "scan_entries proc spellings [] found remaining = found"
| "scan_entries proc spellings (entry # rest) found remaining =
     (if remaining = 0 then found
      else (case parse_u32 entry of
              None \<Rightarrow> scan_entries proc spellings rest found remaining
            | Some pid \<Rightarrow>
                (case proc_cgroup proc pid of
                   None \<Rightarrow> scan_entries proc spellings rest found remaining
                 | Some cgroup \<Rightarrow>
                     (let (found', remaining') = scan_uids proc pid cgroup spellings found remaining
                      in scan_entries proc spellings rest found' remaining'))))"

definition scan_proc_for_uids :: "proc_view \<Rightarrow> pod_uid list \<Rightarrow> (pod_uid \<times> u32) list" where
  "scan_proc_for_uids proc uids =
     (let spellings = map uid_spellings uids;
          found = scan_entries proc spellings (proc_entries proc) (replicate (length uids) None) (length uids)
      in List.map_filter (\<lambda>(uid, pid). map_option (Pair uid) pid) (zip uids found))"

text \<open>\<open>order\<close> is the iteration order of the hash map of hints.\<close>

definition hinted_pid :: "proc_view \<Rightarrow> pod_uid \<Rightarrow> u32 option \<Rightarrow> u32 option" where
  "hinted_pid proc uid hint =
     (case hint of
        None \<Rightarrow> None
      | Some pid \<Rightarrow> if proc_net_snmp proc pid \<and> cgroup_matches_uid proc pid uid then Some pid else None)"

fun resolve_hints ::
    "proc_view \<Rightarrow> (pod_uid \<rightharpoonup> u32) \<Rightarrow> pod_uid list \<Rightarrow> (pod_uid \<times> u32 option) list \<Rightarrow> (pod_uid \<rightharpoonup> u32) \<times> pod_uid list" where
  "resolve_hints proc resolved need_scan [] = (resolved, need_scan)"
| "resolve_hints proc resolved need_scan ((uid, hint) # rest) =
     (case hinted_pid proc uid hint of
        Some pid \<Rightarrow> resolve_hints proc (hm_insert uid pid resolved) need_scan rest
      | None \<Rightarrow> resolve_hints proc resolved (need_scan @ [uid]) rest)"

definition resolve_pids ::
    "proc_view \<Rightarrow> ((pod_uid \<rightharpoonup> u32 option) \<Rightarrow> pod_uid list) \<Rightarrow> (pod_uid \<rightharpoonup> u32 option) \<Rightarrow> (pod_uid \<rightharpoonup> u32)" where
  "resolve_pids proc order info_pids =
     (let (resolved, need_scan) =
            resolve_hints proc Map.empty [] (map (\<lambda>uid. (uid, the (info_pids uid))) (order info_pids))
      in if need_scan \<noteq> [] then fold (\<lambda>(uid, pid). hm_insert uid pid) (scan_proc_for_uids proc need_scan) resolved
         else resolved)"

section \<open>The reference search\<close>

text \<open>The process a directory entry stands for, when it may represent the pod.\<close>

definition entry_pid :: "proc_view \<Rightarrow> string list \<Rightarrow> string \<Rightarrow> u32 option" where
  "entry_pid proc variants entry =
     (case parse_u32 entry of
        None \<Rightarrow> None
      | Some pid \<Rightarrow>
          (case proc_cgroup proc pid of
             None \<Rightarrow> None
           | Some cgroup \<Rightarrow> if mentions_uid cgroup variants \<and> proc_net_snmp proc pid then Some pid else None))"

fun first_pid :: "proc_view \<Rightarrow> string list \<Rightarrow> string list \<Rightarrow> u32 option" where
  "first_pid proc variants [] = None"
| "first_pid proc variants (entry # rest) =
     (case entry_pid proc variants entry of None \<Rightarrow> first_pid proc variants rest | Some pid \<Rightarrow> Some pid)"

definition fill :: "'a option \<Rightarrow> 'a option \<Rightarrow> 'a option" where
  "fill f g = (case f of None \<Rightarrow> g | Some x \<Rightarrow> Some x)"

lemma fill_None [simp]: "fill None g = g" and fill_Some [simp]: "fill (Some x) g = Some x"
  by (simp_all add: fill_def)

lemma fill_none_right [simp]: "fill f None = f"
  by (cases f) simp_all

lemma fill_assoc: "fill (fill f g) h = fill f (fill g h)"
  by (cases f) simp_all

lemma first_pid_Cons: "first_pid proc variants (e # es) = fill (entry_pid proc variants e) (first_pid proc variants es)"
  by (simp add: fill_def)

definition missing :: "'a option list \<Rightarrow> nat" where
  "missing fs = length (filter (\<lambda>f. f = None) fs)"

lemma missing_zero: "missing fs = 0 \<longleftrightarrow> (\<forall>f\<in>set fs. f \<noteq> None)"
  by (auto simp: missing_def filter_empty_conv)

lemma scan_uids_eq:
  assumes "length vs = length fs"
  shows "scan_uids proc pid cgroup vs fs (r + missing fs) =
    (let fs' = map2 (\<lambda>v f. fill f (if mentions_uid cgroup v \<and> proc_net_snmp proc pid then Some pid else None)) vs fs
     in (fs', r + missing fs'))"
  using assms
proof (induction vs fs arbitrary: r rule: list_induct2)
  case Nil
  then show ?case by (simp add: missing_def)
next
  case (Cons v vs f fs)
  show ?case
  proof (cases f)
    case None
    then show ?thesis using Cons.IH [of r] Cons.IH [of "Suc r"] by (simp add: missing_def Let_def)
  next
    case (Some x)
    then show ?thesis using Cons.IH [of r] by (simp add: missing_def Let_def)
  qed
qed

lemma map2_fill_all: "\<forall>f\<in>set fs. f \<noteq> None \<Longrightarrow> length vs = length fs \<Longrightarrow> map2 (\<lambda>v f. fill f (g v)) vs fs = fs"
  by (rule nth_equalityI) (force simp: fill_def split: option.splits dest: nth_mem)+

lemma map2_fill_map2:
  "length vs = length fs \<Longrightarrow>
     map2 (\<lambda>v f. fill f (h v)) vs (map2 (\<lambda>v f. fill f (g v)) vs fs) = map2 (\<lambda>v f. fill f (fill (g v) (h v))) vs fs"
  by (rule nth_equalityI) (auto simp: fill_assoc)

lemma scan_entries_eq:
  "length vs = length fs \<Longrightarrow>
     scan_entries proc vs es fs (missing fs) = map2 (\<lambda>v f. fill f (first_pid proc v es)) vs fs"
proof (induction es arbitrary: fs)
  case Nil
  then show ?case by (intro nth_equalityI) auto
next
  case (Cons e es)
  let ?step = "map2 (\<lambda>v f. fill f (entry_pid proc v e)) vs fs"
  have goal: "map2 (\<lambda>v f. fill f (first_pid proc v (e # es))) vs fs =
      map2 (\<lambda>v f. fill f (first_pid proc v es)) vs ?step"
    by (simp only: first_pid_Cons map2_fill_map2 [OF Cons.prems])
  have len: "length vs = length ?step" using Cons.prems by simp
  show ?case
  proof (cases "missing fs = 0")
    case True
    then show ?thesis using map2_fill_all [OF _ Cons.prems] by (simp add: missing_zero)
  next
    case False
    have same: "?step = fs" if "\<And>v. entry_pid proc v e = None"
      using Cons.prems that by (intro nth_equalityI) auto
    show ?thesis
    proof (cases "Option.bind (parse_u32 e) (proc_cgroup proc)")
      case None
      then have n: "\<And>v. entry_pid proc v e = None"
        by (auto simp: entry_pid_def split: option.splits)
      have "scan_entries proc vs (e # es) fs (missing fs) = scan_entries proc vs es fs (missing fs)"
        using None False by (cases "parse_u32 e") simp_all
      then show ?thesis using Cons.IH [OF Cons.prems] goal same [OF n] by simp
    next
      case (Some cgroup)
      then obtain pid where pid: "parse_u32 e = Some pid" "proc_cgroup proc pid = Some cgroup"
        by (auto simp: bind_eq_Some_conv)
      have "scan_uids proc pid cgroup vs fs (missing fs) = (?step, missing ?step)"
        using scan_uids_eq [OF Cons.prems, of proc pid cgroup 0] pid
        by (simp add: entry_pid_def Let_def)
      with pid False have "scan_entries proc vs (e # es) fs (missing fs) = scan_entries proc vs es ?step (missing ?step)"
        by simp
      then show ?thesis using Cons.IH [OF len] goal by simp
    qed
  qed
qed

text \<open>One pass with early exit finds for every pod what a search of its own would find.\<close>

lemma scan_proc_for_uids_eq:
  "scan_proc_for_uids proc uids =
     List.map_filter (\<lambda>uid. map_option (Pair uid) (first_pid proc (uid_spellings uid) (proc_entries proc))) uids"
proof -
  have m: "missing (replicate n None) = n" for n by (simp add: missing_def)
  have "scan_entries proc (map uid_spellings uids) (proc_entries proc) (replicate (length uids) None) (length uids) =
      map (\<lambda>uid. first_pid proc (uid_spellings uid) (proc_entries proc)) uids"
    using scan_entries_eq [of "map uid_spellings uids" "replicate (length uids) None" proc "proc_entries proc"]
    by (auto simp: m intro!: nth_equalityI)
  then have z: "zip uids (scan_entries proc (map uid_spellings uids) (proc_entries proc) (replicate (length uids) None) (length uids)) =
      map (\<lambda>uid. (uid, first_pid proc (uid_spellings uid) (proc_entries proc))) uids"
    by (simp add: zip_map2 zip_same_conv_map)
  show ?thesis
    unfolding scan_proc_for_uids_def Let_def z List.map_filter_def by (simp add: comp_def filter_map)
qed

text \<open>A process that represents a pod.\<close>

definition represents :: "proc_view \<Rightarrow> pod_uid \<Rightarrow> u32 \<Rightarrow> bool" where
  "represents proc uid pid \<longleftrightarrow> proc_net_snmp proc pid \<and> cgroup_matches_uid proc pid uid"

lemma entry_pid_iff:
  "entry_pid proc (uid_spellings uid) e = Some pid \<longleftrightarrow> parse_u32 e = Some pid \<and> represents proc uid pid"
  by (auto simp: entry_pid_def represents_def cgroup_matches_uid_def split: option.splits if_splits)

lemma first_pid_Some:
  "first_pid proc (uid_spellings uid) es = Some pid \<Longrightarrow> represents proc uid pid"
  by (induction es) (auto simp: entry_pid_iff split: option.splits)

lemma first_pid_None:
  "first_pid proc (uid_spellings uid) es = None \<longleftrightarrow>
     (\<forall>e\<in>set es. \<forall>pid. parse_u32 e = Some pid \<longrightarrow> \<not> represents proc uid pid)"
proof (induction es)
  case Nil
  then show ?case by simp
next
  case (Cons e es)
  have "entry_pid proc (uid_spellings uid) e = None \<longleftrightarrow>
      (\<forall>pid. parse_u32 e = Some pid \<longrightarrow> \<not> represents proc uid pid)"
    using entry_pid_iff [of proc uid e] by (metis option.exhaust option.simps(3))
  with Cons show ?case by (auto split: option.splits)
qed

text \<open>What \<open>resolve_pids\<close> returns, whatever the iteration order.\<close>

definition pod_pid :: "proc_view \<Rightarrow> pod_uid \<Rightarrow> u32 option \<Rightarrow> u32 option" where
  "pod_pid proc uid hint =
     fill (hinted_pid proc uid hint) (first_pid proc (uid_spellings uid) (proc_entries proc))"

lemma resolve_hints_eq:
  "resolve_hints proc resolved need es =
     (fold (\<lambda>(uid, h). case hinted_pid proc uid h of None \<Rightarrow> id | Some pid \<Rightarrow> hm_insert uid pid) es resolved,
      need @ map fst (filter (\<lambda>(uid, h). hinted_pid proc uid h = None) es))"
  by (induction proc resolved need es rule: resolve_hints.induct) (auto split: option.splits)

lemma fold_insert_opt_get:
  "distinct ks \<Longrightarrow>
     fold (\<lambda>k. case g k of None \<Rightarrow> id | Some v \<Rightarrow> hm_insert k v) ks m =
       (\<lambda>j. if j \<in> set ks \<and> g j \<noteq> None then g j else m j)"
proof (induction ks arbitrary: m)
  case Nil
  then show ?case by simp
next
  case (Cons k ks)
  then show ?case by (auto simp: fun_eq_iff hm_insert_def split: option.splits)
qed

lemma map_filter_fold:
  "fold (\<lambda>(k, v). hm_insert k v) (List.map_filter (\<lambda>k. map_option (Pair k) (g k)) ks) m =
     fold (\<lambda>k. case g k of None \<Rightarrow> id | Some v \<Rightarrow> hm_insert k v) ks m"
  by (induction ks arbitrary: m) (auto simp: List.map_filter_simps split: option.splits)

lemma resolve_pids_eq:
  assumes "distinct (order info_pids)" "set (order info_pids) = dom info_pids"
  shows "resolve_pids proc order info_pids uid = Option.bind (info_pids uid) (pod_pid proc uid)"
proof -
  let ?o = "order info_pids" and ?h = "\<lambda>u. hinted_pid proc u (the (info_pids u))"
  let ?s = "\<lambda>u. first_pid proc (uid_spellings u) (proc_entries proc)"
  let ?need = "filter (\<lambda>u. ?h u = None) ?o"
  let ?res = "fold (\<lambda>u. case ?h u of None \<Rightarrow> id | Some pid \<Rightarrow> hm_insert u pid) ?o Map.empty"
  have rh: "resolve_hints proc Map.empty [] (map (\<lambda>uid. (uid, the (info_pids uid))) ?o) = (?res, ?need)"
    by (simp add: resolve_hints_eq fold_map comp_def filter_map)
  have scan: "fold (\<lambda>(uid, pid). hm_insert uid pid) (scan_proc_for_uids proc ?need) ?res =
      fold (\<lambda>u. case ?s u of None \<Rightarrow> id | Some v \<Rightarrow> hm_insert u v) ?need ?res"
    by (simp add: scan_proc_for_uids_eq map_filter_fold)
  have "resolve_pids proc order info_pids =
      fold (\<lambda>u. case ?s u of None \<Rightarrow> id | Some v \<Rightarrow> hm_insert u v) ?need ?res"
    by (simp add: resolve_pids_def rh scan)
  then have "resolve_pids proc order info_pids uid =
      (if uid \<in> set ?need \<and> ?s uid \<noteq> None then ?s uid
       else if uid \<in> set ?o \<and> ?h uid \<noteq> None then ?h uid else None)"
    using assms(1) by (simp add: fold_insert_opt_get)
  then show ?thesis
    using assms(2) by (cases "info_pids uid") (auto simp: pod_pid_def fill_def split: option.splits)
qed

lemma pod_pid_represents: "pod_pid proc uid hint = Some pid \<Longrightarrow> represents proc uid pid"
  by (auto simp: pod_pid_def fill_def hinted_pid_def represents_def first_pid_Some [unfolded represents_def]
      split: option.splits if_splits)

lemma pod_pid_None:
  "pod_pid proc uid hint = None \<Longrightarrow>
     (\<forall>e\<in>set (proc_entries proc). \<forall>pid. parse_u32 e = Some pid \<longrightarrow> \<not> represents proc uid pid)"
  unfolding pod_pid_def fill_def using first_pid_None [of proc uid "proc_entries proc"]
  by (simp split: option.splits)

lemma pid_from_status_info_positive: "pid_from_status_info from_json info = Some pid \<Longrightarrow> 0 < pid"
  by (auto simp: pid_from_status_info_def positive_pid_def bind_eq_Some_conv split: option.splits if_splits)

section \<open>Properties\<close>

lemma first_pid_find:
  "first_pid proc (uid_spellings uid) es =
     Option.bind (find (\<lambda>e. \<exists>pid. parse_u32 e = Some pid \<and> represents proc uid pid) es) parse_u32"
proof (induction es)
  case Nil
  then show ?case by simp
next
  case (Cons e es)
  show ?case
  proof (cases "entry_pid proc (uid_spellings uid) e")
    case None
    then have n: "\<not> (\<exists>pid. parse_u32 e = Some pid \<and> represents proc uid pid)"
      using entry_pid_iff [of proc uid e] by auto
    have "first_pid proc (uid_spellings uid) (e # es) = first_pid proc (uid_spellings uid) es"
      using None by simp
    then show ?thesis using Cons by (simp only: find.simps if_not_P [OF n])
  next
    case (Some pid)
    then show ?thesis using entry_pid_iff [of proc uid e pid] by auto
  qed
qed

text \<open>C32: Resolving the processes of all pods with one pass over \<open>/proc\<close>, which stops when every pod has
  one, gives for each pod what a search of its own would give, whatever the iteration order of the
  hash map: the runtime's hint if that process still represents the pod (a readable network namespace
  and a cgroup naming the pod's UID), otherwise the first process in directory order that does.\<close>

theorem resolve_pids_is_search:
  assumes "distinct (order info_pids)" "set (order info_pids) = dom info_pids"
  shows "resolve_pids proc order info_pids uid =
    (case info_pids uid of
       None \<Rightarrow> None
     | Some hint \<Rightarrow>
         if \<exists>pid. hint = Some pid \<and> represents proc uid pid then hint
         else Option.bind
           (find (\<lambda>e. \<exists>pid. parse_u32 e = Some pid \<and> represents proc uid pid) (proc_entries proc)) parse_u32)"
  unfolding resolve_pids_eq [of order info_pids, OF assms]
  by (auto simp: pod_pid_def hinted_pid_def represents_def first_pid_find fill_def split: option.splits)

definition demo_proc_view :: proc_view where
  "demo_proc_view =
     \<lparr>proc_entries = [''self'', ''7'', ''42'', ''43''],
      proc_cgroup = (\<lambda>pid. if pid = 7 then Some ''0::/init.scope'' else Some ''0::/kubepods/podab_cd/x''),
      proc_net_snmp = (\<lambda>_. True)\<rparr>"

lemma resolve_pids_is_search_witness:
  "resolve_pids demo_proc_view (\<lambda>_. [''ab-cd'']) [''ab-cd'' \<mapsto> Some 7] ''ab-cd'' = Some 42"
proof -
  have r: "\<not> represents demo_proc_view ''ab-cd'' 7" "represents demo_proc_view ''ab-cd'' 42"
    by code_simp+
  have p: "parse_u32 ''self'' = None" "parse_u32 ''7'' = Some 7" "parse_u32 ''42'' = Some 42" by code_simp+
  have "find (\<lambda>e. \<exists>pid. parse_u32 e = Some pid \<and> represents demo_proc_view ''ab-cd'' pid)
      (proc_entries demo_proc_view) = Some ''42''"
    using r p by (simp add: demo_proc_view_def)
  then show ?thesis
    using resolve_pids_is_search [of "\<lambda>_. [''ab-cd'']" "[''ab-cd'' \<mapsto> Some 7]" demo_proc_view "''ab-cd''"] r p
    by simp
qed

end
