(* ===== verification/Pod_Discovery.thy ===== *)
theory Pod_Discovery
  imports Pod_Pid
begin

text \<open>
  Pod discovery over the container runtime interface (\<open>talia-agent/src/pod_discovery/mod.rs\<close>, with the
  message fields it reads from \<open>cri.rs\<close>).  The gRPC client is third-party code: \<open>cri\<close> holds what a
  connection attempt, a sandbox listing and a status request answer during one refresh.  Hash maps are
  walked in the orders \<open>order\<close> gives.  Socket paths are compared as texts, so a path is taken to be always
  spelled the same way (\<open>PathBuf\<close> also equates spellings such as \<open>/run//x.sock\<close>).
\<close>

definition WELL_KNOWN_SOCKETS :: "string list" where
  "WELL_KNOWN_SOCKETS =
     [''/run/k3s/containerd/containerd.sock'', ''/run/containerd/containerd.sock'',
      ''/run/crio/crio.sock'', ''/run/cri-dockerd.sock'']"

datatype socket_selection = Explicit string | AllSockets | FirstWins

definition selection_parse :: "string \<Rightarrow> socket_selection" where
  "selection_parse s =
     (if s = ''all'' then AllSockets else if s = ''first'' then FirstWins else Explicit s)"

record pod_info =
  pi_uid :: pod_uid
  pi_name :: string
  pi_namespace :: string
  pi_pid :: u32

datatype 'e discovery_error =
    NoSocket
  | AllListsFailed
  | WorkerGone
  | RefreshTimeout
  | Transport 'e

text \<open>The messages of the runtime, with the nested optional fields of the status.\<close>

datatype namespace_mode = PodMode | ContainerMode | NodeMode | TargetMode

definition namespace_mode_value :: "namespace_mode \<Rightarrow> int" where
  "namespace_mode_value m =
     (case m of PodMode \<Rightarrow> 0 | ContainerMode \<Rightarrow> 1 | NodeMode \<Rightarrow> 2 | TargetMode \<Rightarrow> 3)"

record pod_sandbox_metadata =
  meta_name :: string
  meta_uid :: string
  meta_namespace :: string

record pod_sandbox =
  sb_id :: string
  sb_metadata :: "pod_sandbox_metadata option"
  sb_state :: int

datatype pod_sandbox_state = SandboxReady | SandboxNotReady

definition sandbox_state_value :: "pod_sandbox_state \<Rightarrow> int" where
  "sandbox_state_value st = (case st of SandboxReady \<Rightarrow> 0 | SandboxNotReady \<Rightarrow> 1)"

datatype pod_sandbox_state_value = StateValue (sv_state: int)

record pod_sandbox_filter =
  psf_id :: string
  psf_state :: "pod_sandbox_state_value option"
  psf_label_selector :: "string \<rightharpoonup> string"

text \<open>\<open>status.linux.namespaces.options.network\<close>, each step optional.\<close>

datatype namespace_option = NamespaceOption (ns_network: int)
datatype namespace_status = NamespaceStatus (ns_options: "namespace_option option")
datatype linux_status = LinuxStatus (ls_namespaces: "namespace_status option")
datatype sandbox_status = SandboxStatus (ss_linux: "linux_status option")

record pod_sandbox_status_response =
  ssr_status :: "sandbox_status option"
  ssr_info :: "string \<rightharpoonup> string"

record ('e, 'c) cri_api =
  cri_exists :: "string \<Rightarrow> bool"
  cri_connect :: "string \<Rightarrow> ('e, 'c) result"
  cri_list :: "'c \<Rightarrow> pod_sandbox_filter \<Rightarrow> ('e, pod_sandbox list) result"
  cri_status :: "'c \<Rightarrow> string \<Rightarrow> ('e, pod_sandbox_status_response) result"

record 'c cri_client =
  cl_socket :: string
  cl_client :: 'c

section \<open>Connections\<close>

definition target_sockets :: "('e, 'c) cri_api \<Rightarrow> socket_selection \<Rightarrow> string list" where
  "target_sockets cri selection =
     (case selection of
        Explicit path \<Rightarrow> [path]
      | AllSockets \<Rightarrow> filter (cri_exists cri) WELL_KNOWN_SOCKETS
      | FirstWins \<Rightarrow> filter (cri_exists cri) WELL_KNOWN_SOCKETS)"

fun dial_sockets ::
    "('e, 'c) cri_api \<Rightarrow> socket_selection \<Rightarrow> 'c cri_client list \<Rightarrow> string list \<Rightarrow>
     'c cri_client list \<times> ('e discovery_error, unit) result" where
  "dial_sockets cri selection clients [] = (clients, if clients = [] then Inl NoSocket else Inr ())"
| "dial_sockets cri selection clients (socket # rest) =
     (if list_ex (\<lambda>endpoint. cl_socket endpoint = socket) clients then dial_sockets cri selection clients rest
      else (case cri_connect cri socket of
              Inr client \<Rightarrow>
                (let clients' = clients @ [\<lparr>cl_socket = socket, cl_client = client\<rparr>] in
                 if selection = FirstWins then (clients', Inr ())
                 else dial_sockets cri selection clients' rest)
            | Inl error \<Rightarrow>
                (case selection of
                   Explicit _ \<Rightarrow> (clients, Inl (Transport error))
                 | _ \<Rightarrow> dial_sockets cri selection clients rest)))"

definition ensure_clients ::
    "('e, 'c) cri_api \<Rightarrow> socket_selection \<Rightarrow> 'c cri_client list \<Rightarrow>
     'c cri_client list \<times> ('e discovery_error, unit) result" where
  "ensure_clients cri selection clients =
     (let wanted = target_sockets cri selection;
          kept = filter (\<lambda>endpoint. cl_socket endpoint \<in> set wanted) clients
      in if selection = FirstWins \<and> kept \<noteq> [] then (kept, Inr ())
         else dial_sockets cri selection kept wanted)"

section \<open>One refresh\<close>

record discovered_sandbox =
  dsb_socket :: string
  dsb_sandbox_id :: string
  dsb_name :: string
  dsb_namespace :: string

definition add_sandbox ::
    "string \<Rightarrow> pod_sandbox \<Rightarrow> (pod_uid \<rightharpoonup> discovered_sandbox) \<Rightarrow> (pod_uid \<rightharpoonup> discovered_sandbox)" where
  "add_sandbox socket item sandboxes =
     (case sb_metadata item of
        None \<Rightarrow> sandboxes
      | Some meta \<Rightarrow>
          hm_entry_or_insert (meta_uid meta)
            \<lparr>dsb_socket = socket, dsb_sandbox_id = sb_id item, dsb_name = meta_name meta,
             dsb_namespace = meta_namespace meta\<rparr> sandboxes)"

text \<open>The filter of every listing: the sandboxes that are ready.\<close>

definition ready_filter :: pod_sandbox_filter where
  "ready_filter =
     \<lparr>psf_id = [], psf_state = Some (StateValue (sandbox_state_value SandboxReady)), psf_label_selector = Map.empty\<rparr>"

text \<open>The listing loop: the merged sandboxes, whether a listing worked, the sockets that failed.\<close>

fun list_sandboxes ::
    "('e, 'c) cri_api \<Rightarrow> (pod_uid \<rightharpoonup> discovered_sandbox) \<Rightarrow> bool \<Rightarrow> string list \<Rightarrow> 'c cri_client list \<Rightarrow>
     (pod_uid \<rightharpoonup> discovered_sandbox) \<times> bool \<times> string list" where
  "list_sandboxes cri sandboxes listed_ok failed [] = (sandboxes, listed_ok, failed)"
| "list_sandboxes cri sandboxes listed_ok failed (endpoint # rest) =
     (case cri_list cri (cl_client endpoint) ready_filter of
        Inr items \<Rightarrow>
          list_sandboxes cri (fold (add_sandbox (cl_socket endpoint)) items sandboxes) True failed rest
      | Inl _ \<Rightarrow> list_sandboxes cri sandboxes listed_ok (failed @ [cl_socket endpoint]) rest)"

definition host_network :: "pod_sandbox_status_response \<Rightarrow> bool" where
  "host_network response =
     (case Option.bind (Option.bind (Option.bind (ssr_status response) ss_linux) ls_namespaces) ns_options of
        None \<Rightarrow> False
      | Some opts \<Rightarrow> ns_network opts = namespace_mode_value NodeMode)"

record pod_candidate =
  pc_uid :: pod_uid
  pc_name :: string
  pc_namespace :: string

fun first_client :: "'c cri_client list \<Rightarrow> string \<Rightarrow> 'c option" where
  "first_client [] socket = None"
| "first_client (endpoint # rest) socket =
     (if cl_socket endpoint = socket then Some (cl_client endpoint) else first_client rest socket)"

text \<open>The status loop over the merged sandboxes: candidates and process hints.\<close>

fun read_statuses ::
    "('e, 'c) cri_api \<Rightarrow> (string \<Rightarrow> json option) \<Rightarrow> 'c cri_client list \<Rightarrow>
     pod_candidate list \<Rightarrow> (pod_uid \<rightharpoonup> u32 option) \<Rightarrow> (pod_uid \<times> discovered_sandbox) list \<Rightarrow>
     pod_candidate list \<times> (pod_uid \<rightharpoonup> u32 option)" where
  "read_statuses cri from_json clients candidates info_pids [] = (candidates, info_pids)"
| "read_statuses cri from_json clients candidates info_pids ((uid, sandbox) # rest) =
     (case first_client clients (dsb_socket sandbox) of
        None \<Rightarrow> read_statuses cri from_json clients candidates info_pids rest
      | Some client \<Rightarrow>
          (case cri_status cri client (dsb_sandbox_id sandbox) of
             Inl _ \<Rightarrow> read_statuses cri from_json clients candidates info_pids rest
           | Inr response \<Rightarrow>
               if host_network response then read_statuses cri from_json clients candidates info_pids rest
               else read_statuses cri from_json clients
                 (candidates @ [\<lparr>pc_uid = uid, pc_name = dsb_name sandbox, pc_namespace = dsb_namespace sandbox\<rparr>])
                 (hm_insert uid (pid_from_status_info from_json (ssr_info response)) info_pids) rest))"

text \<open>The iteration orders of the two hash maps that are walked.\<close>

record map_orders =
  mo_sandboxes :: "(pod_uid \<rightharpoonup> discovered_sandbox) \<Rightarrow> pod_uid list"
  mo_hints :: "(pod_uid \<rightharpoonup> u32 option) \<Rightarrow> pod_uid list"

definition orders_ok :: "map_orders \<Rightarrow> bool" where
  "orders_ok mo \<longleftrightarrow>
     (\<forall>m. finite (dom m) \<longrightarrow> distinct (mo_sandboxes mo m) \<and> set (mo_sandboxes mo m) = dom m) \<and>
     (\<forall>m. finite (dom m) \<longrightarrow> distinct (mo_hints mo m) \<and> set (mo_hints mo m) = dom m)"

definition refresh_async ::
    "('e, 'c) cri_api \<Rightarrow> (string \<Rightarrow> json option) \<Rightarrow> proc_view \<Rightarrow> map_orders \<Rightarrow> socket_selection \<Rightarrow> 'c cri_client list \<Rightarrow>
     'c cri_client list \<times> ('e discovery_error, pod_info list) result" where
  "refresh_async cri from_json proc mo selection clients =
     (case ensure_clients cri selection clients of
        (clients1, Inl e) \<Rightarrow> (clients1, Inl e)
      | (clients1, Inr _) \<Rightarrow>
          (let (sandboxes, listed_ok, failed) = list_sandboxes cri Map.empty False [] clients1;
               clients2 = filter (\<lambda>endpoint. cl_socket endpoint \<notin> set failed) clients1
           in if \<not> listed_ok then (clients2, Inl AllListsFailed)
              else
                (let (candidates, info_pids) =
                       read_statuses cri from_json clients2 [] Map.empty
                         (map (\<lambda>uid. (uid, the (sandboxes uid))) (mo_sandboxes mo sandboxes));
                     pids = resolve_pids proc (mo_hints mo) info_pids
                 in (clients2,
                     Inr (List.map_filter
                       (\<lambda>c. map_option (\<lambda>pid. \<lparr>pi_uid = pc_uid c, pi_name = pc_name c,
                                pi_namespace = pc_namespace c, pi_pid = pid\<rparr>) (pids (pc_uid c)))
                       candidates)))))"

section \<open>The worker thread and its caller\<close>

record 'c worker_state =
  ws_clients :: "'c cri_client list"
  ws_active_selection :: "socket_selection option"

text \<open>One job.  \<open>timed_out\<close> says whether the refresh missed its deadline; it may then have been dropped
  half way, and the clients are cleared whatever it left.\<close>

definition worker_step ::
    "('e, 'c) cri_api \<Rightarrow> (string \<Rightarrow> json option) \<Rightarrow> proc_view \<Rightarrow> map_orders \<Rightarrow> bool \<Rightarrow> socket_selection \<Rightarrow>
     'c worker_state \<Rightarrow> 'c worker_state \<times> ('e discovery_error, pod_info list) result" where
  "worker_step cri from_json proc mo timed_out selection w =
     (let clients = (if ws_active_selection w \<noteq> Some selection then [] else ws_clients w)
      in if timed_out
         then (\<lparr>ws_clients = [], ws_active_selection = Some selection\<rparr>, Inl RefreshTimeout)
         else (let (clients', r) = refresh_async cri from_json proc mo selection clients
               in (\<lparr>ws_clients = clients', ws_active_selection = Some selection\<rparr>, r)))"

definition worker_start :: "'c worker_state" where
  "worker_start = \<lparr>ws_clients = [], ws_active_selection = None\<rparr>"

text \<open>\<open>PodDiscovery::refresh\<close>: whether the job could be sent and what came back in time.\<close>

datatype 'r reply = Received 'r | RecvTimeout | Disconnected

definition discovery_refresh ::
    "bool \<Rightarrow> ('e discovery_error, pod_info list) result reply \<Rightarrow> ('e discovery_error, pod_info list) result" where
  "discovery_refresh sent reply =
     (if \<not> sent then Inl WorkerGone
      else (case reply of
              Received r \<Rightarrow> r
            | RecvTimeout \<Rightarrow> Inl RefreshTimeout
            | Disconnected \<Rightarrow> Inl WorkerGone))"

section \<open>Facts on the connections\<close>

text \<open>The clients a selection may hold: on wanted sockets, one per socket, at most one under
  \<open>FirstWins\<close>.\<close>

definition clients_ok :: "('e, 'c) cri_api \<Rightarrow> socket_selection \<Rightarrow> 'c cri_client list \<Rightarrow> bool" where
  "clients_ok cri selection clients \<longleftrightarrow>
     set (map cl_socket clients) \<subseteq> set (target_sockets cri selection) \<and>
     distinct (map cl_socket clients) \<and> (selection = FirstWins \<longrightarrow> length clients \<le> 1)"

lemma dial_sockets_ok:
  "set socks \<subseteq> set (target_sockets cri selection) \<Longrightarrow> clients_ok cri selection clients \<Longrightarrow>
     (selection = FirstWins \<Longrightarrow> clients = []) \<Longrightarrow>
     clients_ok cri selection (fst (dial_sockets cri selection clients socks))"
proof (induction cri selection clients socks rule: dial_sockets.induct)
  case (1 cri selection clients)
  then show ?case by simp
next
  case (2 cri selection clients socket rest)
  show ?case
  proof (cases "list_ex (\<lambda>endpoint. cl_socket endpoint = socket) clients")
    case True
    then show ?thesis using 2 by simp
  next
    case new: False
    show ?thesis
    proof (cases "cri_connect cri socket")
      case (Inl e)
      then show ?thesis using 2 new by (auto split: socket_selection.splits)
    next
      case (Inr client)
      have "clients_ok cri selection (clients @ [\<lparr>cl_socket = socket, cl_client = client\<rparr>])"
        using 2(5,6,7) new by (auto simp: clients_ok_def list_ex_iff)
      then show ?thesis using 2 new Inr by (auto simp: Let_def)
    qed
  qed
qed

lemma clients_ok_filter:
  "clients_ok cri selection clients \<Longrightarrow> clients_ok cri selection (filter P clients)"
  unfolding clients_ok_def
  by (auto simp: distinct_map_filter intro: order_trans [OF length_filter_le])

lemma ensure_clients_ok:
  assumes "distinct (map cl_socket clients)" "selection = FirstWins \<longrightarrow> length clients \<le> 1"
  shows "clients_ok cri selection (fst (ensure_clients cri selection clients))"
proof -
  let ?k = "filter (\<lambda>endpoint. cl_socket endpoint \<in> set (target_sockets cri selection)) clients"
  have k: "clients_ok cri selection ?k"
    using assms by (auto simp: clients_ok_def distinct_map_filter intro: order_trans [OF length_filter_le])
  show ?thesis
    using k dial_sockets_ok [of "target_sockets cri selection" cri selection ?k]
    by (auto simp: ensure_clients_def Let_def)
qed

lemma dial_sockets_nonempty:
  "dial_sockets cri selection clients socks = (clients', Inr ()) \<Longrightarrow> clients' \<noteq> []"
  by (induction cri selection clients socks arbitrary: clients' rule: dial_sockets.induct)
    (auto simp: Let_def split: if_splits sum.splits socket_selection.splits)

lemma dial_first_wins:
  "dial_sockets cri FirstWins [] socks =
     (case find (\<lambda>s. is_ok (cri_connect cri s)) socks of
        None \<Rightarrow> ([], Inl NoSocket)
      | Some s \<Rightarrow> (case cri_connect cri s of
          Inr client \<Rightarrow> ([\<lparr>cl_socket = s, cl_client = client\<rparr>], Inr ()) | Inl e \<Rightarrow> ([], Inl NoSocket)))"
  by (induction socks) (auto simp: Let_def split: sum.splits)

text \<open>\<open>FirstWins\<close> takes the first socket in the fixed order that exists and connects.\<close>

lemma ensure_clients_first_wins:
  "ensure_clients cri FirstWins [] =
     (case find (\<lambda>s. cri_exists cri s \<and> is_ok (cri_connect cri s)) WELL_KNOWN_SOCKETS of
        None \<Rightarrow> ([], Inl NoSocket)
      | Some s \<Rightarrow> (case cri_connect cri s of
          Inr client \<Rightarrow> ([\<lparr>cl_socket = s, cl_client = client\<rparr>], Inr ()) | Inl e \<Rightarrow> ([], Inl NoSocket)))"
proof -
  have "find P (filter Q xs) = find (\<lambda>x. Q x \<and> P x) xs" for P Q and xs :: "string list"
    by (induction xs) auto
  then show ?thesis by (simp add: ensure_clients_def target_sockets_def dial_first_wins)
qed

section \<open>Facts on a refresh\<close>

lemma hm_entry_finite: "finite (dom m) \<Longrightarrow> finite (dom (hm_entry_or_insert k v m))"
  by (auto simp: hm_entry_or_insert_def split: option.splits)

lemma fold_add_sandbox_finite: "finite (dom m) \<Longrightarrow> finite (dom (fold (add_sandbox s) items m))"
  by (induction items arbitrary: m) (auto simp: add_sandbox_def hm_entry_finite split: option.splits)

lemma list_sandboxes_finite:
  "list_sandboxes cri m ok failed clients = (m', ok', failed') \<Longrightarrow> finite (dom m) \<Longrightarrow> finite (dom m')"
  by (induction cri m ok failed clients rule: list_sandboxes.induct)
    (auto simp: fold_add_sandbox_finite split: sum.splits)

lemma list_sandboxes_flags:
  "list_sandboxes cri m ok failed clients = (m', ok', failed') \<Longrightarrow>
     (ok' \<longleftrightarrow> ok \<or> (\<exists>c\<in>set clients. is_ok (cri_list cri (cl_client c) ready_filter))) \<and>
     failed' = failed @ map cl_socket (filter (\<lambda>c. \<not> is_ok (cri_list cri (cl_client c) ready_filter)) clients)"
  by (induction cri m ok failed clients rule: list_sandboxes.induct) (auto split: sum.splits)

text \<open>A candidate comes from a sandbox whose status was read and is not in the host's network.\<close>

definition candidate_of ::
    "('e, 'c) cri_api \<Rightarrow> 'c cri_client list \<Rightarrow> pod_uid \<times> discovered_sandbox \<Rightarrow> pod_sandbox_status_response option" where
  "candidate_of cri clients us =
     (case first_client clients (dsb_socket (snd us)) of
        None \<Rightarrow> None
      | Some client \<Rightarrow>
          (case cri_status cri client (dsb_sandbox_id (snd us)) of
             Inl _ \<Rightarrow> None
           | Inr response \<Rightarrow> if host_network response then None else Some response))"

lemma read_statuses_eq:
  "read_statuses cri from_json clients candidates info_pids es =
     (candidates @ map (\<lambda>(uid, s). \<lparr>pc_uid = uid, pc_name = dsb_name s, pc_namespace = dsb_namespace s\<rparr>)
        (filter (\<lambda>us. candidate_of cri clients us \<noteq> None) es),
      fold (\<lambda>us. case candidate_of cri clients us of
          None \<Rightarrow> id
        | Some r \<Rightarrow> hm_insert (fst us) (pid_from_status_info from_json (ssr_info r))) es info_pids)"
  by (induction cri from_json clients candidates info_pids es rule: read_statuses.induct)
    (auto simp: candidate_of_def split: option.splits sum.splits)

lemma fold_hints_get:
  "distinct ks \<Longrightarrow>
     fold (\<lambda>us. case g us of None \<Rightarrow> id | Some r \<Rightarrow> hm_insert (fst us) (h r)) (map (\<lambda>k. (k, f k)) ks) m =
       (\<lambda>j. if j \<in> set ks \<and> g (j, f j) \<noteq> None then map_option h (g (j, f j)) else m j)"
proof (induction ks arbitrary: m)
  case Nil
  then show ?case by simp
next
  case (Cons k ks)
  then show ?case by (auto simp: fun_eq_iff hm_insert_def split: option.splits)
qed

text \<open>A successful refresh: which pods it reports, with which process.\<close>

lemma refresh_async_ok:
  assumes "refresh_async cri from_json proc mo selection clients = (clients', Inr pods)"
    and "orders_ok mo"
  obtains clients1 sandboxes failed where
    "ensure_clients cri selection clients = (clients1, Inr ())"
    "list_sandboxes cri Map.empty False [] clients1 = (sandboxes, True, failed)"
    "clients' = filter (\<lambda>endpoint. cl_socket endpoint \<notin> set failed) clients1"
    "distinct (map pi_uid pods)"
    "\<And>p. p \<in> set pods \<longleftrightarrow>
       (\<exists>s r pid. sandboxes (pi_uid p) = Some s \<and> candidate_of cri clients' (pi_uid p, s) = Some r \<and>
          pod_pid proc (pi_uid p) (pid_from_status_info from_json (ssr_info r)) = Some pid \<and>
          p = \<lparr>pi_uid = pi_uid p, pi_name = dsb_name s, pi_namespace = dsb_namespace s, pi_pid = pid\<rparr>)"
proof -
  obtain clients1 where e: "ensure_clients cri selection clients = (clients1, Inr ())"
    using assms(1) by (auto simp: refresh_async_def split: prod.splits sum.splits)
  obtain sandboxes ok failed where l: "list_sandboxes cri Map.empty False [] clients1 = (sandboxes, ok, failed)"
    by (metis surj_pair)
  have ok: "ok" using assms(1) e l by (cases ok) (simp_all add: refresh_async_def Let_def)
  let ?c2 = "filter (\<lambda>endpoint. cl_socket endpoint \<notin> set failed) clients1"
  let ?o = "mo_sandboxes mo sandboxes"
  let ?g = "\<lambda>uid. candidate_of cri ?c2 (uid, the (sandboxes uid))"
  let ?h = "\<lambda>r. pid_from_status_info from_json (ssr_info r)"
  let ?cands = "map (\<lambda>u. \<lparr>pc_uid = u, pc_name = dsb_name (the (sandboxes u)), pc_namespace = dsb_namespace (the (sandboxes u))\<rparr>)
      (filter (\<lambda>u. ?g u \<noteq> None) ?o)"
  let ?hints = "\<lambda>j. if j \<in> set ?o \<and> ?g j \<noteq> None then map_option ?h (?g j) else None"
  have fin: "finite (dom sandboxes)" using list_sandboxes_finite [OF l] by simp
  then have o: "distinct ?o" "set ?o = dom sandboxes" using assms(2) by (auto simp: orders_ok_def)
  have rs: "read_statuses cri from_json ?c2 [] Map.empty (map (\<lambda>uid. (uid, the (sandboxes uid))) ?o) = (?cands, ?hints)"
    unfolding read_statuses_eq fold_hints_get [OF o(1)] by (simp add: filter_map comp_def)
  have "dom ?hints \<subseteq> set ?o" by (auto split: if_splits)
  then have "finite (dom ?hints)" using finite_set finite_subset by blast
  then have ho: "distinct (mo_hints mo ?hints)" "set (mo_hints mo ?hints) = dom ?hints"
    using assms(2) by (auto simp: orders_ok_def)
  let ?mk = "\<lambda>c. map_option (\<lambda>pid. \<lparr>pi_uid = pc_uid c, pi_name = pc_name c, pi_namespace = pc_namespace c, pi_pid = pid\<rparr>)
       (resolve_pids proc (mo_hints mo) ?hints (pc_uid c))"
  have res: "clients' = ?c2 \<and> pods = List.map_filter ?mk ?cands"
  proof -
    have "refresh_async cri from_json proc mo selection clients = (?c2, Inr (List.map_filter ?mk ?cands))"
      unfolding refresh_async_def e prod.case sum.case l Let_def rs using ok by (simp only: not_True_eq_False if_False)
    from trans [OF assms(1) [symmetric] this] show ?thesis
      unfolding prod.inject sum.inject .
  qed
  have pid: "resolve_pids proc (mo_hints mo) ?hints u = Option.bind (?hints u) (pod_pid proc u)" for u
    by (rule resolve_pids_eq [of "mo_hints mo" ?hints, OF ho])
  have uids: "map pi_uid (List.map_filter (\<lambda>c. map_option (\<lambda>pid. \<lparr>pi_uid = pc_uid c, pi_name = pc_name c, pi_namespace = pc_namespace c, pi_pid = pid\<rparr>)
       (R (pc_uid c))) cs) = filter (\<lambda>u. R u \<noteq> None) (map pc_uid cs)" for R :: "string \<Rightarrow> u32 option" and cs
    by (induction cs) (auto simp: List.map_filter_simps split: option.splits)
  have "map pc_uid ?cands = filter (\<lambda>u. ?g u \<noteq> None) ?o" by (simp add: comp_def)
  then have dist: "distinct (map pi_uid pods)" using res o(1) by (simp only: uids distinct_filter)
  have mem: "p \<in> set pods \<longleftrightarrow>
       (\<exists>s r pid. sandboxes (pi_uid p) = Some s \<and> candidate_of cri ?c2 (pi_uid p, s) = Some r \<and>
          pod_pid proc (pi_uid p) (?h r) = Some pid \<and>
          p = \<lparr>pi_uid = pi_uid p, pi_name = dsb_name s, pi_namespace = dsb_namespace s, pi_pid = pid\<rparr>)" for p
  proof -
    have "p \<in> set pods \<longleftrightarrow> (\<exists>u pid. u \<in> set ?o \<and> ?g u \<noteq> None \<and> resolve_pids proc (mo_hints mo) ?hints u = Some pid \<and>
        p = \<lparr>pi_uid = u, pi_name = dsb_name (the (sandboxes u)), pi_namespace = dsb_namespace (the (sandboxes u)), pi_pid = pid\<rparr>)"
      using res by (fastforce simp: List.map_filter_def image_iff)
    also have "\<dots> \<longleftrightarrow> (\<exists>s r pid. sandboxes (pi_uid p) = Some s \<and> candidate_of cri ?c2 (pi_uid p, s) = Some r \<and>
          pod_pid proc (pi_uid p) (?h r) = Some pid \<and>
          p = \<lparr>pi_uid = pi_uid p, pi_name = dsb_name s, pi_namespace = dsb_namespace s, pi_pid = pid\<rparr>)"
      unfolding pid using o(2) by (cases p) (auto simp: dom_def)
    finally show ?thesis .
  qed
  show thesis
    by (rule that [OF e l [unfolded eqTrueI [OF ok]]]) (use res dist mem in auto)
qed

section \<open>Properties\<close>

text \<open>The sandboxes of the working listings, in the order of the clients.\<close>

definition listed_sandboxes :: "('e, 'c) cri_api \<Rightarrow> 'c cri_client list \<Rightarrow> (pod_uid \<times> discovered_sandbox) list" where
  "listed_sandboxes cri clients =
     concat (map (\<lambda>endpoint. case cri_list cri (cl_client endpoint) ready_filter of
         Inl _ \<Rightarrow> []
       | Inr items \<Rightarrow> List.map_filter (\<lambda>item. map_option (\<lambda>meta. (meta_uid meta,
           \<lparr>dsb_socket = cl_socket endpoint, dsb_sandbox_id = sb_id item, dsb_name = meta_name meta,
            dsb_namespace = meta_namespace meta\<rparr>)) (sb_metadata item)) items) clients)"

lemma fold_add_sandbox_get:
  "fold (add_sandbox socket) items m uid =
     fill (m uid) (map_of (List.map_filter (\<lambda>item. map_option (\<lambda>meta. (meta_uid meta,
           \<lparr>dsb_socket = socket, dsb_sandbox_id = sb_id item, dsb_name = meta_name meta,
            dsb_namespace = meta_namespace meta\<rparr>)) (sb_metadata item)) items) uid)"
proof (induction items arbitrary: m)
  case Nil
  then show ?case by (simp add: List.map_filter_simps)
next
  case (Cons item items)
  then show ?case
    by (cases "sb_metadata item")
      (auto simp: add_sandbox_def hm_entry_or_insert_def List.map_filter_simps fill_def split: option.splits)
qed

lemma list_sandboxes_get:
  "list_sandboxes cri m ok failed clients = (m', ok', failed') \<Longrightarrow>
     m' uid = fill (m uid) (map_of (listed_sandboxes cri clients) uid)"
proof (induction cri m ok failed clients rule: list_sandboxes.induct)
  case (1 cri sandboxes listed_ok failed)
  then show ?case by (simp add: listed_sandboxes_def)
next
  case (2 cri sandboxes listed_ok failed endpoint rest)
  have map_add_fill: "map_of (xs @ ys) uid = fill (map_of xs uid) (map_of ys uid)" for xs ys :: "(string \<times> discovered_sandbox) list"
    by (simp add: map_add_def fill_def map_of_append split: option.splits)
  show ?case
  proof (cases "cri_list cri (cl_client endpoint) ready_filter")
    case (Inl e)
    then have "m' uid = fill (sandboxes uid) (map_of (listed_sandboxes cri rest) uid)"
      using 2 by simp
    then show ?thesis using Inl by (simp add: listed_sandboxes_def)
  next
    case (Inr items)
    then have "m' uid = fill (fold (add_sandbox (cl_socket endpoint)) items sandboxes uid)
        (map_of (listed_sandboxes cri rest) uid)"
      using 2 by simp
    then show ?thesis
      using Inr by (simp only: fold_add_sandbox_get fill_assoc listed_sandboxes_def list.map concat.simps
          map_add_fill sum.case)
  qed
qed

text \<open>C30: A refresh that succeeds reports each pod at most once, and exactly the pods that the first working
  listing to mention them describes, whose status could be read and is not in the host's network, and
  that have a process representing them, with that listing's name and namespace and that process.\<close>

theorem refresh_reports_exactly:
  assumes "refresh_async cri from_json proc mo selection clients = (clients', Inr pods)"
    and "orders_ok mo"
  shows "distinct (map pi_uid pods) \<and>
    (\<exists>dialled. ensure_clients cri selection clients = (dialled, Inr ()) \<and>
       (\<forall>p. p \<in> set pods \<longleftrightarrow>
          (\<exists>s r pid. map_of (listed_sandboxes cri dialled) (pi_uid p) = Some s \<and>
             candidate_of cri clients' (pi_uid p, s) = Some r \<and>
             pod_pid proc (pi_uid p) (pid_from_status_info from_json (ssr_info r)) = Some pid \<and>
             p = \<lparr>pi_uid = pi_uid p, pi_name = dsb_name s, pi_namespace = dsb_namespace s, pi_pid = pid\<rparr>)))"
proof (rule refresh_async_ok [OF assms])
  fix dialled sandboxes failed
  assume c: "ensure_clients cri selection clients = (dialled, Inr ())"
    "list_sandboxes cri Map.empty False [] dialled = (sandboxes, True, failed)" "distinct (map pi_uid pods)"
    and pods: "\<And>p. p \<in> set pods \<longleftrightarrow>
       (\<exists>s r pid. sandboxes (pi_uid p) = Some s \<and> candidate_of cri clients' (pi_uid p, s) = Some r \<and>
          pod_pid proc (pi_uid p) (pid_from_status_info from_json (ssr_info r)) = Some pid \<and>
          p = \<lparr>pi_uid = pi_uid p, pi_name = dsb_name s, pi_namespace = dsb_namespace s, pi_pid = pid\<rparr>)"
  have "sandboxes = map_of (listed_sandboxes cri dialled)"
    using list_sandboxes_get [OF c(2)] by (simp add: fun_eq_iff)
  then show ?thesis using c(1,3) pods by (intro conjI exI [of _ dialled] allI) simp_all
qed

definition demo_cri :: "(string, nat) cri_api" where
  "demo_cri =
     \<lparr>cri_exists = (\<lambda>_. True), cri_connect = (\<lambda>_. Inr 0),
      cri_list = (\<lambda>_ _. Inr [\<lparr>sb_id = ''s1'', sb_metadata = Some \<lparr>meta_name = ''web-0'', meta_uid = ''ab-cd'', meta_namespace = ''default''\<rparr>,
        sb_state = 0\<rparr>]),
      cri_status = (\<lambda>_ _. Inr \<lparr>ssr_status = None, ssr_info = Map.empty\<rparr>)\<rparr>"

definition demo_client_at :: "string \<Rightarrow> nat cri_client" where
  "demo_client_at socket = \<lparr>cl_socket = socket, cl_client = 0\<rparr>"

definition demo_orders :: map_orders where
  "demo_orders = \<lparr>mo_sandboxes = (\<lambda>m. sorted_list_of_set (dom m)), mo_hints = (\<lambda>m. sorted_list_of_set (dom m))\<rparr>"

lemma demo_orders_ok: "orders_ok demo_orders"
  by (simp add: orders_ok_def demo_orders_def)

lemma demo_refresh:
  "\<exists>pods. refresh_async demo_cri (\<lambda>_. None) demo_proc_view demo_orders (Explicit ''k'') [] = ([demo_client_at ''k''], Inr pods)"
proof -
  have "ensure_clients demo_cri (Explicit ''k'') [] = ([demo_client_at ''k''], Inr ())"
    by (simp add: ensure_clients_def target_sockets_def demo_cri_def demo_client_at_def)
  then show ?thesis
    by (simp add: refresh_async_def demo_cri_def demo_client_at_def Let_def split: prod.splits)
qed

lemma refresh_reports_exactly_witness:
  "\<exists>pods. refresh_async demo_cri (\<lambda>_. None) demo_proc_view demo_orders (Explicit ''k'') [] = ([demo_client_at ''k''], Inr pods) \<and>
     \<lparr>pi_uid = ''ab-cd'', pi_name = ''web-0'', pi_namespace = ''default'', pi_pid = 42\<rparr> \<in> set pods"
proof -
  obtain pods where r: "refresh_async demo_cri (\<lambda>_. None) demo_proc_view demo_orders (Explicit ''k'') [] = ([demo_client_at ''k''], Inr pods)"
    using demo_refresh by blast
  let ?p = "\<lparr>pi_uid = ''ab-cd'', pi_name = ''web-0'', pi_namespace = ''default'', pi_pid = 42\<rparr>"
  let ?s = "\<lparr>dsb_socket = ''k'', dsb_sandbox_id = ''s1'', dsb_name = ''web-0'', dsb_namespace = ''default''\<rparr>"
  have e: "ensure_clients demo_cri (Explicit ''k'') [] = ([demo_client_at ''k''], Inr ())"
    by (simp add: ensure_clients_def target_sockets_def demo_cri_def demo_client_at_def)
  have l: "map_of (listed_sandboxes demo_cri [demo_client_at ''k'']) ''ab-cd'' = Some ?s"
    by (simp add: listed_sandboxes_def demo_cri_def demo_client_at_def List.map_filter_simps)
  have c: "candidate_of demo_cri [demo_client_at ''k''] (''ab-cd'', ?s) = Some \<lparr>ssr_status = None, ssr_info = Map.empty\<rparr>"
    by (simp add: candidate_of_def demo_cri_def demo_client_at_def host_network_def)
  have p: "pod_pid demo_proc_view ''ab-cd'' (pid_from_status_info (\<lambda>_. None) Map.empty) = Some 42"
    by code_simp
  from refresh_reports_exactly [OF r demo_orders_ok] e have
    "?p \<in> set pods \<longleftrightarrow> (\<exists>s r pid. map_of (listed_sandboxes demo_cri [demo_client_at ''k'']) (pi_uid ?p) = Some s \<and>
        candidate_of demo_cri [demo_client_at ''k''] (pi_uid ?p, s) = Some r \<and>
        pod_pid demo_proc_view (pi_uid ?p) (pid_from_status_info (\<lambda>_. None) (ssr_info r)) = Some pid \<and>
        ?p = \<lparr>pi_uid = pi_uid ?p, pi_name = dsb_name s, pi_namespace = dsb_namespace s, pi_pid = pid\<rparr>)"
    by (metis prod.inject)
  then have "?p \<in> set pods" using l c p by simp
  with r show ?thesis by blast
qed

text \<open>C36: An outage is an error and never an empty list of pods: with the clients it could connect, a refresh
  fails as a whole exactly when none of the listings works, so that the callers keep their state; and
  in either case every client whose listing failed is dropped, to be dialled again next time.\<close>

theorem outage_is_an_error:
  assumes "ensure_clients cri selection clients = (dialled, Inr ())"
  shows "(snd (refresh_async cri from_json proc mo selection clients) = Inl AllListsFailed \<longleftrightarrow>
      \<not> (\<exists>c\<in>set dialled. is_ok (cri_list cri (cl_client c) ready_filter))) \<and>
    (\<forall>c\<in>set (fst (refresh_async cri from_json proc mo selection clients)).
      c \<in> set dialled \<and> is_ok (cri_list cri (cl_client c) ready_filter))"
proof -
  obtain sandboxes ok failed where l: "list_sandboxes cri Map.empty False [] dialled = (sandboxes, ok, failed)"
    by (metis surj_pair)
  note flags = list_sandboxes_flags [OF l]
  have "snd (refresh_async cri from_json proc mo selection clients) = Inl AllListsFailed \<longleftrightarrow> \<not> ok"
    "fst (refresh_async cri from_json proc mo selection clients) =
      filter (\<lambda>endpoint. cl_socket endpoint \<notin> set failed) dialled"
    using assms l by (auto simp: refresh_async_def Let_def split: prod.splits)
  then show ?thesis using flags by auto
qed

lemma outage_is_an_error_witness:
  "snd (refresh_async (demo_cri\<lparr>cri_list := (\<lambda>_ _. Inl ''down'')\<rparr>) (\<lambda>_. None) demo_proc_view demo_orders (Explicit ''k'') []) =
     Inl AllListsFailed"
proof -
  have "ensure_clients (demo_cri\<lparr>cri_list := (\<lambda>_ _. Inl ''down'')\<rparr>) (Explicit ''k'') [] = ([demo_client_at ''k''], Inr ())"
    by (simp add: ensure_clients_def target_sockets_def demo_cri_def demo_client_at_def)
  from outage_is_an_error [OF this] show ?thesis by simp
qed

end
