(* ===== verification/Tcp.thy ===== *)
theory Tcp
  imports Tcp_Parse Pod_Discovery Pipeline
begin

text \<open>
  Per-pod TCP metrics (\<open>talia-agent/src/modules/tcp/provider.rs\<close>): the baseline kept per pod UID, the
  decision between a delta and a new baseline, and the samples of a collection.  \<open>read\<close> stands for
  \<open>fs::read_to_string(..).ok()\<close>, \<open>pods\<close> for the answer of the pod discovery.
\<close>

definition TCP_RETRANSMITS_SAMPLE :: string where
  "TCP_RETRANSMITS_SAMPLE = ''system.network.tcp.retransmits''"
definition TCP_SEGMENTS_SENT_SAMPLE :: string where
  "TCP_SEGMENTS_SENT_SAMPLE = ''system.network.tcp.segments.sent''"
definition TCP_SEGMENTS_RECEIVED_SAMPLE :: string where
  "TCP_SEGMENTS_RECEIVED_SAMPLE = ''system.network.tcp.segments.received''"
definition TCP_TIMEOUTS_SAMPLE :: string where
  "TCP_TIMEOUTS_SAMPLE = ''system.network.tcp.timeouts''"
definition TCP_FAST_RETRANSMITS_SAMPLE :: string where
  "TCP_FAST_RETRANSMITS_SAMPLE = ''system.network.tcp.fast_retransmits''"
definition TCP_ESTABLISHED_SAMPLE :: string where
  "TCP_ESTABLISHED_SAMPLE = ''system.network.tcp.connections.established''"
definition POD_NAME_ATTRIBUTE :: string where
  "POD_NAME_ATTRIBUTE = ''k8s.pod.name''"
definition POD_NAMESPACE_ATTRIBUTE :: string where
  "POD_NAMESPACE_ATTRIBUTE = ''k8s.namespace.name''"
definition POD_UID_ATTRIBUTE :: string where
  "POD_UID_ATTRIBUTE = ''k8s.pod.uid''"

record pod_baseline =
  pb_pid :: u32
  pb_snapshot :: tcp_snapshot

type_synonym tcp_baselines = "pod_uid \<rightharpoonup> pod_baseline"

definition read_pod_snapshot :: "(string \<Rightarrow> string option) \<Rightarrow> u32 \<Rightarrow> tcp_snapshot option" where
  "read_pod_snapshot read pid =
     Option.bind (read (''/proc/'' @ show_nat (unat pid) @ ''/net/snmp'')) (\<lambda>snmp.
     Option.bind (read (''/proc/'' @ show_nat (unat pid) @ ''/net/netstat'')) (\<lambda>netstat.
     Option.bind (res_ok (parse_snmp snmp)) (\<lambda>s.
     Option.bind (res_ok (parse_netstat netstat)) (\<lambda>n.
       Some (snapshot_combine s n)))))"

definition snapshot_reset :: "tcp_snapshot \<Rightarrow> tcp_snapshot \<Rightarrow> bool" where
  "snapshot_reset previous current \<longleftrightarrow>
     ts_retrans_segs current < ts_retrans_segs previous \<or>
     ts_out_segs current < ts_out_segs previous \<or>
     ts_in_segs current < ts_in_segs previous \<or>
     ts_tcp_timeouts current < ts_tcp_timeouts previous \<or>
     ts_tcp_fast_retrans current < ts_tcp_fast_retrans previous"

definition delta_samples :: "tcp_snapshot \<Rightarrow> tcp_snapshot \<Rightarrow> u64 \<times> u64 \<times> u64 \<times> u64 \<times> u64" where
  "delta_samples previous current =
     (ts_retrans_segs current - ts_retrans_segs previous,
      ts_out_segs current - ts_out_segs previous,
      ts_in_segs current - ts_in_segs previous,
      ts_tcp_timeouts current - ts_tcp_timeouts previous,
      ts_tcp_fast_retrans current - ts_tcp_fast_retrans previous)"

definition pod_attributes :: "pod_info \<Rightarrow> (string, string) btree" where
  "pod_attributes pod =
     bt_insert POD_UID_ATTRIBUTE (pi_uid pod)
       (bt_insert POD_NAMESPACE_ATTRIBUTE (pi_namespace pod)
         (bt_insert POD_NAME_ATTRIBUTE (pi_name pod) []))"

definition counter_sample :: "string \<Rightarrow> u64 \<Rightarrow> (string, string) btree \<Rightarrow> system_time \<Rightarrow> sample" where
  "counter_sample name v attributes timestamp = mk_sample timestamp name (Counter v) attributes"

definition pod_deltas :: "pod_baseline option \<Rightarrow> u32 \<Rightarrow> tcp_snapshot \<Rightarrow> (u64 \<times> u64 \<times> u64 \<times> u64 \<times> u64) option" where
  "pod_deltas baseline pid snapshot =
     (case baseline of
        None \<Rightarrow> None
      | Some previous \<Rightarrow>
          if pb_pid previous \<noteq> pid then None
          else if snapshot_reset (pb_snapshot previous) snapshot then None
          else Some (delta_samples (pb_snapshot previous) snapshot))"

text \<open>The loop over the pods; every pod is seen, whether it is readable or not.\<close>

fun tcp_loop ::
    "(string \<Rightarrow> string option) \<Rightarrow> system_time \<Rightarrow> tcp_baselines \<Rightarrow> pod_uid list \<Rightarrow> sample list \<Rightarrow> pod_info list \<Rightarrow>
     tcp_baselines \<times> pod_uid list \<times> sample list" where
  "tcp_loop read timestamp previous seen samples [] = (previous, seen, samples)"
| "tcp_loop read timestamp previous seen samples (pod # pods) =
     (let seen = seen @ [pi_uid pod] in
      case read_pod_snapshot read (pi_pid pod) of
        None \<Rightarrow> tcp_loop read timestamp previous seen samples pods
      | Some snapshot \<Rightarrow>
          (let attributes = pod_attributes pod;
               samples = samples @
                 [mk_sample timestamp TCP_ESTABLISHED_SAMPLE (GaugeU64 (ts_curr_estab snapshot)) attributes];
               deltas = pod_deltas (previous (pi_uid pod)) (pi_pid pod) snapshot;
               previous = hm_insert (pi_uid pod) \<lparr>pb_pid = pi_pid pod, pb_snapshot = snapshot\<rparr> previous
           in case deltas of
                None \<Rightarrow> tcp_loop read timestamp previous seen samples pods
              | Some (retrans, sent, received, timeouts, fast_retrans) \<Rightarrow>
                  tcp_loop read timestamp previous seen
                    (samples @
                     [counter_sample TCP_RETRANSMITS_SAMPLE retrans attributes timestamp,
                      counter_sample TCP_SEGMENTS_SENT_SAMPLE sent attributes timestamp,
                      counter_sample TCP_SEGMENTS_RECEIVED_SAMPLE received attributes timestamp,
                      counter_sample TCP_TIMEOUTS_SAMPLE timeouts attributes timestamp,
                      counter_sample TCP_FAST_RETRANSMITS_SAMPLE fast_retrans attributes timestamp])
                    pods))"

definition tcp_collect ::
    "(string \<Rightarrow> string option) \<Rightarrow> system_time \<Rightarrow> ('e discovery_error, pod_info list) result \<Rightarrow> tcp_baselines \<Rightarrow>
     tcp_baselines \<times> ('e discovery_error provider_error, sample list) result" where
  "tcp_collect read timestamp discovered previous =
     (case discovered of
        Inl e \<Rightarrow> (previous, Inl (ProviderError ''tcp'' e))
      | Inr pods \<Rightarrow>
          (let (previous', seen, samples) = tcp_loop read timestamp previous [] [] pods
           in (hm_retain (\<lambda>uid. uid \<in> set seen) previous', Inr samples)))"

definition tcp_reconfigure :: "agent_runtime_config \<Rightarrow> socket_selection" where
  "tcp_reconfigure config = selection_parse (cri_socket (cfg_pod_discovery config))"

section \<open>A collection in closed form\<close>

definition pod_samples ::
    "(string \<Rightarrow> string option) \<Rightarrow> system_time \<Rightarrow> tcp_baselines \<Rightarrow> pod_info \<Rightarrow> sample list" where
  "pod_samples read timestamp previous pod =
     (case read_pod_snapshot read (pi_pid pod) of
        None \<Rightarrow> []
      | Some snapshot \<Rightarrow>
          mk_sample timestamp TCP_ESTABLISHED_SAMPLE (GaugeU64 (ts_curr_estab snapshot)) (pod_attributes pod) #
          (case pod_deltas (previous (pi_uid pod)) (pi_pid pod) snapshot of
             None \<Rightarrow> []
           | Some (retrans, sent, received, timeouts, fast_retrans) \<Rightarrow>
               map (\<lambda>(name, v). counter_sample name v (pod_attributes pod) timestamp)
                 [(TCP_RETRANSMITS_SAMPLE, retrans), (TCP_SEGMENTS_SENT_SAMPLE, sent),
                  (TCP_SEGMENTS_RECEIVED_SAMPLE, received), (TCP_TIMEOUTS_SAMPLE, timeouts),
                  (TCP_FAST_RETRANSMITS_SAMPLE, fast_retrans)]))"

definition pod_baseline_after :: "(string \<Rightarrow> string option) \<Rightarrow> tcp_baselines \<Rightarrow> pod_info \<Rightarrow> pod_baseline option" where
  "pod_baseline_after read previous pod =
     (case read_pod_snapshot read (pi_pid pod) of
        None \<Rightarrow> previous (pi_uid pod)
      | Some snapshot \<Rightarrow> Some \<lparr>pb_pid = pi_pid pod, pb_snapshot = snapshot\<rparr>)"

lemma tcp_loop_step:
  "tcp_loop read now previous seen samples (pod # pods) =
     tcp_loop read now (previous(pi_uid pod := pod_baseline_after read previous pod)) (seen @ [pi_uid pod])
       (samples @ pod_samples read now previous pod) pods"
  by (simp add: pod_samples_def pod_baseline_after_def hm_insert_def Let_def fun_upd_idem
      split: option.splits prod.splits)

lemma tcp_loop_seen: "fst (snd (tcp_loop read now previous seen samples pods)) = seen @ map pi_uid pods"
proof (induction pods arbitrary: previous seen samples)
  case Nil
  then show ?case by simp
next
  case (Cons pod pods)
  show ?case unfolding tcp_loop_step Cons.IH by simp
qed

lemma tcp_loop_samples:
  "distinct (map pi_uid pods) \<Longrightarrow>
     snd (snd (tcp_loop read now previous seen samples pods)) =
       samples @ concat (map (pod_samples read now previous) pods)"
proof (induction pods arbitrary: previous seen samples)
  case Nil
  then show ?case by simp
next
  case (Cons pod pods)
  let ?p = "previous(pi_uid pod := pod_baseline_after read previous pod)"
  have "map (pod_samples read now ?p) pods = map (pod_samples read now previous) pods"
  proof (rule map_cong [OF refl])
    fix q assume "q \<in> set pods"
    then have "pi_uid q \<in> pi_uid ` set pods" by (rule imageI)
    then have "pi_uid q \<noteq> pi_uid pod" using Cons.prems by auto
    then show "pod_samples read now ?p q = pod_samples read now previous q"
      by (simp add: pod_samples_def cong: option.case_cong)
  qed
  then show ?case using Cons.prems by (simp only: tcp_loop_step Cons.IH list.map distinct.simps) simp
qed

lemma tcp_loop_baseline:
  "distinct (map pi_uid pods) \<Longrightarrow> pod \<in> set pods \<Longrightarrow>
     fst (tcp_loop read now previous seen samples pods) (pi_uid pod) = pod_baseline_after read previous pod"
proof (induction pods arbitrary: previous seen samples)
  case Nil
  then show ?case by simp
next
  case (Cons q pods)
  let ?p = "previous(pi_uid q := pod_baseline_after read previous q)"
  have keep: "uid \<notin> pi_uid ` set ps \<Longrightarrow> fst (tcp_loop read now f s t ps) uid = f uid" for uid ps f s t
  proof (induction ps arbitrary: f s t)
    case (Cons p ps)
    then show ?case unfolding tcp_loop_step by simp
  qed simp
  show ?case
  proof (cases "pod = q")
    case True
    then show ?thesis using Cons.prems keep [of "pi_uid q" pods] unfolding tcp_loop_step by simp
  next
    case False
    then have "pod \<in> set pods" using Cons.prems by simp
    moreover from imageI [OF this, of pi_uid] have "pi_uid pod \<noteq> pi_uid q" using Cons.prems by auto
    moreover have "pod_baseline_after read ?p pod = pod_baseline_after read previous pod"
      using calculation by (simp add: pod_baseline_after_def cong: option.case_cong)
    moreover have "distinct (map pi_uid pods)" using Cons.prems by simp
    ultimately show ?thesis unfolding tcp_loop_step by (simp only: Cons.IH)
  qed
qed

lemma tcp_collect_samples:
  "distinct (map pi_uid pods) \<Longrightarrow>
     snd (tcp_collect read now (Inr pods :: ('e discovery_error, pod_info list) result) previous) =
       Inr (concat (map (pod_samples read now previous) pods))"
  using tcp_loop_samples [of pods read now previous "[]" "[]"]
  by (cases "tcp_loop read now previous [] [] pods") (simp add: tcp_collect_def)

lemma tcp_collect_baselines:
  assumes "distinct (map pi_uid pods)"
  shows "fst (tcp_collect read now (Inr pods) previous) uid =
     (case find (\<lambda>pod. pi_uid pod = uid) pods of
        None \<Rightarrow> None | Some pod \<Rightarrow> pod_baseline_after read previous pod)"
proof (cases "find (\<lambda>pod. pi_uid pod = uid) pods")
  case None
  then have "uid \<notin> set (map pi_uid pods)" by (auto simp: find_None_iff)
  then show ?thesis using None tcp_loop_seen [of read now previous "[]" "[]" pods]
    by (cases "tcp_loop read now previous [] [] pods") (simp add: tcp_collect_def hm_retain_def)
next
  case (Some pod)
  then have p: "pod \<in> set pods" "pi_uid pod = uid" by (auto simp: find_Some_iff)
  then show ?thesis
    using Some tcp_loop_seen [of read now previous "[]" "[]" pods]
      tcp_loop_baseline [OF assms p(1), of read now previous "[]" "[]"]
    by (cases "tcp_loop read now previous [] [] pods") (auto simp: tcp_collect_def hm_retain_def)
qed

text \<open>A delta is reported only against a baseline of the same process, and then it is the exact growth
  of every counter: the subtractions cannot underflow.\<close>

lemma pod_deltas_exact:
  assumes "pod_deltas baseline pid snapshot = Some (retrans, sent, received, timeouts, fast_retrans)"
  obtains p where "baseline = Some p" "pb_pid p = pid"
    "unat (ts_retrans_segs snapshot) = unat (ts_retrans_segs (pb_snapshot p)) + unat retrans"
    "unat (ts_out_segs snapshot) = unat (ts_out_segs (pb_snapshot p)) + unat sent"
    "unat (ts_in_segs snapshot) = unat (ts_in_segs (pb_snapshot p)) + unat received"
    "unat (ts_tcp_timeouts snapshot) = unat (ts_tcp_timeouts (pb_snapshot p)) + unat timeouts"
    "unat (ts_tcp_fast_retrans snapshot) = unat (ts_tcp_fast_retrans (pb_snapshot p)) + unat fast_retrans"
proof -
  obtain p where p: "baseline = Some p" "pb_pid p = pid" "\<not> snapshot_reset (pb_snapshot p) snapshot"
    "delta_samples (pb_snapshot p) snapshot = (retrans, sent, received, timeouts, fast_retrans)"
    using assms by (auto simp: pod_deltas_def split: option.splits if_splits)
  have sub: "unat a = unat b + unat (a - b)" if "\<not> a < b" for a b :: u64
    using that by (simp add: unat_sub word_le_nat_alt word_less_nat_alt)
  show thesis
    by (rule that [OF p(1,2)]) (use p(3,4) sub in \<open>auto simp: delta_samples_def snapshot_reset_def\<close>)
qed

lemma pod_samples_names:
  "sample_name ` set (pod_samples read now previous pod) \<subseteq>
     {TCP_ESTABLISHED_SAMPLE, TCP_RETRANSMITS_SAMPLE, TCP_SEGMENTS_SENT_SAMPLE, TCP_SEGMENTS_RECEIVED_SAMPLE,
      TCP_TIMEOUTS_SAMPLE, TCP_FAST_RETRANSMITS_SAMPLE}"
  by (auto simp: pod_samples_def counter_sample_def split: option.splits)

lemma read_pod_snapshot_Some:
  "read_pod_snapshot read pid = Some s \<longleftrightarrow>
     (\<exists>a b c d. read (''/proc/'' @ show_nat (unat pid) @ ''/net/snmp'') = Some a \<and> parse_snmp a = Inr c \<and>
        read (''/proc/'' @ show_nat (unat pid) @ ''/net/netstat'') = Some b \<and> parse_netstat b = Inr d \<and>
        s = snapshot_combine c d)"
  by (auto simp: read_pod_snapshot_def bind_eq_Some_conv)

section \<open>Properties\<close>

text \<open>Every counter sample of a collection comes from a pod that was read, had a baseline of the same
  process and was below it in no counter; the sample carries the pod's attributes and exactly the
  counter's growth since that baseline, so no subtraction wraps and a restarted process is never
  compared with its predecessor.\<close>

lemma tcp_deltas_exact:
  assumes pods: "distinct (map pi_uid pods)"
    and collected: "tcp_collect read now (Inr pods) previous =
      (previous', Inr samples :: ('e discovery_error provider_error, sample list) result)"
    and member: "s \<in> set samples" and counter: "sample_name s \<noteq> TCP_ESTABLISHED_SAMPLE"
  shows "\<exists>pod p snapshot v f. pod \<in> set pods \<and> previous (pi_uid pod) = Some p \<and> pb_pid p = pi_pid pod \<and>
    read_pod_snapshot read (pi_pid pod) = Some snapshot \<and> sample_value s = Counter v \<and>
    sample_attributes s = pod_attributes pod \<and>
    (sample_name s, f) \<in> {(TCP_RETRANSMITS_SAMPLE, ts_retrans_segs), (TCP_SEGMENTS_SENT_SAMPLE, ts_out_segs),
      (TCP_SEGMENTS_RECEIVED_SAMPLE, ts_in_segs), (TCP_TIMEOUTS_SAMPLE, ts_tcp_timeouts),
      (TCP_FAST_RETRANSMITS_SAMPLE, ts_tcp_fast_retrans)} \<and>
    unat (f snapshot) = unat (f (pb_snapshot p)) + unat v"
proof -
  have "samples = concat (map (pod_samples read now previous) pods)"
    using tcp_collect_samples [OF pods, where 'e = 'e, of read now previous] collected by simp
  then obtain pod where pod: "pod \<in> set pods" "s \<in> set (pod_samples read now previous pod)"
    using member by auto
  obtain snapshot where snapshot: "read_pod_snapshot read (pi_pid pod) = Some snapshot"
    using pod(2) by (cases "read_pod_snapshot read (pi_pid pod)") (simp_all add: pod_samples_def)
  obtain x where x: "pod_deltas (previous (pi_uid pod)) (pi_pid pod) snapshot = Some x"
    using pod(2) counter
    by (cases "pod_deltas (previous (pi_uid pod)) (pi_pid pod) snapshot") (auto simp: pod_samples_def snapshot)
  obtain a b c d e where abcde: "x = (a, b, c, d, e)" by (cases x)
  note ps = snapshot x [unfolded abcde]
  have listed: "s \<in> set (map (\<lambda>(name, v). counter_sample name v (pod_attributes pod) now)
                 [(TCP_RETRANSMITS_SAMPLE, a), (TCP_SEGMENTS_SENT_SAMPLE, b),
                  (TCP_SEGMENTS_RECEIVED_SAMPLE, c), (TCP_TIMEOUTS_SAMPLE, d), (TCP_FAST_RETRANSMITS_SAMPLE, e)])"
    using pod(2) counter by (auto simp: pod_samples_def ps)
  obtain p where p: "previous (pi_uid pod) = Some p" "pb_pid p = pi_pid pod"
    "unat (ts_retrans_segs snapshot) = unat (ts_retrans_segs (pb_snapshot p)) + unat a"
    "unat (ts_out_segs snapshot) = unat (ts_out_segs (pb_snapshot p)) + unat b"
    "unat (ts_in_segs snapshot) = unat (ts_in_segs (pb_snapshot p)) + unat c"
    "unat (ts_tcp_timeouts snapshot) = unat (ts_tcp_timeouts (pb_snapshot p)) + unat d"
    "unat (ts_tcp_fast_retrans snapshot) = unat (ts_tcp_fast_retrans (pb_snapshot p)) + unat e"
    by (rule pod_deltas_exact [OF ps(2)])
  consider "s = counter_sample TCP_RETRANSMITS_SAMPLE a (pod_attributes pod) now"
    | "s = counter_sample TCP_SEGMENTS_SENT_SAMPLE b (pod_attributes pod) now"
    | "s = counter_sample TCP_SEGMENTS_RECEIVED_SAMPLE c (pod_attributes pod) now"
    | "s = counter_sample TCP_TIMEOUTS_SAMPLE d (pod_attributes pod) now"
    | "s = counter_sample TCP_FAST_RETRANSMITS_SAMPLE e (pod_attributes pod) now"
    using listed by auto
  then show ?thesis
    by cases (rule exI [of _ pod], rule exI [of _ p], rule exI [of _ snapshot],
        use pod(1) ps(1) p in \<open>auto simp: counter_sample_def\<close>)
qed

text \<open>After a collection there is a baseline only for pods the discovery reported: the new reading
  where the pod could be read, the old baseline where it could not; baselines of pods that
  disappeared are dropped.  A failed discovery changes nothing.\<close>

lemma tcp_baselines_after:
  assumes "distinct (map pi_uid pods)"
  shows "fst (tcp_collect read now (Inr pods :: ('e discovery_error, pod_info list) result) previous) uid =
    (case find (\<lambda>pod. pi_uid pod = uid) pods of
       None \<Rightarrow> None
     | Some pod \<Rightarrow>
         (case read_pod_snapshot read (pi_pid pod) of
            None \<Rightarrow> previous uid
          | Some snapshot \<Rightarrow> Some \<lparr>pb_pid = pi_pid pod, pb_snapshot = snapshot\<rparr>)) \<and>
    fst (tcp_collect read now (Inl e) previous) = previous"
proof -
  have "pi_uid pod = uid" if "find (\<lambda>pod. pi_uid pod = uid) pods = Some pod" for pod
    using that by (auto simp: find_Some_iff)
  then show ?thesis
    using tcp_collect_baselines [OF assms, of read now previous uid]
    by (auto simp: pod_baseline_after_def tcp_collect_def split: option.splits)
qed

end
