(* ===== verification/Sinks.thy ===== *)
theory Sinks
  imports Memory Storage Cpu Network Disk_Io Tcp
begin

text \<open>
  The sinks (\<open>talia-agent/src/sinks/otlp.rs\<close>, \<open>stdout.rs\<close>).  The OpenTelemetry SDK is third-party
  code: emitting a sample is the instrument it goes to, the value and the attributes, or nothing for
  a sample that is dropped as unknown.  That no provider's sample is dropped is the contract
  \<open>exported_provider\<close>, interpreted on the six providers.
\<close>

datatype instrument =
    Filesystem_usage | Filesystem_limit | Filesystem_utilization
  | Memory_usage | Memory_utilization | Swap_usage | Swap_utilization | Swap_io
  | Cpu_utilization | Network_io
  | Disk_io_bytes | Disk_operations | Disk_errors | Disk_latency | Disk_queue_depth | Disk_in_flight_bytes
  | Tcp_retransmits | Tcp_segments_sent | Tcp_segments_received | Tcp_timeouts | Tcp_fast_retransmits
  | Tcp_established

datatype instrument_kind = U64Gauge | F64Gauge | I64Gauge | U64Counter

text \<open>\<open>OtlpSink::new\<close>: the name, kind and unit each instrument is built with.\<close>

definition instrument_spec :: "instrument \<Rightarrow> string \<times> instrument_kind \<times> string" where
  "instrument_spec i =
     (case i of
      Filesystem_usage \<Rightarrow> (''system.filesystem.usage'', U64Gauge, ''By'')
    | Filesystem_limit \<Rightarrow> (''system.filesystem.limit'', U64Gauge, ''By'')
    | Filesystem_utilization \<Rightarrow> (''system.filesystem.utilization'', F64Gauge, ''1'')
    | Memory_usage \<Rightarrow> (''system.memory.usage'', U64Gauge, ''By'')
    | Memory_utilization \<Rightarrow> (''system.memory.utilization'', F64Gauge, ''1'')
    | Swap_usage \<Rightarrow> (''system.linux.memory.swap.usage'', U64Gauge, ''By'')
    | Swap_utilization \<Rightarrow> (''system.linux.memory.swap.utilization'', F64Gauge, ''1'')
    | Swap_io \<Rightarrow> (''system.linux.memory.swap.io'', U64Counter, ''By'')
    | Cpu_utilization \<Rightarrow> (''system.cpu.utilization'', F64Gauge, ''1'')
    | Network_io \<Rightarrow> (''system.network.io'', U64Counter, ''By'')
    | Disk_io_bytes \<Rightarrow> (''system.disk.io'', U64Counter, ''By'')
    | Disk_operations \<Rightarrow> (''system.disk.operations'', U64Counter, ''{operation}'')
    | Disk_errors \<Rightarrow> (''system.disk.errors'', U64Counter, ''{error}'')
    | Disk_latency \<Rightarrow> (''system.disk.io.latency'', F64Gauge, ''ms'')
    | Disk_queue_depth \<Rightarrow> (''system.disk.io.queue_depth'', I64Gauge, ''{operation}'')
    | Disk_in_flight_bytes \<Rightarrow> (''system.disk.io.in_flight'', I64Gauge, ''By'')
    | Tcp_retransmits \<Rightarrow> (''system.network.tcp.retransmits'', U64Counter, ''{segment}'')
    | Tcp_segments_sent \<Rightarrow> (''system.network.tcp.segments.sent'', U64Counter, ''{segment}'')
    | Tcp_segments_received \<Rightarrow> (''system.network.tcp.segments.received'', U64Counter, ''{segment}'')
    | Tcp_timeouts \<Rightarrow> (''system.network.tcp.timeouts'', U64Counter, ''{segment}'')
    | Tcp_fast_retransmits \<Rightarrow> (''system.network.tcp.fast_retransmits'', U64Counter, ''{segment}'')
    | Tcp_established \<Rightarrow> (''system.network.tcp.connections.established'', U64Gauge, ''{connection}''))"

text \<open>Which instrument kind can take a value: \<open>record\<close> of a gauge, \<open>add\<close> of a counter.\<close>

definition kind_takes :: "instrument_kind \<Rightarrow> sample_value \<Rightarrow> bool" where
  "kind_takes k v =
     (case k of
        U64Gauge \<Rightarrow> is_GaugeU64 v
      | F64Gauge \<Rightarrow> is_GaugeF64 v
      | I64Gauge \<Rightarrow> is_GaugeI64 v
      | U64Counter \<Rightarrow> is_Counter v)"

definition CONFIG_VERSION_ATTRIBUTE :: string where
  "CONFIG_VERSION_ATTRIBUTE = ''talia.config.version''"

definition sample_attributes_of :: "string \<Rightarrow> sample \<Rightarrow> (string \<times> string) list" where
  "sample_attributes_of config_version s =
     sample_attributes s @ [(CONFIG_VERSION_ATTRIBUTE, config_version)]"

text \<open>The \<open>match\<close> on name and value, in its order.\<close>

definition otlp_instrument :: "string \<Rightarrow> sample_value \<Rightarrow> instrument option" where
  "otlp_instrument name v =
     (if name = FILESYSTEM_LIMIT_SAMPLE \<and> is_GaugeU64 v then Some Filesystem_limit
      else if name = FILESYSTEM_USAGE_SAMPLE \<and> is_GaugeU64 v then Some Filesystem_usage
      else if name = FILESYSTEM_UTILIZATION_SAMPLE \<and> is_GaugeF64 v then Some Filesystem_utilization
      else if name = MEMORY_USAGE_SAMPLE \<and> is_GaugeU64 v then Some Memory_usage
      else if name = MEMORY_UTILIZATION_SAMPLE \<and> is_GaugeF64 v then Some Memory_utilization
      else if name = SWAP_USAGE_SAMPLE \<and> is_GaugeU64 v then Some Swap_usage
      else if name = SWAP_UTILIZATION_SAMPLE \<and> is_GaugeF64 v then Some Swap_utilization
      else if name = SWAP_IO_SAMPLE \<and> is_Counter v then Some Swap_io
      else if name = CPU_UTILIZATION_SAMPLE \<and> is_GaugeF64 v then Some Cpu_utilization
      else if name = NETWORK_IO_SAMPLE \<and> is_Counter v then Some Network_io
      else if name = DISK_IO_SAMPLE \<and> is_Counter v then Some Disk_io_bytes
      else if name = DISK_OPERATIONS_SAMPLE \<and> is_Counter v then Some Disk_operations
      else if name = DISK_ERRORS_SAMPLE \<and> is_Counter v then Some Disk_errors
      else if name = DISK_LATENCY_SAMPLE \<and> is_GaugeF64 v then Some Disk_latency
      else if name = DISK_QUEUE_DEPTH_SAMPLE \<and> is_GaugeI64 v then Some Disk_queue_depth
      else if name = DISK_IN_FLIGHT_BYTES_SAMPLE \<and> is_GaugeI64 v then Some Disk_in_flight_bytes
      else if name = TCP_RETRANSMITS_SAMPLE \<and> is_Counter v then Some Tcp_retransmits
      else if name = TCP_SEGMENTS_SENT_SAMPLE \<and> is_Counter v then Some Tcp_segments_sent
      else if name = TCP_SEGMENTS_RECEIVED_SAMPLE \<and> is_Counter v then Some Tcp_segments_received
      else if name = TCP_TIMEOUTS_SAMPLE \<and> is_Counter v then Some Tcp_timeouts
      else if name = TCP_FAST_RETRANSMITS_SAMPLE \<and> is_Counter v then Some Tcp_fast_retransmits
      else if name = TCP_ESTABLISHED_SAMPLE \<and> is_GaugeU64 v then Some Tcp_established
      else None)"

definition otlp_emit ::
    "sample \<Rightarrow> string \<Rightarrow> (instrument \<times> sample_value \<times> (string \<times> string) list) option" where
  "otlp_emit s config_version =
     (let attributes = sample_attributes_of config_version s in
      map_option (\<lambda>i. (i, sample_value s, attributes)) (otlp_instrument (sample_name s) (sample_value s)))"

section \<open>Standard output\<close>

text \<open>The members of the JSON line; a timestamp before the epoch prints as 0.\<close>

record stdout_line =
  sl_name :: string
  sl_value :: sample_value
  sl_attributes :: "(string, string) btree"
  sl_timestamp :: f64
  sl_config_version :: string

definition stdout_emit :: "sample \<Rightarrow> string \<Rightarrow> stdout_line" where
  "stdout_emit s config_version =
     \<lparr>sl_name = sample_name s, sl_value = sample_value s, sl_attributes = sample_attributes s,
      sl_timestamp = (if sample_timestamp s < 0 then 0 else as_secs_f64 (nat (sample_timestamp s))),
      sl_config_version = config_version\<rparr>"

section \<open>No provider's sample is unknown\<close>

definition otlp_accepts :: "sample \<Rightarrow> bool" where
  "otlp_accepts s \<longleftrightarrow> otlp_instrument (sample_name s) (sample_value s) \<noteq> None"

lemma otlp_emit_Some: "otlp_accepts s \<longleftrightarrow> (\<exists>e. otlp_emit s v = Some e)"
  by (auto simp: otlp_accepts_def otlp_emit_def Let_def)

text \<open>The samples whose kind matches their name.\<close>

lemma otlp_instrument_known:
  "otlp_instrument FILESYSTEM_LIMIT_SAMPLE (GaugeU64 n) \<noteq> None"
  "otlp_instrument FILESYSTEM_USAGE_SAMPLE (GaugeU64 n) \<noteq> None"
  "otlp_instrument FILESYSTEM_UTILIZATION_SAMPLE (GaugeF64 x) \<noteq> None"
  "otlp_instrument MEMORY_USAGE_SAMPLE (GaugeU64 n) \<noteq> None"
  "otlp_instrument MEMORY_UTILIZATION_SAMPLE (GaugeF64 x) \<noteq> None"
  "otlp_instrument SWAP_USAGE_SAMPLE (GaugeU64 n) \<noteq> None"
  "otlp_instrument SWAP_UTILIZATION_SAMPLE (GaugeF64 x) \<noteq> None"
  "otlp_instrument SWAP_IO_SAMPLE (Counter n) \<noteq> None"
  "otlp_instrument CPU_UTILIZATION_SAMPLE (GaugeF64 x) \<noteq> None"
  "otlp_instrument NETWORK_IO_SAMPLE (Counter n) \<noteq> None"
  "otlp_instrument DISK_IO_SAMPLE (Counter n) \<noteq> None"
  "otlp_instrument DISK_OPERATIONS_SAMPLE (Counter n) \<noteq> None"
  "otlp_instrument DISK_ERRORS_SAMPLE (Counter n) \<noteq> None"
  "otlp_instrument DISK_LATENCY_SAMPLE (GaugeF64 x) \<noteq> None"
  "otlp_instrument DISK_QUEUE_DEPTH_SAMPLE (GaugeI64 i) \<noteq> None"
  "otlp_instrument DISK_IN_FLIGHT_BYTES_SAMPLE (GaugeI64 i) \<noteq> None"
  "otlp_instrument TCP_RETRANSMITS_SAMPLE (Counter n) \<noteq> None"
  "otlp_instrument TCP_SEGMENTS_SENT_SAMPLE (Counter n) \<noteq> None"
  "otlp_instrument TCP_SEGMENTS_RECEIVED_SAMPLE (Counter n) \<noteq> None"
  "otlp_instrument TCP_TIMEOUTS_SAMPLE (Counter n) \<noteq> None"
  "otlp_instrument TCP_FAST_RETRANSMITS_SAMPLE (Counter n) \<noteq> None"
  "otlp_instrument TCP_ESTABLISHED_SAMPLE (GaugeU64 n) \<noteq> None"
  by (simp_all add: otlp_instrument_def)

lemmas sample_name_defs =
  FILESYSTEM_LIMIT_SAMPLE_def FILESYSTEM_USAGE_SAMPLE_def FILESYSTEM_UTILIZATION_SAMPLE_def
  MEMORY_USAGE_SAMPLE_def MEMORY_UTILIZATION_SAMPLE_def SWAP_USAGE_SAMPLE_def
  SWAP_UTILIZATION_SAMPLE_def SWAP_IO_SAMPLE_def CPU_UTILIZATION_SAMPLE_def NETWORK_IO_SAMPLE_def
  DISK_IO_SAMPLE_def DISK_OPERATIONS_SAMPLE_def DISK_ERRORS_SAMPLE_def DISK_LATENCY_SAMPLE_def
  DISK_QUEUE_DEPTH_SAMPLE_def DISK_IN_FLIGHT_BYTES_SAMPLE_def TCP_RETRANSMITS_SAMPLE_def
  TCP_SEGMENTS_SENT_SAMPLE_def TCP_SEGMENTS_RECEIVED_SAMPLE_def TCP_TIMEOUTS_SAMPLE_def
  TCP_FAST_RETRANSMITS_SAMPLE_def TCP_ESTABLISHED_SAMPLE_def

text \<open>A sample goes to the instrument that was built under the sample's own name, and the instrument's
  kind takes the value.\<close>

lemma otlp_instrument_matches:
  assumes "otlp_instrument name v = Some i"
  shows "fst (instrument_spec i) = name \<and> kind_takes (fst (snd (instrument_spec i))) v"
  using assms unfolding otlp_instrument_def
  by (simp split: if_splits) (simp_all add: instrument_spec_def kind_takes_def sample_name_defs)

locale exported_provider =
  fixes collect :: "'s \<Rightarrow> 's \<times> ('e, sample list) result"
  assumes accepted: "snd (collect s) = Inr samples \<Longrightarrow> x \<in> set samples \<Longrightarrow> otlp_accepts x"
begin

text \<open>Every collected sample reaches an instrument, with the configuration version attached.\<close>

lemma exported:
  assumes "snd (collect s) = Inr samples" "x \<in> set samples"
  shows "\<exists>i. otlp_emit x v = Some (i, sample_value x, sample_attributes x @ [(CONFIG_VERSION_ATTRIBUTE, v)])"
  using accepted [OF assms] by (auto simp: otlp_accepts_def otlp_emit_def sample_attributes_of_def Let_def)

text \<open>Also behind a chain of filters.\<close>

lemma exported_filtered:
  assumes "snd (collect s) = Inr samples" "x \<in> set samples" "\<forall>p\<in>set ps. filter_stage p"
    and "process_sample ps x = Some y"
  shows "otlp_accepts y"
  using accepted [OF assms(1,2)] process_sample_filters [OF assms(3), of x] assms(4)
  by (simp split: if_splits)

end

lemma map_err_Inr_cases: "map_err f r = Inr y \<Longrightarrow> r = Inr y"
  by simp

interpretation memory_exports: exported_provider "memory_provider_collect read now" for read now
  by unfold_locales
    (auto simp: memory_provider_collect_def memory_samples_def otlp_accepts_def otlp_instrument_known [simplified]
      split: prod.splits sum.splits)

interpretation storage_exports: exported_provider
    "\<lambda>mounts. (mounts, storage_provider_collect read statvfs now mounts)" for read statvfs now
  by unfold_locales
    (auto simp: storage_provider_collect_def filesystem_samples_def otlp_accepts_def Let_def
      otlp_instrument_known [simplified] split: sum.splits)

interpretation cpu_exports: exported_provider "cpu_provider_collect read now" for read now
  by unfold_locales
    (auto simp: cpu_provider_collect_def cpu_samples_def otlp_accepts_def Let_def
      otlp_instrument_known [simplified] split: prod.splits)

interpretation network_exports: exported_provider "network_provider_collect ks read now" for ks read now
  by unfold_locales
    (auto simp: network_provider_collect_def network_sample_of_def otlp_accepts_def Let_def
      otlp_instrument_known [simplified] split: prod.splits)

interpretation disk_exports: exported_provider "disk_io_provider_collect ks read now" for ks read now
  by unfold_locales
    (auto simp: disk_io_provider_collect_def disk_io_samples_def otlp_accepts_def Let_def
      otlp_instrument_known [simplified] split: prod.splits option.splits)

lemma tcp_loop_accepts:
  "\<forall>x\<in>set samples. otlp_accepts x \<Longrightarrow>
     \<forall>x\<in>set (snd (snd (tcp_loop read now previous seen samples pods))). otlp_accepts x"
proof (induction pods arbitrary: previous seen samples)
  case Nil
  then show ?case by simp
next
  case (Cons pod pods)
  have "\<forall>x\<in>set (pod_samples read now previous pod). otlp_accepts x"
    by (auto simp: pod_samples_def counter_sample_def otlp_accepts_def otlp_instrument_known [simplified]
        split: option.splits)
  with Cons show ?case unfolding tcp_loop_step by (intro Cons.IH) auto
qed

interpretation tcp_exports: exported_provider "tcp_collect read now discovered" for read now discovered
proof unfold_locales
  fix s samples x
  assume "snd (tcp_collect read now discovered s) = Inr samples" "x \<in> set samples"
  then show "otlp_accepts x"
    using tcp_loop_accepts [of "[]" read now s "[]"]
    by (auto simp: tcp_collect_def split: sum.splits prod.splits) (metis snd_conv)
qed

end
