(* ===== verification/Runner.thy ===== *)
theory Runner
  imports Sinks
begin

text \<open>
  The collector registry and the loop that drives one collector (\<open>talia-agent/src/runner.rs\<close>).  A
  boxed provider is an abstract state with the operations of the trait; the loop is one iteration as
  a function of the shared configuration it reads, returning the new loop state and the visible
  actions (sleeps and emissions) in order.
\<close>

datatype provider_kind = StorageKind | MemoryKind | CpuKind | NetworkKind | TcpKind | DiskIoKind

record collector_spec =
  sp_name :: string
  sp_kind :: provider_kind
  sp_schedule :: "agent_runtime_config \<Rightarrow> bool \<times> duration"
  sp_sleep_before_collect :: bool

definition collector_specs :: "collector_spec list" where
  "collector_specs =
     [\<lparr>sp_name = ''storage'', sp_kind = StorageKind,
       sp_schedule = (\<lambda>config. (storage_enabled (cfg_storage config),
                       from_secs (storage_interval_seconds (cfg_storage config)))),
       sp_sleep_before_collect = False\<rparr>,
      \<lparr>sp_name = ''memory'', sp_kind = MemoryKind,
       sp_schedule = (\<lambda>config. (memory_enabled (cfg_memory config),
                       from_secs (memory_interval_seconds (cfg_memory config)))),
       sp_sleep_before_collect = False\<rparr>,
      \<lparr>sp_name = ''cpu'', sp_kind = CpuKind,
       sp_schedule = (\<lambda>config. (cpu_enabled (cfg_cpu config),
                       from_secs (cpu_interval_seconds (cfg_cpu config)))),
       sp_sleep_before_collect = True\<rparr>,
      \<lparr>sp_name = ''network'', sp_kind = NetworkKind,
       sp_schedule = (\<lambda>config. (network_enabled (cfg_network config),
                       from_secs (network_interval_seconds (cfg_network config)))),
       sp_sleep_before_collect = True\<rparr>,
      \<lparr>sp_name = ''tcp'', sp_kind = TcpKind,
       sp_schedule = (\<lambda>config. (tcp_enabled (cfg_tcp config),
                       from_secs (tcp_interval_seconds (cfg_tcp config)))),
       sp_sleep_before_collect = False\<rparr>,
      \<lparr>sp_name = ''disk_io'', sp_kind = DiskIoKind,
       sp_schedule = (\<lambda>config. (disk_io_enabled (cfg_disk_io config),
                       from_secs (disk_io_interval_seconds (cfg_disk_io config)))),
       sp_sleep_before_collect = True\<rparr>]"

text \<open>The operations of a boxed provider and its factory; \<open>po_collect\<close> is \<open>None\<close> when the task panics
  and takes the provider with it.\<close>

record ('p, 'e) provider_ops =
  po_factory :: "duration \<Rightarrow> ('e, 'p) result"
  po_set_window :: "duration \<Rightarrow> 'p \<Rightarrow> 'p"
  po_reconfigure :: "agent_runtime_config \<Rightarrow> 'p \<Rightarrow> 'p"
  po_collect :: "'p \<Rightarrow> ('p \<times> ('e, sample list) result) option"

record 'p runner_state =
  rs_provider :: "'p option"
  rs_disabled_logged :: bool

definition runner_start :: "'p runner_state" where
  "runner_start = \<lparr>rs_provider = None, rs_disabled_logged = False\<rparr>"

text \<open>\<open>EmitTo i s v\<close>: sink number \<open>i\<close> emits sample \<open>s\<close> under config version \<open>v\<close>.\<close>

datatype action = SleepFor duration | EmitTo nat sample string

definition emit_all :: "processor list \<Rightarrow> nat \<Rightarrow> string \<Rightarrow> sample list \<Rightarrow> action list" where
  "emit_all processors sinks version samples =
     concat (map (\<lambda>s. case process_sample processors s of
                        None \<Rightarrow> []
                      | Some kept \<Rightarrow> map (\<lambda>i. EmitTo i kept version) [0..<sinks]) samples)"

definition run_iteration ::
    "collector_spec \<Rightarrow> ('p, 'e) provider_ops \<Rightarrow> processor list \<Rightarrow> nat \<Rightarrow> agent_runtime_config \<Rightarrow>
     'p runner_state \<Rightarrow> 'p runner_state \<times> action list" where
  "run_iteration spec ops processors sinks config st =
     (let (enabled, interval) = sp_schedule spec config in
      if \<not> enabled
      then (\<lparr>rs_provider = None, rs_disabled_logged = True\<rparr>, [SleepFor interval])
      else
        (case (case rs_provider st of
                 None \<Rightarrow> po_factory ops interval
               | Some p \<Rightarrow> Inr p) of
           Inl _ \<Rightarrow> (\<lparr>rs_provider = None, rs_disabled_logged = False\<rparr>, [SleepFor interval])
         | Inr provider \<Rightarrow>
             (let before = (if sp_sleep_before_collect spec then [SleepFor interval] else []);
                  after = (if \<not> sp_sleep_before_collect spec then [SleepFor interval] else []);
                  taken = po_reconfigure ops config (po_set_window ops interval provider)
              in case po_collect ops taken of
                   None \<Rightarrow> (\<lparr>rs_provider = None, rs_disabled_logged = False\<rparr>, before @ after)
                 | Some (provider', result) \<Rightarrow>
                     (\<lparr>rs_provider = Some provider', rs_disabled_logged = False\<rparr>,
                      before
                      @ (case result of
                           Inr samples \<Rightarrow> emit_all processors sinks (cfg_version config) samples
                         | Inl _ \<Rightarrow> [])
                      @ after))))"

text \<open>The loop over the configurations it reads, each iteration with what the world answers.\<close>

fun run_collector ::
    "collector_spec \<Rightarrow> processor list \<Rightarrow> nat \<Rightarrow> 'p runner_state \<Rightarrow>
     (agent_runtime_config \<times> ('p, 'e) provider_ops) list \<Rightarrow> 'p runner_state \<times> action list" where
  "run_collector spec processors sinks st [] = (st, [])"
| "run_collector spec processors sinks st ((config, ops) # rest) =
     (let (st', now) = run_iteration spec ops processors sinks config st;
          (st'', later) = run_collector spec processors sinks st' rest
      in (st'', now @ later))"

section \<open>Facts\<close>

fun sleeps :: "action list \<Rightarrow> duration list" where
  "sleeps [] = []"
| "sleeps (SleepFor d # as) = d # sleeps as"
| "sleeps (EmitTo _ _ _ # as) = sleeps as"

fun emissions :: "action list \<Rightarrow> (nat \<times> sample \<times> string) list" where
  "emissions [] = []"
| "emissions (SleepFor d # as) = emissions as"
| "emissions (EmitTo i s v # as) = (i, s, v) # emissions as"

lemma sleeps_append [simp]: "sleeps (as @ bs) = sleeps as @ sleeps bs"
  by (induction as rule: sleeps.induct) simp_all

lemma emissions_append [simp]: "emissions (as @ bs) = emissions as @ emissions bs"
  by (induction as rule: emissions.induct) simp_all

lemma sleeps_emit_to [simp]: "sleeps (map (\<lambda>i. EmitTo i s v) is) = []"
  by (induction "is") simp_all

lemma emissions_emit_to [simp]: "emissions (map (\<lambda>i. EmitTo i s v) is) = map (\<lambda>i. (i, s, v)) is"
  by (induction "is") simp_all

lemma sleeps_emit_all [simp]: "sleeps (emit_all ps n v ss) = []"
  by (induction ss) (auto simp: emit_all_def split: option.splits)

lemma emissions_emit_all:
  "emissions (emit_all ps n v ss) =
     concat (map (\<lambda>kept. map (\<lambda>i. (i, kept, v)) [0..<n]) (List.map_filter (process_sample ps) ss))"
  by (induction ss) (auto simp: emit_all_def List.map_filter_simps split: option.splits)

text \<open>Every iteration sleeps exactly once, for the configured interval, so the loop never spins.\<close>

lemma run_iteration_sleeps:
  "sleeps (snd (run_iteration spec ops ps n config st)) = [snd (sp_schedule spec config)]"
  by (auto simp: run_iteration_def Let_def split: prod.splits sum.splits option.splits)

lemma schedule_positive:
  "spec \<in> set collector_specs \<Longrightarrow> sections_wf config \<Longrightarrow> 0 < snd (sp_schedule spec config)"
  by (auto simp: collector_specs_def sections_wf_def storage_wf_def from_secs_def unat_gt_0 word_gt_0)

lemma run_iteration_disabled:
  "\<not> fst (sp_schedule spec config) \<Longrightarrow>
     run_iteration spec ops ps n config st =
       (\<lparr>rs_provider = None, rs_disabled_logged = True\<rparr>, [SleepFor (snd (sp_schedule spec config))])"
  by (auto simp: run_iteration_def split: prod.splits)

text \<open>What an iteration emits is what its one collection returned, through the processors, once to
  every sink, under the version of the configuration it read.\<close>

lemma run_iteration_emissions:
  assumes "(j, kept, v) \<in> set (emissions (snd (run_iteration spec ops ps n config st)))"
  shows "fst (sp_schedule spec config) \<and> v = cfg_version config \<and> j < n \<and>
    (\<exists>p p' samples s. po_collect ops p = Some (p', Inr samples) \<and> s \<in> set samples \<and>
       process_sample ps s = Some kept)"
  using assms
  by (auto simp: run_iteration_def emissions_emit_all List.map_filter_def Let_def
      split: prod.splits sum.splits option.splits if_splits) blast+

text \<open>The provider that collects has been given the interval and the configuration of the iteration.\<close>

lemma run_iteration_collects:
  assumes "fst (sp_schedule spec config)" "rs_provider st = Some p"
    and "po_collect ops (po_reconfigure ops config (po_set_window ops (snd (sp_schedule spec config)) p)) =
      Some (p', Inr samples)"
  shows "rs_provider (fst (run_iteration spec ops ps n config st)) = Some p' \<and>
    emissions (snd (run_iteration spec ops ps n config st)) =
      concat (map (\<lambda>kept. map (\<lambda>i. (i, kept, cfg_version config)) [0..<n]) (List.map_filter (process_sample ps) samples))"
  using assms by (cases "sp_schedule spec config") (simp add: run_iteration_def Let_def emissions_emit_all)

text \<open>A panic or a failed load leaves no provider, and the next enabled iteration loads a new one.\<close>

lemma run_iteration_recovers:
  assumes "fst (sp_schedule spec config)" "rs_provider st = None"
    and "po_factory ops (snd (sp_schedule spec config)) = Inr p"
  shows "run_iteration spec ops ps n config st = run_iteration spec ops ps n config (st\<lparr>rs_provider := Some p\<rparr>)"
  using assms by (cases "sp_schedule spec config") (simp add: run_iteration_def)

lemma run_collector_sleeps:
  "sleeps (snd (run_collector spec ps n st es)) = map (\<lambda>(config, _). snd (sp_schedule spec config)) es"
proof (induction es arbitrary: st)
  case Nil
  then show ?case by simp
next
  case (Cons e es)
  obtain config ops where e: "e = (config, ops)" by (cases e)
  show ?case
    using run_iteration_sleeps [of spec ops ps n config st] Cons.IH
    by (auto simp: e split: prod.splits) (metis snd_conv)
qed

lemma collector_names: "map sp_name collector_specs = [''storage'', ''memory'', ''cpu'', ''network'', ''tcp'', ''disk_io'']"
  by (simp add: collector_specs_def)

end
