(* ===== verification/Set_Overrides.thy ===== *)
theory Set_Overrides
  imports Config_Json Runner
begin

text \<open>
  The \<open>--set KEY=VALUE\<close> arguments of the provider commands
  (\<open>talia-agent/src/commands/providers/config.rs\<close>).  The configuration becomes a JSON value, each
  assignment replaces the value at a path of it, and the result is read back and validated.  The two
  text parsers of serde_json are \<open>parse_string\<close> and \<open>parse_value\<close>.
\<close>

datatype set_error =
    UnknownProvider string
  | ExpectedKeyValue string
  | InvalidSet string
  | InvalidSettingName string
  | UnknownSection string
  | NotATable string
  | UnknownSetting string string string "string list"
  | InvalidQuoted string
  | InvalidLiteral string
  | InvalidSettings
  | SettingsRefused config_error

definition find_collector :: "string \<Rightarrow> (set_error, collector_spec) result" where
  "find_collector name =
     ok_or (UnknownProvider name) (find (\<lambda>spec. sp_name spec = name) collector_specs)"

text \<open>The section an assignment goes to and the path inside it.\<close>

definition set_target :: "string \<Rightarrow> string \<Rightarrow> string \<times> string list" where
  "set_target provider key =
     (let path = split_on (\<lambda>c. c = CHR ''.'') key;
          first = (case path of [] \<Rightarrow> None | f # _ \<Rightarrow> Some f)
      in if first = Some provider \<or> provider = ''tcp'' \<and> first = Some ''pod_discovery''
         then (hd path, tl path)
         else (provider, path))"

definition set_value ::
    "(string \<Rightarrow> string option) \<Rightarrow> (string \<Rightarrow> json option) \<Rightarrow> string \<Rightarrow> string \<Rightarrow> json \<Rightarrow> (set_error, json) result" where
  "set_value parse_string parse_value key raw target =
     (case target of
        JsonString _ \<Rightarrow>
          and_then
            (if starts_with raw [CHR 0x22] then ok_or (InvalidQuoted key) (parse_string raw) else Inr raw)
            (\<lambda>s. Inr (JsonString s))
      | _ \<Rightarrow> ok_or (InvalidLiteral key) (parse_value raw))"

definition apply_set ::
    "(string \<Rightarrow> string option) \<Rightarrow> (string \<Rightarrow> json option) \<Rightarrow> string \<Rightarrow> string \<Rightarrow> json \<Rightarrow> (set_error, json) result" where
  "apply_set parse_string parse_value provider assignment val =
     (case split_once ''='' assignment of
        None \<Rightarrow> Inl (ExpectedKeyValue assignment)
      | Some (key0, raw0) \<Rightarrow>
          (let key = trim key0; raw = trim raw0 in
           if key = [] \<or> raw = [] then Inl (InvalidSet assignment)
           else
             (let (section, path) = set_target provider key in
              if path = [] \<or> list_ex (\<lambda>field. field = []) path then Inl (InvalidSettingName key)
              else
                (case json_get val section of
                   None \<Rightarrow> Inl (UnknownSection section)
                 | Some _ \<Rightarrow>
                     map_err (\<lambda>e. case e of
                         NotAnObject \<Rightarrow> NotATable key
                       | NoSuchField available \<Rightarrow> UnknownSetting key provider section available
                       | UpdateFailed e' \<Rightarrow> e')
                       (json_update (section # path) (set_value parse_string parse_value key raw) val)))))"

fun apply_sets ::
    "(string \<Rightarrow> string option) \<Rightarrow> (string \<Rightarrow> json option) \<Rightarrow> string \<Rightarrow> string list \<Rightarrow> json \<Rightarrow> (set_error, json) result" where
  "apply_sets parse_string parse_value provider [] val = Inr val"
| "apply_sets parse_string parse_value provider (assignment # rest) val =
     and_then (apply_set parse_string parse_value provider assignment val)
       (apply_sets parse_string parse_value provider rest)"

definition with_provider_overrides ::
    "(string \<Rightarrow> string option) \<Rightarrow> (string \<Rightarrow> json option) \<Rightarrow> agent_runtime_config \<Rightarrow> string \<Rightarrow> string list \<Rightarrow>
     (set_error, agent_runtime_config) result" where
  "with_provider_overrides parse_string parse_value config provider overrides =
     and_then (find_collector provider) (\<lambda>_.
       if overrides = [] then Inr config
       else
         and_then (apply_sets parse_string parse_value provider overrides (runtime_to_value config)) (\<lambda>val.
         and_then (ok_or InvalidSettings (runtime_from_value val)) (\<lambda>config'.
         and_then (map_err SettingsRefused (runtime_validate config')) (\<lambda>_. Inr config'))))"

section \<open>The frame of an assignment\<close>

definition own_sections :: "string \<Rightarrow> string set" where
  "own_sections provider = {provider} \<union> (if provider = ''tcp'' then {''pod_discovery''} else {})"

lemma set_target_section: "set_target provider key = (sec, path) \<Longrightarrow> sec \<in> own_sections provider"
  by (auto simp: set_target_def own_sections_def Let_def split: if_splits list.splits)

lemma apply_set_other:
  assumes "apply_set parse_string parse_value provider assignment v = Inr v'" "k \<notin> own_sections provider"
  shows "json_get v' k = json_get v k"
proof -
  obtain key raw sec path where u: "set_target provider key = (sec, path)"
    "json_update (sec # path) (set_value parse_string parse_value key raw) v = Inr v'"
    using assms(1) by (auto simp: apply_set_def Let_def simp del: json_update.simps
        split: option.splits if_splits prod.splits)
  have "k \<noteq> sec" using set_target_section [OF u(1)] assms(2) by auto
  with u(2) show ?thesis by (rule json_update_other)
qed

lemma apply_set_object:
  assumes "apply_set parse_string parse_value provider assignment v = Inr v'"
  shows "\<exists>kvs. v' = JsonObject kvs"
proof -
  obtain key raw sec path where u: "json_update (sec # path) (set_value parse_string parse_value key raw) v = Inr v'"
    using assms by (auto simp: apply_set_def Let_def simp del: json_update.simps
        split: option.splits if_splits prod.splits)
  then show ?thesis by (rule json_update_object)
qed

lemma apply_sets_other:
  "apply_sets parse_string parse_value provider sets v = Inr v' \<Longrightarrow> k \<notin> own_sections provider \<Longrightarrow>
     json_get v' k = json_get v k"
proof (induction parse_string parse_value provider sets v rule: apply_sets.induct)
  case (1 parse_string parse_value provider v)
  then show ?case by simp
next
  case (2 parse_string parse_value provider assignment rest v)
  then show ?case using apply_set_other by fastforce
qed

lemma apply_sets_object:
  "apply_sets parse_string parse_value provider sets v = Inr v' \<Longrightarrow> (\<exists>kvs. v = JsonObject kvs) \<Longrightarrow> \<exists>kvs. v' = JsonObject kvs"
proof (induction parse_string parse_value provider sets v rule: apply_sets.induct)
  case (1 parse_string parse_value provider v)
  then show ?case by simp
next
  case (2 parse_string parse_value provider assignment rest v)
  then show ?case using apply_set_object by fastforce
qed

lemma find_collector_names:
  assumes "find_collector name = Inr spec"
  shows "name \<in> {''storage'', ''memory'', ''cpu'', ''network'', ''tcp'', ''disk_io''}"
    "spec \<in> set collector_specs" "sp_name spec = name"
proof -
  show s: "spec \<in> set collector_specs" "sp_name spec = name"
    using assms by (auto simp: find_collector_def find_Some_iff)
  then have "name \<in> set (map sp_name collector_specs)" by auto
  then show "name \<in> {''storage'', ''memory'', ''cpu'', ''network'', ''tcp'', ''disk_io''}"
    by (auto simp: collector_names)
qed

section \<open>Properties\<close>

text \<open>An assignment that is accepted changes exactly one place: the path its key names, inside a section of
  the selected provider (for the TCP provider also the pod discovery), which exists before; the value
  there becomes what the text after the equals sign stands for, and no other path of the
  configuration changes.\<close>

lemma set_assigns_one_path:
  assumes "apply_set parse_string parse_value provider assignment v = Inr v'"
  shows "\<exists>key raw sec path old new. split_once ''='' assignment = Some (key, raw) \<and>
    set_target provider (trim key) = (sec, path) \<and> sec \<in> own_sections provider \<and> path \<noteq> [] \<and>
    json_at (sec # path) v = Some old \<and> set_value parse_string parse_value (trim key) (trim raw) old = Inr new \<and>
    json_at (sec # path) v' = Some new \<and>
    (\<forall>q. \<not> prefix (sec # path) q \<and> \<not> prefix q (sec # path) \<longrightarrow> json_at q v' = json_at q v)"
proof -
  obtain key raw sec path where u: "split_once ''='' assignment = Some (key, raw)"
    "set_target provider (trim key) = (sec, path)" "path \<noteq> []"
    "json_update (sec # path) (set_value parse_string parse_value (trim key) (trim raw)) v = Inr v'"
    using assms by (auto simp: apply_set_def Let_def simp del: json_update.simps
        split: option.splits if_splits prod.splits)
  from json_update_at [OF u(4)] obtain old new where "json_at (sec # path) v = Some old"
    "set_value parse_string parse_value (trim key) (trim raw) old = Inr new" "json_at (sec # path) v' = Some new"
    by blast
  with u set_target_section [OF u(2)] json_update_elsewhere [OF u(4)] show ?thesis by blast
qed

definition demo_literal :: "string \<Rightarrow> json option" where
  "demo_literal raw = (if raw = ''7'' then Some (JsonU64 7) else None)"

definition demo_set :: agent_runtime_config where
  "demo_set = runtime_default\<lparr>cfg_cpu := (cfg_cpu runtime_default)\<lparr>cpu_interval_seconds := 7\<rparr>\<rparr>"

lemma demo_set_path:
  "split_once ''='' ''cpu.interval_seconds = 7'' = Some (''cpu.interval_seconds '', '' 7'')"
  "trim ''cpu.interval_seconds '' = ''cpu.interval_seconds''" "trim '' 7'' = ''7''"
  "set_target ''cpu'' ''cpu.interval_seconds'' = (''cpu'', [''interval_seconds''])"
  by code_simp+

lemma demo_set_applied:
  "apply_set Some demo_literal ''cpu'' ''cpu.interval_seconds = 7'' (runtime_to_value runtime_default) =
     Inr (runtime_to_value demo_set)"
  by (simp add: apply_set_def demo_set_path runtime_to_value_object demo_set_def json_get_def cpu_to_value_def
      scheduled_to_value_def json_object_def set_value_def demo_literal_def)

lemma set_assigns_one_path_witness:
  "json_at [''memory'', ''interval_seconds''] (runtime_to_value demo_set) = json_at [''memory'', ''interval_seconds''] (runtime_to_value runtime_default)"
proof -
  note s = demo_set_path
  from set_assigns_one_path [OF demo_set_applied]
  have "\<forall>q. \<not> prefix [''cpu'', ''interval_seconds''] q \<and> \<not> prefix q [''cpu'', ''interval_seconds''] \<longrightarrow>
      json_at q (runtime_to_value demo_set) = json_at q (runtime_to_value runtime_default)"
    by (simp add: s) (elim conjE exE, assumption)
  from this [THEN spec, of "[''memory'', ''interval_seconds'']"] show ?thesis by (simp add: prefix_def)
qed

text \<open>What comes out of a non-empty list of assignments was read from a value that agrees with the
  configuration outside the provider's own sections.\<close>

lemma overridden_value:
  assumes "with_provider_overrides parse_string parse_value config provider overrides = Inr config'" "overrides \<noteq> []"
  obtains spec kvs where "find_collector provider = Inr spec" "runtime_from_value (JsonObject kvs) = Some config'"
    "runtime_wf config'" "\<And>k. k \<notin> own_sections provider \<Longrightarrow> bt_get kvs k = json_get (runtime_to_value config) k"
proof -
  obtain spec v where v: "find_collector provider = Inr spec"
    "apply_sets parse_string parse_value provider overrides (runtime_to_value config) = Inr v"
    "runtime_from_value v = Some config'" "runtime_validate config' = Inr ()"
    using assms by (auto simp: with_provider_overrides_def)
  obtain kvs where kvs: "v = JsonObject kvs"
    using apply_sets_object [OF v(2)] runtime_value_object by blast
  have "bt_get kvs k = json_get (runtime_to_value config) k" if "k \<notin> own_sections provider" for k
    using apply_sets_other [OF v(2) that] kvs by simp
  with v kvs show thesis by (intro that) (simp_all add: runtime_validate_iff)
qed

text \<open>C21: The settings of a provider command stay with the provider: a configuration that comes out of
  \<open>--set\<close> has the version, the agent settings and the sections of all other providers of the one that
  went in (the pod discovery goes with the TCP provider), and when anything was set it is valid.\<close>

theorem overrides_stay_with_provider:
  assumes "with_provider_overrides parse_string parse_value config provider overrides = Inr config'"
  shows "cfg_version config' = cfg_version config \<and> cfg_agent config' = cfg_agent config \<and>
    (provider \<noteq> ''storage'' \<longrightarrow> cfg_storage config' = cfg_storage config) \<and>
    (provider \<noteq> ''memory'' \<longrightarrow> cfg_memory config' = cfg_memory config) \<and>
    (provider \<noteq> ''cpu'' \<longrightarrow> cfg_cpu config' = cfg_cpu config) \<and>
    (provider \<noteq> ''network'' \<longrightarrow> cfg_network config' = cfg_network config) \<and>
    (provider \<noteq> ''disk_io'' \<longrightarrow> cfg_disk_io config' = cfg_disk_io config) \<and>
    (provider \<noteq> ''tcp'' \<longrightarrow> cfg_tcp config' = cfg_tcp config \<and> cfg_pod_discovery config' = cfg_pod_discovery config) \<and>
    (overrides \<noteq> [] \<longrightarrow> runtime_wf config')"
proof (cases "overrides = []")
  case True
  then show ?thesis using assms by (auto simp: with_provider_overrides_def)
next
  case False
  obtain spec kvs where v: "find_collector provider = Inr spec" "runtime_from_value (JsonObject kvs) = Some config'"
    "runtime_wf config'" "\<And>k. k \<notin> own_sections provider \<Longrightarrow> bt_get kvs k = json_get (runtime_to_value config) k"
    using overridden_value [OF assms False] by blast
  note names = find_collector_names(1) [OF v(1)]
  note reads = runtime_from_object [OF v(2)]
  note same = v(4)
  have own: "''version'' \<notin> own_sections provider" "''agent'' \<notin> own_sections provider"
    "''tcp_pod_retrans'' \<notin> own_sections provider"
    using names by (auto simp: own_sections_def)
  have other: "k \<notin> own_sections provider" if "provider \<noteq> k" "k \<noteq> ''pod_discovery''" for k
    using that by (auto simp: own_sections_def)
  have "cfg_version config' = cfg_version config" "cfg_agent config' = cfg_agent config"
    using reads same [OF own(1)] same [OF own(2)] by (simp_all add: runtime_value_fields)
  moreover have "cfg_storage config' = cfg_storage config" if "provider \<noteq> ''storage''"
    using reads same [OF other [OF that]] by (simp add: runtime_value_fields)
  moreover have "cfg_memory config' = cfg_memory config" if "provider \<noteq> ''memory''"
    using reads same [OF other [OF that]] by (simp add: runtime_value_fields)
  moreover have "cfg_cpu config' = cfg_cpu config" if "provider \<noteq> ''cpu''"
    using reads same [OF other [OF that]] by (simp add: runtime_value_fields)
  moreover have "cfg_network config' = cfg_network config" if "provider \<noteq> ''network''"
    using reads same [OF other [OF that]] by (simp add: runtime_value_fields)
  moreover have "cfg_disk_io config' = cfg_disk_io config" if "provider \<noteq> ''disk_io''"
    using reads same [OF other [OF that]] by (simp add: runtime_value_fields)
  moreover have "cfg_tcp config' = cfg_tcp config" if "provider \<noteq> ''tcp''"
    using reads same [OF other [OF that]] same [OF own(3)] by (simp add: runtime_value_fields)
  moreover have "cfg_pod_discovery config' = cfg_pod_discovery config" if "provider \<noteq> ''tcp''"
  proof -
    have "''pod_discovery'' \<notin> own_sections provider" using names that by (auto simp: own_sections_def)
    then show ?thesis using reads same [of "''pod_discovery''"] by (simp add: runtime_value_fields)
  qed
  ultimately show ?thesis using v(3) by blast
qed

lemma overrides_stay_with_provider_witness:
  "\<exists>config'. with_provider_overrides Some demo_literal runtime_default ''cpu'' [''cpu.interval_seconds = 7''] = Inr config' \<and>
     cfg_memory config' = cfg_memory runtime_default \<and> cpu_interval_seconds (cfg_cpu config') = 7"
proof -
  have "runtime_validate demo_set = Inr ()"
    using runtime_default_wf by (simp add: runtime_validate_iff runtime_wf_def sections_wf_def demo_set_def)
  then have "with_provider_overrides Some demo_literal runtime_default ''cpu'' [''cpu.interval_seconds = 7''] = Inr demo_set"
    by (simp add: with_provider_overrides_def find_collector_def collector_specs_def demo_set_applied)
  from this overrides_stay_with_provider [OF this] show ?thesis by (simp add: demo_set_def)
qed

end
