(* ===== verification/Provider_Commands.thy ===== *)
theory Provider_Commands
  imports Set_Overrides Local_Config
begin

text \<open>
  The commands that inspect providers (\<open>talia-agent/src/commands/providers/describe.rs\<close>, \<open>list.rs\<close> and
  \<open>show.rs\<close>).  A command is what it has printed, one string per \<open>println!\<close>, and its result.  The
  printers of serde_json and of the TOML library are the parameters \<open>render\<close> and \<open>pretty\<close>.
\<close>

section \<open>\<open>providers list\<close>\<close>

definition brief_description :: "provider_kind \<Rightarrow> string" where
  "brief_description kind =
     (case kind of
        StorageKind \<Rightarrow> ''Reports capacity, usage, and utilization for host filesystems.''
      | MemoryKind \<Rightarrow> ''Reports host memory and swap usage, utilization, and swap I/O.''
      | CpuKind \<Rightarrow> ''Measures per-CPU utilization from scheduler events using BPF.''
      | NetworkKind \<Rightarrow> ''Measures host network bytes sent and received using BPF.''
      | TcpKind \<Rightarrow> ''Reports TCP traffic, retransmissions, timeouts, and connections for Kubernetes pods.''
      | DiskIoKind \<Rightarrow> ''Measures disk I/O bytes, operations, errors, latency, and queue depth using BPF.'')"

definition list_execute :: "bool \<Rightarrow> string list" where
  "list_execute descriptions =
     map (\<lambda>spec. if descriptions then sp_name spec @ '': '' @ brief_description (sp_kind spec) else sp_name spec)
       collector_specs"

section \<open>\<open>providers describe\<close>\<close>

datatype describe_error =
    DescribeUnknown set_error
  | MissingDefaults string
  | UndocumentedSetting string string

definition json_as_object :: "json \<Rightarrow> (string, json) btree option" where
  "json_as_object j = (case j of JsonObject kvs \<Rightarrow> Some kvs | _ \<Rightarrow> None)"

definition setting_format :: "string \<Rightarrow> string \<Rightarrow> string option" where
  "setting_format sec field =
     (if field = ''enabled'' then Some ''true | false''
      else if field = ''interval_seconds'' then Some ''positive integer (seconds)''
      else if sec = ''storage'' \<and> field = ''mounts'' then Some ''JSON array of absolute paths''
      else if sec = ''pod_discovery'' \<and> field = ''cri_socket'' then Some ''all | first | socket path''
      else None)"

definition describe_line :: "(json \<Rightarrow> string) \<Rightarrow> string \<Rightarrow> string \<Rightarrow> json \<Rightarrow> string" where
  "describe_line render key format dflt =
     ''  '' @ key @ '': '' @ format @ '' (default: ''
       @ (case json_as_str dflt of None \<Rightarrow> render dflt | Some s \<Rightarrow> s) @ '')''"

fun describe_fields ::
    "(json \<Rightarrow> string) \<Rightarrow> string \<Rightarrow> string \<Rightarrow> (string \<times> json) list \<Rightarrow> string list \<times> (describe_error, unit) result" where
  "describe_fields render sec pre [] = ([], Inr ())"
| "describe_fields render sec pre ((field, dflt) # rest) =
     (case setting_format sec field of
        None \<Rightarrow> ([], Inl (UndocumentedSetting sec field))
      | Some format \<Rightarrow>
          (let (printed, r) = describe_fields render sec pre rest
           in (describe_line render (pre @ field) format dflt # printed, r)))"

fun describe_sections ::
    "(json \<Rightarrow> string) \<Rightarrow> json \<Rightarrow> (string \<times> string) list \<Rightarrow> string list \<times> (describe_error, unit) result" where
  "describe_sections render defaults [] = ([], Inr ())"
| "describe_sections render defaults ((sec, pre) # rest) =
     (case Option.bind (json_get defaults sec) json_as_object of
        None \<Rightarrow> ([], Inl (MissingDefaults sec))
      | Some table \<Rightarrow>
          (case describe_fields render sec pre table of
             (printed, Inl e) \<Rightarrow> (printed, Inl e)
           | (printed, Inr _) \<Rightarrow>
               (let (more, r) = describe_sections render defaults rest in (printed @ more, r))))"

definition describe_intro :: "string \<Rightarrow> string list" where
  "describe_intro name =
     [''Provider: '' @ name, ''Accepted --set KEY=VALUE settings (built-in defaults):'']"

definition describe_notes :: "string \<Rightarrow> string list" where
  "describe_notes name =
     (if name = ''storage'' then [''  mounts must contain at least one path when enabled.''] else [])
     @ [''Use these keys with `providers config show '' @ name @ '' --set` or `collect '' @ name @ '' --set`.'',
        ''Provider keys may also use the `'' @ name @ ''.` prefix with --set.'',
        ''In TOML, put provider keys under ['' @ name @ ''].'']
     @ (if name = ''tcp'' then [''Put pod_discovery.cri_socket under [pod_discovery] in TOML.''] else [])"

definition describe_execute :: "(json \<Rightarrow> string) \<Rightarrow> string \<Rightarrow> string list \<times> (describe_error, unit) result" where
  "describe_execute render name =
     (case find_collector name of
        Inl e \<Rightarrow> ([], Inl (DescribeUnknown e))
      | Inr _ \<Rightarrow>
          (let sections = (name, '''') #
                 (if name = ''tcp'' then [(''pod_discovery'', ''pod_discovery.'')] else [])
           in case describe_sections render (runtime_to_value runtime_default) sections of
                (printed, Inl e) \<Rightarrow> (describe_intro name @ printed, Inl e)
              | (printed, Inr _) \<Rightarrow> (describe_intro name @ printed @ describe_notes name, Inr ())))"

section \<open>\<open>providers config show\<close>\<close>

datatype config_section =
    StorageSection storage_config
  | MemorySection memory_config
  | CpuSection cpu_config
  | NetworkSection network_config
  | DiskIoSection disk_io_config
  | TcpSection tcp_config
  | PodDiscoverySection pod_discovery_config

datatype ('io, 't) show_error =
    SetNeedsProvider
  | ShowLocalFailed "'io local_error"
  | ShowSetFailed set_error
  | ShowTomlFailed 't
  | ShowUnreachable

definition section_of :: "agent_runtime_config \<Rightarrow> string \<Rightarrow> config_section option" where
  "section_of config name =
     (if name = ''storage'' then Some (StorageSection (cfg_storage config))
      else if name = ''memory'' then Some (MemorySection (cfg_memory config))
      else if name = ''cpu'' then Some (CpuSection (cfg_cpu config))
      else if name = ''network'' then Some (NetworkSection (cfg_network config))
      else if name = ''disk_io'' then Some (DiskIoSection (cfg_disk_io config))
      else if name = ''tcp'' then Some (TcpSection (cfg_tcp config))
      else None)"

definition show_block :: "string \<Rightarrow> string \<Rightarrow> string" where
  "show_block name body = newline # ''['' @ name @ '']'' @ newline # rev (dropWhile is_ws (rev body))"

fun show_blocks ::
    "(config_section \<Rightarrow> ('t, string) result) \<Rightarrow> agent_runtime_config \<Rightarrow> string list \<Rightarrow>
     string list \<times> (('io, 't) show_error, unit) result" where
  "show_blocks pretty config [] = ([], Inr ())"
| "show_blocks pretty config (name # rest) =
     (case section_of config name of
        None \<Rightarrow> ([], Inl ShowUnreachable)
      | Some sec \<Rightarrow>
          (case pretty sec of
             Inl e \<Rightarrow> ([], Inl (ShowTomlFailed e))
           | Inr body \<Rightarrow>
               (let (discovery, failed) =
                      (if name = ''tcp''
                       then (case pretty (PodDiscoverySection (cfg_pod_discovery config)) of
                               Inl e \<Rightarrow> ([], Some (ShowTomlFailed e))
                             | Inr discovery \<Rightarrow> ([show_block ''pod_discovery'' discovery], None))
                       else ([], None))
                in case failed of
                     Some e \<Rightarrow> ([show_block name body], Inl e)
                   | None \<Rightarrow>
                       (let (more, r) = show_blocks pretty config rest
                        in (show_block name body # discovery @ more, r)))))"

definition show_intro :: "string option \<Rightarrow> string list \<Rightarrow> string list" where
  "show_intro path set_args =
     (case path of
        Some p \<Rightarrow> [''# Local fallback settings from '' @ p
          @ '' (including defaults); a running agent may use cached or remote settings.'']
      | None \<Rightarrow> [''# Built-in local fallback settings; a running agent may use cached or remote settings.''])
     @ (if set_args = [] then [] else [''# Command-line --set values applied.''])"

definition show_execute ::
    "(string \<Rightarrow> (io_error, string) result) \<Rightarrow> (string \<Rightarrow> (toml_error, agent_bootstrap_config) result) \<Rightarrow>
     (string \<Rightarrow> string option) \<Rightarrow> (string \<Rightarrow> json option) \<Rightarrow> (config_section \<Rightarrow> ('t, string) result) \<Rightarrow>
     string option \<Rightarrow> string option \<Rightarrow> string list \<Rightarrow> string list \<times> (('io, 't) show_error, unit) result" where
  "show_execute read toml parse_string parse_value pretty name path set_args =
     (if name = None \<and> set_args \<noteq> [] then ([], Inl SetNeedsProvider)
      else
        (case load_local_runtime_config read toml path of
           Inl e \<Rightarrow> ([], Inl (ShowLocalFailed e))
         | Inr local \<Rightarrow>
             (case (case name of
                      None \<Rightarrow> Inr (local, map sp_name collector_specs)
                    | Some provider \<Rightarrow>
                        and_then (with_provider_overrides parse_string parse_value local provider set_args) (\<lambda>config.
                        and_then (find_collector provider) (\<lambda>spec. Inr (config, [sp_name spec])))) of
                Inl e \<Rightarrow> ([], Inl (ShowSetFailed e))
              | Inr (config, names) \<Rightarrow>
                  (let (blocks, r) = show_blocks pretty config names
                   in (show_intro path set_args @ blocks, r)))))"

section \<open>Facts\<close>

lemma section_values:
  "storage_to_value storage_default = JsonObject
     [(''enabled'', JsonBool True), (''interval_seconds'', JsonU64 60), (''mounts'', JsonArray [JsonString ''/''])]"
  "memory_to_value memory_default = JsonObject [(''enabled'', JsonBool True), (''interval_seconds'', JsonU64 60)]"
  "cpu_to_value cpu_default = JsonObject [(''enabled'', JsonBool False), (''interval_seconds'', JsonU64 1)]"
  "network_to_value network_default = JsonObject [(''enabled'', JsonBool False), (''interval_seconds'', JsonU64 1)]"
  "disk_io_to_value disk_io_default = JsonObject [(''enabled'', JsonBool False), (''interval_seconds'', JsonU64 1)]"
  "tcp_to_value tcp_default = JsonObject [(''enabled'', JsonBool False), (''interval_seconds'', JsonU64 15)]"
  "pod_discovery_to_value pod_discovery_default = JsonObject [(''cri_socket'', JsonString ''all'')]"
  by code_simp+

lemma default_tables:
  "json_get (runtime_to_value runtime_default) ''storage'' = Some (storage_to_value storage_default)"
  "json_get (runtime_to_value runtime_default) ''memory'' = Some (memory_to_value memory_default)"
  "json_get (runtime_to_value runtime_default) ''cpu'' = Some (cpu_to_value cpu_default)"
  "json_get (runtime_to_value runtime_default) ''network'' = Some (network_to_value network_default)"
  "json_get (runtime_to_value runtime_default) ''disk_io'' = Some (disk_io_to_value disk_io_default)"
  "json_get (runtime_to_value runtime_default) ''tcp'' = Some (tcp_to_value tcp_default)"
  "json_get (runtime_to_value runtime_default) ''pod_discovery'' = Some (pod_discovery_to_value pod_discovery_default)"
  by (simp_all add: runtime_value_fields runtime_default_def)

text \<open>The sections a provider's settings are described from, with the prefix of their keys.\<close>

definition described_sections :: "string \<Rightarrow> (string \<times> string) list" where
  "described_sections name =
     (name, '''') # (if name = ''tcp'' then [(''pod_discovery'', ''pod_discovery.'')] else [])"

definition default_table :: "string \<Rightarrow> (string \<times> json) list" where
  "default_table sec =
     (case Option.bind (json_get (runtime_to_value runtime_default) sec) json_as_object of None \<Rightarrow> [] | Some t \<Rightarrow> t)"

definition described_settings :: "string \<Rightarrow> (string \<times> string \<times> json) list" where
  "described_settings name =
     concat (map (\<lambda>(sec, pre). map (\<lambda>(field, dflt). (pre @ field, the (setting_format sec field), dflt)) (default_table sec))
       (described_sections name))"

lemma describe_fields_ok:
  "list_all (\<lambda>(field, dflt). setting_format sec field \<noteq> None) table \<Longrightarrow>
     describe_fields render sec pre table =
       (map (\<lambda>(field, dflt). describe_line render (pre @ field) (the (setting_format sec field)) dflt) table, Inr ())"
  by (induction render sec pre table rule: describe_fields.induct) auto

lemma describe_sections_ok:
  assumes "list_all (\<lambda>(sec, pre).
      Option.bind (json_get defaults sec) json_as_object \<noteq> None \<and>
      list_all (\<lambda>(field, dflt). setting_format sec field \<noteq> None)
        (the (Option.bind (json_get defaults sec) json_as_object))) sections"
  shows "describe_sections render defaults sections =
    (concat (map (\<lambda>(sec, pre). map (\<lambda>(field, dflt). describe_line render (pre @ field) (the (setting_format sec field)) dflt)
       (the (Option.bind (json_get defaults sec) json_as_object))) sections), Inr ())"
  using assms
  by (induction render defaults sections rule: describe_sections.induct) (auto simp: describe_fields_ok)

lemma provider_names_cases:
  assumes "find_collector name = Inr spec"
  obtains "name = ''storage''" | "name = ''memory''" | "name = ''cpu''" | "name = ''network''"
    | "name = ''tcp''" | "name = ''disk_io''"
  using find_collector_names(1) [OF assms] by (elim insertE emptyE) (rule that, assumption)+

lemma default_table_simps [simp]:
  "default_table ''storage'' =
     [(''enabled'', JsonBool True), (''interval_seconds'', JsonU64 60), (''mounts'', JsonArray [JsonString ''/''])]"
  "default_table ''memory'' = [(''enabled'', JsonBool True), (''interval_seconds'', JsonU64 60)]"
  "default_table ''cpu'' = [(''enabled'', JsonBool False), (''interval_seconds'', JsonU64 1)]"
  "default_table ''network'' = [(''enabled'', JsonBool False), (''interval_seconds'', JsonU64 1)]"
  "default_table ''disk_io'' = [(''enabled'', JsonBool False), (''interval_seconds'', JsonU64 1)]"
  "default_table ''tcp'' = [(''enabled'', JsonBool False), (''interval_seconds'', JsonU64 15)]"
  "default_table ''pod_discovery'' = [(''cri_socket'', JsonString ''all'')]"
  by (simp_all add: default_table_def default_tables section_values json_as_object_def)

lemma described_ok:
  assumes "find_collector name = Inr spec"
  shows "list_all (\<lambda>(sec, pre).
      Option.bind (json_get (runtime_to_value runtime_default) sec) json_as_object = Some (default_table sec) \<and>
      list_all (\<lambda>(field, dflt). setting_format sec field \<noteq> None) (default_table sec)) (described_sections name)"
  by (rule provider_names_cases [OF assms])
    (simp_all add: described_sections_def default_tables section_values json_as_object_def setting_format_def)

lemma describe_execute_ok:
  assumes "find_collector name = Inr spec"
  shows "describe_execute render name =
    (describe_intro name @ map (\<lambda>(key, format, dflt). describe_line render key format dflt) (described_settings name)
       @ describe_notes name, Inr ())"
proof -
  let ?tab = "\<lambda>sec. Option.bind (json_get (runtime_to_value runtime_default) sec) json_as_object"
  have tables: "?tab sec = Some (default_table sec)" if "(sec, pre) \<in> set (described_sections name)" for sec pre
    using described_ok [OF assms] that by (auto simp: list_all_iff)
  have "list_all (\<lambda>(sec, pre). ?tab sec \<noteq> None \<and>
      list_all (\<lambda>(field, dflt). setting_format sec field \<noteq> None) (the (?tab sec))) (described_sections name)"
    using described_ok [OF assms] by (fastforce simp: list_all_iff)
  note sections = describe_sections_ok [OF this, of render]
  have "concat (map (\<lambda>(sec, pre). map (\<lambda>(field, dflt). describe_line render (pre @ field) (the (setting_format sec field)) dflt)
       (the (?tab sec))) (described_sections name)) =
     map (\<lambda>(key, format, dflt). describe_line render key format dflt) (described_settings name)"
    unfolding described_settings_def map_concat map_map
    by (rule arg_cong [where f = concat]) (auto simp: tables case_prod_unfold)
  with sections assms show ?thesis
    by (simp add: describe_execute_def described_sections_def [symmetric] Let_def)
qed

text \<open>Keys and the places they lead to.\<close>

lemma key_targets:
  "set_target ''storage'' ''enabled'' = (''storage'', [''enabled''])"
  "set_target ''storage'' ''interval_seconds'' = (''storage'', [''interval_seconds''])"
  "set_target ''storage'' ''mounts'' = (''storage'', [''mounts''])"
  "set_target ''memory'' ''enabled'' = (''memory'', [''enabled''])"
  "set_target ''memory'' ''interval_seconds'' = (''memory'', [''interval_seconds''])"
  "set_target ''cpu'' ''enabled'' = (''cpu'', [''enabled''])"
  "set_target ''cpu'' ''interval_seconds'' = (''cpu'', [''interval_seconds''])"
  "set_target ''network'' ''enabled'' = (''network'', [''enabled''])"
  "set_target ''network'' ''interval_seconds'' = (''network'', [''interval_seconds''])"
  "set_target ''disk_io'' ''enabled'' = (''disk_io'', [''enabled''])"
  "set_target ''disk_io'' ''interval_seconds'' = (''disk_io'', [''interval_seconds''])"
  "set_target ''tcp'' ''enabled'' = (''tcp'', [''enabled''])"
  "set_target ''tcp'' ''interval_seconds'' = (''tcp'', [''interval_seconds''])"
  "set_target ''tcp'' ''pod_discovery.cri_socket'' = (''pod_discovery'', [''cri_socket''])"
  by code_simp+

lemmas settable = key_targets default_tables section_values

text \<open>Reading a field of a section of the default configuration.\<close>

lemma json_get_iff: "json_get j k = Some v \<longleftrightarrow> (\<exists>table. j = JsonObject table \<and> bt_get table k = Some v)"
  by (cases j) (auto simp: json_get_def)

lemma default_field:
  "json_at [sec, field] (runtime_to_value runtime_default) = Some dflt \<Longrightarrow> sec \<in> own_sections name \<Longrightarrow>
     find_collector name = Inr spec \<Longrightarrow> (field, dflt) \<in> set (default_table sec)"
proof -
  assume a: "json_at [sec, field] (runtime_to_value runtime_default) = Some dflt"
  then obtain table where t: "json_get (runtime_to_value runtime_default) sec = Some (JsonObject table)"
      "bt_get table field = Some dflt"
    by (force simp: bind_eq_Some_conv json_get_iff)
  then have "default_table sec = table" by (simp add: default_table_def json_as_object_def)
  then show ?thesis using t(2) by (simp add: map_of_SomeD)
qed

lemma described_complete:
  assumes "find_collector name = Inr spec" "sec \<in> own_sections name"
    and "json_at [sec, field] (runtime_to_value runtime_default) = Some dflt"
  shows "\<exists>key format. (key, format, dflt) \<in> set (described_settings name) \<and> set_target name key = (sec, [field])"
proof -
  have f: "(field, dflt) \<in> set (default_table sec)" using default_field assms(3,2,1) .
  consider "sec = name" | "sec = ''pod_discovery''" "name = ''tcp''"
    using assms(2) by (auto simp: own_sections_def split: if_splits)
  then show ?thesis
  proof cases
    case 1
    then have "(field, the (setting_format sec field), dflt) \<in> set (described_settings name)"
      using f by (force simp: described_settings_def described_sections_def)
    moreover have "set_target name field = (name, [field])"
      by (rule provider_names_cases [OF assms(1)]) (use f 1 in \<open>auto simp: key_targets\<close>)
    ultimately show ?thesis using 1 by blast
  next
    case 2
    then have "field = ''cri_socket''" using f by simp
    moreover have "(''pod_discovery.'' @ field, the (setting_format sec field), dflt) \<in> set (described_settings name)"
      using f 2 by (force simp: described_settings_def described_sections_def)
    ultimately show ?thesis using 2 key_targets(14) by fastforce
  qed
qed

section \<open>Properties\<close>

text \<open>C26: \<open>providers describe\<close> documents the settings that \<open>--set\<close> accepts, no more and no fewer: for every
  registered provider it succeeds (no section is missing, no setting undocumented) and prints one
  line per setting with its default; each printed key is resolved by \<open>--set\<close> to the value printed
  beside it, and each setting of a section the provider's \<open>--set\<close> can reach is printed under a key
  that leads to it.\<close>

theorem describe_documents_settings:
  assumes "find_collector name = Inr spec"
  shows "\<exists>settings. describe_execute render name =
      (describe_intro name @ map (\<lambda>(key, format, dflt). describe_line render key format dflt) settings
         @ describe_notes name, Inr ()) \<and>
    (\<forall>(key, format, dflt)\<in>set settings. case set_target name key of
       (sec, path) \<Rightarrow> json_at (sec # path) (runtime_to_value runtime_default) = Some dflt) \<and>
    (\<forall>sec field dflt. sec \<in> own_sections name \<and> json_at [sec, field] (runtime_to_value runtime_default) = Some dflt \<longrightarrow>
       (\<exists>key format. (key, format, dflt) \<in> set settings \<and> set_target name key = (sec, [field])))"
proof (intro exI [of _ "described_settings name"] conjI)
  show "\<forall>(key, format, dflt)\<in>set (described_settings name). case set_target name key of
      (sec, path) \<Rightarrow> json_at (sec # path) (runtime_to_value runtime_default) = Some dflt"
    by (rule provider_names_cases [OF assms]) (simp_all add: described_settings_def described_sections_def settable)
  show "\<forall>sec field dflt. sec \<in> own_sections name \<and> json_at [sec, field] (runtime_to_value runtime_default) = Some dflt \<longrightarrow>
      (\<exists>key format. (key, format, dflt) \<in> set (described_settings name) \<and> set_target name key = (sec, [field]))"
    using described_complete [OF assms] by blast
qed (rule describe_execute_ok [OF assms])

lemma describe_documents_settings_witness:
  "snd (describe_execute (\<lambda>_. ''0'') ''cpu'') = Inr ()"
proof -
  have "find_collector ''cpu'' = Inr (collector_specs ! 2)" by (simp add: find_collector_def collector_specs_def)
  from describe_documents_settings [OF this, of "\<lambda>_. ''0''"] show ?thesis by (elim exE conjE) simp
qed

text \<open>The names the loop of \<open>show\<close> goes through are names of the match in it.\<close>

lemma show_blocks_reachable:
  "list_all (\<lambda>name. section_of config name \<noteq> None) names \<Longrightarrow>
     snd (show_blocks pretty config names :: _ \<times> (('io, 't) show_error, unit) result) \<noteq> Inl ShowUnreachable"
  by (induction names) (auto simp: case_prod_unfold Let_def split: sum.splits option.splits if_splits)

lemma section_of_collectors: "list_all (\<lambda>name. section_of config name \<noteq> None) (map sp_name collector_specs)"
  by (simp add: collector_specs_def section_of_def)

lemma section_of_found: "find_collector name = Inr spec \<Longrightarrow> section_of config (sp_name spec) \<noteq> None"
  using section_of_collectors [of config] find_collector_names(2) by (fastforce simp: list_all_iff)

text \<open>\<open>providers config show\<close> never reaches the \<open>unreachable!\<close> of its match, whatever name, settings and
  files it is given; without a name it prints the introduction and one block for each section of the
  local configuration in the order of the registry, the pod discovery after the TCP section.\<close>

lemma show_prints_every_section:
  assumes "load_local_runtime_config read toml path = (Inr config :: ('io local_error, agent_runtime_config) result)"
  shows "snd (show_execute read toml parse_string parse_value pretty name path set_args
      :: _ \<times> (('io, 't) show_error, unit) result) \<noteq> Inl ShowUnreachable \<and>
    (show_execute read toml parse_string parse_value (\<lambda>sec. Inr (body sec)) None path []
      :: _ \<times> (('io, 't) show_error, unit) result) =
      (show_intro path [] @
         [show_block ''storage'' (body (StorageSection (cfg_storage config))),
          show_block ''memory'' (body (MemorySection (cfg_memory config))),
          show_block ''cpu'' (body (CpuSection (cfg_cpu config))),
          show_block ''network'' (body (NetworkSection (cfg_network config))),
          show_block ''tcp'' (body (TcpSection (cfg_tcp config))),
          show_block ''pod_discovery'' (body (PodDiscoverySection (cfg_pod_discovery config))),
          show_block ''disk_io'' (body (DiskIoSection (cfg_disk_io config)))], Inr ())"
proof
  have "snd (show_blocks pretty c [sp_name spec] :: _ \<times> (('io, 't) show_error, unit) result) \<noteq> Inl ShowUnreachable"
    if "find_collector n = Inr spec" for c n spec
    by (rule show_blocks_reachable) (use section_of_found [OF that] in simp)
  moreover have "snd (show_blocks pretty config (map sp_name collector_specs)
      :: _ \<times> (('io, 't) show_error, unit) result) \<noteq> Inl ShowUnreachable"
    by (rule show_blocks_reachable [OF section_of_collectors])
  ultimately show "snd (show_execute read toml parse_string parse_value pretty name path set_args
      :: _ \<times> (('io, 't) show_error, unit) result) \<noteq> Inl ShowUnreachable"
    by (auto simp: show_execute_def assms case_prod_unfold Let_def simp del: show_blocks.simps
        split: sum.splits option.splits)
  show "(show_execute read toml parse_string parse_value (\<lambda>sec. Inr (body sec)) None path []
      :: _ \<times> (('io, 't) show_error, unit) result) = (show_intro path [] @
         [show_block ''storage'' (body (StorageSection (cfg_storage config))),
          show_block ''memory'' (body (MemorySection (cfg_memory config))),
          show_block ''cpu'' (body (CpuSection (cfg_cpu config))),
          show_block ''network'' (body (NetworkSection (cfg_network config))),
          show_block ''tcp'' (body (TcpSection (cfg_tcp config))),
          show_block ''pod_discovery'' (body (PodDiscoverySection (cfg_pod_discovery config))),
          show_block ''disk_io'' (body (DiskIoSection (cfg_disk_io config)))], Inr ())"
    by (simp add: show_execute_def assms collector_specs_def section_of_def)
qed

lemma show_prints_every_section_witness:
  "snd (show_execute (\<lambda>_. Inl ''not found'') (\<lambda>_. Inr bootstrap_default) Some (\<lambda>_. None) (\<lambda>_. Inr ''x'') None None []
      :: _ \<times> ((unit, unit) show_error, unit) result) \<noteq> Inl ShowUnreachable"
proof -
  have "load_local_runtime_config (\<lambda>_. Inl ''not found'') (\<lambda>_. Inr bootstrap_default) None =
      (Inr (fallback_runtime_config bootstrap_default) :: (unit local_error, agent_runtime_config) result)"
    by code_simp
  from show_prints_every_section [OF this] show ?thesis by blast
qed

end
