(* ===== verification/Collectors.thy ===== *)
theory Collectors
  imports Runner
begin

text \<open>
  The six providers behind the collector registry (\<open>talia-agent/src/runner.rs\<close>): a boxed provider is a
  sum of the providers' states, and the operations the loop calls on it go to the provider's own
  functions.  What the machine answers during one iteration is a record: files, \<open>statvfs\<close>, the BPF
  programs and maps, the pods the discovery reports for a selection, the clock, and whether the
  blocking task panics.
\<close>

datatype boxed_provider =
    StorageProvider "string list"
  | MemoryProvider memory_collector
  | CpuProvider cpu_provider
  | NetworkProvider network_provider
  | TcpProvider socket_selection tcp_baselines
  | DiskIoProvider disk_io_provider

datatype 'e boxed_error =
    StorageFailed "'e storage_error provider_error"
  | MemoryFailed "memory_error provider_error"
  | BpfFailed "'e collector_error provider_error"
  | TcpFailed "'e discovery_error provider_error"

record 'e machine =
  mn_read :: "string \<Rightarrow> (io_error, string) result"
  mn_statvfs :: "string \<Rightarrow> ('e, stat_vfs) result"
  mn_page_size :: u64
  mn_now :: system_time
  mn_filesystem_now :: "filesystem_sample \<Rightarrow> system_time"
  mn_bpf :: "provider_kind \<Rightarrow> 'e bpf_object"
  mn_cpu_map :: "('e, raw_cpu_counters list) result"
  mn_network_keys :: "('e, raw_network_key) result list"
  mn_network_map :: "raw_network_key \<Rightarrow> ('e, raw_network_counters list) result"
  mn_disk_io_keys :: "('e, raw_disk_io_key) result list"
  mn_disk_io_map :: "raw_disk_io_key \<Rightarrow> ('e, raw_disk_io_counters list) result"
  mn_pods :: "socket_selection \<Rightarrow> ('e discovery_error, pod_info list) result"
  mn_panics :: bool

definition provider_factory :: "'e machine \<Rightarrow> provider_kind \<Rightarrow> duration \<Rightarrow> ('e boxed_error, boxed_provider) result" where
  "provider_factory mn kind window =
     (case kind of
        StorageKind \<Rightarrow> Inr (StorageProvider [])
      | MemoryKind \<Rightarrow> Inr (MemoryProvider (memory_collector_new (mn_page_size mn)))
      | CpuKind \<Rightarrow> map_err BpfFailed (and_then (cpu_provider_load (mn_bpf mn CpuKind) window) (\<lambda>p. Inr (CpuProvider p)))
      | NetworkKind \<Rightarrow>
          map_err BpfFailed (and_then (network_provider_load (mn_bpf mn NetworkKind) window) (\<lambda>p. Inr (NetworkProvider p)))
      | TcpKind \<Rightarrow> Inr (TcpProvider AllSockets Map.empty)
      | DiskIoKind \<Rightarrow>
          map_err BpfFailed (and_then (disk_io_provider_load (mn_bpf mn DiskIoKind) window) (\<lambda>p. Inr (DiskIoProvider p))))"

definition provider_set_window :: "duration \<Rightarrow> boxed_provider \<Rightarrow> boxed_provider" where
  "provider_set_window window provider =
     (case provider of
        CpuProvider p \<Rightarrow> CpuProvider (cpu_set_window window p)
      | NetworkProvider p \<Rightarrow> NetworkProvider (network_set_window window p)
      | DiskIoProvider p \<Rightarrow> DiskIoProvider (disk_io_set_window window p)
      | p \<Rightarrow> p)"

definition provider_reconfigure :: "agent_runtime_config \<Rightarrow> boxed_provider \<Rightarrow> boxed_provider" where
  "provider_reconfigure config provider =
     (case provider of
        StorageProvider mounts \<Rightarrow> StorageProvider (storage_reconfigure config mounts)
      | TcpProvider _ previous \<Rightarrow> TcpProvider (tcp_reconfigure config) previous
      | p \<Rightarrow> p)"

definition provider_collect :: "'e machine \<Rightarrow> boxed_provider \<Rightarrow> boxed_provider \<times> ('e boxed_error, sample list) result" where
  "provider_collect mn provider =
     (case provider of
        StorageProvider mounts \<Rightarrow>
          (StorageProvider mounts,
           map_err StorageFailed (storage_provider_collect (mn_read mn) (mn_statvfs mn) (mn_filesystem_now mn) mounts))
      | MemoryProvider c \<Rightarrow>
          (let (c', r) = memory_provider_collect (mn_read mn) (mn_now mn) c
           in (MemoryProvider c', map_err MemoryFailed r))
      | CpuProvider p \<Rightarrow>
          (let (p', r) = cpu_provider_collect (mn_cpu_map mn) (mn_now mn) p
           in (CpuProvider p', map_err BpfFailed r))
      | NetworkProvider p \<Rightarrow>
          (let (p', r) = network_provider_collect (mn_network_keys mn) (mn_network_map mn) (mn_now mn) p
           in (NetworkProvider p', map_err BpfFailed r))
      | TcpProvider selection previous \<Rightarrow>
          (let (previous', r) =
                 tcp_collect (\<lambda>path. res_ok (mn_read mn path)) (mn_now mn) (mn_pods mn selection) previous
           in (TcpProvider selection previous', map_err TcpFailed r))
      | DiskIoProvider p \<Rightarrow>
          (let (p', r) = disk_io_provider_collect (mn_disk_io_keys mn) (mn_disk_io_map mn) (mn_now mn) p
           in (DiskIoProvider p', map_err BpfFailed r)))"

definition machine_ops :: "collector_spec \<Rightarrow> 'e machine \<Rightarrow> (boxed_provider, 'e boxed_error) provider_ops" where
  "machine_ops spec mn =
     \<lparr>po_factory = provider_factory mn (sp_kind spec), po_set_window = provider_set_window,
      po_reconfigure = provider_reconfigure,
      po_collect = (\<lambda>p. if mn_panics mn then None else Some (provider_collect mn p))\<rparr>"

text \<open>A collector task over the configurations it reads and the machines it meets.\<close>

definition run_spec ::
    "collector_spec \<Rightarrow> processor list \<Rightarrow> nat \<Rightarrow> (agent_runtime_config \<times> 'e machine) list \<Rightarrow>
     boxed_provider runner_state \<times> action list" where
  "run_spec spec processors sinks rounds =
     run_collector spec processors sinks runner_start (map (\<lambda>(config, mn). (config, machine_ops spec mn)) rounds)"

section \<open>Facts\<close>

text \<open>The boxed provider exports what each provider exports.\<close>

interpretation boxed_exports: exported_provider "provider_collect mn" for mn
proof unfold_locales
  fix p samples x
  assume a: "snd (provider_collect mn p) = Inr samples" "x \<in> set samples"
  show "otlp_accepts x"
  proof (cases p)
    case (StorageProvider mounts)
    then show ?thesis using a
      by (intro storage_exports.accepted [where read = "mn_read mn" and statvfs = "mn_statvfs mn" and
            now = "mn_filesystem_now mn" and s = mounts and samples = samples])
        (auto simp: provider_collect_def)
  next
    case (MemoryProvider c)
    then show ?thesis using a
      by (intro memory_exports.accepted [where read = "mn_read mn" and now = "mn_now mn" and s = c and samples = samples])
        (auto simp: provider_collect_def split: prod.splits)
  next
    case (CpuProvider c)
    then show ?thesis using a
      by (intro cpu_exports.accepted [where read = "mn_cpu_map mn" and now = "mn_now mn" and s = c and samples = samples])
        (auto simp: provider_collect_def split: prod.splits)
  next
    case (NetworkProvider c)
    then show ?thesis using a
      by (intro network_exports.accepted [where ks = "mn_network_keys mn" and read = "mn_network_map mn" and
            now = "mn_now mn" and s = c and samples = samples])
        (auto simp: provider_collect_def split: prod.splits)
  next
    case (TcpProvider selection previous)
    then show ?thesis using a
      by (intro tcp_exports.accepted [where read = "\<lambda>path. res_ok (mn_read mn path)" and now = "mn_now mn" and
            discovered = "mn_pods mn selection" and s = previous and samples = samples])
        (auto simp: provider_collect_def split: prod.splits)
  next
    case (DiskIoProvider c)
    then show ?thesis using a
      by (intro disk_exports.accepted [where ks = "mn_disk_io_keys mn" and read = "mn_disk_io_map mn" and
            now = "mn_now mn" and s = c and samples = samples])
        (auto simp: provider_collect_def split: prod.splits)
  qed
qed

text \<open>Where an emission of a run comes from.\<close>

lemma run_collector_emissions:
  "(j, kept, v) \<in> set (emissions (snd (run_collector spec ps n st rounds))) \<Longrightarrow>
     \<exists>config ops p p' samples s. (config, ops) \<in> set rounds \<and> fst (sp_schedule spec config) \<and> v = cfg_version config \<and>
       j < n \<and> po_collect ops p = Some (p', Inr samples) \<and> s \<in> set samples \<and> process_sample ps s = Some kept"
proof (induction spec ps n st rounds rule: run_collector.induct)
  case (1 spec ps n st)
  then show ?case by simp
next
  case (2 spec ps n st config ops rest)
  obtain st' now where now: "run_iteration spec ops ps n config st = (st', now)" by fastforce
  obtain st'' later where later: "run_collector spec ps n st' rest = (st'', later)" by fastforce
  from 2(2) now later consider
      "(j, kept, v) \<in> set (emissions (snd (run_iteration spec ops ps n config st)))"
    | "(j, kept, v) \<in> set (emissions (snd (run_collector spec ps n st' rest)))"
    by auto
  then show ?case
  proof cases
    case 1
    from run_iteration_emissions [OF this] show ?thesis
      by (intro exI [of _ config] exI [of _ ops]) auto
  next
    case 2
    from "2.IH" [OF now [symmetric] refl] 2 show ?thesis by fastforce
  qed
qed

lemma run_spec_emissions:
  assumes "(j, kept, v) \<in> set (emissions (snd (run_spec spec ps n rounds)))"
  obtains config mn p samples s where "(config, mn) \<in> set rounds" "fst (sp_schedule spec config)" "v = cfg_version config"
    "j < n" "snd (provider_collect mn p) = Inr samples" "s \<in> set samples" "process_sample ps s = Some kept"
  using run_collector_emissions [OF assms [unfolded run_spec_def]]
  by (auto simp: machine_ops_def split: if_splits) (metis snd_conv)

section \<open>Properties\<close>

text \<open>Nothing a collector task collects is lost on the way to the OTLP sink: over any run of the task,
  with any name filters and whatever the configurations, the machine's answers, failures and panics,
  every sample handed to a sink has an instrument built under the sample's name, of a kind that takes
  its value, and is exported with its attributes and the version of the configuration that was read.\<close>

lemma collected_samples_exported:
  assumes "\<forall>p\<in>set processors. filter_stage p"
    and "(j, x, version) \<in> set (emissions (snd (run_spec spec processors sinks rounds)))"
  shows "(\<exists>i. otlp_emit x version =
            Some (i, sample_value x, sample_attributes x @ [(CONFIG_VERSION_ATTRIBUTE, version)]) \<and>
          fst (instrument_spec i) = sample_name x \<and> kind_takes (fst (snd (instrument_spec i))) (sample_value x)) \<and>
    j < sinks \<and> (\<exists>config mn. (config, mn) \<in> set rounds \<and> version = cfg_version config)"
proof -
  obtain config mn p samples s where o: "(config, mn) \<in> set rounds" "version = cfg_version config" "j < sinks"
    "snd (provider_collect mn p) = Inr samples" "s \<in> set samples" "process_sample processors s = Some x"
    using run_spec_emissions [OF assms(2)] by metis
  have "otlp_accepts x" by (rule boxed_exports.exported_filtered [OF o(4,5) assms(1) o(6)])
  then obtain i where i: "otlp_instrument (sample_name x) (sample_value x) = Some i"
    by (auto simp: otlp_accepts_def)
  then have "otlp_emit x version =
      Some (i, sample_value x, sample_attributes x @ [(CONFIG_VERSION_ATTRIBUTE, version)])"
    by (simp add: otlp_emit_def sample_attributes_of_def)
  with otlp_instrument_matches [OF i] o(1-3) show ?thesis by blast
qed

definition demo_machine :: "io_error machine" where
  "demo_machine =
     \<lparr>mn_read = demo_proc, mn_statvfs = (\<lambda>_. Inl []), mn_page_size = 4096, mn_now = 0, mn_filesystem_now = (\<lambda>_. 0),
      mn_bpf = (\<lambda>_. undefined), mn_cpu_map = Inr [], mn_network_keys = [], mn_network_map = (\<lambda>_. Inr []),
      mn_disk_io_keys = [], mn_disk_io_map = (\<lambda>_. Inr []), mn_pods = (\<lambda>_. Inl NoSocket), mn_panics = False\<rparr>"

definition demo_total :: sample where
  "demo_total = mk_sample 0 MEMORY_USAGE_SAMPLE (GaugeU64 1024000) (state_attributes MEMORY_STATE_ATTRIBUTE ''total'')"

lemma demo_emission:
  "(0, demo_total, cfg_version runtime_default) \<in>
     set (emissions (snd (run_spec (collector_specs ! 1) [] 1 [(runtime_default, demo_machine)])))"
proof -
  have "demo_total \<in> set (memory_samples 0 (sample_from_proc demo_meminfo swap previous size))" for swap previous size
    by (simp add: demo_total_def memory_samples_def sample_from_proc_def Let_def demo_meminfo_def)
  moreover have "memory_enabled (cfg_memory runtime_default)" by code_simp
  ultimately show ?thesis
    by (simp add: run_spec_def runner_start_def run_iteration_def collector_specs_def machine_ops_def
        provider_factory_def provider_set_window_def provider_reconfigure_def provider_collect_def
        memory_provider_collect_def memory_collect_def demo_machine_def memory_collector_new_def
        demo_proc_files emissions_emit_all List.map_filter_def Let_def)
qed

lemma collected_samples_exported_witness:
  "\<exists>i. otlp_emit demo_total (cfg_version runtime_default) =
     Some (i, GaugeU64 1024000, sample_attributes demo_total @ [(CONFIG_VERSION_ATTRIBUTE, cfg_version runtime_default)])"
  using collected_samples_exported [OF _ demo_emission] by (auto simp: demo_total_def)

text \<open>C27: A collector of the registry never spins: whatever happens in its rounds (disabled, failed to load,
  panicked, failed to collect, collected), it sleeps exactly once per round, for the interval of the
  configuration it read, which is positive in every valid configuration.\<close>

theorem collector_sleeps_every_round:
  assumes "spec \<in> set collector_specs" "\<forall>(config, mn)\<in>set rounds. runtime_wf config"
  shows "sleeps (snd (run_spec spec processors sinks rounds)) =
      map (\<lambda>(config, mn). snd (sp_schedule spec config)) rounds \<and>
    (\<forall>d\<in>set (sleeps (snd (run_spec spec processors sinks rounds))). 0 < d)"
proof -
  have e: "sleeps (snd (run_spec spec processors sinks rounds)) =
      map (\<lambda>(config, mn). snd (sp_schedule spec config)) rounds"
    by (simp add: run_spec_def run_collector_sleeps case_prod_unfold comp_def)
  moreover have "0 < snd (sp_schedule spec config)" if "(config, mn) \<in> set rounds" for config mn
    using assms that by (intro schedule_positive) (auto simp: runtime_wf_def)
  ultimately show ?thesis by auto
qed

lemma collector_sleeps_every_round_witness:
  "sleeps (snd (run_spec (collector_specs ! 1) [] 1 [(runtime_default, demo_machine)])) =
     [snd (sp_schedule (collector_specs ! 1) runtime_default)]"
proof -
  have "\<forall>(config, mn)\<in>set [(runtime_default, demo_machine)]. runtime_wf config" using runtime_default_wf by simp
  from collector_sleeps_every_round [OF _ this, of "collector_specs ! 1" "[]" 1] show ?thesis
    by (simp add: collector_specs_def)
qed

end
