(* ===== verification/Collect_Command.thy ===== *)
theory Collect_Command
  imports Set_Overrides Collectors Local_Config
begin

text \<open>
  \<open>talia-agent collect\<close> (\<open>talia-agent/src/commands/collect.rs\<close>): one provider collected to standard
  output until a time limit or Ctrl-C.  A round carries what the machine answers in it and the two
  readings of the clock; the list of rounds ends where Ctrl-C arrives.
\<close>

datatype ('io, 'e) collect_error =
    LocalConfigFailed "'io local_error"
  | SetFailed set_error
  | ZeroInterval
  | LoadProviderFailed 'e
  | NeverCollected "'e option"
  | CollectPanicked

record ('p, 'e) collect_round =
  cr_ops :: "('p, 'e) provider_ops"
  cr_elapsed :: duration
  cr_elapsed_later :: duration

definition collect_sleep :: "duration \<Rightarrow> duration option \<Rightarrow> duration \<Rightarrow> duration" where
  "collect_sleep interval limit elapsed =
     (case limit of None \<Rightarrow> interval | Some l \<Rightarrow> min interval (l - elapsed))"

text \<open>The loop: the actions, and how it ended, \<open>None\<close> for Ctrl-C.\<close>

fun collect_loop ::
    "bool \<Rightarrow> duration \<Rightarrow> duration option \<Rightarrow> processor list \<Rightarrow> string \<Rightarrow> 'p \<Rightarrow> bool \<Rightarrow> 'e option \<Rightarrow>
     ('p, 'e) collect_round list \<Rightarrow> action list \<times> (('io, 'e) collect_error, unit) result option" where
  "collect_loop sleep_before interval limit processors version provider collected last_error [] = ([], None)"
| "collect_loop sleep_before interval limit processors version provider collected last_error (r # rs) =
     (let before = (if sleep_before then [SleepFor interval] else []) in
      case po_collect (cr_ops r) (po_set_window (cr_ops r) interval provider) of
        None \<Rightarrow> (before, Some (Inl CollectPanicked))
      | Some (provider', result) \<Rightarrow>
          (let (collected', last_error', emitted) =
                 (case result of
                    Inr samples \<Rightarrow> (True, last_error, emit_all processors 1 version samples)
                  | Inl e \<Rightarrow> (collected, Some e, []))
           in if (case limit of None \<Rightarrow> False | Some l \<Rightarrow> l \<le> cr_elapsed r)
              then (before @ emitted, Some (if collected' then Inr () else Inl (NeverCollected last_error')))
              else
                (let after = (if sleep_before then [] else [SleepFor (collect_sleep interval limit (cr_elapsed_later r))]);
                     (more, ended) =
                       collect_loop sleep_before interval limit processors version provider' collected' last_error' rs
                 in (before @ emitted @ after @ more, ended))))"

definition collect_provider ::
    "(collector_spec \<Rightarrow> duration \<Rightarrow> ('e, 'p) result) \<Rightarrow> (agent_runtime_config \<Rightarrow> 'p \<Rightarrow> 'p) \<Rightarrow> string \<Rightarrow>
     duration option \<Rightarrow> duration option \<Rightarrow> string list \<Rightarrow> agent_runtime_config \<Rightarrow>
     (collector_spec \<Rightarrow> ('p, 'e) collect_round list) \<Rightarrow> action list \<times> (('io, 'e) collect_error, unit) result" where
  "collect_provider factory reconfigure name limit interval keep config rounds =
     (case find_collector name of
        Inl e \<Rightarrow> ([], Inl (SetFailed e))
      | Inr spec \<Rightarrow>
          (let interval = (case interval of None \<Rightarrow> snd (sp_schedule spec config) | Some i \<Rightarrow> i) in
           if interval = 0 then ([], Inl ZeroInterval)
           else
             (case factory spec interval of
                Inl e \<Rightarrow> ([], Inl (LoadProviderFailed e))
              | Inr provider \<Rightarrow>
                  (let processors = (if keep = [] then [] else [name_filter_process keep]);
                       (actions, ended) =
                         collect_loop (sp_sleep_before_collect spec) interval limit processors (cfg_version config)
                           (reconfigure config provider) False None (rounds spec)
                   in (actions, case ended of None \<Rightarrow> Inr () | Some r \<Rightarrow> r)))))"

record collect_args =
  ca_provider :: string
  ca_for :: "duration option"
  ca_interval :: "duration option"
  ca_keep :: "string list"
  ca_set :: "string list"

text \<open>A round on the machine it meets.\<close>

definition machine_round ::
    "collector_spec \<Rightarrow> 'e machine \<times> duration \<times> duration \<Rightarrow> (boxed_provider, 'e boxed_error) collect_round" where
  "machine_round spec round_input =
     (case round_input of
        (mn, elapsed, later) \<Rightarrow> \<lparr>cr_ops = machine_ops spec mn, cr_elapsed = elapsed, cr_elapsed_later = later\<rparr>)"

definition collect_execute ::
    "(string \<Rightarrow> (io_error, string) result) \<Rightarrow> (string \<Rightarrow> (toml_error, agent_bootstrap_config) result) \<Rightarrow>
     (string \<Rightarrow> string option) \<Rightarrow> (string \<Rightarrow> json option) \<Rightarrow> 'e machine \<Rightarrow> collect_args \<Rightarrow> string option \<Rightarrow>
     ('e machine \<times> duration \<times> duration) list \<Rightarrow> action list \<times> (('io, 'e boxed_error) collect_error, unit) result" where
  "collect_execute read toml parse_string parse_value start args path rounds =
     (case load_local_runtime_config read toml path of
        Inl e \<Rightarrow> ([], Inl (LocalConfigFailed e))
      | Inr local \<Rightarrow>
          (case with_provider_overrides parse_string parse_value local (ca_provider args) (ca_set args) of
             Inl e \<Rightarrow> ([], Inl (SetFailed e))
           | Inr config \<Rightarrow>
               collect_provider (\<lambda>spec. provider_factory start (sp_kind spec)) provider_reconfigure
                 (ca_provider args) (ca_for args) (ca_interval args) (ca_keep args) config
                 (\<lambda>spec. map (machine_round spec) rounds)))"

section \<open>The clock\<close>

text \<open>What is assumed of the clock: it does not run backwards, and a sleep lasts at least as long as asked.\<close>

fun clock_ok :: "bool \<Rightarrow> duration \<Rightarrow> duration \<Rightarrow> duration \<Rightarrow> ('p, 'e) collect_round list \<Rightarrow> bool" where
  "clock_ok sleep_before interval limit now [] = True"
| "clock_ok sleep_before interval limit now (r # rs) =
     (now + (if sleep_before then interval else 0) \<le> cr_elapsed r \<and> cr_elapsed r \<le> cr_elapsed_later r \<and>
      clock_ok sleep_before interval limit
        (cr_elapsed_later r + (if sleep_before then 0 else collect_sleep interval (Some limit) (cr_elapsed_later r))) rs)"

lemma collect_loop_Cons_None:
  assumes "snd (collect_loop sb interval (Some limit) ps v p c e (r # rs) :: _ \<times> (('io, 'e) collect_error, unit) result option) = None"
  shows "cr_elapsed r < limit \<and>
    (\<exists>p' c' e'. snd (collect_loop sb interval (Some limit) ps v p' c' e' rs :: _ \<times> (('io, 'e) collect_error, unit) result option) = None)"
  using assms
  by (auto simp: Let_def split: option.splits prod.splits if_splits sum.splits) (metis snd_conv)+

text \<open>As long as the loop goes on, a round takes an interval.\<close>

lemma collect_loop_running:
  assumes "snd (collect_loop sb interval (Some limit) ps v p c e rounds :: _ \<times> (('io, 'e) collect_error, unit) result option) = None"
    and "clock_ok sb interval limit now rounds" "rounds \<noteq> []"
  shows "now + (length rounds - 1) * interval < limit"
  using assms
proof (induction rounds arbitrary: now p c e)
  case Nil
  then show ?case by simp
next
  case (Cons r rs)
  note step = collect_loop_Cons_None [OF Cons.prems(1)]
  show ?case
  proof (cases "rs = []")
    case True
    then show ?thesis using step Cons.prems(2) by auto
  next
    case False
    let ?next = "cr_elapsed_later r + (if sb then 0 else collect_sleep interval (Some limit) (cr_elapsed_later r))"
    from step obtain p' c' e' where
      "snd (collect_loop sb interval (Some limit) ps v p' c' e' rs :: _ \<times> (('io, 'e) collect_error, unit) result option) = None"
      by blast
    then have later: "?next + (length rs - 1) * interval < limit"
      using Cons.IH [of p' c' e' ?next] Cons.prems(2) False by simp
    then have "now + interval \<le> ?next"
      using Cons.prems(2) by (auto simp: collect_sleep_def min_def split: if_splits)
    moreover have "(length (r # rs) - 1) * interval = interval + (length rs - 1) * interval"
      using False by (cases rs) simp_all
    ultimately show ?thesis using later by linarith
  qed
qed

section \<open>Properties\<close>

text \<open>The loop of a run without a single success prints nothing, and names an error once it has ended.\<close>

lemma collect_loop_failed:
  "snd (collect_loop sb interval limit ps v p c e rounds) = Some (Inl (NeverCollected err)) \<Longrightarrow>
     \<not> c \<and> emissions (fst (collect_loop sb interval limit ps v p c e rounds)) = [] \<and> err \<noteq> None"
proof (induction rounds arbitrary: p c e)
  case Nil
  then show ?case by simp
next
  case (Cons r rs)
  show ?case
  proof (cases "po_collect (cr_ops r) (po_set_window (cr_ops r) interval p)")
    case None
    then show ?thesis using Cons.prems by (simp add: Let_def)
  next
    case (Some pr)
    obtain p' result where pr: "pr = (p', result)" by (cases pr)
    show ?thesis
    proof (cases result)
      case (Inl e1)
      then show ?thesis
        using Cons.prems Cons.IH [of p' c "Some e1"]
        by (auto simp: Some pr Let_def split: prod.splits if_splits option.splits)
    next
      case (Inr samples)
      then show ?thesis
        using Cons.prems Cons.IH [of p' True e]
        by (auto simp: Some pr Let_def split: prod.splits if_splits option.splits)
    qed
  qed
qed

text \<open>No sleep is longer than the interval.\<close>

lemma collect_sleep_le: "collect_sleep interval limit elapsed \<le> interval"
  by (simp add: collect_sleep_def split: option.splits)

lemma collect_loop_sleeps:
  "\<forall>d\<in>set (sleeps (fst (collect_loop sb interval limit ps v p c e rounds))). d \<le> interval"
proof (induction rounds arbitrary: p c e)
  case Nil
  then show ?case by simp
next
  case (Cons r rs)
  show ?case
  proof (cases "po_collect (cr_ops r) (po_set_window (cr_ops r) interval p)")
    case None
    then show ?thesis by simp
  next
    case (Some pr)
    obtain p' result where pr: "pr = (p', result)" by (cases pr)
    then show ?thesis
      using Cons.IH [of p' c "case result of Inl e1 \<Rightarrow> Some e1 | Inr _ \<Rightarrow> e"] Cons.IH [of p' True e]
      by (cases result) (auto simp: Some pr collect_sleep_le case_prod_unfold Let_def)
  qed
qed

text \<open>C22: A time limit ends the collection: once the rounds given amount to the limit at one interval a round,
  the loop has stopped by itself, whatever the provider answers; the sleep before the end is cut so that
  it does not overrun the limit.  The clock is only assumed not to run backwards and sleeps not to be
  cut short.\<close>

theorem collect_ends_at_the_limit:
  assumes "clock_ok sleep_before interval limit 0 rounds" "rounds \<noteq> []" "limit \<le> (length rounds - 1) * interval"
  shows "\<exists>outcome. snd (collect_loop sleep_before interval (Some limit) processors version provider False None rounds
      :: _ \<times> (('io, 'e) collect_error, unit) result option) = Some outcome"
  using collect_loop_running [OF _ assms(1,2), of processors version provider False None] assms(3)
  by (metis add_0 leD option.exhaust)

definition demo_failing :: "(unit, string) provider_ops" where
  "demo_failing = \<lparr>po_factory = (\<lambda>_. Inr ()), po_set_window = (\<lambda>_ p. p), po_reconfigure = (\<lambda>_ p. p),
     po_collect = (\<lambda>p. Some (p, Inl ''gone''))\<rparr>"

definition demo_rounds :: "(unit, string) collect_round list" where
  "demo_rounds = map (\<lambda>t. \<lparr>cr_ops = demo_failing, cr_elapsed = t, cr_elapsed_later = t\<rparr>) [0, 20, 30]"

lemma collect_ends_at_the_limit_witness:
  "\<exists>outcome. snd (collect_loop False 20 (Some 30) [] ''v'' () False None demo_rounds
      :: _ \<times> ((io_error, string) collect_error, unit) result option) = Some outcome"
proof -
  have "clock_ok False 20 30 0 demo_rounds" "demo_rounds \<noteq> []" "30 \<le> (length demo_rounds - 1) * (20::duration)"
    by (simp_all add: demo_rounds_def collect_sleep_def)
  then show ?thesis by (rule collect_ends_at_the_limit)
qed

text \<open>A collection that ends by itself without success has printed nothing and names the error of a
  collection: the fallback text ("no collection was attempted") is never reached, because the limit is
  only looked at after a collection.  No sleep of a run is longer than its interval, which is not
  zero.\<close>

lemma failed_collect_prints_nothing:
  assumes "collect_provider factory reconfigure name limit interval keep config rounds = (actions, outcome)"
  shows "(outcome = Inl (NeverCollected e) \<longrightarrow> emissions actions = [] \<and> e \<noteq> None) \<and>
    (case interval of
       Some i \<Rightarrow> \<forall>d\<in>set (sleeps actions). 0 < i \<and> d \<le> i
     | None \<Rightarrow> \<forall>d\<in>set (sleeps actions). \<exists>spec. find_collector name = Inr spec \<and>
                 0 < snd (sp_schedule spec config) \<and> d \<le> snd (sp_schedule spec config))"
proof (cases "find_collector name")
  case (Inl e1)
  then show ?thesis using assms by (auto simp: collect_provider_def split: option.splits)
next
  case (Inr spec)
  define i where "i = (case interval of None \<Rightarrow> snd (sp_schedule spec config) | Some i \<Rightarrow> i)"
  show ?thesis
  proof (cases "i = 0")
    case True
    then show ?thesis
      using assms Inr by (auto simp: collect_provider_def i_def split: option.splits)
  next
    case False
    show ?thesis
    proof (cases "factory spec i")
      case (Inl e1)
      then show ?thesis
        using assms Inr False by (auto simp: collect_provider_def i_def Let_def split: option.splits)
    next
      case provider: (Inr provider)
      obtain ended where r: "collect_loop (sp_sleep_before_collect spec) i limit
          (if keep = [] then [] else [name_filter_process keep]) (cfg_version config)
          (reconfigure config provider) False None (rounds spec) = (actions, ended)"
        and o: "outcome = (case ended of None \<Rightarrow> Inr () | Some r \<Rightarrow> r)"
        using assms Inr False provider
        by (auto simp: collect_provider_def i_def [symmetric] Let_def split: prod.splits)
      have "\<forall>d\<in>set (sleeps actions). d \<le> i" using collect_loop_sleeps r by (metis fst_conv)
      moreover have "emissions actions = [] \<and> e \<noteq> None" if "outcome = Inl (NeverCollected e)"
      proof -
        have "ended = Some (Inl (NeverCollected e))" using o that by (simp split: option.splits)
        with r collect_loop_failed show ?thesis by (metis fst_conv snd_conv)
      qed
      ultimately show ?thesis using False Inr by (auto simp: i_def split: option.splits)
    qed
  qed
qed

lemma failed_collect_prints_nothing_witness:
  "emissions (fst (collect_provider (\<lambda>spec i. Inr ()) (\<lambda>c p. p) ''cpu'' (Some 30) (Some 20) [] runtime_default
     (\<lambda>spec. demo_rounds) :: _ \<times> ((io_error, string) collect_error, unit) result)) = []"
proof -
  let ?r = "collect_provider (\<lambda>spec i. Inr ()) (\<lambda>c p. p) ''cpu'' (Some 30) (Some 20) [] runtime_default
     (\<lambda>spec. demo_rounds) :: _ \<times> ((io_error, string) collect_error, unit) result"
  obtain actions outcome where r: "?r = (actions, outcome)" by (cases ?r)
  have "snd ?r = Inl (NeverCollected (Some ''gone''))"
    by (simp add: collect_provider_def find_collector_def collector_specs_def demo_rounds_def demo_failing_def)
  then have "emissions actions = []" using failed_collect_prints_nothing [OF r] r by simp
  then show ?thesis using r by simp
qed

end
