(* ===== verification/Identity.thy ===== *)
theory Identity
  imports Rust_Std
begin

text \<open>
  The agent's identity (\<open>talia-agent/src/identity.rs\<close>).  The state directory is reduced to the
  agent-id file; what the file system and the UUID generator answer in one call is a record.  The
  model keeps the three outcomes of writing the file: nothing created, created but not completely
  written, written.
\<close>

definition AGENT_ID_FILE :: string where "AGENT_ID_FILE = ''agent-id''"
definition BOOT_ID_PATH :: string where "BOOT_ID_PATH = ''/proc/sys/kernel/random/boot_id''"

record agent_identity =
  id_agent_id :: string
  id_hostname :: string
  id_boot_id :: "string option"

datatype 'io identity_error =
    CreateStateDir 'io
  | ReadAgentId 'io
  | WriteAgentId 'io
  | EmptyAgentId

datatype 'io write_outcome = OpenFailed 'io | WriteFailed 'io string | Written

record 'io id_fs =
  ifs_create_dir_all :: "('io, unit) result"
  ifs_read_error :: "'io option"
  ifs_write :: "'io write_outcome"
  ifs_uuid :: string

text \<open>\<open>write_agent_id_file\<close>: what the file holds afterwards.\<close>

definition write_agent_id_file :: "'io write_outcome \<Rightarrow> string \<Rightarrow> string option \<times> ('io, unit) result" where
  "write_agent_id_file outcome agent_id =
     (case outcome of
        OpenFailed e \<Rightarrow> (None, Inl e)
      | WriteFailed e part \<Rightarrow> (Some part, Inl e)
      | Written \<Rightarrow> (Some (agent_id @ [newline]), Inr ()))"

text \<open>The first argument of the result is the agent-id file, \<open>None\<close> where there is none.\<close>

definition load_or_create_agent_id ::
    "'io id_fs \<Rightarrow> string option \<Rightarrow> string option \<times> ('io identity_error, string) result" where
  "load_or_create_agent_id fs file =
     (case ifs_create_dir_all fs of
        Inl e \<Rightarrow> (file, Inl (CreateStateDir e))
      | Inr _ \<Rightarrow>
          (case file of
             Some contents \<Rightarrow>
               (file,
                case ifs_read_error fs of
                  Some e \<Rightarrow> Inl (ReadAgentId e)
                | None \<Rightarrow>
                    (let agent_id = trim contents in
                     if agent_id = [] then Inl EmptyAgentId else Inr agent_id))
           | None \<Rightarrow>
               (let agent_id = ifs_uuid fs; (file', r) = write_agent_id_file (ifs_write fs) agent_id
                in (file', and_then (map_err WriteAgentId r) (\<lambda>_. Inr agent_id)))))"

definition read_trimmed :: "(string \<Rightarrow> string option) \<Rightarrow> string \<Rightarrow> string option" where
  "read_trimmed read path =
     (case map_option trim (read path) of
        None \<Rightarrow> None
      | Some v \<Rightarrow> if v \<noteq> [] then Some v else None)"

definition read_boot_id :: "(string \<Rightarrow> string option) \<Rightarrow> string option" where
  "read_boot_id read = read_trimmed read BOOT_ID_PATH"

section \<open>Facts\<close>

text \<open>A generated id is a word without surrounding blanks, as \<open>Uuid::to_string\<close> is.\<close>

lemma agent_id_trimmed:
  assumes "load_or_create_agent_id fs file = (file', Inr agent_id)"
    and "trim (ifs_uuid fs) = ifs_uuid fs" "ifs_uuid fs \<noteq> []"
  shows "trim agent_id = agent_id \<and> agent_id \<noteq> []"
  using assms
  by (auto simp: load_or_create_agent_id_def Let_def write_agent_id_file_def
      split: sum.splits option.splits if_splits write_outcome.splits)

lemma agent_id_file_after:
  assumes "load_or_create_agent_id fs file = (file', Inr agent_id)"
    and "trim (ifs_uuid fs) = ifs_uuid fs"
  shows "\<exists>contents. file' = Some contents \<and> trim contents = agent_id"
  using assms
  by (auto simp: load_or_create_agent_id_def Let_def write_agent_id_file_def
      split: sum.splits option.splits if_splits write_outcome.splits)

lemma agent_id_stable:
  assumes "load_or_create_agent_id fs file = (file', Inr agent_id)"
    and "trim (ifs_uuid fs) = ifs_uuid fs" "ifs_uuid fs \<noteq> []"
    and "ifs_create_dir_all fs2 = Inr ()" "ifs_read_error fs2 = None"
  shows "load_or_create_agent_id fs2 file' = (file', Inr agent_id)"
proof -
  obtain contents where "file' = Some contents" "trim contents = agent_id"
    using agent_id_file_after [OF assms(1,2)] by auto
  moreover have "agent_id \<noteq> []" using agent_id_trimmed [OF assms(1-3)] by simp
  ultimately show ?thesis using assms(4,5) by (simp add: load_or_create_agent_id_def Let_def)
qed

text \<open>A write that stops after creating the file leaves an agent that cannot start again.\<close>

lemma empty_file_sticks:
  "ifs_create_dir_all fs = Inr () \<Longrightarrow> ifs_read_error fs = None \<Longrightarrow>
     load_or_create_agent_id fs (Some []) = (Some [], Inl EmptyAgentId)"
  by (simp add: load_or_create_agent_id_def Let_def trim_def)

lemma read_trimmed_Some: "read_trimmed read path = Some v \<Longrightarrow> v \<noteq> [] \<and> trim v = v"
  by (auto simp: read_trimmed_def split: option.splits if_splits)

section \<open>Properties\<close>

text \<open>C38: An agent keeps its id: once a start has returned an id, read from the file or newly generated, every
  later start on the same state directory, with a readable file, returns the same id, whatever a new
  generation would have given.\<close>

theorem agent_id_survives_restart:
  assumes "load_or_create_agent_id fs file = (file', Inr agent_id)"
    and "trim (ifs_uuid fs) = ifs_uuid fs" "ifs_uuid fs \<noteq> []"
    and "ifs_create_dir_all fs2 = Inr ()" "ifs_read_error fs2 = None"
  shows "load_or_create_agent_id fs2 file' = (file', Inr agent_id) \<and> trim agent_id = agent_id \<and> agent_id \<noteq> []"
  using agent_id_stable [OF assms] agent_id_trimmed [OF assms(1-3)] by simp

definition demo_fs :: "string \<Rightarrow> string id_fs" where
  "demo_fs uuid = \<lparr>ifs_create_dir_all = Inr (), ifs_read_error = None, ifs_write = Written, ifs_uuid = uuid\<rparr>"

lemma agent_id_survives_restart_witness:
  "load_or_create_agent_id (demo_fs ''u2'') (fst (load_or_create_agent_id (demo_fs ''u1'') None)) =
     (Some (''u1'' @ [newline]), Inr ''u1'')"
proof -
  have l: "load_or_create_agent_id (demo_fs ''u1'') None = (Some (''u1'' @ [newline]), Inr ''u1'')" by code_simp
  have t: "trim (ifs_uuid (demo_fs ''u1'')) = ifs_uuid (demo_fs ''u1'')" by code_simp
  from agent_id_survives_restart [OF l t, of "demo_fs ''u2''"] l show ?thesis by (simp add: demo_fs_def)
qed

text \<open>A first start whose write of the id file fails before its first byte leaves an empty file behind, and
  no later start recovers from it: each one reports an empty agent id although directory and file work.\<close>

lemma interrupted_first_write_sticks:
  assumes "ifs_create_dir_all fs = Inr ()" "ifs_write fs = WriteFailed e []"
    and "ifs_create_dir_all fs2 = Inr ()" "ifs_read_error fs2 = None"
  shows "load_or_create_agent_id fs None = (Some [], Inl (WriteAgentId e)) \<and>
    load_or_create_agent_id fs2 (Some []) = (Some [], Inl EmptyAgentId)"
  using assms empty_file_sticks [OF assms(3,4)]
  by (simp add: load_or_create_agent_id_def write_agent_id_file_def)

lemma interrupted_first_write_sticks_witness:
  "load_or_create_agent_id (demo_fs ''u2'') (fst (load_or_create_agent_id
      ((demo_fs ''u1'')\<lparr>ifs_write := WriteFailed ''disk full'' []\<rparr>) None)) = (Some [], Inl EmptyAgentId)"
  using interrupted_first_write_sticks [of "(demo_fs ''u1'')\<lparr>ifs_write := WriteFailed ''disk full'' []\<rparr>" "''disk full''" "demo_fs ''u2''"]
  by (simp add: demo_fs_def)

end
