(* ===== verification/Control_Protocol.thy ===== *)
theory Control_Protocol
  imports Rust_Std
begin

text \<open>
  The messages of the control WebSocket and the header names of the config fetch, shared by agent
  and control server (\<open>talia-core/src/control.rs\<close>).  The components that send and receive them take the
  text they travel as for a parameter; \<open>Control_Json\<close> has its JSON values.
\<close>

definition AGENT_ID_HEADER :: string where
  "AGENT_ID_HEADER = ''x-talia-agent-id''"

definition AGENT_CONFIG_TOKEN_HEADER :: string where
  "AGENT_CONFIG_TOKEN_HEADER = ''x-talia-agent-config-token''"

definition CONFIG_SESSION_ID_HEADER :: string where
  "CONFIG_SESSION_ID_HEADER = ''x-talia-config-session-id''"

definition AUTHORIZATION :: string where
  "AUTHORIZATION = ''authorization''"

datatype agent_control_message =
    Hello (hello_agent_id: string) (hello_hostname: string) (hello_agent_version: string)
      (hello_boot_id: "string option")
  | Heartbeat (hb_agent_id: string) (hb_hostname: string) (hb_agent_version: string)
      (hb_config_version: string) (hb_enabled_collectors: "string list")

datatype server_control_message =
    HelloAck (server_time_unix_seconds: u64) (ack_config_session_id: string)
  | ConfigChanged (changed_version: string)

text \<open>The request headers as the handlers read them: the value under a lower-case name, when it is
  present and visible ASCII (\<open>HeaderMap::get\<close> followed by \<open>to_str().ok()\<close>).\<close>

type_synonym headers = "string \<Rightarrow> string option"

lemmas header_names = AGENT_ID_HEADER_def AGENT_CONFIG_TOKEN_HEADER_def CONFIG_SESSION_ID_HEADER_def
  AUTHORIZATION_def

lemma header_names_distinct [simp]:
  "distinct [AGENT_ID_HEADER, AGENT_CONFIG_TOKEN_HEADER, CONFIG_SESSION_ID_HEADER, AUTHORIZATION]"
  by (simp add: header_names)

end
