(* ===== verification/Fnv.thy ===== *)
theory Fnv
  imports Rust_Std
begin

text \<open>
  The 64-bit FNV-1a hash that names config versions (\<open>talia-core/src/config.rs\<close>) and spreads the
  agents' poll times (\<open>talia-agent/src/control.rs\<close>), over the UTF-8 bytes of a string.  The main
  fact is that one changed byte always changes the hash: every round is a bijection of the state.
\<close>

unbundle bit_operations_syntax

text \<open>\<open>str::as_bytes\<close>: the UTF-8 encoding of scalar values up to U+00FF.\<close>

definition utf8_char :: "char \<Rightarrow> nat list" where
  "utf8_char c =
     (let n = char_code c in if n < 128 then [n] else [192 + n div 64, 128 + n mod 64])"

definition as_bytes :: "string \<Rightarrow> u8 list" where
  "as_bytes s = map of_nat (concat (map utf8_char s))"

definition fnv_basis :: u64 where "fnv_basis = 0xcbf29ce484222325"

definition fnv_prime :: u64 where "fnv_prime = 0x00000100000001b3"

text \<open>One loop iteration: \<open>hash ^= u64::from(byte); hash = hash.wrapping_mul(prime)\<close>.\<close>

definition fnv_round :: "u8 \<Rightarrow> u64 \<Rightarrow> u64" where
  "fnv_round byte hash = (hash XOR ucast byte) * fnv_prime"

definition fnv1a64 :: "u8 list \<Rightarrow> u64" where
  "fnv1a64 bytes = fold fnv_round bytes fnv_basis"

section \<open>Every round is injective\<close>

lemma fnv_prime_invertible: "fnv_prime * 0xce965057aff6957b = 1"
  by (simp add: fnv_prime_def)

lemma mult_fnv_prime_inject [simp]: "x * fnv_prime = y * fnv_prime \<longleftrightarrow> x = y"
proof
  assume "x * fnv_prime = y * fnv_prime"
  then have "x * fnv_prime * 0xce965057aff6957b = y * fnv_prime * 0xce965057aff6957b"
    by (simp only:)
  then show "x = y" by (simp only: mult.assoc fnv_prime_invertible mult_1_right)
qed simp

lemma xor_right_inject: "x XOR z = y XOR z \<longleftrightarrow> x = y" for x y z :: "'a::len word"
  by (metis xor.assoc xor.right_neutral xor_self_eq)

lemma xor_left_inject: "z XOR x = z XOR y \<longleftrightarrow> x = y" for x y z :: "'a::len word"
  by (metis xor.assoc xor.left_neutral xor_self_eq)

lemma ucast_u8_u64_inject: "(ucast a :: u64) = ucast b \<longleftrightarrow> a = b" for a b :: u8
  by transfer simp

lemma fnv_round_state_inject: "fnv_round b g = fnv_round b h \<longleftrightarrow> g = h"
  by (simp add: fnv_round_def xor_right_inject)

lemma fnv_round_byte_inject: "fnv_round a h = fnv_round b h \<longleftrightarrow> a = b"
  by (simp add: fnv_round_def xor_left_inject ucast_u8_u64_inject)

lemma fold_fnv_state_inject: "fold fnv_round bs g = fold fnv_round bs h \<longleftrightarrow> g = h"
  by (induction bs arbitrary: g h) (simp_all add: fnv_round_state_inject)

lemma fnv1a64_append: "fnv1a64 (xs @ ys) = fold fnv_round ys (fnv1a64 xs)"
  by (simp add: fnv1a64_def)

text \<open>Two inputs that differ in exactly one byte never collide.\<close>

lemma fnv1a64_one_byte: "fnv1a64 (xs @ a # ys) = fnv1a64 (xs @ b # ys) \<longleftrightarrow> a = b"
  by (simp add: fnv1a64_append fold_fnv_state_inject fnv_round_byte_inject)

text \<open>Prepending the same bytes keeps inequality of equal-length single-byte edits, and a common
  suffix neither creates nor removes a collision.\<close>

lemma fnv1a64_common_suffix: "fnv1a64 (xs @ zs) = fnv1a64 (ys @ zs) \<longleftrightarrow> fnv1a64 xs = fnv1a64 ys"
  by (simp add: fnv1a64_append fold_fnv_state_inject)

section \<open>UTF-8 encoding is injective\<close>

lemma as_bytes_append: "as_bytes (s @ t) = as_bytes s @ as_bytes t"
  by (simp add: as_bytes_def)

lemma as_bytes_ascii: "\<forall>c\<in>set s. char_code c < 128 \<Longrightarrow> as_bytes s = map (\<lambda>c. of_nat (char_code c)) s"
  by (induction s) (simp_all add: as_bytes_def utf8_char_def)

lemma char_code_less: "char_code c < 256"
  by (simp add: char_code_def)

lemma char_code_inject: "char_code c = char_code d \<longleftrightarrow> c = d"
  by (simp add: char_code_def)

lemma utf8_char_bytes: "n \<in> set (utf8_char c) \<Longrightarrow> n < 256"
  using char_code_less [of c] by (auto simp: utf8_char_def Let_def split: if_splits)

lemma unat_as_bytes: "map unat (as_bytes s) = concat (map utf8_char s)"
  unfolding as_bytes_def map_map
  by (rule map_idI) (auto simp: unat_of_nat dest: utf8_char_bytes)

lemma utf8_char_ne: "utf8_char c \<noteq> []"
  by (simp add: utf8_char_def Let_def)

lemma utf8_append_inject: "utf8_char c @ xs = utf8_char d @ ys \<longleftrightarrow> c = d \<and> xs = ys"
proof
  assume "utf8_char c @ xs = utf8_char d @ ys"
  then have "char_code c = char_code d \<and> xs = ys"
    using char_code_less [of c] char_code_less [of d]
    by (auto simp: utf8_char_def Let_def split: if_splits) (metis div_mult_mod_eq)
  then show "c = d \<and> xs = ys" by (simp add: char_code_inject)
qed simp

lemma as_bytes_inject: "as_bytes s = as_bytes t \<longleftrightarrow> s = t"
proof
  assume "as_bytes s = as_bytes t"
  then have "concat (map utf8_char s) = concat (map utf8_char t)"
    by (metis unat_as_bytes)
  then show "s = t"
  proof (induction s arbitrary: t)
    case Nil
    then show ?case by (cases t) (auto simp: utf8_char_ne)
  next
    case (Cons c s)
    then show ?case by (cases t) (auto simp: utf8_char_ne utf8_append_inject)
  qed
qed simp

lemma ascii_byte_inject:
  assumes "char_code c < 128" "char_code d < 128"
  shows "(of_nat (char_code c) :: u8) = of_nat (char_code d) \<longleftrightarrow> c = d"
proof
  assume "(of_nat (char_code c) :: u8) = of_nat (char_code d)"
  then have "unat (of_nat (char_code c) :: u8) = unat (of_nat (char_code d) :: u8)" by simp
  with assms have "char_code c = char_code d" by (simp add: unat_of_nat)
  then show "c = d" by (simp add: char_code_def)
qed simp

end
