(* ===== verification/Agent_Control.thy ===== *)
theory Agent_Control
  imports Local_Config Identity Runner Control_Protocol Fnv
begin

text \<open>
  The agent's side of the control protocol (\<open>talia-agent/src/control.rs\<close>) and its start
  (\<open>talia-agent/src/commands/run.rs\<close>): fetching and applying the remote configuration, the WebSocket
  session with its heartbeats, the reconnect backoff and the jittered poll.  The HTTP client answers
  through \<open>send\<close> (status and body), the decoder of a body is \<open>decode\<close>, the parser of a server message
  is \<open>parse_msg\<close>, and \<open>ok\<close> says which texts the HTTP library accepts as header values; times are
  durations in nanoseconds.
\<close>

section \<open>Poll interval\<close>

fun agent_fnv_loop :: "u64 \<Rightarrow> u8 list \<Rightarrow> u64" where
  "agent_fnv_loop hash [] = hash"
| "agent_fnv_loop hash (byte # bytes) = agent_fnv_loop ((hash XOR ucast byte) * 0x00000100000001b3) bytes"

definition agent_fnv1a64 :: "u8 list \<Rightarrow> u64" where
  "agent_fnv1a64 bytes = agent_fnv_loop 0xcbf29ce484222325 bytes"

text \<open>Release builds wrap on overflow, which the last line does for a base close to the maximum.\<close>

definition jittered_interval :: "u64 \<Rightarrow> string \<Rightarrow> duration" where
  "jittered_interval base_seconds agent_id =
     (let spread = base_seconds div 10 in
      if spread = 0 then from_secs base_seconds
      else
        (let hash = agent_fnv1a64 (as_bytes agent_id);
             offset = hash mod (spread * 2 + 1)
         in from_secs (base_seconds - spread + offset)))"

section \<open>Requests\<close>

record control_client_config =
  cc_http_url :: string
  cc_ws_url :: string
  cc_token :: string
  cc_agent_config_token :: "string option"

definition config_token_header :: "control_client_config \<Rightarrow> string option" where
  "config_token_header control =
     (case map_option trim (cc_agent_config_token control) of
        None \<Rightarrow> None
      | Some token \<Rightarrow> if token \<noteq> [] then Some token else None)"

datatype fetch_error = InvalidHeader | RequestFailed | BearerRejected | ConfigStatus nat | DecodeFailed

definition header_from_str :: "(string \<Rightarrow> bool) \<Rightarrow> string \<Rightarrow> (fetch_error, string) result" where
  "header_from_str ok v = (if ok v then Inr v else Inl InvalidHeader)"

text \<open>The headers of the WebSocket upgrade.\<close>

definition websocket_headers :: "(string \<Rightarrow> bool) \<Rightarrow> control_client_config \<Rightarrow> (fetch_error, headers) result" where
  "websocket_headers ok control =
     and_then (header_from_str ok (''Bearer '' @ cc_token control)) (\<lambda>authorization.
       (let h = [AUTHORIZATION \<mapsto> authorization] in
        case config_token_header control of
          None \<Rightarrow> Inr h
        | Some token \<Rightarrow>
            and_then (header_from_str ok token) (\<lambda>token.
              Inr (h(AGENT_CONFIG_TOKEN_HEADER \<mapsto> token)))))"

text \<open>\<open>reqwest\<close> keeps a header value it cannot build until the request is sent, which then fails.\<close>

definition request_header :: "(string \<Rightarrow> bool) \<Rightarrow> string \<Rightarrow> (fetch_error, string) result" where
  "request_header ok v = (if ok v then Inr v else Inl RequestFailed)"

definition config_request_headers ::
    "(string \<Rightarrow> bool) \<Rightarrow> control_client_config \<Rightarrow> agent_identity \<Rightarrow> string \<Rightarrow> (fetch_error, headers) result" where
  "config_request_headers ok control identity config_session_id =
     and_then (request_header ok (''Bearer '' @ cc_token control)) (\<lambda>authorization.
     and_then (request_header ok (id_agent_id identity)) (\<lambda>agent_id.
     and_then (request_header ok config_session_id) (\<lambda>session.
       (let h = [AUTHORIZATION \<mapsto> authorization, AGENT_ID_HEADER \<mapsto> agent_id, CONFIG_SESSION_ID_HEADER \<mapsto> session] in
        case config_token_header control of
          None \<Rightarrow> Inr h
        | Some token \<Rightarrow>
            and_then (request_header ok token) (\<lambda>token.
              Inr (h(AGENT_CONFIG_TOKEN_HEADER \<mapsto> token)))))))"

definition fetch_remote_config ::
    "(string \<Rightarrow> bool) \<Rightarrow> (string \<Rightarrow> headers \<Rightarrow> (nat \<times> 'b) option) \<Rightarrow> ('b \<Rightarrow> agent_runtime_config option) \<Rightarrow> control_client_config \<Rightarrow>
     agent_identity \<Rightarrow> string \<Rightarrow> (fetch_error, agent_runtime_config) result" where
  "fetch_remote_config ok send decode control identity config_session_id =
     (let url = trim_end_char (CHR ''/'') (cc_http_url control) @ ''/agent/config'' in
      and_then (config_request_headers ok control identity config_session_id) (\<lambda>request.
      and_then (ok_or RequestFailed (send url request)) (\<lambda>(status, body).
        if status = 401 then Inl BearerRejected
        else if 400 \<le> status \<and> status < 600 then Inl (ConfigStatus status)
        else ok_or DecodeFailed (decode body))))"

section \<open>Applying a configuration\<close>

record agent_state =
  as_config :: agent_runtime_config
  as_session :: "string option"
  as_files :: "string \<rightharpoonup> string"

record ('b, 'io) fetch_env =
  fe_header_ok :: "string \<Rightarrow> bool"
  fe_send :: "string \<Rightarrow> headers \<Rightarrow> (nat \<times> 'b) option"
  fe_decode :: "'b \<Rightarrow> agent_runtime_config option"
  fe_to_json :: "agent_runtime_config \<Rightarrow> string option"
  fe_save :: "'io save_io"

definition refresh_remote_config ::
    "('b, 'io) fetch_env \<Rightarrow> control_client_config \<Rightarrow> agent_identity \<Rightarrow> string \<Rightarrow> string \<Rightarrow> agent_state \<Rightarrow> agent_state" where
  "refresh_remote_config env control identity config_session_id state_dir st =
     (case fetch_remote_config (fe_header_ok env) (fe_send env) (fe_decode env) control identity config_session_id of
        Inl _ \<Rightarrow> st
      | Inr config \<Rightarrow>
          (case runtime_validate config of
             Inl _ \<Rightarrow> st
           | Inr _ \<Rightarrow>
               (let (files, _) = save_last_known_config (fe_to_json env) (fe_save env) state_dir config (as_files st)
                in st\<lparr>as_files := files, as_config := config\<rparr>)))"

definition refresh_with_current_session ::
    "('b, 'io) fetch_env \<Rightarrow> control_client_config \<Rightarrow> agent_identity \<Rightarrow> string \<Rightarrow> agent_state \<Rightarrow> agent_state" where
  "refresh_with_current_session env control identity state_dir st =
     (case as_session st of
        None \<Rightarrow> st
      | Some session \<Rightarrow> refresh_remote_config env control identity session state_dir st)"

section \<open>The WebSocket session\<close>

definition enabled_collectors :: "agent_runtime_config \<Rightarrow> string list" where
  "enabled_collectors config =
     map sp_name (filter (\<lambda>spec. fst (sp_schedule spec config)) collector_specs)"

definition hello_message :: "string \<Rightarrow> agent_identity \<Rightarrow> agent_control_message" where
  "hello_message agent_version identity =
     Hello (id_agent_id identity) (id_hostname identity) agent_version (id_boot_id identity)"

definition heartbeat_message :: "string \<Rightarrow> agent_identity \<Rightarrow> agent_runtime_config \<Rightarrow> agent_control_message" where
  "heartbeat_message agent_version identity config =
     Heartbeat (id_agent_id identity) (id_hostname identity) agent_version (cfg_version config)
       (enabled_collectors config)"

datatype ws_error = BadUrl | BadRequest fetch_error | ConnectFailed | SendMessageFailed | ReadMessageFailed | BadServerMessage

definition handle_server_message ::
    "(string \<Rightarrow> server_control_message option) \<Rightarrow> ('b, 'io) fetch_env \<Rightarrow> control_client_config \<Rightarrow>
     agent_identity \<Rightarrow> string \<Rightarrow> string \<Rightarrow> agent_state \<Rightarrow> agent_state \<times> (ws_error, unit) result" where
  "handle_server_message parse_msg env control identity state_dir text st =
     (case parse_msg text of
        None \<Rightarrow> (st, Inl BadServerMessage)
      | Some (HelloAck _ session) \<Rightarrow>
          (refresh_remote_config env control identity session state_dir (st\<lparr>as_session := Some session\<rparr>), Inr ())
      | Some (ConfigChanged _) \<Rightarrow> (refresh_with_current_session env control identity state_dir st, Inr ()))"

datatype ws_event = HeartbeatDue | ServerText string | ServerOther | ServerEnd | ServerReadError

text \<open>One turn of the \<open>select!\<close> loop: the new state, the message written, and the end of the session.\<close>

definition agent_ws_step ::
    "string \<Rightarrow> (string \<Rightarrow> server_control_message option) \<Rightarrow> ('b, 'io) fetch_env \<Rightarrow> control_client_config \<Rightarrow>
     agent_identity \<Rightarrow> string \<Rightarrow> ws_event \<Rightarrow> bool \<Rightarrow> agent_state \<Rightarrow>
     agent_state \<times> agent_control_message list \<times> (ws_error, unit) result option" where
  "agent_ws_step agent_version parse_msg env control identity state_dir event send_ok st =
     (case event of
        HeartbeatDue \<Rightarrow>
          (st, [heartbeat_message agent_version identity (as_config st)],
           if send_ok then None else Some (Inl SendMessageFailed))
      | ServerText text \<Rightarrow>
          (let (st', r) = handle_server_message parse_msg env control identity state_dir text st
           in (st', [], case r of Inl e \<Rightarrow> Some (Inl e) | Inr _ \<Rightarrow> None))
      | ServerOther \<Rightarrow> (st, [], None)
      | ServerEnd \<Rightarrow> (st, [], Some (Inr ()))
      | ServerReadError \<Rightarrow> (st, [], Some (Inl ReadMessageFailed)))"

section \<open>Reconnecting\<close>

definition initial_backoff :: duration where "initial_backoff = from_secs 5"

text \<open>One turn of \<open>control_websocket_loop\<close> after a session ended with \<open>r\<close>: the pause it makes and the
  backoff of the next turn; the session id is forgotten first.\<close>

definition reconnect_step :: "(ws_error, unit) result \<Rightarrow> duration \<Rightarrow> duration \<times> duration" where
  "reconnect_step r backoff =
     (let b = (case r of Inr _ \<Rightarrow> from_secs 5 | Inl _ \<Rightarrow> backoff) in (b, min (b * 2) (from_secs 60)))"

definition session_ended :: "agent_state \<Rightarrow> agent_state" where
  "session_ended st = st\<lparr>as_session := None\<rparr>"

primrec pauses :: "duration \<Rightarrow> (ws_error, unit) result list \<Rightarrow> duration list" where
  "pauses backoff [] = []"
| "pauses backoff (r # rs) = (let (pause, next_backoff) = reconnect_step r backoff in pause # pauses next_backoff rs)"

text \<open>A whole session in a world that answers to the connection, to the two first messages and then with
  a list of events, each with what the server and the file system answer at that time; no result means
  that the session is still open at the end of the list.\<close>

type_synonym ('b, 'io) ws_turn = "ws_event \<times> bool \<times> ('b, 'io) fetch_env"

record ('b, 'io) ws_world =
  ww_header_ok :: "string \<Rightarrow> bool"
  ww_request_ok :: bool
  ww_connect_ok :: bool
  ww_hello_ok :: bool
  ww_heartbeat_ok :: bool
  ww_events :: "('b, 'io) ws_turn list"

fun ws_loop ::
    "string \<Rightarrow> (string \<Rightarrow> server_control_message option) \<Rightarrow> control_client_config \<Rightarrow> agent_identity \<Rightarrow> string \<Rightarrow> ('b, 'io) ws_turn list \<Rightarrow> agent_state \<Rightarrow>
     agent_state \<times> agent_control_message list \<times> (ws_error, unit) result option" where
  "ws_loop agent_version parse_msg control identity state_dir [] st = (st, [], None)"
| "ws_loop agent_version parse_msg control identity state_dir ((event, send_ok, env) # events) st =
     (let (st', written, ended) = agent_ws_step agent_version parse_msg env control identity state_dir event send_ok st in
      case ended of
        Some r \<Rightarrow> (st', written, Some r)
      | None \<Rightarrow>
          (let (st'', more, r) = ws_loop agent_version parse_msg control identity state_dir events st'
           in (st'', written @ more, r)))"

definition run_control_websocket ::
    "string \<Rightarrow> (string \<Rightarrow> server_control_message option) \<Rightarrow> control_client_config \<Rightarrow> agent_identity \<Rightarrow> string \<Rightarrow> ('b, 'io) ws_world \<Rightarrow> agent_state \<Rightarrow>
     agent_state \<times> agent_control_message list \<times> (ws_error, unit) result option" where
  "run_control_websocket agent_version parse_msg control identity state_dir w st =
     (if \<not> ww_request_ok w then (st, [], Some (Inl BadUrl))
      else
        (case websocket_headers (ww_header_ok w) control of
           Inl e \<Rightarrow> (st, [], Some (Inl (BadRequest e)))
         | Inr _ \<Rightarrow>
             if \<not> ww_connect_ok w then (st, [], Some (Inl ConnectFailed))
             else
               (let hello = hello_message agent_version identity in
                if \<not> ww_hello_ok w then (st, [hello], Some (Inl SendMessageFailed))
                else
                  (let beat = heartbeat_message agent_version identity (as_config st) in
                   if \<not> ww_heartbeat_ok w then (st, [hello, beat], Some (Inl SendMessageFailed))
                   else
                     (let (st', written, r) =
                            ws_loop agent_version parse_msg control identity state_dir (ww_events w) st
                      in (st', hello # beat # written, r))))))"

fun control_websocket_loop ::
    "string \<Rightarrow> (string \<Rightarrow> server_control_message option) \<Rightarrow> control_client_config \<Rightarrow> agent_identity \<Rightarrow> string \<Rightarrow> duration \<Rightarrow> ('b, 'io) ws_world list \<Rightarrow> agent_state \<Rightarrow> agent_state \<times> duration list" where
  "control_websocket_loop agent_version parse_msg control identity state_dir backoff [] st = (st, [])"
| "control_websocket_loop agent_version parse_msg control identity state_dir backoff (w # ws) st =
     (case run_control_websocket agent_version parse_msg control identity state_dir w st of
        (st', _, None) \<Rightarrow> (st', [])
      | (st', _, Some r) \<Rightarrow>
          (let (pause, backoff') = reconnect_step r backoff;
               (st'', pauses) =
                 control_websocket_loop agent_version parse_msg control identity state_dir backoff' ws
                   (session_ended st')
           in (st'', pause # pauses)))"

text \<open>One turn of \<open>config_poll_loop\<close>: how long it waits, and the state after the refresh that follows.\<close>

definition poll_wait :: "agent_identity \<Rightarrow> agent_state \<Rightarrow> duration" where
  "poll_wait identity st =
     jittered_interval (config_poll_interval_seconds (cfg_agent (as_config st))) (id_agent_id identity)"

section \<open>Starting the agent\<close>

text \<open>The part of \<open>execute\<close> before the tasks are spawned: the control client, if a control token is
  configured, and the shared state.  \<open>sink\<close> says whether the OTLP exporter can be built.\<close>

datatype 'io start_error = LocalFailed "'io local_error" | IdentityFailed "'io identity_error" | InvalidInitialConfig config_error | SinkFailed

definition agent_start ::
    "(string \<Rightarrow> agent_identity \<Rightarrow> bool) \<Rightarrow> (string \<Rightarrow> (io_error, string) result) \<Rightarrow> (string \<Rightarrow> (toml_error, agent_bootstrap_config) result) \<Rightarrow>
     (string \<Rightarrow> env_var) \<Rightarrow> (string \<Rightarrow> agent_runtime_config option) \<Rightarrow> (string \<rightharpoonup> string) \<Rightarrow>
     'io id_fs \<Rightarrow> string option \<Rightarrow> string \<Rightarrow> string option \<Rightarrow> string option \<Rightarrow>
     ('io start_error, control_client_config option \<times> agent_identity \<times> agent_bootstrap_config \<times> agent_state) result" where
  "agent_start sink read toml env from_json files id_fs id_file hostname boot_id path =
     and_then (map_err LocalFailed (load_bootstrap_config read toml path)) (\<lambda>b0.
     and_then (map_err LocalFailed (optional_env_secret env ''TALIA_CONTROL_TOKEN'')) (\<lambda>t1.
     (let b1 = (case t1 of None \<Rightarrow> b0 | Some t \<Rightarrow> b0\<lparr>bs_control_token := Some t\<rparr>) in
     and_then (map_err LocalFailed (optional_env_secret env ''TALIA_AGENT_CONFIG_TOKEN'')) (\<lambda>t2.
     (let b2 = (case t2 of None \<Rightarrow> b1 | Some t \<Rightarrow> b1\<lparr>bs_agent_config_token := Some t\<rparr>) in
     and_then (map_err IdentityFailed (snd (load_or_create_agent_id id_fs id_file))) (\<lambda>agent_id.
     (let identity = \<lparr>id_agent_id = agent_id, id_hostname = hostname, id_boot_id = boot_id\<rparr>;
          runtime_config = (case load_last_known_config from_json files (bs_state_dir b2) of
                              Some c \<Rightarrow> c | None \<Rightarrow> fallback_runtime_config b2) in
     and_then (map_err InvalidInitialConfig (runtime_validate runtime_config)) (\<lambda>_.
     and_then (if sink (bs_otlp_endpoint b2) identity then Inr () else Inl SinkFailed) (\<lambda>_.
     (let control = (case bs_control_token b2 of
            None \<Rightarrow> None
          | Some token \<Rightarrow>
              if trim token = [] then None
              else Some \<lparr>cc_http_url = bs_control_http_url b2, cc_ws_url = bs_control_ws_url b2,
                         cc_token = token, cc_agent_config_token = bs_agent_config_token b2\<rparr>)
      in Inr (control, identity, b2,
              \<lparr>as_config = runtime_config, as_session = None, as_files = files\<rparr>)))))))))))"

section \<open>Facts on the poll interval\<close>

lemma agent_fnv_loop_fold: "agent_fnv_loop h bs = fold fnv_round bs h"
  by (induction h bs rule: agent_fnv_loop.induct) (simp_all add: fnv_round_def fnv_prime_def)

lemma agent_fnv1a64_eq: "agent_fnv1a64 = fnv1a64"
  by (simp add: fun_eq_iff agent_fnv1a64_def fnv1a64_def agent_fnv_loop_fold fnv_basis_def)

lemma jitter_offset:
  fixes base h :: u64
  assumes "unat base div 10 \<noteq> 0"
  shows "unat (h mod (base div 10 * 2 + 1)) \<le> 2 * (unat base div 10)"
proof -
  have "unat base div 10 * 10 \<le> unat base" by simp
  with assms have "2 * (unat base div 10) + 1 < 2 ^ 64" using unat_u64_less [of base] by linarith
  then have u: "unat (base div 10 * 2 + 1) = 2 * (unat base div 10) + 1"
    by (simp add: unat_word_ariths unat_div)
  then have "unat (h mod (base div 10 * 2 + 1)) = unat h mod (2 * (unat base div 10) + 1)"
    by (simp add: unat_mod)
  also have "\<dots> < 2 * (unat base div 10) + 1" by simp
  finally show ?thesis by simp
qed

text \<open>The wait is within a tenth of the configured interval on either side, as long as the interval
  and its tenth fit in 64 bits together.\<close>

lemma jittered_interval_bounds:
  assumes "unat base + unat base div 10 < 2 ^ 64"
  shows "from_secs base - (unat base div 10) * 1000000000 \<le> jittered_interval base agent_id"
    "jittered_interval base agent_id \<le> from_secs base + (unat base div 10) * 1000000000"
proof -
  let ?s = "unat base div 10"
  have u: "unat (base div 10) = ?s" by (simp add: unat_div)
  show "from_secs base - ?s * 1000000000 \<le> jittered_interval base agent_id"
    "jittered_interval base agent_id \<le> from_secs base + ?s * 1000000000"
  proof (atomize (full), cases "?s = 0")
    case True
    then have "base div 10 = 0" using u by (simp add: unat_eq_zero [symmetric])
    with True show "from_secs base - ?s * 1000000000 \<le> jittered_interval base agent_id \<and>
        jittered_interval base agent_id \<le> from_secs base + ?s * 1000000000"
      by (simp add: jittered_interval_def)
  next
    case False
    let ?o = "agent_fnv1a64 (as_bytes agent_id) mod (base div 10 * 2 + 1)"
    have o: "unat ?o \<le> 2 * ?s" by (rule jitter_offset [OF False])
    have s: "?s \<le> unat base" by simp
    have sub: "unat (base - base div 10) = unat base - ?s"
      using s u by (simp add: unat_sub word_le_nat_alt)
    have "unat base - ?s + unat ?o < 2 ^ 64" using assms o s by linarith
    then have v: "unat (base - base div 10 + ?o) = unat base - ?s + unat ?o"
      using sub by (simp add: unat_word_ariths(1))
    have "base div 10 \<noteq> 0" using False u by (metis unat_0)
    then have "jittered_interval base agent_id = (unat base - ?s + unat ?o) * 1000000000"
      using v by (simp add: jittered_interval_def Let_def from_secs_def)
    moreover have "from_secs base = unat base * 1000000000" by (simp add: from_secs_def)
    ultimately show "from_secs base - ?s * 1000000000 \<le> jittered_interval base agent_id \<and>
        jittered_interval base agent_id \<le> from_secs base + ?s * 1000000000"
      using o s by (auto simp: algebra_simps)
  qed
qed

text \<open>Without that condition the sum wraps: the largest interval, which validation accepts, gives one agent
  a wait of less than a tenth of it.\<close>

lemma jittered_interval_wraps:
  "jittered_interval (- 1) ''web'' = from_secs 1284674112431936036 \<and>
   agent_settings_validate (agent_settings_default\<lparr>config_poll_interval_seconds := - 1\<rparr>) = Inr ()"
proof
  show "jittered_interval (- 1) ''web'' = from_secs 1284674112431936036" by code_simp
  show "agent_settings_validate (agent_settings_default\<lparr>config_poll_interval_seconds := - 1\<rparr>) = Inr ()"
    by (simp add: agent_settings_validate_def agent_settings_default_def default_interval_defs)
qed

section \<open>Facts on applying configurations\<close>

lemma refresh_keeps_valid:
  "runtime_wf (as_config st) \<Longrightarrow> runtime_wf (as_config (refresh_remote_config env control identity sid dir st))"
  by (auto simp: refresh_remote_config_def Let_def runtime_validate_iff [symmetric] split: sum.splits prod.splits)

lemma refresh_current_keeps_valid:
  "runtime_wf (as_config st) \<Longrightarrow> runtime_wf (as_config (refresh_with_current_session env control identity dir st))"
  by (simp add: refresh_with_current_session_def refresh_keeps_valid split: option.splits)

lemma refresh_keeps_session [simp]:
  "as_session (refresh_remote_config env control identity sid dir st) = as_session st"
  "as_session (refresh_with_current_session env control identity dir st) = as_session st"
  by (auto simp: refresh_with_current_session_def refresh_remote_config_def Let_def
      split: option.splits sum.splits prod.splits)

lemma ws_step_keeps_valid:
  "runtime_wf (as_config st) \<Longrightarrow>
     agent_ws_step ver parse_msg env control identity dir event ok st = (st', ws, r) \<Longrightarrow> runtime_wf (as_config st')"
  by (auto simp: agent_ws_step_def handle_server_message_def refresh_keeps_valid refresh_current_keeps_valid
      split: ws_event.splits prod.splits option.splits server_control_message.splits)

text \<open>A fetched configuration that validates is applied and, when it could be saved, is what a restart
  finds.\<close>

lemma refresh_applies:
  assumes "fetch_remote_config (fe_header_ok env) (fe_send env) (fe_decode env) control identity sid = Inr config"
  shows "as_config (refresh_remote_config env control identity sid dir st) =
    (if runtime_wf config then config else as_config st)"
  using assms by (auto simp: refresh_remote_config_def Let_def runtime_validate_iff [symmetric]
      split: sum.splits prod.splits)

lemma refresh_saves:
  assumes "fetch_remote_config (fe_header_ok env) (fe_send env) (fe_decode env) control identity sid = Inr config"
    and "runtime_wf config"
    and "sio_create_dir_all (fe_save env) = Inr ()" "sio_write (fe_save env) = None"
    and "fe_to_json env config = Some json" "from_json json = Some config"
  shows "load_last_known_config from_json (as_files (refresh_remote_config env control identity sid dir st)) dir =
    Some config"
proof -
  have "save_last_known_config (fe_to_json env) (fe_save env) dir config (as_files st) =
      ((as_files st)(last_known_config_path dir \<mapsto> json), Inr ())"
    using assms(3-5) by (simp add: save_last_known_config_def)
  then have "as_files (refresh_remote_config env control identity sid dir st) =
      (as_files st)(last_known_config_path dir \<mapsto> json)"
    using assms(1,2) by (auto simp: refresh_remote_config_def runtime_validate_iff [symmetric])
  moreover have "runtime_validate config = Inr ()" using assms(2) by (simp add: runtime_validate_iff)
  ultimately show ?thesis using assms(6) by (simp add: load_last_known_config_def)
qed

section \<open>Facts on reconnecting\<close>

definition backoff_ok :: "duration \<Rightarrow> bool" where
  "backoff_ok b \<longleftrightarrow> from_secs 5 \<le> b \<and> b \<le> from_secs 60"

lemma reconnect_step_ok:
  "backoff_ok b \<Longrightarrow> backoff_ok (fst (reconnect_step r b)) \<and> backoff_ok (snd (reconnect_step r b))"
  by (auto simp: reconnect_step_def backoff_ok_def from_secs_def split: sum.splits)

lemma pauses_ok: "backoff_ok b \<Longrightarrow> d \<in> set (pauses b rs) \<Longrightarrow> backoff_ok d"
proof (induction rs arbitrary: b)
  case Nil
  then show ?case by simp
next
  case (Cons r rs)
  obtain p n where r: "reconnect_step r b = (p, n)" by fastforce
  then have "backoff_ok p" "backoff_ok n" using reconnect_step_ok [OF Cons.prems(1), of r] by simp_all
  then show ?case using Cons r by auto
qed

text \<open>After \<open>k\<close> failures in a row the pause is 5 seconds doubled \<open>k\<close> times, at most a minute; a session
  that ended in order starts over.\<close>

lemma pauses_failures:
  "b \<le> from_secs 60 \<Longrightarrow> k < length es \<Longrightarrow> pauses b (map Inl es) ! k = min (b * 2 ^ k) (from_secs 60)"
proof (induction es arbitrary: b k)
  case Nil
  then show ?case by simp
next
  case (Cons e es)
  show ?case
  proof (cases k)
    case 0
    then show ?thesis using Cons.prems by (simp add: reconnect_step_def min_absorb1)
  next
    case (Suc j)
    then have "pauses (min (b * 2) (from_secs 60)) (map Inl es) ! j =
        min (min (b * 2) (from_secs 60) * 2 ^ j) (from_secs 60)"
      using Cons by simp
    also have "\<dots> = min (b * 2 ^ Suc j) (from_secs 60)"
    proof (cases "b * 2 \<le> from_secs 60")
      case True
      then show ?thesis by (simp add: min_absorb1 mult.assoc)
    next
      case False
      have "1 \<le> (2 :: nat) ^ j" by simp
      then have "from_secs 60 \<le> from_secs 60 * 2 ^ j" "b * 2 \<le> b * 2 * 2 ^ j"
        by (metis mult.right_neutral mult_le_mono2)+
      with False have "from_secs 60 \<le> b * 2 * 2 ^ j" by linarith
      then have "from_secs 60 \<le> b * 2 ^ Suc j" by (simp add: mult.assoc)
      moreover have "min (b * 2) (from_secs 60) = from_secs 60" using False by simp
      ultimately show ?thesis using \<open>from_secs 60 \<le> from_secs 60 * 2 ^ j\<close> by (simp only: min_absorb2)
    qed
    finally show ?thesis using Suc by (simp add: reconnect_step_def Let_def)
  qed
qed

section \<open>Facts on the start\<close>

lemma agent_start_wf:
  "agent_start sink read toml env from_json files id_fs id_file hostname boot path = Inr (control, identity, b, st) \<Longrightarrow>
     runtime_wf (as_config st) \<and> as_session st = None"
  by (auto simp: agent_start_def Let_def runtime_validate_iff)

text \<open>The id an agent starts with has no blanks around it.\<close>

lemma agent_start_id_trimmed:
  assumes "agent_start sink read toml env from_json files id_fs id_file hostname boot path = Inr (control, identity, b, st)"
    and "trim (ifs_uuid id_fs) = ifs_uuid id_fs" "ifs_uuid id_fs \<noteq> []"
  shows "trim (id_agent_id identity) = id_agent_id identity"
proof -
  have "snd (load_or_create_agent_id id_fs id_file) = Inr (id_agent_id identity)"
    using assms(1) by (auto simp: agent_start_def Let_def)
  then obtain file' where "load_or_create_agent_id id_fs id_file = (file', Inr (id_agent_id identity))"
    by (metis prod.collapse)
  from agent_id_trimmed [OF this assms(2,3)] show ?thesis by simp
qed

text \<open>With no last-known configuration the agent runs its bootstrap file's sections.\<close>

lemma agent_start_fallback:
  "agent_start sink read toml env from_json files id_fs id_file hostname boot path = Inr (control, identity, b, st) \<Longrightarrow>
     as_config st = (case load_last_known_config from_json files (bs_state_dir b) of
       Some c \<Rightarrow> c | None \<Rightarrow> fallback_runtime_config b)"
  by (auto simp: agent_start_def Let_def)

section \<open>Properties\<close>

lemma connect_fails:
  "\<not> ww_connect_ok w \<Longrightarrow>
     \<exists>e written. run_control_websocket ver parse_msg control identity dir w st = (st, written, Some (Inl e))"
  by (auto simp: run_control_websocket_def split: sum.splits)

text \<open>The pauses of the loop are those of its session results.\<close>

lemma control_loop_pauses:
  "\<exists>rs. snd (control_websocket_loop ver parse_msg control identity dir backoff ws st) = pauses backoff rs \<and>
     ((\<forall>w\<in>set ws. \<not> ww_connect_ok w) \<longrightarrow> (\<exists>es. rs = map Inl es \<and> length es = length ws))"
proof (induction ws arbitrary: backoff st)
  case Nil
  show ?case by (rule exI [of _ "[]"]) simp
next
  case (Cons w ws)
  obtain st' written r where run: "run_control_websocket ver parse_msg control identity dir w st = (st', written, r)"
    by (metis surj_pair)
  show ?case
  proof (cases r)
    case None
    have "ww_connect_ok w" using connect_fails [of w ver parse_msg control identity dir st] run None by auto
    then show ?thesis using run None by (intro exI [of _ "[]"]) simp
  next
    case (Some res)
    obtain p b where step: "reconnect_step res backoff = (p, b)" by fastforce
    obtain rs where rs: "snd (control_websocket_loop ver parse_msg control identity dir b ws (session_ended st')) = pauses b rs"
      "(\<forall>w\<in>set ws. \<not> ww_connect_ok w) \<longrightarrow> (\<exists>es. rs = map Inl es \<and> length es = length ws)"
      using Cons.IH by blast
    have "snd (control_websocket_loop ver parse_msg control identity dir backoff (w # ws) st) = pauses backoff (res # rs)"
      using run Some step rs(1) by (simp add: case_prod_unfold)
    moreover have "\<exists>es. res # rs = map Inl es \<and> length es = length (w # ws)" if "\<forall>v\<in>set (w # ws). \<not> ww_connect_ok v"
    proof -
      have "\<forall>w\<in>set ws. \<not> ww_connect_ok w" using that by simp
      with rs(2) obtain es where "rs = map Inl es" "length es = length ws" by blast
      moreover have "\<not> ww_connect_ok w" using that by simp
      then obtain e where "res = Inl e"
        using connect_fails [of w ver parse_msg control identity dir st] run Some by auto
      ultimately show ?thesis by (intro exI [of _ "e # es"]) simp
    qed
    ultimately show ?thesis by (intro exI [of _ "res # rs"] conjI impI)
  qed
qed

text \<open>C37: Reconnecting is paced: whatever ends the sessions, every pause of the loop is between five seconds and
  a minute; and while the server cannot be reached, the pauses are five seconds doubled each time, up
  to a minute.\<close>

theorem reconnect_pauses:
  shows "(\<forall>d\<in>set (snd (control_websocket_loop ver parse_msg control identity dir initial_backoff ws st)).
       from_secs 5 \<le> d \<and> d \<le> from_secs 60) \<and>
    ((\<forall>w\<in>set ws. \<not> ww_connect_ok w) \<longrightarrow>
       (\<forall>k<length ws. snd (control_websocket_loop ver parse_msg control identity dir initial_backoff ws st) ! k =
          min (from_secs 5 * 2 ^ k) (from_secs 60)))"
proof -
  obtain rs where rs: "snd (control_websocket_loop ver parse_msg control identity dir initial_backoff ws st) = pauses initial_backoff rs"
    "(\<forall>w\<in>set ws. \<not> ww_connect_ok w) \<longrightarrow> (\<exists>es. rs = map Inl es \<and> length es = length ws)"
    using control_loop_pauses [of ver parse_msg control identity dir initial_backoff ws st] by (elim exE conjE)
  have ok: "backoff_ok initial_backoff" by (simp add: backoff_ok_def initial_backoff_def from_secs_def)
  have le: "from_secs 5 \<le> from_secs 60" by (simp add: from_secs_def)
  show ?thesis
  proof (intro conjI impI allI ballI)
    fix d assume "d \<in> set (snd (control_websocket_loop ver parse_msg control identity dir initial_backoff ws st))"
    then have "backoff_ok d" using pauses_ok [OF ok] rs(1) by simp
    then show "from_secs 5 \<le> d" "d \<le> from_secs 60" by (simp_all add: backoff_ok_def)
  next
    fix k assume "\<forall>w\<in>set ws. \<not> ww_connect_ok w" "k < length ws"
    then obtain es where "rs = map Inl es" "k < length es" using rs(2) by auto
    then show "snd (control_websocket_loop ver parse_msg control identity dir initial_backoff ws st) ! k =
        min (from_secs 5 * 2 ^ k) (from_secs 60)"
      using pauses_failures [OF le] rs(1) by (simp add: initial_backoff_def)
  qed
qed

definition demo_endpoint :: control_client_config where
  "demo_endpoint = \<lparr>cc_http_url = ''http://127.0.0.1:8080'', cc_ws_url = ''ws://127.0.0.1:8080/agent/control'',
     cc_token = ''agents'', cc_agent_config_token = None\<rparr>"

definition demo_node :: agent_identity where
  "demo_node = \<lparr>id_agent_id = ''a1'', id_hostname = ''web'', id_boot_id = None\<rparr>"

definition demo_running :: agent_state where
  "demo_running = \<lparr>as_config = runtime_default, as_session = None, as_files = Map.empty\<rparr>"

definition demo_unreachable :: "(string, io_error) ws_world" where
  "demo_unreachable = \<lparr>ww_header_ok = (\<lambda>_. True), ww_request_ok = True, ww_connect_ok = False, ww_hello_ok = True,
     ww_heartbeat_ok = True, ww_events = []\<rparr>"

lemma reconnect_pauses_witness:
  "snd (control_websocket_loop ''0.1.0'' (\<lambda>_. None) demo_endpoint demo_node ''/state'' initial_backoff
     (replicate 6 demo_unreachable) demo_running) ! 5 = from_secs 60"
proof -
  have "\<forall>w\<in>set (replicate 6 demo_unreachable). \<not> ww_connect_ok w" by (simp add: demo_unreachable_def)
  from reconnect_pauses [of "''0.1.0''" "\<lambda>_. None" demo_endpoint demo_node "''/state''" "replicate 6 demo_unreachable" demo_running,
      THEN conjunct2, rule_format, OF bspec [OF this], of 5]
  have "snd (control_websocket_loop ''0.1.0'' (\<lambda>_. None) demo_endpoint demo_node ''/state'' initial_backoff
     (replicate 6 demo_unreachable) demo_running) ! 5 = min (from_secs 5 * 2 ^ 5) (from_secs 60)"
    by simp
  then show ?thesis by (simp add: from_secs_def)
qed

text \<open>The poll is spread but never off by more than a tenth: an agent waits between nine and eleven tenths
  of the configured interval, as long as the interval and its tenth fit in 64 bits together.\<close>

lemma poll_wait_within_a_tenth:
  assumes "config_poll_interval_seconds (cfg_agent (as_config st)) = seconds"
    and "unat seconds + unat seconds div 10 < 2 ^ 64"
  shows "from_secs seconds - (unat seconds div 10) * 1000000000 \<le> poll_wait identity st \<and>
    poll_wait identity st \<le> from_secs seconds + (unat seconds div 10) * 1000000000"
  using jittered_interval_bounds [OF assms(2)] assms(1) by (simp add: poll_wait_def)

lemma poll_wait_within_a_tenth_witness: "from_secs 810 \<le> poll_wait demo_node demo_running"
proof -
  have "config_poll_interval_seconds (cfg_agent (as_config demo_running)) = 900" by code_simp
  from poll_wait_within_a_tenth [OF this, of demo_node] show ?thesis by (simp add: from_secs_def)
qed

text \<open>C16: What the server configured survives a restart without the server: a fetched configuration that
  validates is applied, and once it could be saved, a new start on the same state directory, with any
  bootstrap file pointing there, runs exactly that configuration.\<close>

theorem fetched_config_survives_restart:
  assumes "fetch_remote_config (fe_header_ok env) (fe_send env) (fe_decode env) control identity session = Inr config"
    and "runtime_wf config"
    and "sio_create_dir_all (fe_save env) = Inr ()" "sio_write (fe_save env) = None"
    and "fe_to_json env config = Some json" "from_json json = Some config"
    and "agent_start sink read toml var from_json (as_files (refresh_remote_config env control identity session (bs_state_dir b) st))
           id_fs id_file hostname boot path = Inr (client, identity', b, st')"
  shows "as_config (refresh_remote_config env control identity session (bs_state_dir b) st) = config \<and>
    as_config st' = config"
  using refresh_applies [OF assms(1), of "bs_state_dir b" st] assms(2)
    agent_start_fallback [OF assms(7)] refresh_saves [OF assms(1-5), of from_json "bs_state_dir b" st, OF assms(6)]
  by simp

definition demo_update :: "(string, io_error) fetch_env" where
  "demo_update =
     \<lparr>fe_header_ok = (\<lambda>_. True), fe_send = (\<lambda>_ _. Some (200, ''v7'')),
      fe_decode = (\<lambda>v. Some (runtime_default\<lparr>cfg_version := v\<rparr>)), fe_to_json = (\<lambda>c. Some (cfg_version c)),
      fe_save = \<lparr>sio_create_dir_all = Inr (), sio_write = None\<rparr>\<rparr>"

lemma fetched_config_survives_restart_witness:
  "\<exists>st'. as_config st' = runtime_default\<lparr>cfg_version := ''v7''\<rparr> \<and>
     agent_start (\<lambda>_ _. True) (\<lambda>_. Inl ''no file'') (\<lambda>_. Inr bootstrap_default) (\<lambda>_. NotPresent)
       (\<lambda>v. Some (runtime_default\<lparr>cfg_version := v\<rparr>))
       (as_files (refresh_remote_config demo_update demo_endpoint demo_node ''c1'' (bs_state_dir bootstrap_default) demo_running))
       (demo_fs ''u1'') (Some ''a1'') ''web'' None None = Inr (None, demo_node, bootstrap_default, st')"
proof -
  let ?c = "runtime_default\<lparr>cfg_version := ''v7''\<rparr>"
  let ?json = "\<lambda>v. Some (runtime_default\<lparr>cfg_version := v\<rparr>)"
  let ?files = "as_files (refresh_remote_config demo_update demo_endpoint demo_node ''c1'' (bs_state_dir bootstrap_default) demo_running)"
  have f: "fetch_remote_config (fe_header_ok demo_update) (fe_send demo_update) (fe_decode demo_update)
      demo_endpoint demo_node ''c1'' = Inr ?c"
    by (simp add: fetch_remote_config_def config_request_headers_def request_header_def demo_update_def
        demo_endpoint_def config_token_header_def Let_def)
  have wf: "runtime_wf ?c"
    using runtime_default_wf by (auto simp: runtime_wf_version runtime_wf_def sections_wf_def is_ws_def char_code_def)
  have env: "sio_create_dir_all (fe_save demo_update) = Inr ()" "sio_write (fe_save demo_update) = None"
    "fe_to_json demo_update ?c = Some ''v7''" "?json ''v7'' = Some ?c"
    by (simp_all add: demo_update_def)
  have saved: "load_last_known_config ?json ?files (bs_state_dir bootstrap_default) = Some ?c"
    by (rule refresh_saves [where from_json = ?json and json = "''v7''", OF f wf env])
  have id: "load_or_create_agent_id (demo_fs ''u1'') (Some ''a1'') = (Some ''a1'', Inr ''a1'')" by code_simp
  have tok: "bs_control_token bootstrap_default = None" by (simp add: bootstrap_default_def)
  have node: "\<lparr>id_agent_id = ''a1'', id_hostname = ''web'', id_boot_id = None\<rparr> = demo_node"
    by (simp add: demo_node_def)
  have "runtime_validate ?c = Inr ()" using wf by (simp add: runtime_validate_iff)
  then have start: "agent_start (\<lambda>_ _. True) (\<lambda>_. Inl ''no file'') (\<lambda>_. Inr bootstrap_default) (\<lambda>_. NotPresent) ?json ?files
      (demo_fs ''u1'') (Some ''a1'') ''web'' None None =
      Inr (None, demo_node, bootstrap_default, \<lparr>as_config = ?c, as_session = None, as_files = ?files\<rparr>)"
    by (simp add: agent_start_def load_bootstrap_no_path optional_env_secret_def saved id tok node Let_def)
  from fetched_config_survives_restart [where from_json = ?json and json = "''v7''", OF f wf env start] start show ?thesis by blast
qed

end
