(* ===== verification/Cli.thy ===== *)
theory Cli
  imports Provider_Commands Collect_Command Agent_Control
begin

text \<open>
  The command line of the agent (\<open>talia-agent/src/cli.rs\<close>, \<open>main.rs\<close>): the parsed arguments and the
  dispatch to the commands.  Parsing the arguments is clap's; everything a command meets is one record.
  \<open>run\<close> is its start, up to the tasks that the other theories model.
\<close>

record provider_show_args =
  ps_provider :: "string option"
  ps_set :: "string list"

datatype provider_config_action = ShowAction provider_show_args

datatype providers_action =
    ListAction bool
  | DescribeAction string
  | ConfigAction provider_config_action

datatype command = CollectCommand collect_args | ProvidersCommand providers_action | RunCommand

record cli_args =
  arg_config :: "string option"
  arg_log_filter :: string
  arg_command :: "command option"

record ('io, 't, 'e) cli_world =
  cw_read :: "string \<Rightarrow> (io_error, string) result"
  cw_toml :: "string \<Rightarrow> (toml_error, agent_bootstrap_config) result"
  cw_parse_string :: "string \<Rightarrow> string option"
  cw_parse_value :: "string \<Rightarrow> json option"
  cw_render :: "json \<Rightarrow> string"
  cw_pretty :: "config_section \<Rightarrow> ('t, string) result"
  cw_help :: string
  cw_start :: "'e machine"
  cw_rounds :: "('e machine \<times> duration \<times> duration) list"
  cw_sink :: "string \<Rightarrow> agent_identity \<Rightarrow> bool"
  cw_env :: "string \<Rightarrow> env_var"
  cw_from_json :: "string \<Rightarrow> agent_runtime_config option"
  cw_files :: "string \<rightharpoonup> string"
  cw_id_fs :: "'io id_fs"
  cw_id_file :: "string option"
  cw_hostname :: string
  cw_boot_id :: "string option"

datatype ('io, 't, 'e) cli_error =
    DescribeFailed describe_error
  | ShowFailed "('io, 't) show_error"
  | CollectFailed "('io, 'e boxed_error) collect_error"
  | StartFailed "'io start_error"

text \<open>What a command has done: printed lines, sleeps and samples, or a started agent.\<close>

datatype cli_effect =
    Printed "string list"
  | Collected "action list"
  | Started "control_client_config option" agent_identity agent_bootstrap_config agent_state
  | NothingStarted

definition dispatch_command ::
    "('io, 't, 'e) cli_world \<Rightarrow> cli_args \<Rightarrow> cli_effect \<times> (('io, 't, 'e) cli_error, unit) result" where
  "dispatch_command w args =
     (case arg_command args of
        Some (ProvidersCommand (ListAction descriptions)) \<Rightarrow> (Printed (list_execute descriptions), Inr ())
      | Some (ProvidersCommand (DescribeAction provider)) \<Rightarrow>
          (let (printed, r) = describe_execute (cw_render w) provider in (Printed printed, map_err DescribeFailed r))
      | Some (ProvidersCommand (ConfigAction (ShowAction show))) \<Rightarrow>
          (let (printed, r) = show_execute (cw_read w) (cw_toml w) (cw_parse_string w) (cw_parse_value w) (cw_pretty w)
                 (ps_provider show) (arg_config args) (ps_set show)
           in (Printed printed, map_err ShowFailed r))
      | Some (CollectCommand collect) \<Rightarrow>
          (let (actions, r) = collect_execute (cw_read w) (cw_toml w) (cw_parse_string w) (cw_parse_value w) (cw_start w)
                 collect (arg_config args) (cw_rounds w)
           in (Collected actions, map_err CollectFailed r))
      | Some RunCommand \<Rightarrow>
          (case agent_start (cw_sink w) (cw_read w) (cw_toml w) (cw_env w) (cw_from_json w) (cw_files w) (cw_id_fs w)
                  (cw_id_file w) (cw_hostname w) (cw_boot_id w) (arg_config args) of
             Inl e \<Rightarrow> (NothingStarted, Inl (StartFailed e))
           | Inr (control, identity, bootstrap, st) \<Rightarrow> (Started control identity bootstrap st, Inr ()))
      | None \<Rightarrow> (Printed [cw_help w, ''''], Inr ()))"

text \<open>The exit status of \<open>main\<close>.\<close>

definition exit_status :: "('io, 't, 'e) cli_world \<Rightarrow> cli_args \<Rightarrow> nat" where
  "exit_status w args = (case snd (dispatch_command w args) of Inr _ \<Rightarrow> 0 | Inl _ \<Rightarrow> 1)"

section \<open>Facts\<close>

lemma describe_succeeds_iff:
  "is_ok (snd (describe_execute render name)) \<longleftrightarrow> name \<in> set (map sp_name collector_specs)"
proof (cases "find_collector name")
  case (Inl e)
  then have "name \<notin> set (map sp_name collector_specs)" by (auto simp: find_collector_def find_None_iff)
  then show ?thesis using Inl by (simp add: describe_execute_def)
next
  case (Inr spec)
  then show ?thesis using describe_execute_ok [OF Inr] find_collector_names(2,3) [OF Inr] by (auto simp: image_iff)
qed

text \<open>Each command in turn.\<close>

lemma dispatch_describe:
  assumes "arg_command args = Some (ProvidersCommand (DescribeAction name))"
  shows "exit_status w args = (if name \<in> set (map sp_name collector_specs) then 0 else 1)"
  using describe_succeeds_iff [of "cw_render w" name]
  by (cases "snd (describe_execute (cw_render w) name)")
    (simp_all add: assms exit_status_def dispatch_command_def case_prod_unfold)

lemma dispatch_without_config:
  "arg_command args = None \<Longrightarrow> exit_status w args = 0"
  "arg_command args = Some (ProvidersCommand (ListAction descriptions)) \<Longrightarrow> exit_status w args = 0"
  by (simp_all add: exit_status_def dispatch_command_def)

lemma dispatch_bad_config:
  fixes w :: "('io, 't, 'e) cli_world"
  assumes "load_bootstrap_config (cw_read w) (cw_toml w) (arg_config args) =
      (Inl e :: ('io local_error, agent_bootstrap_config) result)"
  shows "arg_command args = Some RunCommand \<Longrightarrow>
      fst (dispatch_command w args) = NothingStarted \<and> exit_status w args = 1"
    and "arg_command args = Some (CollectCommand collect) \<Longrightarrow>
      fst (dispatch_command w args) = Collected [] \<and> exit_status w args = 1"
    and "arg_command args = Some (ProvidersCommand (ConfigAction action)) \<Longrightarrow>
      fst (dispatch_command w args) = Printed [] \<and> exit_status w args = 1"
proof -
  have local: "load_local_runtime_config (cw_read w) (cw_toml w) (arg_config args) =
      (Inl e :: ('io local_error, agent_runtime_config) result)"
    using assms by (simp add: load_local_runtime_config_def)
  show "fst (dispatch_command w args) = NothingStarted \<and> exit_status w args = 1" if "arg_command args = Some RunCommand"
    by (simp add: that exit_status_def dispatch_command_def agent_start_def assms)
  show "fst (dispatch_command w args) = Collected [] \<and> exit_status w args = 1"
    if "arg_command args = Some (CollectCommand collect)"
    by (simp add: that exit_status_def dispatch_command_def collect_execute_def local)
  show "fst (dispatch_command w args) = Printed [] \<and> exit_status w args = 1"
    if "arg_command args = Some (ProvidersCommand (ConfigAction action))"
    by (cases action) (simp add: that exit_status_def dispatch_command_def show_execute_def local)
qed

section \<open>Properties\<close>

text \<open>C24: A bad bootstrap file stops every command that reads it before it does anything: \<open>run\<close> starts no
  agent, \<open>collect\<close> neither sleeps nor samples and \<open>config show\<close> prints nothing, all with exit status 1;
  \<open>list\<close>, \<open>describe\<close> of a registered provider and the bare help do not depend on it and exit with 0.\<close>

theorem bad_config_stops_commands:
  fixes w :: "('io, 't, 'e) cli_world"
  assumes "load_bootstrap_config (cw_read w) (cw_toml w) (arg_config args) =
      (Inl e :: ('io local_error, agent_bootstrap_config) result)"
  shows "case arg_command args of
      Some RunCommand \<Rightarrow> fst (dispatch_command w args) = NothingStarted \<and> exit_status w args = 1
    | Some (CollectCommand _) \<Rightarrow> fst (dispatch_command w args) = Collected [] \<and> exit_status w args = 1
    | Some (ProvidersCommand (ConfigAction _)) \<Rightarrow> fst (dispatch_command w args) = Printed [] \<and> exit_status w args = 1
    | Some (ProvidersCommand (DescribeAction name)) \<Rightarrow>
        exit_status w args = (if name \<in> set (map sp_name collector_specs) then 0 else 1)
    | _ \<Rightarrow> exit_status w args = 0"
  using dispatch_bad_config [OF assms] dispatch_without_config [where args = args and w = w]
  by (simp add: dispatch_describe split: option.splits command.splits providers_action.splits)

definition demo_world :: "(io_error, unit, io_error) cli_world" where
  "demo_world =
     \<lparr>cw_read = (\<lambda>_. Inl ''not found''), cw_toml = (\<lambda>_. Inr bootstrap_default), cw_parse_string = Some,
      cw_parse_value = (\<lambda>_. None), cw_render = (\<lambda>_. ''0''), cw_pretty = (\<lambda>_. Inr ''''), cw_help = ''help'',
      cw_start = demo_machine, cw_rounds = [], cw_sink = (\<lambda>_ _. True), cw_env = (\<lambda>_. NotPresent),
      cw_from_json = (\<lambda>_. None), cw_files = Map.empty, cw_id_fs = demo_fs ''u'', cw_id_file = None,
      cw_hostname = ''web'', cw_boot_id = None\<rparr>"

lemma bad_config_stops_commands_witness:
  "exit_status demo_world \<lparr>arg_config = Some ''agent.toml'', arg_log_filter = ''info'', arg_command = Some RunCommand\<rparr> = 1 \<and>
   exit_status demo_world \<lparr>arg_config = Some ''agent.toml'', arg_log_filter = ''info'',
     arg_command = Some (ProvidersCommand (DescribeAction ''cpu''))\<rparr> = 0"
proof -
  let ?run = "\<lparr>arg_config = Some ''agent.toml'', arg_log_filter = ''info'', arg_command = Some RunCommand\<rparr>"
  let ?describe = "\<lparr>arg_config = Some ''agent.toml'', arg_log_filter = ''info'',
     arg_command = Some (ProvidersCommand (DescribeAction ''cpu''))\<rparr>"
  have bad: "load_bootstrap_config (cw_read demo_world) (cw_toml demo_world) (arg_config a) =
      (Inl (LoadAgentConfig ''agent.toml'' (ConfigRead ''agent.toml'' ''not found'')) :: (io_error local_error, agent_bootstrap_config) result)"
    if "arg_config a = Some ''agent.toml''" for a
    using that by (simp add: load_bootstrap_config_def demo_world_def bootstrap_load_def)
  from bad_config_stops_commands [OF bad, of ?run] bad_config_stops_commands [OF bad, of ?describe]
  show ?thesis by (simp add: collector_specs_def)
qed

end
