(* ===== verification/Config_Override.thy ===== *)
theory Config_Override
  imports Config_Sections
begin

text \<open>
  The partial overrides of the control plane (\<open>HostConfigOverride\<close> and its sections in
  \<open>talia-core/src/config.rs\<close>): a field that is \<open>None\<close> keeps what is there, a field that is set
  replaces it.  The contract of an \<open>apply_to\<close> is the locale \<open>override_layer\<close>, interpreted for every
  section and for the whole host override.
\<close>

section \<open>The contract of a layer\<close>

locale override_layer =
  fixes apply_to :: "'o \<Rightarrow> 'c \<Rightarrow> 'c"
    and unset :: "'o"
  assumes apply_unset: "apply_to unset c = c"
    and apply_again: "apply_to a (apply_to b (apply_to a c)) = apply_to a (apply_to b c)"
begin

lemma apply_idem: "apply_to a (apply_to a c) = apply_to a c"
  using apply_again [of a unset c] by (simp add: apply_unset)

text \<open>An earlier application of a layer that is applied again later is without effect.\<close>

lemma fold_shadow: "fold apply_to ls (apply_to a c) = fold apply_to ls c \<or> a \<notin> set ls"
proof (induction ls arbitrary: c)
  case Nil
  then show ?case by simp
next
  case (Cons b ls)
  show ?case
  proof (cases "a = b")
    case True
    then show ?thesis by (simp add: apply_idem)
  next
    case False
    show ?thesis
    proof (cases "a \<in> set ls")
      case True
      then obtain pre post where ls: "ls = pre @ a # post" by (meson split_list)
      have "apply_to a (fold apply_to pre (apply_to b (apply_to a c)))
          = apply_to a (fold apply_to pre (apply_to b c))"
      proof -
        have gen: "apply_to a (fold apply_to ms (apply_to a d)) = apply_to a (fold apply_to ms d)" for ms d
        proof (induction ms arbitrary: d rule: rev_induct)
          case Nil
          then show ?case by (simp add: apply_idem)
        next
          case (snoc m ms)
          have "apply_to a (apply_to m (fold apply_to ms (apply_to a d)))
              = apply_to a (apply_to m (apply_to a (fold apply_to ms (apply_to a d))))"
            by (simp add: apply_again)
          also have "\<dots> = apply_to a (apply_to m (apply_to a (fold apply_to ms d)))"
            by (simp add: snoc.IH)
          also have "\<dots> = apply_to a (apply_to m (fold apply_to ms d))" by (simp add: apply_again)
          finally show ?case by simp
        qed
        from gen [of "b # pre" c] show ?thesis by simp
      qed
      then show ?thesis by (simp add: ls)
    next
      case False
      with \<open>a \<noteq> b\<close> show ?thesis by simp
    qed
  qed
qed

text \<open>Applying the same layers a second time changes nothing, as on a config reload.\<close>

lemma fold_twice: "fold apply_to (as @ as) c = fold apply_to as c"
proof -
  have "fold apply_to (ls @ as) c = fold apply_to as c" if "set ls \<subseteq> set as" for ls c
    using that
  proof (induction ls arbitrary: c)
    case (Cons l ls)
    then have "fold apply_to (ls @ as) (apply_to l c) = fold apply_to as (apply_to l c)" by simp
    also have "\<dots> = fold apply_to as c" using fold_shadow [of as l c] Cons.prems by auto
    finally show ?case by simp
  qed simp
  then show ?thesis by simp
qed

end

section \<open>The overrides\<close>

text \<open>\<open>if let Some(v) = self.field { target.field = v }\<close>.\<close>

definition set_opt :: "(('v \<Rightarrow> 'v) \<Rightarrow> 'r \<Rightarrow> 'r) \<Rightarrow> 'v option \<Rightarrow> 'r \<Rightarrow> 'r" where
  "set_opt upd x r = (case x of None \<Rightarrow> r | Some v \<Rightarrow> upd (\<lambda>_. v) r)"

lemma set_opt_simps [simp]:
  "set_opt upd None r = r"
  "set_opt upd (Some v) r = upd (\<lambda>_. v) r"
  by (simp_all add: set_opt_def)

definition or_else :: "'a option \<Rightarrow> 'a \<Rightarrow> 'a" where
  "or_else x d = (case x of None \<Rightarrow> d | Some v \<Rightarrow> v)"

lemma or_else_simps [simp]: "or_else None d = d" "or_else (Some v) d = v"
  by (simp_all add: or_else_def)

lemma or_else_again [simp]: "or_else x (or_else y (or_else x d)) = or_else x (or_else y d)"
  by (cases x) simp_all

record agent_settings_override =
  ov_config_poll_interval_seconds :: "u64 option"
  ov_heartbeat_interval_seconds :: "u64 option"

definition agent_settings_apply_to ::
    "agent_settings_override \<Rightarrow> agent_runtime_settings \<Rightarrow> agent_runtime_settings" where
  "agent_settings_apply_to ov agent =
     set_opt heartbeat_interval_seconds_update (ov_heartbeat_interval_seconds ov)
       (set_opt config_poll_interval_seconds_update (ov_config_poll_interval_seconds ov) agent)"

record storage_override =
  ov_storage_enabled :: "bool option"
  ov_storage_interval_seconds :: "u64 option"
  ov_storage_mounts :: "string list option"

definition storage_apply_to :: "storage_override \<Rightarrow> storage_config \<Rightarrow> storage_config" where
  "storage_apply_to ov storage =
     set_opt storage_mounts_update (ov_storage_mounts ov)
       (set_opt storage_interval_seconds_update (ov_storage_interval_seconds ov)
         (set_opt storage_enabled_update (ov_storage_enabled ov) storage))"

record memory_override =
  ov_memory_enabled :: "bool option"
  ov_memory_interval_seconds :: "u64 option"

definition memory_apply_to :: "memory_override \<Rightarrow> memory_config \<Rightarrow> memory_config" where
  "memory_apply_to ov c =
     set_opt memory_interval_seconds_update (ov_memory_interval_seconds ov)
       (set_opt memory_enabled_update (ov_memory_enabled ov) c)"

record cpu_override =
  ov_cpu_enabled :: "bool option"
  ov_cpu_interval_seconds :: "u64 option"

definition cpu_apply_to :: "cpu_override \<Rightarrow> cpu_config \<Rightarrow> cpu_config" where
  "cpu_apply_to ov c =
     set_opt cpu_interval_seconds_update (ov_cpu_interval_seconds ov)
       (set_opt cpu_enabled_update (ov_cpu_enabled ov) c)"

record network_override =
  ov_network_enabled :: "bool option"
  ov_network_interval_seconds :: "u64 option"

definition network_apply_to :: "network_override \<Rightarrow> network_config \<Rightarrow> network_config" where
  "network_apply_to ov c =
     set_opt network_interval_seconds_update (ov_network_interval_seconds ov)
       (set_opt network_enabled_update (ov_network_enabled ov) c)"

record disk_io_override =
  ov_disk_io_enabled :: "bool option"
  ov_disk_io_interval_seconds :: "u64 option"

definition disk_io_apply_to :: "disk_io_override \<Rightarrow> disk_io_config \<Rightarrow> disk_io_config" where
  "disk_io_apply_to ov c =
     set_opt disk_io_interval_seconds_update (ov_disk_io_interval_seconds ov)
       (set_opt disk_io_enabled_update (ov_disk_io_enabled ov) c)"

record pod_discovery_override =
  ov_cri_socket :: "string option"

definition pod_discovery_apply_to ::
    "pod_discovery_override \<Rightarrow> pod_discovery_config \<Rightarrow> pod_discovery_config" where
  "pod_discovery_apply_to ov p = set_opt cri_socket_update (ov_cri_socket ov) p"

record tcp_override =
  ov_tcp_enabled :: "bool option"
  ov_tcp_interval_seconds :: "u64 option"

definition tcp_apply_to :: "tcp_override \<Rightarrow> tcp_config \<Rightarrow> tcp_config" where
  "tcp_apply_to ov c =
     set_opt tcp_interval_seconds_update (ov_tcp_interval_seconds ov)
       (set_opt tcp_enabled_update (ov_tcp_enabled ov) c)"

record host_config_override =
  ov_agent :: agent_settings_override
  ov_storage :: storage_override
  ov_memory :: memory_override
  ov_cpu :: cpu_override
  ov_network :: network_override
  ov_disk_io :: disk_io_override
  ov_pod_discovery :: pod_discovery_override
  ov_tcp :: tcp_override

definition host_apply_to :: "host_config_override \<Rightarrow> agent_runtime_config \<Rightarrow> agent_runtime_config" where
  "host_apply_to ov runtime = runtime\<lparr>
     cfg_agent := agent_settings_apply_to (ov_agent ov) (cfg_agent runtime),
     cfg_storage := storage_apply_to (ov_storage ov) (cfg_storage runtime),
     cfg_memory := memory_apply_to (ov_memory ov) (cfg_memory runtime),
     cfg_cpu := cpu_apply_to (ov_cpu ov) (cfg_cpu runtime),
     cfg_network := network_apply_to (ov_network ov) (cfg_network runtime),
     cfg_disk_io := disk_io_apply_to (ov_disk_io ov) (cfg_disk_io runtime),
     cfg_pod_discovery := pod_discovery_apply_to (ov_pod_discovery ov) (cfg_pod_discovery runtime),
     cfg_tcp := tcp_apply_to (ov_tcp ov) (cfg_tcp runtime)\<rparr>"

text \<open>The all-\<open>None\<close> overrides that \<open>#[derive(Default)]\<close> gives.\<close>

definition agent_settings_override_default :: agent_settings_override where
  "agent_settings_override_default = \<lparr>ov_config_poll_interval_seconds = None, ov_heartbeat_interval_seconds = None\<rparr>"

definition storage_override_default :: storage_override where
  "storage_override_default = \<lparr>ov_storage_enabled = None, ov_storage_interval_seconds = None, ov_storage_mounts = None\<rparr>"

definition memory_override_default :: memory_override where
  "memory_override_default = \<lparr>ov_memory_enabled = None, ov_memory_interval_seconds = None\<rparr>"

definition cpu_override_default :: cpu_override where
  "cpu_override_default = \<lparr>ov_cpu_enabled = None, ov_cpu_interval_seconds = None\<rparr>"

definition network_override_default :: network_override where
  "network_override_default = \<lparr>ov_network_enabled = None, ov_network_interval_seconds = None\<rparr>"

definition disk_io_override_default :: disk_io_override where
  "disk_io_override_default = \<lparr>ov_disk_io_enabled = None, ov_disk_io_interval_seconds = None\<rparr>"

definition pod_discovery_override_default :: pod_discovery_override where
  "pod_discovery_override_default = \<lparr>ov_cri_socket = None\<rparr>"

definition tcp_override_default :: tcp_override where
  "tcp_override_default = \<lparr>ov_tcp_enabled = None, ov_tcp_interval_seconds = None\<rparr>"

definition host_override_default :: host_config_override where
  "host_override_default =
     \<lparr>ov_agent = agent_settings_override_default,
      ov_storage = storage_override_default,
      ov_memory = memory_override_default,
      ov_cpu = cpu_override_default,
      ov_network = network_override_default,
      ov_disk_io = disk_io_override_default,
      ov_pod_discovery = pod_discovery_override_default,
      ov_tcp = tcp_override_default\<rparr>"

section \<open>Every field is set by the override or kept\<close>

lemma agent_settings_apply_fields [step_simps]:
  "config_poll_interval_seconds (agent_settings_apply_to ov c) = or_else (ov_config_poll_interval_seconds ov) (config_poll_interval_seconds c)"
  "heartbeat_interval_seconds (agent_settings_apply_to ov c) = or_else (ov_heartbeat_interval_seconds ov) (heartbeat_interval_seconds c)"
  by (simp_all add: agent_settings_apply_to_def set_opt_def or_else_def split: option.splits)

lemma storage_apply_fields [step_simps]:
  "storage_enabled (storage_apply_to ov c) = or_else (ov_storage_enabled ov) (storage_enabled c)"
  "storage_interval_seconds (storage_apply_to ov c) = or_else (ov_storage_interval_seconds ov) (storage_interval_seconds c)"
  "storage_mounts (storage_apply_to ov c) = or_else (ov_storage_mounts ov) (storage_mounts c)"
  by (simp_all add: storage_apply_to_def set_opt_def or_else_def split: option.splits)

lemma memory_apply_fields [step_simps]:
  "memory_enabled (memory_apply_to ov c) = or_else (ov_memory_enabled ov) (memory_enabled c)"
  "memory_interval_seconds (memory_apply_to ov c) = or_else (ov_memory_interval_seconds ov) (memory_interval_seconds c)"
  by (simp_all add: memory_apply_to_def set_opt_def or_else_def split: option.splits)

lemma cpu_apply_fields [step_simps]:
  "cpu_enabled (cpu_apply_to ov c) = or_else (ov_cpu_enabled ov) (cpu_enabled c)"
  "cpu_interval_seconds (cpu_apply_to ov c) = or_else (ov_cpu_interval_seconds ov) (cpu_interval_seconds c)"
  by (simp_all add: cpu_apply_to_def set_opt_def or_else_def split: option.splits)

lemma network_apply_fields [step_simps]:
  "network_enabled (network_apply_to ov c) = or_else (ov_network_enabled ov) (network_enabled c)"
  "network_interval_seconds (network_apply_to ov c) = or_else (ov_network_interval_seconds ov) (network_interval_seconds c)"
  by (simp_all add: network_apply_to_def set_opt_def or_else_def split: option.splits)

lemma disk_io_apply_fields [step_simps]:
  "disk_io_enabled (disk_io_apply_to ov c) = or_else (ov_disk_io_enabled ov) (disk_io_enabled c)"
  "disk_io_interval_seconds (disk_io_apply_to ov c) = or_else (ov_disk_io_interval_seconds ov) (disk_io_interval_seconds c)"
  by (simp_all add: disk_io_apply_to_def set_opt_def or_else_def split: option.splits)

lemma pod_discovery_apply_fields [step_simps]:
  "cri_socket (pod_discovery_apply_to ov c) = or_else (ov_cri_socket ov) (cri_socket c)"
  by (simp_all add: pod_discovery_apply_to_def set_opt_def or_else_def split: option.splits)

lemma tcp_apply_fields [step_simps]:
  "tcp_enabled (tcp_apply_to ov c) = or_else (ov_tcp_enabled ov) (tcp_enabled c)"
  "tcp_interval_seconds (tcp_apply_to ov c) = or_else (ov_tcp_interval_seconds ov) (tcp_interval_seconds c)"
  by (simp_all add: tcp_apply_to_def set_opt_def or_else_def split: option.splits)

lemma host_apply_fields [step_simps]:
  "cfg_version (host_apply_to ov r) = cfg_version r"
  "cfg_agent (host_apply_to ov r) = agent_settings_apply_to (ov_agent ov) (cfg_agent r)"
  "cfg_storage (host_apply_to ov r) = storage_apply_to (ov_storage ov) (cfg_storage r)"
  "cfg_memory (host_apply_to ov r) = memory_apply_to (ov_memory ov) (cfg_memory r)"
  "cfg_cpu (host_apply_to ov r) = cpu_apply_to (ov_cpu ov) (cfg_cpu r)"
  "cfg_network (host_apply_to ov r) = network_apply_to (ov_network ov) (cfg_network r)"
  "cfg_disk_io (host_apply_to ov r) = disk_io_apply_to (ov_disk_io ov) (cfg_disk_io r)"
  "cfg_pod_discovery (host_apply_to ov r) = pod_discovery_apply_to (ov_pod_discovery ov) (cfg_pod_discovery r)"
  "cfg_tcp (host_apply_to ov r) = tcp_apply_to (ov_tcp ov) (cfg_tcp r)"
  by (simp_all add: host_apply_to_def)

section \<open>The sections meet the contract\<close>

interpretation agent_settings_layer: override_layer agent_settings_apply_to agent_settings_override_default
  by unfold_locales (auto intro!: agent_runtime_settings.equality simp: step_simps agent_settings_override_default_def)

interpretation storage_layer: override_layer storage_apply_to storage_override_default
  by unfold_locales (auto intro!: storage_config.equality simp: step_simps storage_override_default_def)

interpretation memory_layer: override_layer memory_apply_to memory_override_default
  by unfold_locales (auto intro!: memory_config.equality simp: step_simps memory_override_default_def)

interpretation cpu_layer: override_layer cpu_apply_to cpu_override_default
  by unfold_locales (auto intro!: cpu_config.equality simp: step_simps cpu_override_default_def)

interpretation network_layer: override_layer network_apply_to network_override_default
  by unfold_locales (auto intro!: network_config.equality simp: step_simps network_override_default_def)

interpretation disk_io_layer: override_layer disk_io_apply_to disk_io_override_default
  by unfold_locales (auto intro!: disk_io_config.equality simp: step_simps disk_io_override_default_def)

interpretation pod_discovery_layer: override_layer pod_discovery_apply_to pod_discovery_override_default
  by unfold_locales (auto intro!: pod_discovery_config.equality simp: step_simps pod_discovery_override_default_def)

interpretation tcp_layer: override_layer tcp_apply_to tcp_override_default
  by unfold_locales (auto intro!: tcp_config.equality simp: step_simps tcp_override_default_def)

interpretation host_layer: override_layer host_apply_to host_override_default
  by unfold_locales
    (auto intro!: agent_runtime_config.equality simp: step_simps host_override_default_def
      agent_settings_layer.apply_unset agent_settings_layer.apply_again
      storage_layer.apply_unset storage_layer.apply_again
      memory_layer.apply_unset memory_layer.apply_again
      cpu_layer.apply_unset cpu_layer.apply_again
      network_layer.apply_unset network_layer.apply_again
      disk_io_layer.apply_unset disk_io_layer.apply_again
      pod_discovery_layer.apply_unset pod_discovery_layer.apply_again
      tcp_layer.apply_unset tcp_layer.apply_again
    )

end
