(* ===== verification/Secret.thy ===== *)
theory Secret
  imports Fnv
begin

text \<open>
  \<open>talia-core/src/secret.rs\<close>.  SHA-256 is third-party code: the digest is the parameter \<open>digest\<close>;
  the constant-time comparison of two digests is equality.  Acceptance of the right secret and
  rejection of blank configured secrets hold for every digest; rejection of a wrong secret needs
  that the digest does not collide on the two values.
\<close>

definition matches :: "(u8 list \<Rightarrow> 'd) \<Rightarrow> string \<Rightarrow> string \<Rightarrow> bool" where
  "matches digest configured presented =
     (if trim configured = [] then False
      else digest (as_bytes configured) = digest (as_bytes presented))"

lemma matches_not_blank: "matches digest configured presented \<Longrightarrow> trim configured \<noteq> []"
  by (auto simp: matches_def)

lemma matches_same: "matches digest s s \<longleftrightarrow> trim s \<noteq> []"
  by (simp add: matches_def)

lemma matches_collision_free:
  "inj_on digest {as_bytes configured, as_bytes presented} \<Longrightarrow>
     matches digest configured presented \<longleftrightarrow> trim configured \<noteq> [] \<and> configured = presented"
  by (auto simp: matches_def inj_on_eq_iff as_bytes_inject)

section \<open>Properties\<close>

text \<open>A presented secret is accepted exactly when the configured one is not blank and the two are the
  same, as long as the digest does not collide on the two of them; in particular a blank configured
  secret accepts nothing.\<close>

lemma secret_matches_iff:
  assumes "digest (as_bytes configured) = digest (as_bytes presented) \<Longrightarrow> as_bytes configured = as_bytes presented"
  shows "matches digest configured presented \<longleftrightarrow> trim configured \<noteq> [] \<and> configured = presented"
  using assms by (auto simp: matches_def as_bytes_inject)

lemma secret_matches_iff_witness:
  "matches (\<lambda>bytes. bytes) ''s3cret'' ''s3cret'' \<and> \<not> matches (\<lambda>bytes. bytes) '' '' '' ''"
proof -
  have "trim ''s3cret'' \<noteq> []" "trim '' '' = []" by code_simp+
  then show ?thesis
    using secret_matches_iff [of "\<lambda>bytes. bytes" "''s3cret''" "''s3cret''"]
      secret_matches_iff [of "\<lambda>bytes. bytes" "'' ''" "'' ''"] by simp
qed

end
