(* ===== verification/Config_Control.thy ===== *)
theory Config_Control
  imports Config_Override Secret Ordered_Map
begin

text \<open>
  \<open>ControlConfigFile\<close> of \<open>talia-core/src/config.rs\<close>: defaults, host overrides and enrollments, the
  effective configuration of a host with its computed version, and the enrollment checks.
  \<open>serde_json::to_string\<close> and the TOML parser are third-party code: the parameters \<open>to_json\<close>
  (\<open>None\<close> for an error) and \<open>toml\<close>.
\<close>

record agent_enrollment =
  en_hostname :: string
  en_config_token :: "string option"

record control_config_file =
  ccf_defaults :: host_config_override
  ccf_hosts :: "(string, host_config_override) btree"
  ccf_agents :: "(string, agent_enrollment) btree"

definition control_config_default :: control_config_file where
  "control_config_default =
     \<lparr>ccf_defaults = host_override_default, ccf_hosts = [], ccf_agents = []\<rparr>"

section \<open>Versions\<close>

definition config_source_version :: "string \<Rightarrow> string" where
  "config_source_version contents = ''source-'' @ hex_fixed 16 (unat (fnv1a64 (as_bytes contents)))"

definition effective_config_version ::
    "(agent_runtime_config \<Rightarrow> string option) \<Rightarrow> string \<Rightarrow> agent_runtime_config \<Rightarrow> string" where
  "effective_config_version to_json hostname runtime =
     (let versioned = runtime\<lparr>cfg_version := []\<rparr>;
          serialized = (case to_json versioned of None \<Rightarrow> [] | Some s \<Rightarrow> s);
          bytes = as_bytes hostname @ as_bytes serialized
      in ''cfg-'' @ hex_fixed 16 (unat (fnv1a64 bytes)))"

section \<open>Loading, resolving and checking\<close>

definition control_config_load ::
    "(string \<Rightarrow> (io_error, string) result) \<Rightarrow> (string \<Rightarrow> (toml_error, control_config_file) result) \<Rightarrow>
     string \<Rightarrow> control_config_file config_result" where
  "control_config_load read_to_string toml path =
     and_then (map_err (ConfigRead path) (read_to_string path)) (\<lambda>contents.
       map_err (ConfigParse path) (toml contents))"

definition runtime_config_for ::
    "(agent_runtime_config \<Rightarrow> string option) \<Rightarrow> control_config_file \<Rightarrow> string \<Rightarrow>
     agent_runtime_config config_result" where
  "runtime_config_for to_json config hostname =
     (let r0 = host_apply_to (ccf_defaults config) runtime_default;
          r1 = (case bt_get (ccf_hosts config) hostname of
                  None \<Rightarrow> r0
                | Some host_config \<Rightarrow> host_apply_to host_config r0);
          r2 = r1\<lparr>cfg_version := effective_config_version to_json hostname r1\<rparr>
      in and_then (runtime_validate r2) (\<lambda>_. Inr r2))"

definition has_host_override :: "control_config_file \<Rightarrow> string \<Rightarrow> bool" where
  "has_host_override config hostname = bt_contains_key (ccf_hosts config) hostname"

definition agent_is_enrolled_for_hostname :: "control_config_file \<Rightarrow> string \<Rightarrow> string \<Rightarrow> bool" where
  "agent_is_enrolled_for_hostname config agent_id hostname =
     (case bt_get (ccf_agents config) agent_id of
        None \<Rightarrow> False
      | Some agent \<Rightarrow> en_hostname agent = hostname)"

definition agent_config_token_matches ::
    "(u8 list \<Rightarrow> 'd) \<Rightarrow> control_config_file \<Rightarrow> string \<Rightarrow> string \<Rightarrow> bool" where
  "agent_config_token_matches digest config agent_id config_token =
     (case Option.bind (bt_get (ccf_agents config) agent_id) en_config_token of
        None \<Rightarrow> False
      | Some token \<Rightarrow> matches digest token config_token)"

section \<open>The effective configuration\<close>

text \<open>Layered lookup of the specification: host override, then defaults, then built-in.\<close>

definition resolved :: "control_config_file \<Rightarrow> string \<Rightarrow> agent_runtime_config" where
  "resolved config hostname =
     (case bt_get (ccf_hosts config) hostname of
        None \<Rightarrow> host_apply_to (ccf_defaults config) runtime_default
      | Some h \<Rightarrow> host_apply_to h (host_apply_to (ccf_defaults config) runtime_default))"

lemma effective_version_not_blank: "\<exists>ch\<in>set (effective_config_version to_json hostname r). \<not> is_ws ch"
  by (auto simp: effective_config_version_def Let_def is_ws_def char_code_def)

lemma runtime_config_for_iff:
  "runtime_config_for to_json config hostname = Inr rt \<longleftrightarrow>
     sections_wf (resolved config hostname) \<and>
     rt = (resolved config hostname)\<lparr>cfg_version :=
             effective_config_version to_json hostname (resolved config hostname)\<rparr>"
  unfolding runtime_config_for_def Let_def resolved_def [symmetric]
  using effective_version_not_blank by (auto simp: runtime_validate_iff runtime_wf_version)

lemma runtime_config_for_wf: "runtime_config_for to_json config hostname = Inr rt \<Longrightarrow> runtime_wf rt"
  using effective_version_not_blank by (auto simp: runtime_config_for_iff runtime_wf_version)

lemma runtime_config_for_ok:
  "is_ok (runtime_config_for to_json config hostname) \<longleftrightarrow> sections_wf (resolved config hostname)"
  by (auto simp: is_ok_iff runtime_config_for_iff)

lemma resolved_unlisted:
  "bt_get (ccf_hosts config) hostname = None \<Longrightarrow>
     resolved config hostname = host_apply_to (ccf_defaults config) runtime_default"
  by (simp add: resolved_def)

text \<open>The host's override applied once more, as after a reload, gives the same settings.\<close>

lemma resolved_reapply:
  "bt_get (ccf_hosts config) hostname = Some h \<Longrightarrow>
     host_apply_to h (resolved config hostname) = resolved config hostname"
  by (simp add: resolved_def host_layer.apply_idem)

lemma resolved_defaults_absorbed:
  "bt_get (ccf_hosts config) hostname = Some h \<Longrightarrow>
     host_apply_to h (host_apply_to (ccf_defaults config) (resolved config hostname)) = resolved config hostname"
  using host_layer.fold_twice [of "[ccf_defaults config, h]" runtime_default] by (simp add: resolved_def)

lemma length_effective_version: "length (effective_config_version to_json hostname r) = 20"
  by (simp add: effective_config_version_def Let_def)

section \<open>Properties\<close>

text \<open>The value of one setting: the host's block if it sets it, else the defaults block, else built-in.\<close>

definition layered :: "control_config_file \<Rightarrow> string \<Rightarrow> (host_config_override \<Rightarrow> 'a option) \<Rightarrow> 'a \<Rightarrow> 'a" where
  "layered config hostname f builtin =
     or_else (Option.bind (bt_get (ccf_hosts config) hostname) f) (or_else (f (ccf_defaults config)) builtin)"

text \<open>C5: Each of the settings a host is served comes from its own override block if that block sets it,
  otherwise from the defaults block, otherwise from the built-in defaults, setting by setting.\<close>

theorem override_precedence:
  assumes "runtime_config_for to_json config h = Inr rt"
  shows "config_poll_interval_seconds (cfg_agent rt) =
      layered config h (ov_config_poll_interval_seconds \<circ> ov_agent) default_config_poll_interval_seconds \<and>
    heartbeat_interval_seconds (cfg_agent rt) =
      layered config h (ov_heartbeat_interval_seconds \<circ> ov_agent) default_heartbeat_interval_seconds \<and>
    storage_enabled (cfg_storage rt) = layered config h (ov_storage_enabled \<circ> ov_storage) True \<and>
    storage_interval_seconds (cfg_storage rt) =
      layered config h (ov_storage_interval_seconds \<circ> ov_storage) default_storage_interval_seconds \<and>
    storage_mounts (cfg_storage rt) = layered config h (ov_storage_mounts \<circ> ov_storage) [''/''] \<and>
    memory_enabled (cfg_memory rt) = layered config h (ov_memory_enabled \<circ> ov_memory) True \<and>
    memory_interval_seconds (cfg_memory rt) =
      layered config h (ov_memory_interval_seconds \<circ> ov_memory) default_memory_interval_seconds \<and>
    cpu_enabled (cfg_cpu rt) = layered config h (ov_cpu_enabled \<circ> ov_cpu) (cpu_enabled cpu_default) \<and>
    cpu_interval_seconds (cfg_cpu rt) =
      layered config h (ov_cpu_interval_seconds \<circ> ov_cpu) default_cpu_interval_seconds \<and>
    network_enabled (cfg_network rt) =
      layered config h (ov_network_enabled \<circ> ov_network) (network_enabled network_default) \<and>
    network_interval_seconds (cfg_network rt) =
      layered config h (ov_network_interval_seconds \<circ> ov_network) default_network_interval_seconds \<and>
    disk_io_enabled (cfg_disk_io rt) =
      layered config h (ov_disk_io_enabled \<circ> ov_disk_io) (disk_io_enabled disk_io_default) \<and>
    disk_io_interval_seconds (cfg_disk_io rt) =
      layered config h (ov_disk_io_interval_seconds \<circ> ov_disk_io) default_disk_io_interval_seconds \<and>
    cri_socket (cfg_pod_discovery rt) =
      layered config h (ov_cri_socket \<circ> ov_pod_discovery) default_pod_discovery_cri_socket \<and>
    tcp_enabled (cfg_tcp rt) = layered config h (ov_tcp_enabled \<circ> ov_tcp) False \<and>
    tcp_interval_seconds (cfg_tcp rt) =
      layered config h (ov_tcp_interval_seconds \<circ> ov_tcp) default_tcp_interval_seconds"
proof -
  have rt: "rt = (resolved config h)\<lparr>cfg_version := effective_config_version to_json h (resolved config h)\<rparr>"
    using assms by (simp add: runtime_config_for_iff)
  show ?thesis
    by (cases "bt_get (ccf_hosts config) h")
      (simp_all add: rt resolved_def layered_def step_simps runtime_default_def agent_settings_default_def
        storage_default_def memory_default_def cpu_default_def network_default_def disk_io_default_def
        pod_discovery_default_def tcp_default_def default_storage_mounts_def)
qed

lemma override_precedence_witness:
  "\<exists>rt. runtime_config_for (\<lambda>_. Some [])
      (control_config_default\<lparr>ccf_hosts := [(''db'', host_override_default\<lparr>ov_tcp :=
         \<lparr>ov_tcp_enabled = Some True, ov_tcp_interval_seconds = None\<rparr>\<rparr>)]\<rparr>) ''db'' = Inr rt \<and>
    tcp_enabled (cfg_tcp rt)"
proof -
  let ?c = "control_config_default\<lparr>ccf_hosts := [(''db'', host_override_default\<lparr>ov_tcp :=
         \<lparr>ov_tcp_enabled = Some True, ov_tcp_interval_seconds = None\<rparr>\<rparr>)]\<rparr>"
  have "is_ok (runtime_config_for (\<lambda>_. Some []) ?c ''db'')" by code_simp
  then obtain rt where rt: "runtime_config_for (\<lambda>_. Some []) ?c ''db'' = Inr rt" by (auto simp: is_ok_iff)
  have "tcp_enabled (cfg_tcp rt) = layered ?c ''db'' (ov_tcp_enabled \<circ> ov_tcp) False"
    using override_precedence [OF rt] by blast
  with rt show ?thesis by (auto simp: layered_def)
qed

text \<open>Changing one ASCII character of the control file to another always changes the version a
  reload announces, wherever it is in the file.\<close>

lemma source_version_detects_edit:
  assumes "char_code c < 128" "char_code d < 128" "c \<noteq> d"
  shows "config_source_version (before @ c # after) \<noteq> config_source_version (before @ d # after)"
proof
  have b: "as_bytes (before @ x # after) = as_bytes before @ of_nat (char_code x) # as_bytes after"
    if "char_code x < 128" for x
    using that by (simp add: as_bytes_def utf8_char_def)
  assume "config_source_version (before @ c # after) = config_source_version (before @ d # after)"
  then have "fnv1a64 (as_bytes (before @ c # after)) = fnv1a64 (as_bytes (before @ d # after))"
    by (simp add: config_source_version_def hex_fixed_u64_inject)
  with assms show False by (simp add: b fnv1a64_one_byte ascii_byte_inject)
qed

lemma source_version_detects_edit_witness:
  "config_source_version ''interval_seconds = 10'' \<noteq> config_source_version ''interval_seconds = 20''"
  using source_version_detects_edit [of "CHR ''1''" "CHR ''2''" "''interval_seconds = ''" "''0''"]
  by (simp add: char_code_def)

end
