(* ===== verification/Control_Server.thy ===== *)
theory Control_Server
  imports Config_Control Control_Protocol
begin

text \<open>
  The control server (\<open>talia-control/src/main.rs\<close>): its shared state, the HTTP handlers, the
  handlers of the agents' WebSocket sessions and the loading of the control file.  Outside code
  enters as parameters: the SHA-256 \<open>digest\<close>, the JSON form \<open>to_json\<close> of a configuration, the TOML
  parser \<open>toml\<close>, the file reader, the decoder \<open>parse_msg\<close> of agent messages, the clock reading \<open>now\<close>.
  A handler that takes two locks one after the other has the two values it reads as separate
  arguments, so that its lemmas hold for every interleaving.
\<close>

section \<open>State\<close>

record loaded_control_config =
  lc_source_version :: string
  lc_config :: control_config_file

record connected_agent =
  ca_agent_id :: string
  ca_hostname :: string
  ca_agent_version :: string
  ca_boot_id :: "string option"
  ca_config_version :: "string option"
  ca_enabled_collectors :: "string list"
  ca_connected_at_unix_seconds :: u64
  ca_last_seen_unix_seconds :: u64
  ca_connection_id :: string

type_synonym agent_table = "(string, connected_agent) btree"

record agent_hello =
  ah_agent_id :: string
  ah_hostname :: string
  ah_agent_version :: string
  ah_boot_id :: "string option"

text \<open>\<open>st_sent\<close> lists the notifications handed to the broadcast channel, oldest first.\<close>

record app_state =
  st_agent_token :: string
  st_admin_token :: string
  st_config_path :: "string option"
  st_config :: loaded_control_config
  st_sent :: "server_control_message list"
  st_agents :: agent_table

datatype status = UNAUTHORIZED | BAD_REQUEST | FORBIDDEN | INTERNAL_SERVER_ERROR

datatype 'a response = Failure status | Body 'a

datatype control_error =
    EnvNotSet string
  | EmptyControlToken
  | EmptyAdminToken
  | TokensNotDistinct
  | ReadControlConfig string io_error
  | ParseControlConfig string toml_error
  | InvalidDefaultConfig config_error
  | InvalidHostConfig string config_error
  | BadAgentMessage string
  | SendFailed string
  | ReadFailed string

section \<open>Startup: tokens and the control file\<close>

definition required_env_secret :: "(string \<Rightarrow> string option) \<Rightarrow> string \<Rightarrow> (control_error, string) result" where
  "required_env_secret env name = ok_or (EnvNotSet name) (env name)"

definition validate_control_tokens :: "string \<Rightarrow> string \<Rightarrow> (control_error, string \<times> string) result" where
  "validate_control_tokens agent_token admin_token =
     (let agent_token = trim agent_token; admin_token = trim admin_token in
      if agent_token = [] then Inl EmptyControlToken
      else if admin_token = [] then Inl EmptyAdminToken
      else if agent_token = admin_token then Inl TokensNotDistinct
      else Inr (agent_token, admin_token))"

definition validate_runtime_configs ::
    "(agent_runtime_config \<Rightarrow> string option) \<Rightarrow> control_config_file \<Rightarrow> (control_error, unit) result" where
  "validate_runtime_configs to_json config =
     and_then (map_err InvalidDefaultConfig (runtime_config_for to_json config [])) (\<lambda>_.
       try_each
         (\<lambda>hostname. and_then (map_err (InvalidHostConfig hostname) (runtime_config_for to_json config hostname))
            (\<lambda>_. Inr ()))
         (bt_keys (ccf_hosts config)))"

definition load_control_config ::
    "(string \<Rightarrow> (io_error, string) result) \<Rightarrow> (string \<Rightarrow> (toml_error, control_config_file) result) \<Rightarrow>
     (agent_runtime_config \<Rightarrow> string option) \<Rightarrow> string option \<Rightarrow>
     (control_error, loaded_control_config) result" where
  "load_control_config read_to_string toml to_json path =
     (case path of
        Some path \<Rightarrow>
          and_then (map_err (ReadControlConfig path) (read_to_string path)) (\<lambda>contents.
          and_then (map_err (ParseControlConfig path) (toml contents)) (\<lambda>config.
          and_then (validate_runtime_configs to_json config) (\<lambda>_.
            Inr \<lparr>lc_source_version = config_source_version contents, lc_config = config\<rparr>)))
      | None \<Rightarrow>
          (let config = control_config_default in
           and_then (validate_runtime_configs to_json config) (\<lambda>_.
             Inr \<lparr>lc_source_version = config_source_version [], lc_config = config\<rparr>)))"

text \<open>\<open>run\<close> up to the point where the server starts listening.\<close>

definition initial_state ::
    "(string \<Rightarrow> string option) \<Rightarrow> (string \<Rightarrow> (io_error, string) result) \<Rightarrow>
     (string \<Rightarrow> (toml_error, control_config_file) result) \<Rightarrow>
     (agent_runtime_config \<Rightarrow> string option) \<Rightarrow> string option \<Rightarrow> (control_error, app_state) result" where
  "initial_state env read_to_string toml to_json path =
     and_then (required_env_secret env ''TALIA_CONTROL_TOKEN'') (\<lambda>t1.
     and_then (required_env_secret env ''TALIA_ADMIN_TOKEN'') (\<lambda>t2.
     and_then (validate_control_tokens t1 t2) (\<lambda>(agent_token, admin_token).
     and_then (load_control_config read_to_string toml to_json path) (\<lambda>config.
       Inr \<lparr>st_agent_token = agent_token, st_admin_token = admin_token, st_config_path = path,
            st_config = config, st_sent = [], st_agents = []\<rparr>))))"

section \<open>Request headers\<close>

definition authorized :: "(u8 list \<Rightarrow> 'd) \<Rightarrow> headers \<Rightarrow> string \<Rightarrow> bool" where
  "authorized digest headers token =
     (case headers AUTHORIZATION of
        None \<Rightarrow> False
      | Some value \<Rightarrow>
          (case strip_prefix ''Bearer '' value of
             None \<Rightarrow> False
           | Some candidate \<Rightarrow> matches digest token candidate))"

definition header_value :: "headers \<Rightarrow> string \<Rightarrow> string option" where
  "header_value headers name =
     (case headers name of
        None \<Rightarrow> None
      | Some value \<Rightarrow> (let v = trim value in if v \<noteq> [] then Some v else None))"

section \<open>Credentials\<close>

definition agent_has_config_credential ::
    "(u8 list \<Rightarrow> 'd) \<Rightarrow> control_config_file \<Rightarrow> string \<Rightarrow> string \<Rightarrow> string option \<Rightarrow> bool" where
  "agent_has_config_credential digest config agent_id hostname agent_config_token =
     (agent_is_enrolled_for_hostname config agent_id hostname \<and>
      (case agent_config_token of
         None \<Rightarrow> False
       | Some token \<Rightarrow> agent_config_token_matches digest config agent_id token))"

definition agent_hello_authorized ::
    "(u8 list \<Rightarrow> 'd) \<Rightarrow> control_config_file \<Rightarrow> agent_hello \<Rightarrow> string option \<Rightarrow> bool" where
  "agent_hello_authorized digest config hello agent_config_token =
     agent_has_config_credential digest config (ah_agent_id hello) (ah_hostname hello) agent_config_token"

section \<open>HTTP handlers\<close>

definition health :: string where
  "health = ''ok''"

definition connected_agent_for_config :: "agent_table \<Rightarrow> string \<Rightarrow> string \<Rightarrow> connected_agent option" where
  "connected_agent_for_config agents agent_id config_session_id =
     (case bt_get agents agent_id of
        None \<Rightarrow> None
      | Some agent \<Rightarrow> if ca_connection_id agent = config_session_id then Some agent else None)"

definition agent_config ::
    "(u8 list \<Rightarrow> 'd) \<Rightarrow> (agent_runtime_config \<Rightarrow> string option) \<Rightarrow> string \<Rightarrow> agent_table \<Rightarrow>
     control_config_file \<Rightarrow> headers \<Rightarrow> agent_runtime_config response" where
  "agent_config digest to_json agent_token agents config headers =
     (if \<not> authorized digest headers agent_token then Failure UNAUTHORIZED
      else (case header_value headers AGENT_ID_HEADER of
        None \<Rightarrow> Failure BAD_REQUEST
      | Some agent_id \<Rightarrow>
          (case header_value headers CONFIG_SESSION_ID_HEADER of
             None \<Rightarrow> Failure BAD_REQUEST
           | Some config_session_id \<Rightarrow>
               (let agent_config_token = header_value headers AGENT_CONFIG_TOKEN_HEADER in
                case connected_agent_for_config agents agent_id config_session_id of
                  None \<Rightarrow> Failure FORBIDDEN
                | Some agent \<Rightarrow>
                    if \<not> agent_has_config_credential digest config (ca_agent_id agent)
                          (ca_hostname agent) agent_config_token
                    then Failure FORBIDDEN
                    else (case runtime_config_for to_json config (ca_hostname agent) of
                            Inr runtime \<Rightarrow> Body runtime
                          | Inl _ \<Rightarrow> Failure INTERNAL_SERVER_ERROR)))))"

text \<open>What \<open>GET /admin/agents\<close> serialises of an entry: \<open>connection_id\<close> is skipped.\<close>

record served_agent =
  sa_agent_id :: string
  sa_hostname :: string
  sa_agent_version :: string
  sa_boot_id :: "string option"
  sa_config_version :: "string option"
  sa_enabled_collectors :: "string list"
  sa_connected_at_unix_seconds :: u64
  sa_last_seen_unix_seconds :: u64

definition serve_agent :: "connected_agent \<Rightarrow> served_agent" where
  "serve_agent a =
     \<lparr>sa_agent_id = ca_agent_id a, sa_hostname = ca_hostname a, sa_agent_version = ca_agent_version a,
      sa_boot_id = ca_boot_id a, sa_config_version = ca_config_version a,
      sa_enabled_collectors = ca_enabled_collectors a,
      sa_connected_at_unix_seconds = ca_connected_at_unix_seconds a,
      sa_last_seen_unix_seconds = ca_last_seen_unix_seconds a\<rparr>"

definition admin_agents :: "(u8 list \<Rightarrow> 'd) \<Rightarrow> app_state \<Rightarrow> headers \<Rightarrow> served_agent list response" where
  "admin_agents digest state headers =
     (if \<not> authorized digest headers (st_admin_token state) then Failure UNAUTHORIZED
      else Body (map serve_agent (bt_values (st_agents state))))"

record reload_response =
  rr_version :: string
  rr_notified_agents :: nat

definition admin_config_reload ::
    "(u8 list \<Rightarrow> 'd) \<Rightarrow> (string \<Rightarrow> (io_error, string) result) \<Rightarrow>
     (string \<Rightarrow> (toml_error, control_config_file) result) \<Rightarrow>
     (agent_runtime_config \<Rightarrow> string option) \<Rightarrow> app_state \<Rightarrow> headers \<Rightarrow>
     app_state \<times> reload_response response" where
  "admin_config_reload digest read_to_string toml to_json state headers =
     (if \<not> authorized digest headers (st_admin_token state) then (state, Failure UNAUTHORIZED)
      else (case load_control_config read_to_string toml to_json (st_config_path state) of
              Inr config \<Rightarrow>
                (let version = lc_source_version config;
                     state1 = state\<lparr>st_config := config\<rparr>;
                     notified = length (st_agents state1);
                     state2 = state1\<lparr>st_sent := st_sent state1 @ [ConfigChanged version]\<rparr>
                 in (state2, Body \<lparr>rr_version = version, rr_notified_agents = notified\<rparr>))
            | Inl _ \<Rightarrow> (state, Failure INTERNAL_SERVER_ERROR)))"

section \<open>WebSocket sessions\<close>

definition new_connected_agent :: "agent_hello \<Rightarrow> u64 \<Rightarrow> string \<Rightarrow> connected_agent" where
  "new_connected_agent hello now connection_id =
     \<lparr>ca_agent_id = ah_agent_id hello, ca_hostname = ah_hostname hello,
      ca_agent_version = ah_agent_version hello, ca_boot_id = ah_boot_id hello,
      ca_config_version = None, ca_enabled_collectors = [],
      ca_connected_at_unix_seconds = now, ca_last_seen_unix_seconds = now,
      ca_connection_id = connection_id\<rparr>"

definition owned_by :: "agent_table \<Rightarrow> string \<Rightarrow> string \<Rightarrow> bool" where
  "owned_by agents agent_id connection_id =
     (case bt_get agents agent_id of
        None \<Rightarrow> False
      | Some agent \<Rightarrow> ca_connection_id agent = connection_id)"

text \<open>The part of \<open>register_agent_connection\<close> under the write lock on \<open>agents\<close>; \<open>None\<close> is a
  rejected hello, otherwise the new binding, the new table and the acknowledged time.\<close>

definition register_locked ::
    "agent_table \<Rightarrow> string \<Rightarrow> string option \<Rightarrow> agent_hello \<Rightarrow> u64 \<Rightarrow> (string option \<times> agent_table \<times> u64) option" where
  "register_locked agents connection_id current_agent_id hello now =
     (if (case bt_get agents (ah_agent_id hello) of
            None \<Rightarrow> False
          | Some agent \<Rightarrow> ca_connection_id agent \<noteq> connection_id)
      then None
      else
        (let agents1 =
              (case current_agent_id of
                 None \<Rightarrow> agents
               | Some previous_agent_id \<Rightarrow>
                   if previous_agent_id \<noteq> ah_agent_id hello \<and> owned_by agents previous_agent_id connection_id
                   then bt_remove previous_agent_id agents else agents);
             agents2 = bt_insert (ah_agent_id hello) (new_connected_agent hello now connection_id) agents1
         in Some (Some (ah_agent_id hello), agents2, now)))"

definition register_agent_connection ::
    "(u8 list \<Rightarrow> 'd) \<Rightarrow> control_config_file \<Rightarrow> agent_table \<Rightarrow> string \<Rightarrow> string option \<Rightarrow> string option \<Rightarrow>
     agent_hello \<Rightarrow> u64 \<Rightarrow> (string option \<times> agent_table \<times> u64) option" where
  "register_agent_connection digest config agents connection_id current_agent_id agent_config_token hello now =
     (if \<not> agent_hello_authorized digest config hello agent_config_token then None
      else register_locked agents connection_id current_agent_id hello now)"

definition handle_heartbeat ::
    "agent_table \<Rightarrow> string \<Rightarrow> string option \<Rightarrow> u64 \<Rightarrow> string \<Rightarrow> string \<Rightarrow> string \<Rightarrow> string \<Rightarrow> string list \<Rightarrow> agent_table" where
  "handle_heartbeat agents connection_id current_agent_id now
       agent_id hostname agent_version config_version enabled_collectors =
     (if current_agent_id \<noteq> Some agent_id then agents
      else (case bt_get agents agent_id of
        None \<Rightarrow> agents
      | Some agent \<Rightarrow>
          if ca_connection_id agent \<noteq> connection_id then agents
          else bt_insert agent_id
                 (agent\<lparr>ca_hostname := hostname, ca_agent_version := agent_version,
                        ca_config_version := Some config_version,
                        ca_enabled_collectors := enabled_collectors,
                        ca_last_seen_unix_seconds := now\<rparr>) agents))"

text \<open>\<open>handle_agent_message\<close>: the new binding and table, and what is written to the socket.
  \<open>send_ok\<close> says whether writing or closing the socket succeeds.\<close>

datatype socket_write = SendMsg server_control_message | CloseSocket

definition handle_agent_message ::
    "(u8 list \<Rightarrow> 'd) \<Rightarrow> (string \<Rightarrow> agent_control_message option) \<Rightarrow> control_config_file \<Rightarrow> agent_table \<Rightarrow> string \<Rightarrow>
     string option \<Rightarrow> string option \<Rightarrow> string \<Rightarrow> u64 \<Rightarrow> bool \<Rightarrow>
     (string option \<times> agent_table) \<times> socket_write list \<times> (control_error, unit) result" where
  "handle_agent_message digest parse_msg config agents connection_id current_agent_id agent_config_token text now send_ok =
     (case parse_msg text of
        None \<Rightarrow> ((current_agent_id, agents), [], Inl (BadAgentMessage text))
      | Some (Hello agent_id hostname agent_version boot_id) \<Rightarrow>
          (case register_agent_connection digest config agents connection_id current_agent_id agent_config_token
                  \<lparr>ah_agent_id = agent_id, ah_hostname = hostname, ah_agent_version = agent_version,
                   ah_boot_id = boot_id\<rparr> now of
             None \<Rightarrow> ((current_agent_id, agents), [CloseSocket],
                      if send_ok then Inr () else Inl (SendFailed ''close''))
           | Some (current, agents', time) \<Rightarrow>
               ((current, agents'), [SendMsg (HelloAck time connection_id)],
                if send_ok then Inr () else Inl (SendFailed ''hello ack'')))
      | Some (Heartbeat agent_id hostname agent_version config_version enabled_collectors) \<Rightarrow>
          ((current_agent_id,
            handle_heartbeat agents connection_id current_agent_id now
              agent_id hostname agent_version config_version enabled_collectors), [], Inr ()))"

definition remove_agent :: "agent_table \<Rightarrow> string \<Rightarrow> string option \<Rightarrow> agent_table" where
  "remove_agent agents connection_id current_agent_id =
     (case current_agent_id of
        None \<Rightarrow> agents
      | Some agent_id \<Rightarrow>
          if owned_by agents agent_id connection_id then bt_remove agent_id agents else agents)"

text \<open>One iteration of the \<open>select!\<close> loop of \<open>run_agent_socket\<close> on one event, and whether the loop
  goes on.  Serialising the protocol messages cannot fail.\<close>

datatype recv_result = RecvOk server_control_message | RecvLagged nat | RecvClosed

datatype ws_message = WsText string | WsClose | WsPing | WsPong | WsBinary

datatype socket_event =
    Notification recv_result
  | Incoming ws_message
  | IncomingEnd
  | IncomingError string

datatype loop_outcome = Continue | Return "(control_error, unit) result"

definition continue_if_ok :: "(control_error, unit) result \<Rightarrow> loop_outcome" where
  "continue_if_ok r = (case r of Inr _ \<Rightarrow> Continue | Inl e \<Rightarrow> Return (Inl e))"

definition run_agent_socket_step ::
    "(u8 list \<Rightarrow> 'd) \<Rightarrow> (string \<Rightarrow> agent_control_message option) \<Rightarrow> control_config_file \<Rightarrow> agent_table \<Rightarrow> string \<Rightarrow>
     string option \<Rightarrow> string option \<Rightarrow> socket_event \<Rightarrow> u64 \<Rightarrow> bool \<Rightarrow>
     (string option \<times> agent_table) \<times> socket_write list \<times> loop_outcome" where
  "run_agent_socket_step digest parse_msg config agents connection_id current_agent_id agent_config_token event now send_ok =
     (case event of
        Notification (RecvOk message) \<Rightarrow>
          ((current_agent_id, agents), [SendMsg message],
           if send_ok then Continue else Return (Inl (SendFailed ''control notification'')))
      | Notification (RecvLagged _) \<Rightarrow> ((current_agent_id, agents), [], Continue)
      | Notification RecvClosed \<Rightarrow> ((current_agent_id, agents), [], Return (Inr ()))
      | IncomingEnd \<Rightarrow> ((current_agent_id, agents), [], Return (Inr ()))
      | IncomingError e \<Rightarrow> ((current_agent_id, agents), [], Return (Inl (ReadFailed e)))
      | Incoming (WsText text) \<Rightarrow>
          (let (s, ws, r) = handle_agent_message digest parse_msg config agents connection_id
                 current_agent_id agent_config_token text now send_ok
           in (s, ws, continue_if_ok r))
      | Incoming WsClose \<Rightarrow> ((current_agent_id, agents), [], Return (Inr ()))
      | Incoming _ \<Rightarrow> ((current_agent_id, agents), [], Continue))"

section \<open>Loading a control file\<close>

lemma control_config_default_wf: "sections_wf (resolved control_config_default h)"
proof -
  have "resolved control_config_default h = runtime_default"
    by (simp add: resolved_def control_config_default_def host_layer.apply_unset)
  then show ?thesis using runtime_default_wf by (simp add: runtime_wf_def)
qed

lemma validate_runtime_configs_iff:
  "validate_runtime_configs to_json config = Inr () \<longleftrightarrow>
     sections_wf (resolved config []) \<and> (\<forall>h\<in>set (bt_keys (ccf_hosts config)). sections_wf (resolved config h))"
  by (auto simp: validate_runtime_configs_def runtime_config_for_iff validate_simps)

text \<open>Checking the empty host name and the listed hosts is enough when no block is listed under the
  empty name itself: every unlisted host resolves to the same settings as the empty name.\<close>

lemma validate_runtime_configs_all:
  assumes "validate_runtime_configs to_json config = Inr ()"
    and "\<not> has_host_override config []"
  shows "sections_wf (resolved config h)"
proof (cases "h \<in> set (bt_keys (ccf_hosts config))")
  case True
  with assms show ?thesis by (simp add: validate_runtime_configs_iff)
next
  case False
  have "bt_get (ccf_hosts config) [] = None"
    using assms(2) by (simp add: has_host_override_def bt_contains_key_def)
  with False have "resolved config h = resolved config []"
    by (auto simp: set_bt_keys resolved_unlisted domIff)
  with assms(1) show ?thesis by (simp add: validate_runtime_configs_iff)
qed

lemma load_control_config_valid:
  "load_control_config read_to_string toml to_json path = Inr lc \<Longrightarrow>
     validate_runtime_configs to_json (lc_config lc) = Inr ()"
  by (cases path) (auto simp: load_control_config_def Let_def)

text \<open>Without a configured path loading cannot fail.\<close>

lemma load_control_config_no_path:
  "load_control_config read_to_string toml to_json None =
     Inr \<lparr>lc_source_version = config_source_version [], lc_config = control_config_default\<rparr>"
proof -
  have "validate_runtime_configs to_json control_config_default = Inr ()"
    by (simp add: validate_runtime_configs_iff control_config_default_wf)
  then show ?thesis by (simp add: load_control_config_def)
qed

section \<open>Authorisation and the config handler\<close>

lemma authorized_iff:
  "authorized digest headers token \<longleftrightarrow>
     (\<exists>candidate. headers AUTHORIZATION = Some (''Bearer '' @ candidate) \<and> matches digest token candidate)"
  by (auto simp: authorized_def split: option.splits)

lemma header_value_eq_Some:
  "header_value headers name = Some v \<longleftrightarrow> v \<noteq> [] \<and> (\<exists>raw. headers name = Some raw \<and> v = trim raw)"
  by (auto simp: header_value_def Let_def split: option.splits if_splits)

lemma connected_agent_for_config_eq_Some [simp]:
  "connected_agent_for_config agents agent_id sid = Some a \<longleftrightarrow>
     bt_get agents agent_id = Some a \<and> ca_connection_id a = sid"
  by (auto simp: connected_agent_for_config_def split: option.splits if_splits)

lemma agent_config_Body:
  "agent_config digest to_json token agents config headers = Body runtime \<longleftrightarrow>
     authorized digest headers token \<and>
     (\<exists>agent_id sid a.
        header_value headers AGENT_ID_HEADER = Some agent_id \<and>
        header_value headers CONFIG_SESSION_ID_HEADER = Some sid \<and>
        bt_get agents agent_id = Some a \<and> ca_connection_id a = sid \<and>
        agent_has_config_credential digest config (ca_agent_id a) (ca_hostname a)
          (header_value headers AGENT_CONFIG_TOKEN_HEADER) \<and>
        runtime_config_for to_json config (ca_hostname a) = Inr runtime)"
  by (auto simp: agent_config_def connected_agent_for_config_def Let_def
      split: option.splits sum.splits if_splits)

lemma agent_config_no_500:
  assumes "\<forall>h. sections_wf (resolved config h)"
  shows "agent_config digest to_json token agents config headers \<noteq> Failure INTERNAL_SERVER_ERROR"
proof -
  have "\<exists>rt. runtime_config_for to_json config h = Inr rt" for h
    using assms by (simp add: runtime_config_for_iff)
  then show ?thesis
    by (auto simp: agent_config_def Let_def split: option.splits sum.splits) (metis sum.distinct(1))
qed

section \<open>The agent table under the handlers\<close>

lemma owned_by_iff: "owned_by agents agent_id c \<longleftrightarrow> (\<exists>a. bt_get agents agent_id = Some a \<and> ca_connection_id a = c)"
  by (simp add: owned_by_def split: option.splits)

text \<open>Every entry is stored under its own agent id.\<close>

definition keyed_by_id :: "agent_table \<Rightarrow> bool" where
  "keyed_by_id agents \<longleftrightarrow> (\<forall>i a. bt_get agents i = Some a \<longrightarrow> ca_agent_id a = i)"

text \<open>The entries of a connection are at most the one it is bound to.\<close>

definition bound_entries :: "agent_table \<Rightarrow> string \<Rightarrow> string option \<Rightarrow> bool" where
  "bound_entries agents c current \<longleftrightarrow>
     (\<forall>i a. bt_get agents i = Some a \<and> ca_connection_id a = c \<longrightarrow> current = Some i)"

lemma new_connected_agent_simps [simp]:
  "ca_agent_id (new_connected_agent h now c) = ah_agent_id h"
  "ca_hostname (new_connected_agent h now c) = ah_hostname h"
  "ca_connection_id (new_connected_agent h now c) = c"
  "ca_config_version (new_connected_agent h now c) = None"
  by (simp_all add: new_connected_agent_def)

lemma register_locked_get:
  assumes "register_locked agents c current hello now = Some (current', agents', t)"
  shows "current' = Some (ah_agent_id hello)" "t = now"
    and "bt_get agents' = (\<lambda>i. if i = ah_agent_id hello then Some (new_connected_agent hello now c)
           else if current = Some i \<and> owned_by agents i c then None else bt_get agents i)"
    and "\<And>a. bt_get agents (ah_agent_id hello) = Some a \<Longrightarrow> ca_connection_id a = c"
  using assms
  by (auto simp: register_locked_def Let_def fun_eq_iff split: option.splits if_splits)

lemma handle_heartbeat_get:
  "bt_get (handle_heartbeat agents c current now i h v cv ec) =
     (\<lambda>j. if j = i \<and> current = Some i \<and> owned_by agents i c
          then map_option (\<lambda>a. a\<lparr>ca_hostname := h, ca_agent_version := v, ca_config_version := Some cv,
                 ca_enabled_collectors := ec, ca_last_seen_unix_seconds := now\<rparr>) (bt_get agents i)
          else bt_get agents j)"
  by (auto simp: handle_heartbeat_def owned_by_def fun_eq_iff split: option.splits)

lemma remove_agent_get:
  "bt_get (remove_agent agents c current) =
     (\<lambda>i. if current = Some i \<and> owned_by agents i c then None else bt_get agents i)"
  by (auto simp: remove_agent_def fun_eq_iff split: option.splits)

lemma table_ok [simp]:
  "bt_ok agents \<Longrightarrow> register_locked agents c current hello now = Some (current', agents', t) \<Longrightarrow> bt_ok agents'"
  "bt_ok agents \<Longrightarrow> bt_ok (handle_heartbeat agents c current now i h v cv ec)"
  "bt_ok agents \<Longrightarrow> bt_ok (remove_agent agents c current)"
  by (auto simp: register_locked_def handle_heartbeat_def remove_agent_def Let_def
      split: option.splits if_splits)

text \<open>What any handler of connection \<open>c\<close> may do to the table: the entries of other connections are
  untouched, the keys stay right, and the connection still owns at most its bound entry.\<close>

definition others_same :: "string \<Rightarrow> agent_table \<Rightarrow> agent_table \<Rightarrow> bool" where
  "others_same c agents agents' \<longleftrightarrow>
     (\<forall>i a. ca_connection_id a \<noteq> c \<longrightarrow> (bt_get agents' i = Some a \<longleftrightarrow> bt_get agents i = Some a))"

definition table_step :: "string \<Rightarrow> string option \<times> agent_table \<Rightarrow> string option \<times> agent_table \<Rightarrow> bool" where
  "table_step c s s' \<longleftrightarrow>
     others_same c (snd s) (snd s') \<and>
     (keyed_by_id (snd s) \<longrightarrow> keyed_by_id (snd s')) \<and>
     (bound_entries (snd s) c (fst s) \<longrightarrow> bound_entries (snd s') c (fst s')) \<and>
     (bt_ok (snd s) \<longrightarrow> bt_ok (snd s'))"

lemma table_step_refl [simp]: "table_step c s s"
  by (simp add: table_step_def others_same_def)

lemma table_step_register:
  assumes "register_locked agents c current hello now = Some (current', agents', t)"
  shows "table_step c (current, agents) (current', agents')"
proof -
  note get = register_locked_get [OF assms]
  have "bt_get agents' i = Some a \<longleftrightarrow> bt_get agents i = Some a" if "ca_connection_id a \<noteq> c" for i a
  proof (cases "i = ah_agent_id hello")
    case True
    with that get(4) [of a] show ?thesis by (auto simp: get(3))
  next
    case False
    have g: "bt_get agents' i = (if current = Some i \<and> owned_by agents i c then None else bt_get agents i)"
      using False by (simp add: get(3))
    show ?thesis
    proof (cases "current = Some i \<and> owned_by agents i c")
      case True
      then obtain b where "bt_get agents i = Some b" "ca_connection_id b = c"
        by (metis owned_by_iff)
      with that g True show ?thesis by auto
    next
      case False
      then show ?thesis by (simp only: g if_False)
    qed
  qed
  then have "others_same c agents agents'" by (simp add: others_same_def)
  moreover have "keyed_by_id agents \<longrightarrow> keyed_by_id agents'"
    by (simp add: keyed_by_id_def get(3))
  moreover have "bound_entries agents c current \<longrightarrow> bound_entries agents' c current'"
  proof (intro impI)
    assume b: "bound_entries agents c current"
    show "bound_entries agents' c current'"
      unfolding bound_entries_def
    proof (intro allI impI, elim conjE)
      fix i a assume i: "bt_get agents' i = Some a" "ca_connection_id a = c"
      show "current' = Some i"
      proof (cases "i = ah_agent_id hello")
        case True
        then show ?thesis by (simp add: get(1))
      next
        case False
        with i(1) have o: "bt_get agents i = Some a" "\<not> (current = Some i \<and> owned_by agents i c)"
          by (simp_all add: get(3) split: if_splits)
        with b i(2) show ?thesis by (auto simp: bound_entries_def owned_by_def)
      qed
    qed
  qed
  ultimately show ?thesis by (simp add: table_step_def table_ok(1) [OF _ assms])
qed

lemma table_step_heartbeat:
  "table_step c (current, agents) (current, handle_heartbeat agents c current now i h v cv ec)"
proof -
  let ?t = "handle_heartbeat agents c current now i h v cv ec"
  have "others_same c agents ?t"
    unfolding others_same_def handle_heartbeat_get by (auto simp: owned_by_iff)
  moreover have "keyed_by_id agents \<longrightarrow> keyed_by_id ?t"
    unfolding keyed_by_id_def handle_heartbeat_get by auto
  moreover have "bound_entries agents c current \<longrightarrow> bound_entries ?t c current"
    unfolding bound_entries_def handle_heartbeat_get by auto
  ultimately show ?thesis by (simp add: table_step_def)
qed

lemma table_step_remove: "table_step c (current, agents) (current, remove_agent agents c current)"
proof -
  let ?t = "remove_agent agents c current"
  have "others_same c agents ?t"
    unfolding others_same_def remove_agent_get by (auto simp: owned_by_iff)
  moreover have "keyed_by_id agents \<longrightarrow> keyed_by_id ?t"
    unfolding keyed_by_id_def remove_agent_get by auto
  moreover have "bound_entries agents c current \<longrightarrow> bound_entries ?t c current"
    unfolding bound_entries_def remove_agent_get by auto
  ultimately show ?thesis by (simp add: table_step_def)
qed

lemma table_step_message:
  "handle_agent_message digest parse_msg config agents c current token text now send_ok = (s', ws, r) \<Longrightarrow>
     table_step c (current, agents) s'"
  by (auto simp: handle_agent_message_def register_agent_connection_def
      split: option.splits agent_control_message.splits if_splits prod.splits
      intro: table_step_register table_step_heartbeat)

text \<open>A new name in the table comes from a hello that proved its credential.\<close>

lemma message_registers:
  assumes "handle_agent_message digest parse_msg config agents c current token text now send_ok =
      ((current', agents'), ws, r)"
    and "bt_get agents i = None" "bt_get agents' i = Some a"
  obtains h v b tok where "parse_msg text = Some (Hello i h v b)" "token = Some tok"
    "agent_is_enrolled_for_hostname config i h" "agent_config_token_matches digest config i tok"
    "ca_hostname a = h" "ca_connection_id a = c"
proof (cases "parse_msg text")
  case None
  then show thesis using assms by (simp add: handle_agent_message_def)
next
  case (Some m)
  show thesis
  proof (cases m)
    case (Hello i' h v b)
    let ?hello = "\<lparr>ah_agent_id = i', ah_hostname = h, ah_agent_version = v, ah_boot_id = b\<rparr>"
    obtain cur t where auth: "agent_hello_authorized digest config ?hello token"
      and reg: "register_locked agents c current ?hello now = Some (cur, agents', t)"
      using assms Some Hello
      by (auto simp: handle_agent_message_def register_agent_connection_def split: option.splits if_splits)
    have get: "bt_get agents' i = (if i = i' then Some (new_connected_agent ?hello now c)
           else if current = Some i \<and> owned_by agents i c then None else bt_get agents i)"
      using register_locked_get(3) [OF reg] by simp
    then have "i = i'" "a = new_connected_agent ?hello now c"
      using assms(2,3) by (auto split: if_splits)
    then show thesis
      using that [of h v b] Some Hello auth
      by (auto simp: agent_hello_authorized_def agent_has_config_credential_def split: option.splits)
  next
    case (Heartbeat i' h v cv ec)
    have "agents' = handle_heartbeat agents c current now i' h v cv ec"
      using assms(1) Some Heartbeat by (auto simp: handle_agent_message_def)
    then show thesis using assms(2,3) by (auto simp: handle_heartbeat_get split: if_splits)
  qed
qed

lemma socket_registers:
  assumes "run_agent_socket_step digest parse_msg config agents c current token event now send_ok =
      ((current', agents'), ws, r)"
    and "bt_get agents i = None" "bt_get agents' i = Some a"
  obtains msg r' where "event = Incoming (WsText msg)"
    "handle_agent_message digest parse_msg config agents c current token msg now send_ok = ((current', agents'), ws, r')"
proof (cases "\<exists>text. event = Incoming (WsText text)")
  case True
  then show thesis using assms(1) that by (auto simp: run_agent_socket_step_def split: prod.splits)
next
  case False
  then have "agents' = agents"
    using assms(1)
    by (auto simp: run_agent_socket_step_def split: socket_event.splits recv_result.splits ws_message.splits)
  then show thesis using assms(2,3) by simp
qed

lemma table_step_socket:
  "run_agent_socket_step digest parse_msg config agents c current token event now send_ok = (s', ws, r) \<Longrightarrow>
     table_step c (current, agents) s'"
  by (auto simp: run_agent_socket_step_def split: socket_event.splits recv_result.splits ws_message.splits
      prod.splits intro: table_step_message)

text \<open>After \<open>remove_agent\<close> a connection that owned at most its bound entry owns nothing.\<close>

lemma remove_agent_clears:
  "bound_entries agents c current \<Longrightarrow> bt_get (remove_agent agents c current) i = Some a \<Longrightarrow> ca_connection_id a \<noteq> c"
  by (auto simp: remove_agent_get bound_entries_def owned_by_iff split: if_splits)

lemma credential_iff:
  "agent_has_config_credential digest config i h presented \<longleftrightarrow>
     (\<exists>tok e secret. presented = Some tok \<and> bt_get (ccf_agents config) i = Some e \<and> en_hostname e = h \<and>
        en_config_token e = Some secret \<and> matches digest secret tok)"
  by (auto simp: agent_has_config_credential_def agent_is_enrolled_for_hostname_def
      agent_config_token_matches_def split: option.splits)

section \<open>Properties\<close>

text \<open>C2: The configuration endpoint hands out a configuration exactly when the request bears the agent
  token, names an agent whose registered session is the one it presents, that agent is enrolled for the
  host name of its session, its config token matches, and the configuration resolved for that host
  validates; it is then that configuration.  Every other request gets an error status.\<close>

theorem agent_config_granted_iff:
  "agent_config digest to_json token agents config headers = Body runtime \<longleftrightarrow>
     (\<exists>candidate. headers AUTHORIZATION = Some (''Bearer '' @ candidate) \<and> matches digest token candidate) \<and>
     (\<exists>agent_id a config_token e secret.
        header_value headers AGENT_ID_HEADER = Some agent_id \<and>
        bt_get agents agent_id = Some a \<and>
        header_value headers CONFIG_SESSION_ID_HEADER = Some (ca_connection_id a) \<and>
        header_value headers AGENT_CONFIG_TOKEN_HEADER = Some config_token \<and>
        bt_get (ccf_agents config) (ca_agent_id a) = Some e \<and> en_hostname e = ca_hostname a \<and>
        en_config_token e = Some secret \<and> matches digest secret config_token \<and>
        runtime_config_for to_json config (ca_hostname a) = Inr runtime)"
  unfolding agent_config_Body authorized_iff credential_iff by blast

text \<open>C12: A control file that loads serves every host, listed or not, unless it has an override block
  for the empty host name: the checks on the empty name and on the listed hosts cover all others.\<close>

theorem loaded_config_serves_every_host:
  assumes "load_control_config read_to_string toml to_json path = Inr loaded"
    and "\<not> has_host_override (lc_config loaded) []"
  shows "\<exists>runtime. runtime_config_for to_json (lc_config loaded) hostname = Inr runtime \<and> runtime_wf runtime"
proof -
  have wf: "sections_wf (resolved (lc_config loaded) hostname)"
    using validate_runtime_configs_all [OF load_control_config_valid [OF assms(1)] assms(2)] .
  let ?r = "(resolved (lc_config loaded) hostname)\<lparr>cfg_version :=
    effective_config_version to_json hostname (resolved (lc_config loaded) hostname)\<rparr>"
  have "runtime_config_for to_json (lc_config loaded) hostname = Inr ?r"
    using wf by (simp add: runtime_config_for_iff)
  moreover have "runtime_wf ?r" using wf effective_version_not_blank by (simp add: runtime_wf_version)
  ultimately show ?thesis by blast
qed

lemma loaded_config_serves_every_host_witness:
  "\<exists>runtime. runtime_config_for (\<lambda>_. Some []) control_config_default ''web'' = Inr runtime \<and> runtime_wf runtime"
proof -
  have "\<not> has_host_override control_config_default []"
    by (simp add: control_config_default_def has_host_override_def bt_contains_key_def)
  then show ?thesis
    using loaded_config_serves_every_host
      [OF load_control_config_no_path [of "\<lambda>_. Inr []" "\<lambda>_. Inr control_config_default" "\<lambda>_. Some []"]]
    by simp
qed

text \<open>A control file whose defaults are invalid but repaired in the block of the empty host name.\<close>

definition masked_config :: control_config_file where
  "masked_config =
     control_config_default\<lparr>
       ccf_defaults := host_override_default\<lparr>ov_memory := memory_override_default\<lparr>ov_memory_interval_seconds := Some 0\<rparr>\<rparr>,
       ccf_hosts := [([], host_override_default\<lparr>ov_memory := memory_override_default\<lparr>ov_memory_interval_seconds := Some 10\<rparr>\<rparr>)]\<rparr>"

lemma masked_resolved:
  "resolved masked_config h =
     (if h = [] then runtime_default\<lparr>cfg_memory := (cfg_memory runtime_default)\<lparr>memory_interval_seconds := 10\<rparr>\<rparr>
      else runtime_default\<lparr>cfg_memory := (cfg_memory runtime_default)\<lparr>memory_interval_seconds := 0\<rparr>\<rparr>)"
  by (auto simp: resolved_def masked_config_def host_apply_to_def memory_apply_to_def agent_settings_apply_to_def
      storage_apply_to_def cpu_apply_to_def network_apply_to_def disk_io_apply_to_def pod_discovery_apply_to_def
      tcp_apply_to_def set_opt_def control_config_default_def host_override_default_def
      agent_settings_override_default_def storage_override_default_def memory_override_default_def
      cpu_override_default_def network_override_default_def disk_io_override_default_def
      pod_discovery_override_default_def tcp_override_default_def)

text \<open>C39: The exception is real: a file with an override block for the empty host name can pass the
  startup and reload checks although its defaults are invalid, and every host that is not listed is
  then refused its configuration.\<close>

theorem empty_host_block_masks_invalid_default:
  "validate_runtime_configs (\<lambda>_. Some []) masked_config = Inr () \<and>
     runtime_config_for (\<lambda>_. Some []) masked_config (c # name) = Inl EmptyMemoryInterval"
proof (rule conjI)
  have d: "sections_wf runtime_default" using runtime_default_wf by (simp add: runtime_wf_def)
  have k: "bt_keys (ccf_hosts masked_config) = [[]]" by (simp add: masked_config_def bt_keys_def)
  have "sections_wf (resolved masked_config [])" using d by (simp add: masked_resolved sections_wf_def)
  then show "validate_runtime_configs (\<lambda>_. Some []) masked_config = Inr ()"
    by (simp add: validate_runtime_configs_iff k)
next
  obtain h where h: "h = c # name" by simp
  let ?r = "runtime_default\<lparr>cfg_memory := (cfg_memory runtime_default)\<lparr>memory_interval_seconds := 0\<rparr>\<rparr>"
  let ?v = "effective_config_version (\<lambda>_. Some []) h ?r"
  have d: "sections_wf runtime_default" using runtime_default_wf by (simp add: runtime_wf_def)
  have "trim ?v \<noteq> []" using effective_version_not_blank [of "\<lambda>_. Some []" h ?r] by (simp add: trim_eq_Nil)
  moreover have "agent_settings_validate (cfg_agent runtime_default) = Inr ()"
    "storage_validate (cfg_storage runtime_default) = Inr ()"
    using d by (simp_all add: sections_wf_def validate_simps)
  ultimately have "runtime_validate (?r\<lparr>cfg_version := ?v\<rparr>) = Inl EmptyMemoryInterval"
    by (simp add: runtime_validate_def memory_validate_def)
  then show "runtime_config_for (\<lambda>_. Some []) masked_config (c # name) = Inl EmptyMemoryInterval"
    unfolding runtime_config_for_def Let_def resolved_def [symmetric] masked_resolved by (simp add: h)
qed

end
