(* ===== verification/Control_System.thy ===== *)
theory Control_System
  imports Control_Server
begin

text \<open>
  The control server as a whole: any number of agent connections, the admin's reloads and the shared
  state they meet in, interleaved lock by lock.  A connection's task is the loop of
  \<open>run_agent_socket\<close> between the upgrade of \<open>agent_control\<close> and the \<open>remove_agent\<close> of
  \<open>handle_agent_socket\<close>; reading the configuration for a hello is a step of its own, so a reload may
  fall between it and the registration.  Connection ids are fresh (\<open>Uuid::new_v4\<close>).
\<close>

record connection =
  cn_current :: "string option"
  cn_token :: "string option"
  cn_config :: control_config_file
  cn_running :: bool

record control_system =
  sys_state :: app_state
  sys_conns :: "string \<rightharpoonup> connection"
  sys_used :: "string set"

text \<open>\<open>agent_control\<close>: the upgrade is refused, or a connection's first state.\<close>

definition agent_control :: "(u8 list \<Rightarrow> 'd) \<Rightarrow> app_state \<Rightarrow> headers \<Rightarrow> connection response" where
  "agent_control digest state headers =
     (if \<not> authorized digest headers (st_agent_token state) then Failure UNAUTHORIZED
      else Body \<lparr>cn_current = None, cn_token = header_value headers AGENT_CONFIG_TOKEN_HEADER,
                 cn_config = lc_config (st_config state), cn_running = True\<rparr>)"

definition connect :: "string \<Rightarrow> connection \<Rightarrow> control_system \<Rightarrow> control_system" where
  "connect c cn sys =
     sys\<lparr>sys_conns := (sys_conns sys)(c \<mapsto> cn), sys_used := insert c (sys_used sys)\<rparr>"

definition read_config :: "string \<Rightarrow> connection \<Rightarrow> control_system \<Rightarrow> control_system" where
  "read_config c cn sys =
     sys\<lparr>sys_conns := (sys_conns sys)(c \<mapsto> cn\<lparr>cn_config := lc_config (st_config (sys_state sys))\<rparr>)\<rparr>"

definition socket_step ::
    "(u8 list \<Rightarrow> 'd) \<Rightarrow> (string \<Rightarrow> agent_control_message option) \<Rightarrow> string \<Rightarrow> connection \<Rightarrow> socket_event \<Rightarrow> u64 \<Rightarrow>
     bool \<Rightarrow> control_system \<Rightarrow> control_system" where
  "socket_step digest parse_msg c cn event now send_ok sys =
     (let ((current, agents), ws, outcome) =
            run_agent_socket_step digest parse_msg (cn_config cn) (st_agents (sys_state sys)) c
              (cn_current cn) (cn_token cn) event now send_ok
      in sys\<lparr>sys_state := (sys_state sys)\<lparr>st_agents := agents\<rparr>,
             sys_conns := (sys_conns sys)(c \<mapsto> cn\<lparr>cn_current := current, cn_running := (outcome = Continue)\<rparr>)\<rparr>)"

definition finish :: "string \<Rightarrow> connection \<Rightarrow> control_system \<Rightarrow> control_system" where
  "finish c cn sys =
     sys\<lparr>sys_state := (sys_state sys)\<lparr>st_agents := remove_agent (st_agents (sys_state sys)) c (cn_current cn)\<rparr>,
         sys_conns := (sys_conns sys)(c := None)\<rparr>"

inductive sys_step ::
    "(u8 list \<Rightarrow> 'd) \<Rightarrow> (string \<Rightarrow> agent_control_message option) \<Rightarrow> (string \<Rightarrow> (toml_error, control_config_file) result) \<Rightarrow>
     (agent_runtime_config \<Rightarrow> string option) \<Rightarrow> control_system \<Rightarrow> control_system \<Rightarrow> bool"
  for digest :: "u8 list \<Rightarrow> 'd"
    and parse_msg :: "string \<Rightarrow> agent_control_message option"
    and toml :: "string \<Rightarrow> (toml_error, control_config_file) result"
    and to_json :: "agent_runtime_config \<Rightarrow> string option" where
  step_connect:
    "agent_control digest (sys_state sys) headers = Body cn \<Longrightarrow> c \<notin> sys_used sys \<Longrightarrow>
       sys_step digest parse_msg toml to_json sys (connect c cn sys)"
| step_read_config:
    "sys_conns sys c = Some cn \<Longrightarrow> cn_running cn \<Longrightarrow>
       sys_step digest parse_msg toml to_json sys (read_config c cn sys)"
| step_socket:
    "sys_conns sys c = Some cn \<Longrightarrow> cn_running cn \<Longrightarrow>
       sys_step digest parse_msg toml to_json sys (socket_step digest parse_msg c cn event now send_ok sys)"
| step_finish:
    "sys_conns sys c = Some cn \<Longrightarrow> \<not> cn_running cn \<Longrightarrow>
       sys_step digest parse_msg toml to_json sys (finish c cn sys)"
| step_reload:
    "admin_config_reload digest read_to_string toml to_json (sys_state sys) headers = (state', response) \<Longrightarrow>
       sys_step digest parse_msg toml to_json sys (sys\<lparr>sys_state := state'\<rparr>)"

definition sys_start :: "app_state \<Rightarrow> control_system" where
  "sys_start state = \<lparr>sys_state = state, sys_conns = Map.empty, sys_used = {}\<rparr>"

inductive sys_reachable ::
    "(u8 list \<Rightarrow> 'd) \<Rightarrow> (string \<Rightarrow> agent_control_message option) \<Rightarrow> (string \<Rightarrow> (toml_error, control_config_file) result) \<Rightarrow>
     (agent_runtime_config \<Rightarrow> string option) \<Rightarrow> control_system \<Rightarrow> bool"
  for digest :: "u8 list \<Rightarrow> 'd"
    and parse_msg :: "string \<Rightarrow> agent_control_message option"
    and toml :: "string \<Rightarrow> (toml_error, control_config_file) result"
    and to_json :: "agent_runtime_config \<Rightarrow> string option" where
  reach_start:
    "initial_state env read_to_string toml to_json path = Inr state \<Longrightarrow>
       sys_reachable digest parse_msg toml to_json (sys_start state)"
| reach_step:
    "sys_reachable digest parse_msg toml to_json sys \<Longrightarrow> sys_step digest parse_msg toml to_json sys sys' \<Longrightarrow>
       sys_reachable digest parse_msg toml to_json sys'"

inductive_cases sys_stepE: "sys_step digest parse_msg toml to_json sys sys'"

section \<open>The session invariant\<close>

text \<open>Every entry of the agent table is stored under its agent id and belongs to a live connection
  that is bound to that id; live connections use ids that were handed out.\<close>

definition sessions_ok :: "agent_table \<Rightarrow> (string \<rightharpoonup> connection) \<Rightarrow> bool" where
  "sessions_ok agents conns \<longleftrightarrow>
     bt_ok agents \<and> keyed_by_id agents \<and>
     (\<forall>i a. bt_get agents i = Some a \<longrightarrow>
        (\<exists>cn. conns (ca_connection_id a) = Some cn \<and> cn_current cn = Some i))"

definition sys_ok :: "control_system \<Rightarrow> bool" where
  "sys_ok sys \<longleftrightarrow> sessions_ok (st_agents (sys_state sys)) (sys_conns sys) \<and> dom (sys_conns sys) \<subseteq> sys_used sys"

lemma sessions_ok_bound:
  assumes "sessions_ok agents conns" "conns c = Some cn"
  shows "bound_entries agents c (cn_current cn)"
  unfolding bound_entries_def
proof (intro allI impI, elim conjE)
  fix i a assume "bt_get agents i = Some a" "ca_connection_id a = c"
  with assms show "cn_current cn = Some i" by (force simp: sessions_ok_def)
qed

text \<open>A table step of connection \<open>c\<close> keeps the sessions right, whatever else happens to its state.\<close>

lemma sessions_ok_table_step:
  assumes "sessions_ok agents conns" "conns c = Some cn"
    and "table_step c (cn_current cn, agents) (cn_current cn', agents')"
  shows "sessions_ok agents' (conns(c \<mapsto> cn'))"
proof -
  have b: "bound_entries agents' c (cn_current cn')"
    using assms(3) sessions_ok_bound [OF assms(1,2)] by (simp add: table_step_def)
  have "\<exists>x. (conns(c \<mapsto> cn')) (ca_connection_id a) = Some x \<and> cn_current x = Some i"
    if g: "bt_get agents' i = Some a" for i a
  proof (cases "ca_connection_id a = c")
    case True
    with b g show ?thesis by (simp add: bound_entries_def)
  next
    case False
    with g assms(3) have "bt_get agents i = Some a" by (simp add: table_step_def others_same_def)
    with assms(1) False show ?thesis by (simp add: sessions_ok_def)
  qed
  moreover have "bt_ok agents'" "keyed_by_id agents'"
    using assms by (simp_all add: table_step_def sessions_ok_def)
  ultimately show ?thesis by (simp add: sessions_ok_def)
qed

lemma sessions_ok_remove:
  assumes "sessions_ok agents conns" "conns c = Some cn"
  shows "sessions_ok (remove_agent agents c (cn_current cn)) (conns(c := None))"
proof -
  let ?t = "remove_agent agents c (cn_current cn)"
  have ts: "table_step c (cn_current cn, agents) (cn_current cn, ?t)" by (rule table_step_remove)
  have s: "sessions_ok ?t (conns(c \<mapsto> cn))" by (rule sessions_ok_table_step [OF assms ts])
  have c: "ca_connection_id a \<noteq> c" if "bt_get ?t i = Some a" for i a
    using remove_agent_clears [OF sessions_ok_bound [OF assms] that] .
  have "\<exists>x. (conns(c := None)) (ca_connection_id a) = Some x \<and> cn_current x = Some i"
    if g: "bt_get ?t i = Some a" for i a
  proof -
    from s g have "\<exists>x. (conns(c \<mapsto> cn)) (ca_connection_id a) = Some x \<and> cn_current x = Some i"
      unfolding sessions_ok_def by blast
    with c [OF g] show ?thesis by simp
  qed
  moreover have "bt_ok ?t" "keyed_by_id ?t" using s by (simp_all add: sessions_ok_def)
  ultimately show ?thesis by (simp add: sessions_ok_def)
qed

lemma sys_ok_start: "initial_state env rd toml to_json path = Inr state \<Longrightarrow> sys_ok (sys_start state)"
  by (auto simp: initial_state_def sys_ok_def sys_start_def sessions_ok_def keyed_by_id_def bt_ok_def bt_keys_def)

lemma sys_ok_connect: "sys_ok sys \<Longrightarrow> c \<notin> sys_used sys \<Longrightarrow> sys_ok (connect c cn sys)"
  by (fastforce simp: sys_ok_def connect_def sessions_ok_def)

lemma sys_ok_read_config: "sys_ok sys \<Longrightarrow> sys_conns sys c = Some cn \<Longrightarrow> sys_ok (read_config c cn sys)"
  using sessions_ok_table_step [OF _ _ table_step_refl, of "st_agents (sys_state sys)" "sys_conns sys" c cn]
  by (fastforce simp: sys_ok_def read_config_def sessions_ok_def)

lemma sys_ok_socket:
  assumes "sys_ok sys" "sys_conns sys c = Some cn"
  shows "sys_ok (socket_step digest parse_msg c cn event now send_ok sys)"
proof -
  obtain current agents ws outcome where r:
    "run_agent_socket_step digest parse_msg (cn_config cn) (st_agents (sys_state sys)) c
       (cn_current cn) (cn_token cn) event now send_ok = ((current, agents), ws, outcome)"
    by (metis surj_pair)
  have "table_step c (cn_current cn, st_agents (sys_state sys)) (current, agents)"
    by (rule table_step_socket [OF r])
  then have "sessions_ok agents
      ((sys_conns sys)(c \<mapsto> cn\<lparr>cn_current := current, cn_running := (outcome = Continue)\<rparr>))"
    using assms by (intro sessions_ok_table_step) (auto simp: sys_ok_def)
  then show ?thesis using assms by (auto simp: sys_ok_def socket_step_def r)
qed

lemma sys_ok_finish: "sys_ok sys \<Longrightarrow> sys_conns sys c = Some cn \<Longrightarrow> sys_ok (finish c cn sys)"
  using sessions_ok_remove by (fastforce simp: sys_ok_def finish_def)

lemma reload_keeps_agents:
  "admin_config_reload digest rd toml to_json state headers = (state', r) \<Longrightarrow> st_agents state' = st_agents state"
  by (auto simp: admin_config_reload_def Let_def split: if_splits sum.splits)

lemma sys_ok_step: "sys_step digest parse_msg toml to_json sys sys' \<Longrightarrow> sys_ok sys \<Longrightarrow> sys_ok sys'"
  by (induction rule: sys_step.induct)
    (auto simp: sys_ok_connect sys_ok_read_config sys_ok_socket sys_ok_finish, simp add: sys_ok_def reload_keeps_agents)

lemma sys_reachable_ok: "sys_reachable digest parse_msg toml to_json sys \<Longrightarrow> sys_ok sys"
  by (induction rule: sys_reachable.induct) (auto intro: sys_ok_start sys_ok_step)

section \<open>The lease specification\<close>

text \<open>
  What the agent table promises, without tables, messages and configurations: a lease of agent ids.  A
  connection holds at most one id, takes one that no other connection holds (giving up the one it
  held), or gives it up; nothing else happens.
\<close>

type_synonym leases = "string \<rightharpoonup> string"

inductive lease_step :: "leases \<Rightarrow> leases \<Rightarrow> bool" where
  lease_stay: "lease_step leases leases"
| lease_claim: "\<forall>d. leases d = Some i \<longrightarrow> d = c \<Longrightarrow> lease_step leases (leases(c \<mapsto> i))"
| lease_release: "lease_step leases (leases(c := None))"

definition lease_of :: "control_system \<Rightarrow> leases" where
  "lease_of sys c =
     (case sys_conns sys c of
        None \<Rightarrow> None
      | Some cn \<Rightarrow>
          (case cn_current cn of
             None \<Rightarrow> None
           | Some i \<Rightarrow> if owned_by (st_agents (sys_state sys)) i c then Some i else None))"

lemma lease_of_iff:
  "lease_of sys c = Some i \<longleftrightarrow>
     (\<exists>cn. sys_conns sys c = Some cn \<and> cn_current cn = Some i \<and> owned_by (st_agents (sys_state sys)) i c)"
  by (auto simp: lease_of_def split: option.splits)

text \<open>A step of connection \<open>c\<close> that keeps the entries of the others changes the lease of \<open>c\<close> only, and
  cannot take what another holds.\<close>

lemma lease_step_connection:
  assumes conns: "\<And>d. d \<noteq> c \<Longrightarrow> sys_conns sys' d = sys_conns sys d"
    and others: "others_same c (st_agents (sys_state sys)) (st_agents (sys_state sys'))"
  shows "lease_step (lease_of sys) (lease_of sys')"
proof -
  have same: "owned_by (st_agents (sys_state sys')) i d \<longleftrightarrow> owned_by (st_agents (sys_state sys)) i d"
    if "d \<noteq> c" for i d
    using others that unfolding owned_by_iff others_same_def by blast
  have upd: "lease_of sys' = (lease_of sys)(c := lease_of sys' c)"
    by (rule ext) (simp add: lease_of_def conns same split: option.splits)
  show ?thesis
  proof (cases "lease_of sys' c")
    case None
    then show ?thesis using lease_release [of "lease_of sys" c] upd by simp
  next
    case (Some i)
    have "d = c" if "lease_of sys d = Some i" for d
    proof (rule ccontr)
      assume "d \<noteq> c"
      then have "owned_by (st_agents (sys_state sys')) i d" using that same by (auto simp: lease_of_iff)
      moreover have "owned_by (st_agents (sys_state sys')) i c" using Some by (auto simp: lease_of_iff)
      ultimately show False using \<open>d \<noteq> c\<close> by (auto simp: owned_by_iff)
    qed
    then show ?thesis using lease_claim [of "lease_of sys" i c] upd Some by simp
  qed
qed

lemma others_same_socket:
  "others_same c (st_agents (sys_state sys))
     (st_agents (sys_state (socket_step digest parse_msg c cn event now send_ok sys)))"
proof -
  obtain current agents ws outcome where r:
    "run_agent_socket_step digest parse_msg (cn_config cn) (st_agents (sys_state sys)) c
       (cn_current cn) (cn_token cn) event now send_ok = ((current, agents), ws, outcome)"
    by (metis surj_pair)
  from table_step_socket [OF r] show ?thesis by (simp add: socket_step_def r table_step_def)
qed

lemma others_same_finish:
  "others_same c (st_agents (sys_state sys)) (st_agents (sys_state (finish c cn sys)))"
  using table_step_remove [of c "cn_current cn" "st_agents (sys_state sys)"]
  by (simp add: finish_def table_step_def)

lemma sys_step_lease: "sys_step digest parse_msg toml to_json sys sys' \<Longrightarrow> lease_step (lease_of sys) (lease_of sys')"
proof (induction rule: sys_step.induct)
  case (step_connect sys headers cn c)
  show ?case by (rule lease_step_connection [of c]) (simp_all add: connect_def others_same_def)
next
  case (step_read_config sys c cn)
  show ?case by (rule lease_step_connection [of c]) (simp_all add: read_config_def others_same_def)
next
  case (step_socket sys c cn event now send_ok)
  show ?case
    by (rule lease_step_connection [OF _ others_same_socket])
      (simp add: socket_step_def split: prod.splits)
next
  case (step_finish sys c cn)
  show ?case by (rule lease_step_connection [OF _ others_same_finish]) (simp add: finish_def)
next
  case (step_reload read_to_string sys headers state' response)
  then have "st_agents state' = st_agents (sys_state sys)" by (rule reload_keeps_agents)
  then have "lease_of (sys\<lparr>sys_state := state'\<rparr>) = lease_of sys"
    by (simp add: lease_of_def fun_eq_iff split: option.splits)
  then show ?case by (simp add: lease_stay)
qed

section \<open>The configuration in force\<close>

lemma reload_config_valid:
  assumes "admin_config_reload digest rd toml to_json state headers = (state', r)"
    and "validate_runtime_configs to_json (lc_config (st_config state)) = Inr ()"
  shows "validate_runtime_configs to_json (lc_config (st_config state')) = Inr ()"
  using assms by (auto simp: admin_config_reload_def Let_def split: if_splits sum.splits
      dest: load_control_config_valid)

lemma initial_config_valid:
  "initial_state env rd toml to_json path = Inr state \<Longrightarrow>
     validate_runtime_configs to_json (lc_config (st_config state)) = Inr ()"
  by (auto simp: initial_state_def dest: load_control_config_valid)

lemma sys_step_config_valid:
  "sys_step digest parse_msg toml to_json sys sys' \<Longrightarrow>
     validate_runtime_configs to_json (lc_config (st_config (sys_state sys))) = Inr () \<Longrightarrow>
     validate_runtime_configs to_json (lc_config (st_config (sys_state sys'))) = Inr ()"
  by (induction rule: sys_step.induct)
    (auto simp: connect_def read_config_def socket_step_def finish_def split: prod.splits
      dest: reload_config_valid)

lemma sys_reachable_config_valid:
  "sys_reachable digest parse_msg toml to_json sys \<Longrightarrow>
     validate_runtime_configs to_json (lc_config (st_config (sys_state sys))) = Inr ()"
  by (induction rule: sys_reachable.induct)
    (auto simp: sys_start_def intro: initial_config_valid sys_step_config_valid)

text \<open>The tokens never change after startup.\<close>

lemma reload_keeps_tokens:
  "admin_config_reload digest rd toml to_json state headers = (state', r) \<Longrightarrow>
     st_agent_token state' = st_agent_token state \<and> st_admin_token state' = st_admin_token state"
  by (auto simp: admin_config_reload_def Let_def split: if_splits sum.splits)

definition tokens_ok :: "app_state \<Rightarrow> bool" where
  "tokens_ok s \<longleftrightarrow> st_agent_token s \<noteq> st_admin_token s \<and>
     st_agent_token s \<noteq> [] \<and> trim (st_agent_token s) = st_agent_token s \<and>
     st_admin_token s \<noteq> [] \<and> trim (st_admin_token s) = st_admin_token s"

lemma sys_reachable_tokens_ok:
  "sys_reachable digest parse_msg toml to_json sys \<Longrightarrow> tokens_ok (sys_state sys)"
proof (induction rule: sys_reachable.induct)
  case (reach_start env read_to_string path state)
  then show ?case
    by (auto simp: initial_state_def validate_control_tokens_def Let_def sys_start_def tokens_ok_def
        split: if_splits)
next
  case (reach_step sys sys')
  from reach_step(2,3) show ?case
    by (induction rule: sys_step.induct)
      (auto simp: connect_def read_config_def socket_step_def finish_def tokens_ok_def split: prod.splits
        dest!: reload_keeps_tokens)
qed

section \<open>A run of the server\<close>

text \<open>One enrolled agent, its upgrade and its hello; used to show that the properties below apply.\<close>

definition demo_config :: control_config_file where
  "demo_config = control_config_default\<lparr>ccf_agents :=
     [(''a1'', \<lparr>en_hostname = ''web'', en_config_token = Some ''t1''\<rparr>)]\<rparr>"

definition demo_state :: app_state where
  "demo_state =
     \<lparr>st_agent_token = ''agents'', st_admin_token = ''admins'', st_config_path = Some ''talia.toml'',
      st_config = \<lparr>lc_source_version = config_source_version [], lc_config = demo_config\<rparr>,
      st_sent = [], st_agents = []\<rparr>"

definition demo_headers :: headers where
  "demo_headers = [AUTHORIZATION \<mapsto> ''Bearer agents'', AGENT_CONFIG_TOKEN_HEADER \<mapsto> ''t1'']"

definition demo_connection :: connection where
  "demo_connection =
     \<lparr>cn_current = None, cn_token = Some ''t1'', cn_config = demo_config, cn_running = True\<rparr>"

definition demo_hello :: "string \<Rightarrow> agent_control_message option" where
  "demo_hello text = Some (Hello ''a1'' ''web'' ''0.1.0'' None)"

definition demo_toml :: "string \<Rightarrow> (toml_error, control_config_file) result" where
  "demo_toml text = Inr demo_config"

definition demo_json :: "agent_runtime_config \<Rightarrow> string option" where
  "demo_json config = Some []"

definition demo_digest :: "u8 list \<Rightarrow> u8 list" where
  "demo_digest bytes = bytes"

definition demo_env :: "string \<Rightarrow> string option" where
  "demo_env name = (if name = ''TALIA_CONTROL_TOKEN'' then Some ''agents'' else Some ''admins'')"

definition demo_connected :: control_system where
  "demo_connected = connect ''c1'' demo_connection (sys_start demo_state)"

definition demo_registered :: control_system where
  "demo_registered =
     socket_step demo_digest demo_hello ''c1'' demo_connection (Incoming (WsText ''hello'')) 7 True demo_connected"

definition demo_entry :: connected_agent where
  "demo_entry = new_connected_agent \<lparr>ah_agent_id = ''a1'', ah_hostname = ''web'', ah_agent_version = ''0.1.0'',
     ah_boot_id = None\<rparr> 7 ''c1''"

lemma demo_resolved: "sections_wf (resolved demo_config h)"
proof -
  have "resolved demo_config h = resolved control_config_default h"
    by (simp add: resolved_def demo_config_def control_config_default_def)
  then show ?thesis by (simp add: control_config_default_wf)
qed

lemma demo_initial:
  "initial_state demo_env (\<lambda>_. Inr []) demo_toml to_json (Some ''talia.toml'') = Inr demo_state"
proof -
  have "validate_runtime_configs to_json demo_config = Inr ()"
    by (simp add: validate_runtime_configs_iff demo_resolved)
  moreover have "validate_control_tokens ''agents'' ''admins'' = Inr (''agents'', ''admins'')"
    by code_simp
  ultimately show ?thesis
    by (simp add: initial_state_def required_env_secret_def demo_env_def load_control_config_def
        demo_toml_def demo_state_def)
qed

lemma demo_upgrade: "agent_control demo_digest demo_state demo_headers = Body demo_connection"
proof -
  have "authorized demo_digest demo_headers (st_agent_token demo_state)" by code_simp
  moreover have "header_value demo_headers AGENT_CONFIG_TOKEN_HEADER = Some ''t1''" by code_simp
  ultimately show ?thesis by (simp add: agent_control_def demo_connection_def) (simp add: demo_state_def)
qed

lemma demo_step:
  "run_agent_socket_step demo_digest demo_hello demo_config [] ''c1'' None (Some ''t1'')
     (Incoming (WsText ''hello'')) 7 True =
     ((Some ''a1'', [(''a1'', demo_entry)]), [SendMsg (HelloAck 7 ''c1'')], Continue)"
proof -
  have "agent_hello_authorized demo_digest demo_config
      \<lparr>ah_agent_id = ''a1'', ah_hostname = ''web'', ah_agent_version = ''0.1.0'', ah_boot_id = None\<rparr> (Some ''t1'')"
    by code_simp
  then show ?thesis
    by (simp add: run_agent_socket_step_def handle_agent_message_def demo_hello_def
        register_agent_connection_def register_locked_def demo_entry_def continue_if_ok_def)
qed

lemma demo_agents: "st_agents (sys_state demo_registered) = [(''a1'', demo_entry)]"
  by (simp add: demo_registered_def socket_step_def demo_connected_def connect_def sys_start_def
      demo_connection_def demo_state_def demo_step)

lemma demo_reachable: "sys_reachable demo_digest demo_hello demo_toml demo_json demo_registered"
proof -
  have "sys_reachable demo_digest demo_hello demo_toml demo_json demo_connected"
    unfolding demo_connected_def
    by (rule reach_step [OF reach_start [OF demo_initial] step_connect])
      (use demo_upgrade in \<open>simp_all add: sys_start_def\<close>)
  then show ?thesis
    unfolding demo_registered_def
    by (rule reach_step [OF _ step_socket])
      (simp_all add: demo_connected_def connect_def demo_connection_def)
qed

section \<open>Properties\<close>

text \<open>C1: In every reachable state of the control server, however connections, messages, reloads and
  disconnects interleave, an entry of the agent table is stored under its own agent id and belongs to
  exactly one live connection, which is bound to that id; no connection owns a second entry, and no
  entry outlives its connection.\<close>

theorem sessions_exclusive:
  assumes "sys_reachable digest parse_msg toml to_json sys"
    and "bt_get (st_agents (sys_state sys)) i = Some a"
  shows "ca_agent_id a = i \<and>
    (\<exists>cn. sys_conns sys (ca_connection_id a) = Some cn \<and> cn_current cn = Some i) \<and>
    (\<forall>j b. bt_get (st_agents (sys_state sys)) j = Some b \<and> ca_connection_id b = ca_connection_id a \<longrightarrow> j = i)"
proof -
  have ok: "sessions_ok (st_agents (sys_state sys)) (sys_conns sys)"
    using sys_reachable_ok [OF assms(1)] by (simp add: sys_ok_def)
  obtain cn where cn: "sys_conns sys (ca_connection_id a) = Some cn" "cn_current cn = Some i"
    using ok assms(2) by (auto simp: sessions_ok_def)
  have "j = i" if "bt_get (st_agents (sys_state sys)) j = Some b" "ca_connection_id b = ca_connection_id a" for j b
    using sessions_ok_bound [OF ok cn(1)] that cn(2) by (auto simp: bound_entries_def)
  moreover have "ca_agent_id a = i" using ok assms(2) by (simp add: sessions_ok_def keyed_by_id_def)
  ultimately show ?thesis using cn by blast
qed

lemma sessions_exclusive_witness:
  "ca_agent_id demo_entry = ''a1'' \<and>
    (\<exists>cn. sys_conns demo_registered (ca_connection_id demo_entry) = Some cn \<and> cn_current cn = Some ''a1'')"
proof -
  have "bt_get (st_agents (sys_state demo_registered)) ''a1'' = Some demo_entry" by (simp add: demo_agents)
  from sessions_exclusive [OF demo_reachable this] show ?thesis by blast
qed

text \<open>C11: Whatever one connection's socket loop does on one event (a hello, a heartbeat, a
  notification, an error), the entries of all other connections stay exactly as they were, and none
  appears on their behalf.\<close>

theorem other_sessions_untouched:
  assumes "ca_connection_id a \<noteq> c"
  shows "bt_get (st_agents (sys_state (socket_step digest parse_msg c cn event now send_ok sys))) i = Some a \<longleftrightarrow>
    bt_get (st_agents (sys_state sys)) i = Some a"
proof -
  obtain current agents ws outcome where r:
    "run_agent_socket_step digest parse_msg (cn_config cn) (st_agents (sys_state sys)) c
       (cn_current cn) (cn_token cn) event now send_ok = ((current, agents), ws, outcome)"
    by (metis surj_pair)
  from table_step_socket [OF r] assms show ?thesis
    by (simp add: socket_step_def r table_step_def others_same_def)
qed

lemma other_sessions_untouched_witness:
  "bt_get (st_agents (sys_state (socket_step demo_digest demo_hello ''c2'' demo_connection
     (Incoming (WsText ''hello'')) 9 True demo_registered))) ''a1'' = Some demo_entry"
proof -
  have c: "ca_connection_id demo_entry \<noteq> ''c2''" by (simp add: demo_entry_def)
  show ?thesis by (subst other_sessions_untouched [OF c]) (simp add: demo_agents)
qed

text \<open>In every reachable state whose configuration has no override block for the empty host name, a
  configuration request never ends in an internal server error: a reload can only install
  configurations every host of which validates.\<close>

lemma config_request_never_500:
  assumes "sys_reachable digest parse_msg toml to_json sys"
    and "\<not> has_host_override (lc_config (st_config (sys_state sys))) []"
  shows "agent_config digest to_json (st_agent_token (sys_state sys)) (st_agents (sys_state sys))
    (lc_config (st_config (sys_state sys))) headers \<noteq> Failure INTERNAL_SERVER_ERROR"
  by (rule agent_config_no_500)
    (simp add: validate_runtime_configs_all [OF sys_reachable_config_valid [OF assms(1)] assms(2)])

lemma config_request_never_500_witness:
  "agent_config demo_digest demo_json ''agents'' [(''a1'', demo_entry)] demo_config demo_headers \<noteq>
     Failure INTERNAL_SERVER_ERROR"
proof -
  have s: "sys_state demo_registered = demo_state\<lparr>st_agents := [(''a1'', demo_entry)]\<rparr>"
    by (simp add: demo_registered_def socket_step_def demo_connected_def connect_def sys_start_def
        demo_connection_def demo_state_def demo_step)
  have "\<not> has_host_override (lc_config (st_config (sys_state demo_registered))) []"
    by (simp add: s demo_state_def demo_config_def control_config_default_def has_host_override_def
        bt_contains_key_def)
  from config_request_never_500 [OF demo_reachable this, of demo_headers] show ?thesis
    unfolding s by (simp add: demo_state_def)
qed

text \<open>C7: The agents' token never opens the admin interface: in every reachable state, with a digest
  that does not collide on the two tokens, a request that bears the agent token is refused by both
  admin handlers and a reload with it changes nothing.\<close>

theorem agent_token_never_admin:
  assumes "sys_reachable digest parse_msg toml to_json sys"
    and "headers AUTHORIZATION = Some (''Bearer '' @ st_agent_token (sys_state sys))"
    and "inj_on digest {as_bytes (st_admin_token (sys_state sys)), as_bytes (st_agent_token (sys_state sys))}"
  shows "admin_agents digest (sys_state sys) headers = Failure UNAUTHORIZED \<and>
    admin_config_reload digest read_to_string toml to_json (sys_state sys) headers =
      (sys_state sys, Failure UNAUTHORIZED)"
proof -
  have t: "tokens_ok (sys_state sys)" by (rule sys_reachable_tokens_ok [OF assms(1)])
  have "\<not> matches digest (st_admin_token (sys_state sys)) (st_agent_token (sys_state sys))"
    using t by (auto simp: matches_collision_free [OF assms(3)] tokens_ok_def)
  then have "\<not> authorized digest headers (st_admin_token (sys_state sys))"
    using assms(2) by (simp add: authorized_def)
  then show ?thesis by (simp add: admin_agents_def admin_config_reload_def)
qed

lemma agent_token_never_admin_witness:
  "admin_agents demo_digest (sys_state demo_registered) demo_headers = Failure UNAUTHORIZED"
proof -
  have "st_agent_token (sys_state demo_registered) = ''agents''"
    by (simp add: demo_registered_def socket_step_def demo_connected_def connect_def sys_start_def
        demo_state_def split: prod.splits)
  then have "demo_headers AUTHORIZATION = Some (''Bearer '' @ st_agent_token (sys_state demo_registered))"
    by (simp add: demo_headers_def AUTHORIZATION_def AGENT_CONFIG_TOKEN_HEADER_def)
  moreover have "inj_on demo_digest S" for S by (simp add: inj_on_def demo_digest_def)
  ultimately show ?thesis using agent_token_never_admin [OF demo_reachable] by blast
qed

text \<open>C4: A new name enters the agent table only through a hello that proves it: whenever a socket step
  adds an entry, the message was a hello for that id whose host name and config token were enrolled
  in the configuration the connection had read.\<close>

theorem registration_needs_credential:
  assumes "bt_get (st_agents (sys_state sys)) i = None"
    and "bt_get (st_agents (sys_state (socket_step digest parse_msg c cn event now send_ok sys))) i = Some a"
  shows "\<exists>text h v b tok. event = Incoming (WsText text) \<and> parse_msg text = Some (Hello i h v b) \<and>
    cn_token cn = Some tok \<and> agent_is_enrolled_for_hostname (cn_config cn) i h \<and>
    agent_config_token_matches digest (cn_config cn) i tok \<and> ca_hostname a = h \<and> ca_connection_id a = c"
proof -
  obtain current agents' ws r where run: "run_agent_socket_step digest parse_msg (cn_config cn)
      (st_agents (sys_state sys)) c (cn_current cn) (cn_token cn) event now send_ok = ((current, agents'), ws, r)"
    by (metis prod.exhaust)
  then have "bt_get agents' i = Some a" using assms(2) by (simp add: socket_step_def)
  from socket_registers [OF run assms(1) this] obtain msg r' where t: "event = Incoming (WsText msg)"
    "handle_agent_message digest parse_msg (cn_config cn) (st_agents (sys_state sys)) c (cn_current cn)
      (cn_token cn) msg now send_ok = ((current, agents'), ws, r')"
    by metis
  show ?thesis
    by (rule message_registers [OF t(2) assms(1) \<open>bt_get agents' i = Some a\<close>]) (use t(1) in blast)
qed

lemma registration_needs_credential_witness:
  "agent_is_enrolled_for_hostname demo_config ''a1'' ''web''"
proof -
  have "bt_get (st_agents (sys_state demo_connected)) ''a1'' = None"
    by (simp add: demo_connected_def connect_def sys_start_def demo_state_def)
  moreover have "bt_get (st_agents (sys_state (socket_step demo_digest demo_hello ''c1'' demo_connection
      (Incoming (WsText ''hello'')) 7 True demo_connected))) ''a1'' = Some demo_entry"
    using demo_agents by (simp add: demo_registered_def)
  ultimately obtain msg h v b where "demo_hello msg = Some (Hello ''a1'' h v b)"
    "agent_is_enrolled_for_hostname (cn_config demo_connection) ''a1'' h"
    using registration_needs_credential by blast
  then show ?thesis by (simp add: demo_hello_def demo_connection_def)
qed

text \<open>C8: The control server refines the lease specification: it starts with no lease, each step of the
  running server (a message, a disconnect, a reload, an upgrade) is one step of the specification or
  none, and in every reachable state the ids in the agent table are exactly the leased ones.\<close>

theorem server_refines_leases:
  assumes "sys_reachable digest parse_msg toml to_json sys"
  shows "lease_of (sys_start state) = Map.empty \<and>
    (\<forall>sys'. sys_step digest parse_msg toml to_json sys sys' \<longrightarrow> lease_step (lease_of sys) (lease_of sys')) \<and>
    (\<forall>i. bt_get (st_agents (sys_state sys)) i \<noteq> None \<longleftrightarrow> (\<exists>c. lease_of sys c = Some i))"
proof -
  have ok: "sessions_ok (st_agents (sys_state sys)) (sys_conns sys)"
    using sys_reachable_ok [OF assms] by (simp add: sys_ok_def)
  have "bt_get (st_agents (sys_state sys)) i \<noteq> None \<longleftrightarrow> (\<exists>c. lease_of sys c = Some i)" for i
  proof
    assume "bt_get (st_agents (sys_state sys)) i \<noteq> None"
    then obtain a where a: "bt_get (st_agents (sys_state sys)) i = Some a" by blast
    with ok obtain cn where "sys_conns sys (ca_connection_id a) = Some cn" "cn_current cn = Some i"
      by (auto simp: sessions_ok_def)
    with a show "\<exists>c. lease_of sys c = Some i" by (auto simp: lease_of_iff owned_by_iff)
  qed (auto simp: lease_of_iff owned_by_iff)
  moreover have "lease_of (sys_start state) = Map.empty" by (simp add: lease_of_def sys_start_def fun_eq_iff)
  ultimately show ?thesis using sys_step_lease by blast
qed

lemma server_refines_leases_witness: "\<exists>c. lease_of demo_registered c = Some ''a1''"
proof -
  have "bt_get (st_agents (sys_state demo_registered)) ''a1'' \<noteq> None" by (simp add: demo_agents)
  then show ?thesis using server_refines_leases [OF demo_reachable] by blast
qed

end
