(* ===== verification/Control_Router.thy ===== *)
theory Control_Router
  imports Control_System
begin

text \<open>
  The routes of the control server (\<open>app\<close> in \<open>talia-control/src/main.rs\<close>) over its handlers.  Of axum it
  uses that a GET route also serves HEAD, that a path without a route and a route without the method
  have answers of their own, and that the WebSocket extractor rejects a request that is no upgrade
  before the handler runs; \<open>rq_upgrade\<close> says whether it is one.
\<close>

datatype http_method = MethodGet | MethodHead | MethodPost | OtherMethod string

datatype route_handler =
    OpenApiRoute | HealthRoute | AgentConfigRoute | AgentControlRoute | AdminAgentsRoute | AdminReloadRoute

record http_request =
  rq_method :: http_method
  rq_path :: string
  rq_headers :: headers
  rq_upgrade :: bool

definition app_routes :: "(string \<times> http_method \<times> route_handler) list" where
  "app_routes =
     [(''/openapi.json'', MethodGet, OpenApiRoute),
      (''/health'', MethodGet, HealthRoute),
      (''/agent/config'', MethodGet, AgentConfigRoute),
      (''/agent/control'', MethodGet, AgentControlRoute),
      (''/admin/agents'', MethodGet, AdminAgentsRoute),
      (''/admin/config/reload'', MethodPost, AdminReloadRoute)]"

definition route_accepts :: "http_method \<Rightarrow> http_method \<Rightarrow> bool" where
  "route_accepts routed presented \<longleftrightarrow> presented = routed \<or> routed = MethodGet \<and> presented = MethodHead"

datatype app_answer =
    NoRoute
  | MethodNotAllowed
  | UpgradeRejected
  | OpenApiAnswer
  | HealthAnswer string
  | ConfigAnswer "agent_runtime_config response"
  | UpgradeAnswer "connection response"
  | AgentsAnswer "served_agent list response"
  | ReloadAnswer "reload_response response"

definition app ::
    "(u8 list \<Rightarrow> 'd) \<Rightarrow> (string \<Rightarrow> (io_error, string) result) \<Rightarrow>
     (string \<Rightarrow> (toml_error, control_config_file) result) \<Rightarrow> (agent_runtime_config \<Rightarrow> string option) \<Rightarrow>
     app_state \<Rightarrow> http_request \<Rightarrow> app_state \<times> app_answer" where
  "app digest read_to_string toml to_json state request =
     (case map_of app_routes (rq_path request) of
        None \<Rightarrow> (state, NoRoute)
      | Some (routed, handler) \<Rightarrow>
          if \<not> route_accepts routed (rq_method request) then (state, MethodNotAllowed)
          else
            (case handler of
               OpenApiRoute \<Rightarrow> (state, OpenApiAnswer)
             | HealthRoute \<Rightarrow> (state, HealthAnswer health)
             | AgentConfigRoute \<Rightarrow>
                 (state, ConfigAnswer (agent_config digest to_json (st_agent_token state) (st_agents state)
                    (lc_config (st_config state)) (rq_headers request)))
             | AgentControlRoute \<Rightarrow>
                 (state, if rq_upgrade request then UpgradeAnswer (agent_control digest state (rq_headers request))
                         else UpgradeRejected)
             | AdminAgentsRoute \<Rightarrow> (state, AgentsAnswer (admin_agents digest state (rq_headers request)))
             | AdminReloadRoute \<Rightarrow>
                 (let (state', response) =
                        admin_config_reload digest read_to_string toml to_json state (rq_headers request)
                  in (state', ReloadAnswer response))))"

section \<open>Facts\<close>

text \<open>The answers that need no token.\<close>

definition public_answer :: "app_answer \<Rightarrow> bool" where
  "public_answer answer \<longleftrightarrow>
     answer \<in> {NoRoute, MethodNotAllowed, UpgradeRejected, OpenApiAnswer, HealthAnswer health,
               ConfigAnswer (Failure UNAUTHORIZED), UpgradeAnswer (Failure UNAUTHORIZED),
               AgentsAnswer (Failure UNAUTHORIZED), ReloadAnswer (Failure UNAUTHORIZED)}"

lemma reload_route: "map_of app_routes path = Some (routed, AdminReloadRoute) \<Longrightarrow>
    path = ''/admin/config/reload'' \<and> routed = MethodPost"
  by (auto simp: app_routes_def split: if_splits)

lemma reload_unchanged:
  "fst (admin_config_reload digest rd toml to_json state headers) \<noteq> state \<Longrightarrow>
     authorized digest headers (st_admin_token state) \<and>
     (\<exists>config. load_control_config rd toml to_json (st_config_path state) = Inr config)"
  by (auto simp: admin_config_reload_def split: if_splits sum.splits)

text \<open>The reload route, and all the others: they change nothing, and answer in public without a token.\<close>

lemma app_reload:
  assumes "map_of app_routes (rq_path request) = Some (routed, AdminReloadRoute)"
  shows "app digest rd toml to_json state request =
    (if rq_method request = MethodPost
     then map_prod id ReloadAnswer (admin_config_reload digest rd toml to_json state (rq_headers request))
     else (state, MethodNotAllowed))"
  using assms reload_route [OF assms] by (auto simp: app_def route_accepts_def map_prod_def split: prod.splits)

lemma app_not_reload:
  assumes "\<nexists>routed. map_of app_routes (rq_path request) = Some (routed, AdminReloadRoute)"
  shows "fst (app digest rd toml to_json state request) = state"
    and "\<not> authorized digest (rq_headers request) (st_agent_token state) \<Longrightarrow>
      \<not> authorized digest (rq_headers request) (st_admin_token state) \<Longrightarrow>
      public_answer (snd (app digest rd toml to_json state request))"
proof -
  consider "map_of app_routes (rq_path request) = None"
    | routed handler where "map_of app_routes (rq_path request) = Some (routed, handler)" "handler \<noteq> AdminReloadRoute"
    using assms by (cases "map_of app_routes (rq_path request)") auto
  then have "fst (app digest rd toml to_json state request) = state \<and>
    (\<not> authorized digest (rq_headers request) (st_agent_token state) \<longrightarrow>
     \<not> authorized digest (rq_headers request) (st_admin_token state) \<longrightarrow>
     public_answer (snd (app digest rd toml to_json state request)))"
  proof cases
    case 1
    then show ?thesis by (simp add: app_def public_answer_def)
  next
    case (2 routed handler)
    then show ?thesis
      by (cases handler)
        (simp_all add: app_def public_answer_def agent_config_def agent_control_def admin_agents_def)
  qed
  then show "fst (app digest rd toml to_json state request) = state"
    and "\<not> authorized digest (rq_headers request) (st_agent_token state) \<Longrightarrow>
      \<not> authorized digest (rq_headers request) (st_admin_token state) \<Longrightarrow>
      public_answer (snd (app digest rd toml to_json state request))"
    by blast+
qed

section \<open>Properties\<close>

text \<open>C9: Without a token the server gives away nothing and changes nothing: a request that bears neither
  token gets the health word, the API document, a routing error or 401, whatever its method, path and
  headers.  And whoever asks, the only request that changes the server's state is a POST of the
  reload path with the admin token, when the control file loads.\<close>

theorem requests_need_tokens:
  shows "(\<not> authorized digest (rq_headers request) (st_agent_token state) \<and>
      \<not> authorized digest (rq_headers request) (st_admin_token state) \<longrightarrow>
      app digest read_to_string toml to_json state request =
        (state, snd (app digest read_to_string toml to_json state request)) \<and>
      public_answer (snd (app digest read_to_string toml to_json state request))) \<and>
    (fst (app digest read_to_string toml to_json state request) \<noteq> state \<longrightarrow>
      rq_method request = MethodPost \<and> rq_path request = ''/admin/config/reload'' \<and>
      authorized digest (rq_headers request) (st_admin_token state) \<and>
      (\<exists>config. load_control_config read_to_string toml to_json (st_config_path state) = Inr config))"
proof (cases "\<exists>routed. map_of app_routes (rq_path request) = Some (routed, AdminReloadRoute)")
  case True
  then obtain routed where r: "map_of app_routes (rq_path request) = Some (routed, AdminReloadRoute)" ..
  have path: "rq_path request = ''/admin/config/reload''" using reload_route [OF r] by simp
  let ?reload = "admin_config_reload digest read_to_string toml to_json state (rq_headers request)"
  show ?thesis
  proof (cases "authorized digest (rq_headers request) (st_admin_token state)")
    case True
    then show ?thesis
      using reload_unchanged [of digest read_to_string toml to_json state "rq_headers request"]
      by (auto simp: app_reload [OF r] path)
  next
    case False
    then have "?reload = (state, Failure UNAUTHORIZED)" by (simp add: admin_config_reload_def)
    then show ?thesis by (simp add: app_reload [OF r] public_answer_def)
  qed
next
  case False
  then show ?thesis by (simp add: prod_eq_iff app_not_reload)
qed

lemma requests_need_tokens_witness:
  "public_answer (snd (app demo_digest (\<lambda>_. Inr []) demo_toml demo_json demo_state
     \<lparr>rq_method = MethodPost, rq_path = ''/admin/config/reload'', rq_headers = Map.empty, rq_upgrade = False\<rparr>))"
proof -
  have "\<not> authorized demo_digest Map.empty token" for token by (simp add: authorized_def)
  then show ?thesis
    using requests_need_tokens [of demo_digest "\<lparr>rq_method = MethodPost, rq_path = ''/admin/config/reload'',
        rq_headers = Map.empty, rq_upgrade = False\<rparr>" demo_state] by simp
qed

text \<open>C10: Session ids stay secret: apart from the configuration endpoint, which compares them, no answer of
  the server depends on the connection ids in the agent table, so neither the listing of the agents
  nor any other request reveals the id under which an agent fetches its configuration.\<close>

theorem session_ids_confidential:
  assumes "map (map_prod id (\<lambda>a. a\<lparr>ca_connection_id := []\<rparr>)) table =
      map (map_prod id (\<lambda>a. a\<lparr>ca_connection_id := []\<rparr>)) (st_agents state)"
    and "rq_path request \<noteq> ''/agent/config''"
  shows "snd (app digest read_to_string toml to_json (state\<lparr>st_agents := table\<rparr>) request) =
    snd (app digest read_to_string toml to_json state request)"
proof -
  have serve: "serve_agent (a\<lparr>ca_connection_id := []\<rparr>) = serve_agent a" for a
    by (simp add: serve_agent_def)
  have erase: "map serve_agent (bt_values t) =
      map serve_agent (map snd (map (map_prod id (\<lambda>a. a\<lparr>ca_connection_id := []\<rparr>)) t))" for t :: agent_table
    by (simp add: bt_values_def serve)
  have listing: "map serve_agent (bt_values table) = map serve_agent (bt_values (st_agents state))"
    unfolding erase [of table] erase [of "st_agents state"] assms(1) by (rule refl)
  have count: "length table = length (st_agents state)"
    using arg_cong [OF assms(1), of length] by simp
  show ?thesis
  proof (cases "map_of app_routes (rq_path request)")
    case None
    then show ?thesis by (simp add: app_def)
  next
    case (Some entry)
    obtain routed handler where e: "entry = (routed, handler)" by (cases entry)
    have "handler \<noteq> AgentConfigRoute" using Some e assms(2) by (auto simp: app_routes_def split: if_splits)
    then show ?thesis
      using Some e
      by (cases handler)
        (simp_all add: app_def admin_agents_def listing agent_control_def admin_config_reload_def Let_def count
          split: sum.splits)
  qed
qed

lemma session_ids_confidential_witness:
  "snd (app demo_digest (\<lambda>_. Inr []) demo_toml demo_json
      (demo_state\<lparr>st_agents := [(''a1'', demo_entry\<lparr>ca_connection_id := ''other''\<rparr>)]\<rparr>)
      \<lparr>rq_method = MethodGet, rq_path = ''/admin/agents'', rq_headers = [AUTHORIZATION \<mapsto> ''Bearer admins''], rq_upgrade = False\<rparr>) =
   snd (app demo_digest (\<lambda>_. Inr []) demo_toml demo_json (demo_state\<lparr>st_agents := [(''a1'', demo_entry)]\<rparr>)
      \<lparr>rq_method = MethodGet, rq_path = ''/admin/agents'', rq_headers = [AUTHORIZATION \<mapsto> ''Bearer admins''], rq_upgrade = False\<rparr>)"
  using session_ids_confidential [of "[(''a1'', demo_entry\<lparr>ca_connection_id := ''other''\<rparr>)]"
      "demo_state\<lparr>st_agents := [(''a1'', demo_entry)]\<rparr>"
      "\<lparr>rq_method = MethodGet, rq_path = ''/admin/agents'', rq_headers = [AUTHORIZATION \<mapsto> ''Bearer admins''], rq_upgrade = False\<rparr>"]
  by simp

end
