(* ===== verification/Control_Start.thy ===== *)
theory Control_Start
  imports Control_Router
begin

text \<open>
  The start of the control server (\<open>main\<close> and \<open>run\<close> of \<open>talia-control/src/main.rs\<close>): the arguments, what is
  checked before the listening socket is bound, and the exit status.  The operating system's answer to
  the bind and how axum's server ends are the parameters \<open>bind\<close> and \<open>serve\<close>.
\<close>

record control_args =
  srv_listen :: string
  srv_config :: "string option"
  srv_log_filter :: string

definition default_listen :: string where "default_listen = ''127.0.0.1:3501''"

definition default_log_filter :: string where "default_log_filter = ''info''"

text \<open>The arguments given and the variable \<open>TALIA_CONTROL_CONFIG\<close>, completed by the defaults.\<close>

definition control_args_of :: "string option \<Rightarrow> string option \<Rightarrow> string option \<Rightarrow> string option \<Rightarrow> control_args" where
  "control_args_of listen config log_filter config_variable =
     \<lparr>srv_listen = (case listen of Some l \<Rightarrow> l | None \<Rightarrow> default_listen),
      srv_config = (case config of Some c \<Rightarrow> Some c | None \<Rightarrow> config_variable),
      srv_log_filter = (case log_filter of Some f \<Rightarrow> f | None \<Rightarrow> default_log_filter)\<rparr>"

datatype 'io run_error = StartRefused control_error | NotBound string 'io | ServerFailed 'io

text \<open>The state the server listens with, if it gets that far, and the result of \<open>run\<close>.\<close>

definition control_run ::
    "(string \<Rightarrow> string option) \<Rightarrow> (string \<Rightarrow> (io_error, string) result) \<Rightarrow>
     (string \<Rightarrow> (toml_error, control_config_file) result) \<Rightarrow> (agent_runtime_config \<Rightarrow> string option) \<Rightarrow>
     (string \<Rightarrow> ('io, unit) result) \<Rightarrow> (app_state \<Rightarrow> ('io, unit) result) \<Rightarrow> control_args \<Rightarrow>
     app_state option \<times> ('io run_error, unit) result" where
  "control_run env read_to_string toml to_json bind serve args =
     (case initial_state env read_to_string toml to_json (srv_config args) of
        Inl e \<Rightarrow> (None, Inl (StartRefused e))
      | Inr state \<Rightarrow>
          (case bind (srv_listen args) of
             Inl e \<Rightarrow> (None, Inl (NotBound (srv_listen args) e))
           | Inr _ \<Rightarrow> (Some state, map_err ServerFailed (serve state))))"

definition control_exit_status :: "('io run_error, unit) result \<Rightarrow> nat" where
  "control_exit_status r = (case r of Inl _ \<Rightarrow> 1 | Inr _ \<Rightarrow> 0)"

section \<open>Facts\<close>

text \<open>The server listens only with two distinct tokens without surrounding blanks, with a configuration
  whose listed hosts all resolve, and with no agent in its table.\<close>

lemma listens_only_checked:
  assumes "fst (control_run env rd toml to_json bind serve args) = Some state"
  shows "tokens_ok state \<and> validate_runtime_configs to_json (lc_config (st_config state)) = Inr () \<and>
    st_agents state = [] \<and> bind (srv_listen args) = Inr ()"
proof -
  from assms have s: "initial_state env rd toml to_json (srv_config args) = Inr state"
    and "\<exists>u. bind (srv_listen args) = Inr u"
    by (auto simp: control_run_def split: sum.splits)
  then have "bind (srv_listen args) = Inr ()" by simp
  moreover have "tokens_ok state" "st_agents state = []"
    using s by (auto simp: initial_state_def validate_control_tokens_def Let_def tokens_ok_def split: if_splits)
  moreover have "validate_runtime_configs to_json (lc_config (st_config state)) = Inr ()"
    using s by (auto simp: initial_state_def dest: load_control_config_valid)
  ultimately show ?thesis by blast
qed

text \<open>A start that is refused ends with exit status 1 before anything is bound or served.\<close>

lemma refused_start_serves_nothing:
  assumes "initial_state env rd toml to_json (srv_config args) = Inl e"
  shows "control_run env rd toml to_json bind serve args = (None, Inl (StartRefused e)) \<and>
    control_exit_status (snd (control_run env rd toml to_json bind serve args)) = 1"
  using assms by (simp add: control_run_def control_exit_status_def)

end
