(* ===== verification/Cri_Client.thy ===== *)
theory Cri_Client
  imports Pod_Discovery Pipeline
begin

text \<open>
  The client of the container runtime (\<open>talia-agent/src/pod_discovery/client.rs\<close>): the two remote calls
  of the discovery over a gRPC channel.  The channel of tonic is the parameter \<open>grpc\<close>: dialling a
  socket, waiting for readiness, and what the runtime answers to a request on a path.
\<close>

record list_pod_sandbox_request =
  lr_filter :: "pod_sandbox_filter option"

record list_pod_sandbox_response =
  lr_items :: "pod_sandbox list"

record pod_sandbox_status_request =
  sr_pod_sandbox_id :: string
  sr_verbose :: bool


definition LIST_POD_SANDBOX_PATH :: string where
  "LIST_POD_SANDBOX_PATH = ''/runtime.v1.RuntimeService/ListPodSandbox''"

definition POD_SANDBOX_STATUS_PATH :: string where
  "POD_SANDBOX_STATUS_PATH = ''/runtime.v1.RuntimeService/PodSandboxStatus''"

definition CONNECT_TIMEOUT :: duration where
  "CONNECT_TIMEOUT = from_secs 5"

definition REQUEST_TIMEOUT :: duration where
  "REQUEST_TIMEOUT = from_secs 10"

datatype 't grpc_error = DialFailed 't | ServiceNotReady 't | Status 't

record ('t, 'c) grpc =
  g_exists :: "string \<Rightarrow> bool"
  g_dial :: "duration \<Rightarrow> duration \<Rightarrow> string \<Rightarrow> ('t, 'c) result"
  g_ready :: "'c \<Rightarrow> ('t, unit) result"
  g_list :: "'c \<Rightarrow> string \<Rightarrow> list_pod_sandbox_request \<Rightarrow> ('t, list_pod_sandbox_response) result"
  g_status :: "'c \<Rightarrow> string \<Rightarrow> pod_sandbox_status_request \<Rightarrow> ('t, pod_sandbox_status_response) result"

definition cri_connect_socket :: "('t, 'c) grpc \<Rightarrow> string \<Rightarrow> ('t grpc_error, 'c) result" where
  "cri_connect_socket g socket = map_err DialFailed (g_dial g CONNECT_TIMEOUT REQUEST_TIMEOUT socket)"

definition list_pod_sandboxes ::
    "('t, 'c) grpc \<Rightarrow> 'c \<Rightarrow> pod_sandbox_filter \<Rightarrow> ('t grpc_error, pod_sandbox list) result" where
  "list_pod_sandboxes g client filt =
     and_then (map_err ServiceNotReady (g_ready g client)) (\<lambda>_.
     and_then (map_err Status (g_list g client LIST_POD_SANDBOX_PATH \<lparr>lr_filter = Some filt\<rparr>)) (\<lambda>response.
       Inr (lr_items response)))"

definition pod_sandbox_status ::
    "('t, 'c) grpc \<Rightarrow> 'c \<Rightarrow> string \<Rightarrow> ('t grpc_error, pod_sandbox_status_response) result" where
  "pod_sandbox_status g client pod_sandbox_id =
     and_then (map_err ServiceNotReady (g_ready g client)) (\<lambda>_.
       map_err Status (g_status g client POD_SANDBOX_STATUS_PATH
         \<lparr>sr_pod_sandbox_id = pod_sandbox_id, sr_verbose = True\<rparr>))"

text \<open>The operations the discovery works with.\<close>

definition cri_of :: "('t, 'c) grpc \<Rightarrow> ('t grpc_error, 'c) cri_api" where
  "cri_of g =
     \<lparr>cri_exists = g_exists g, cri_connect = cri_connect_socket g, cri_list = list_pod_sandboxes g,
      cri_status = pod_sandbox_status g\<rparr>"

section \<open>Facts\<close>

lemma list_pod_sandboxes_ok:
  "list_pod_sandboxes g client filt = Inr items \<Longrightarrow>
     \<exists>response. g_list g client LIST_POD_SANDBOX_PATH \<lparr>lr_filter = Some filt\<rparr> = Inr response \<and> items = lr_items response"
  by (auto simp: list_pod_sandboxes_def)

lemma pod_sandbox_status_ok:
  "pod_sandbox_status g client i = Inr response \<Longrightarrow>
     g_status g client POD_SANDBOX_STATUS_PATH \<lparr>sr_pod_sandbox_id = i, sr_verbose = True\<rparr> = Inr response"
  by (auto simp: pod_sandbox_status_def)

text \<open>A merged sandbox comes from an item of some client's answer.\<close>

lemma listed_sandboxes_source:
  assumes "(uid, s) \<in> set (listed_sandboxes cri clients)"
  obtains endpoint items item meta where "endpoint \<in> set clients"
    "cri_list cri (cl_client endpoint) ready_filter = Inr items" "item \<in> set items" "sb_metadata item = Some meta"
    "meta_uid meta = uid" "dsb_sandbox_id s = sb_id item" "dsb_name s = meta_name meta"
    "dsb_namespace s = meta_namespace meta"
  using assms
  by (auto simp: listed_sandboxes_def List.map_filter_def split: sum.splits) (metis (no_types, lifting))

lemma candidate_of_source:
  "candidate_of cri clients (uid, s) = Some r \<Longrightarrow>
     \<exists>client. cri_status cri client (dsb_sandbox_id s) = Inr r \<and> \<not> host_network r"
  by (auto simp: candidate_of_def split: option.splits sum.splits if_splits)

section \<open>Properties\<close>

text \<open>C31: Only ready pods are reported: when the runtime honours the state of a listing's filter, as the
  interface documents, every pod of a successful refresh comes from a ready sandbox of an answer to
  the listing request, under its uid, name and namespace, and from a verbose status answer for that
  sandbox which is not in the host's network.\<close>

theorem refresh_reports_ready_pods:
  assumes "refresh_async (cri_of g) from_json proc mo selection clients = (clients', Inr pods)" "orders_ok mo"
    and honours: "\<forall>client filt response v item.
      g_list g client LIST_POD_SANDBOX_PATH \<lparr>lr_filter = Some filt\<rparr> = Inr response \<and>
      psf_state filt = Some v \<and> item \<in> set (lr_items response) \<longrightarrow> sb_state item = sv_state v"
    and "p \<in> set pods"
  shows "\<exists>client response item meta status_client status.
    g_list g client LIST_POD_SANDBOX_PATH \<lparr>lr_filter = Some ready_filter\<rparr> = Inr response \<and>
    item \<in> set (lr_items response) \<and> sb_state item = sandbox_state_value SandboxReady \<and>
    sb_metadata item = Some meta \<and>
    meta_uid meta = pi_uid p \<and> meta_name meta = pi_name p \<and> meta_namespace meta = pi_namespace p \<and>
    g_status g status_client POD_SANDBOX_STATUS_PATH \<lparr>sr_pod_sandbox_id = sb_id item, sr_verbose = True\<rparr> = Inr status \<and>
    \<not> host_network status"
proof (rule refresh_async_ok [OF assms(1,2)])
  fix dialled sandboxes failed
  assume l: "list_sandboxes (cri_of g) Map.empty False [] dialled = (sandboxes, True, failed)"
    and pods: "\<And>p. p \<in> set pods \<longleftrightarrow>
       (\<exists>s r pid. sandboxes (pi_uid p) = Some s \<and> candidate_of (cri_of g) clients' (pi_uid p, s) = Some r \<and>
          pod_pid proc (pi_uid p) (pid_from_status_info from_json (ssr_info r)) = Some pid \<and>
          p = \<lparr>pi_uid = pi_uid p, pi_name = dsb_name s, pi_namespace = dsb_namespace s, pi_pid = pid\<rparr>)"
  from pods assms(4) obtain s r pid where s: "sandboxes (pi_uid p) = Some s"
    "candidate_of (cri_of g) clients' (pi_uid p, s) = Some r"
    "p = \<lparr>pi_uid = pi_uid p, pi_name = dsb_name s, pi_namespace = dsb_namespace s, pi_pid = pid\<rparr>" by blast
  have named: "pi_name p = dsb_name s" "pi_namespace p = dsb_namespace s" by (subst s(3), simp)+
  have "map_of (listed_sandboxes (cri_of g) dialled) (pi_uid p) = Some s"
    using list_sandboxes_get [OF l, of "pi_uid p"] s(1) by simp
  then obtain endpoint items item meta where "endpoint \<in> set dialled" and i:
    "cri_list (cri_of g) (cl_client endpoint) ready_filter = Inr items" "item \<in> set items" "sb_metadata item = Some meta"
    "meta_uid meta = pi_uid p" "dsb_sandbox_id s = sb_id item" "dsb_name s = meta_name meta"
    "dsb_namespace s = meta_namespace meta"
    by (rule listed_sandboxes_source [OF map_of_SomeD])
  obtain response where response: "items = lr_items response"
    "g_list g (cl_client endpoint) LIST_POD_SANDBOX_PATH \<lparr>lr_filter = Some ready_filter\<rparr> = Inr response"
    using list_pod_sandboxes_ok [of g "cl_client endpoint" ready_filter items] i(1) by (auto simp: cri_of_def)
  have "sb_state item = sandbox_state_value SandboxReady"
    using honours [rule_format, of "cl_client endpoint" ready_filter response "StateValue (sandbox_state_value SandboxReady)" item]
      i(2) response by (simp add: ready_filter_def)
  moreover obtain client where "g_status g client POD_SANDBOX_STATUS_PATH
      \<lparr>sr_pod_sandbox_id = sb_id item, sr_verbose = True\<rparr> = Inr r" "\<not> host_network r"
    using candidate_of_source [OF s(2)] pod_sandbox_status_ok i(5) by (fastforce simp: cri_of_def)
  ultimately show ?thesis
    by (intro exI [of _ "cl_client endpoint"] exI [of _ response] exI [of _ item] exI [of _ meta] exI [of _ client]
        exI [of _ r] conjI) (use i response named in simp_all)
qed

text \<open>A runtime with one ready pod and one that is not.\<close>

definition demo_item :: "string \<Rightarrow> string \<Rightarrow> int \<Rightarrow> pod_sandbox" where
  "demo_item i uid st =
     \<lparr>sb_id = i, sb_metadata = Some \<lparr>meta_name = ''web-0'', meta_uid = uid, meta_namespace = ''default''\<rparr>, sb_state = st\<rparr>"

definition demo_grpc :: "(string, nat) grpc" where
  "demo_grpc =
     \<lparr>g_exists = (\<lambda>_. True), g_dial = (\<lambda>_ _ _. Inr 0), g_ready = (\<lambda>_. Inr ()),
      g_list = (\<lambda>_ _ request. Inr \<lparr>lr_items = filter
        (\<lambda>item. case Option.bind (lr_filter request) psf_state of None \<Rightarrow> True | Some v \<Rightarrow> sb_state item = sv_state v)
        [demo_item ''s1'' ''ab-cd'' 0, demo_item ''s2'' ''ef-01'' 1]\<rparr>),
      g_status = (\<lambda>_ _ _. Inr \<lparr>ssr_status = None, ssr_info = Map.empty\<rparr>)\<rparr>"

lemma refresh_reports_ready_pods_witness:
  "\<exists>pods. refresh_async (cri_of demo_grpc) (\<lambda>_. None) demo_proc_view demo_orders (Explicit ''k'') [] =
      ([demo_client_at ''k''], Inr pods) \<and> (\<forall>p\<in>set pods. pi_uid p = ''ab-cd'')"
proof -
  have l: "list_pod_sandboxes demo_grpc 0 ready_filter = Inr [demo_item ''s1'' ''ab-cd'' 0]"
    by (simp add: list_pod_sandboxes_def demo_grpc_def demo_item_def ready_filter_def sandbox_state_value_def)
  have "ensure_clients (cri_of demo_grpc) (Explicit ''k'') [] = ([demo_client_at ''k''], Inr ())"
    by (simp add: ensure_clients_def target_sockets_def cri_of_def cri_connect_socket_def demo_grpc_def demo_client_at_def)
  then have "\<exists>pods. refresh_async (cri_of demo_grpc) (\<lambda>_. None) demo_proc_view demo_orders (Explicit ''k'') [] =
      ([demo_client_at ''k''], Inr pods)"
    using l by (simp add: refresh_async_def cri_of_def demo_client_at_def Let_def split: prod.splits)
  then obtain pods where r: "refresh_async (cri_of demo_grpc) (\<lambda>_. None) demo_proc_view demo_orders (Explicit ''k'') [] =
      ([demo_client_at ''k''], Inr pods)" by blast
  have honours: "\<forall>client filt response v item.
      g_list demo_grpc client LIST_POD_SANDBOX_PATH \<lparr>lr_filter = Some filt\<rparr> = Inr response \<and>
      psf_state filt = Some v \<and> item \<in> set (lr_items response) \<longrightarrow> sb_state item = sv_state v"
    by (auto simp: demo_grpc_def split: if_splits)
  have "pi_uid p = ''ab-cd''" if p: "p \<in> set pods" for p
  proof -
    obtain client response item meta where
      "g_list demo_grpc client LIST_POD_SANDBOX_PATH \<lparr>lr_filter = Some ready_filter\<rparr> = Inr response"
      "item \<in> set (lr_items response)" "sb_metadata item = Some meta" "meta_uid meta = pi_uid p"
      using refresh_reports_ready_pods [OF r demo_orders_ok honours p] by blast
    then show ?thesis
      by (auto simp: demo_grpc_def demo_item_def ready_filter_def sandbox_state_value_def split: if_splits)
  qed
  with r show ?thesis by blast
qed

end
