(* ===== verification/Agent_Server.thy ===== *)
theory Agent_Server
  imports Agent_Control Control_System
begin

text \<open>
  Agent and control server together: the agent's requests answered by the server's handlers.  The
  transport is the composition of the two models; a served configuration is decoded to itself (the
  JSON round trip of serde).
\<close>

definition status_code :: "status \<Rightarrow> nat" where
  "status_code s =
     (case s of UNAUTHORIZED \<Rightarrow> 401 | BAD_REQUEST \<Rightarrow> 400 | FORBIDDEN \<Rightarrow> 403 | INTERNAL_SERVER_ERROR \<Rightarrow> 500)"

text \<open>A request for the configuration on its way to the server in state \<open>server\<close> and back.\<close>

definition serve_config ::
    "(u8 list \<Rightarrow> 'd) \<Rightarrow> (agent_runtime_config \<Rightarrow> string option) \<Rightarrow> app_state \<Rightarrow> string \<Rightarrow> headers \<Rightarrow>
     (nat \<times> agent_runtime_config option) option" where
  "serve_config digest to_json server url hs =
     Some (case agent_config digest to_json (st_agent_token server) (st_agents server)
                  (lc_config (st_config server)) hs of
             Body c \<Rightarrow> (200, Some c)
           | Failure s \<Rightarrow> (status_code s, None))"

text \<open>The agent's fetch gets exactly what the server's handler decides, and every refusal is an error.\<close>

lemma fetch_from_server:
  "fetch_remote_config ok (serve_config digest to_json server) id control identity sid = Inr config \<longleftrightarrow>
     (\<exists>hs. config_request_headers ok control identity sid = Inr hs \<and>
        agent_config digest to_json (st_agent_token server) (st_agents server)
          (lc_config (st_config server)) hs = Body config)"
proof (cases "config_request_headers ok control identity sid")
  case (Inl e)
  then show ?thesis by (simp add: fetch_remote_config_def Let_def)
next
  case (Inr hs)
  show ?thesis
  proof (cases "agent_config digest to_json (st_agent_token server) (st_agents server)
      (lc_config (st_config server)) hs")
    case (Failure s)
    then show ?thesis using Inr
      by (cases s) (simp_all add: fetch_remote_config_def serve_config_def status_code_def)
  next
    case (Body c)
    then show ?thesis using Inr by (simp add: fetch_remote_config_def serve_config_def)
  qed
qed

text \<open>The headers of a request, when every value can be sent.\<close>

lemma request_header_names [simp]:
  "AUTHORIZATION \<noteq> AGENT_ID_HEADER" "AUTHORIZATION \<noteq> CONFIG_SESSION_ID_HEADER"
  "AUTHORIZATION \<noteq> AGENT_CONFIG_TOKEN_HEADER" "AGENT_ID_HEADER \<noteq> CONFIG_SESSION_ID_HEADER"
  "AGENT_ID_HEADER \<noteq> AGENT_CONFIG_TOKEN_HEADER" "CONFIG_SESSION_ID_HEADER \<noteq> AGENT_CONFIG_TOKEN_HEADER"
  by (simp_all add: AUTHORIZATION_def AGENT_ID_HEADER_def CONFIG_SESSION_ID_HEADER_def
      AGENT_CONFIG_TOKEN_HEADER_def)

definition header_word :: "(string \<Rightarrow> bool) \<Rightarrow> string \<Rightarrow> bool" where
  "header_word ok v \<longleftrightarrow> v \<noteq> [] \<and> trim v = v \<and> ok v"

lemma request_headers_ok:
  assumes "ok (''Bearer '' @ cc_token control)" "header_word ok (id_agent_id identity)" "header_word ok sid"
    and "cc_agent_config_token control = Some t" "trim t \<noteq> []" "ok (trim t)"
  obtains hs where "config_request_headers ok control identity sid = Inr hs"
    "hs AUTHORIZATION = Some (''Bearer '' @ cc_token control)"
    "header_value hs AGENT_ID_HEADER = Some (id_agent_id identity)"
    "header_value hs CONFIG_SESSION_ID_HEADER = Some sid"
    "header_value hs AGENT_CONFIG_TOKEN_HEADER = Some (trim t)"
proof -
  let ?h = "[AUTHORIZATION \<mapsto> ''Bearer '' @ cc_token control, AGENT_ID_HEADER \<mapsto> id_agent_id identity,
      CONFIG_SESSION_ID_HEADER \<mapsto> sid, AGENT_CONFIG_TOKEN_HEADER \<mapsto> trim t]"
  have "config_request_headers ok control identity sid = Inr ?h"
    unfolding config_request_headers_def request_header_def if_P [OF assms(1)]
    using assms by (simp add: header_word_def config_token_header_def Let_def)
  moreover have "?h AUTHORIZATION = Some (''Bearer '' @ cc_token control)" by simp
  moreover have "header_value ?h AGENT_ID_HEADER = Some (id_agent_id identity)"
    "header_value ?h CONFIG_SESSION_ID_HEADER = Some sid"
    "header_value ?h AGENT_CONFIG_TOKEN_HEADER = Some (trim t)"
    using assms(2,3,5) request_header_names [symmetric] by (simp_all add: header_value_def header_word_def)
  ultimately show thesis by (rule that)
qed

text \<open>An agent whose registration is in the table fetches the configuration resolved for its host.\<close>

lemma registered_agent_fetches:
  assumes "cc_token control = st_agent_token server" "trim (st_agent_token server) \<noteq> []"
    and "ok (''Bearer '' @ cc_token control)" "header_word ok (id_agent_id identity)" "header_word ok sid"
    and "cc_agent_config_token control = Some t" "trim t \<noteq> []" "ok (trim t)"
    and "bt_get (st_agents server) (id_agent_id identity) = Some a" "ca_connection_id a = sid"
    and "ca_agent_id a = id_agent_id identity" "ca_hostname a = id_hostname identity"
    and "bt_get (ccf_agents (lc_config (st_config server))) (id_agent_id identity) = Some e"
    and "en_hostname e = id_hostname identity" "en_config_token e = Some (trim t)"
    and "runtime_config_for to_json (lc_config (st_config server)) (id_hostname identity) = Inr runtime"
  shows "fetch_remote_config ok (serve_config digest to_json server) id control identity sid = Inr runtime"
proof -
  obtain hs where hs: "config_request_headers ok control identity sid = Inr hs"
    "hs AUTHORIZATION = Some (''Bearer '' @ cc_token control)"
    "header_value hs AGENT_ID_HEADER = Some (id_agent_id identity)"
    "header_value hs CONFIG_SESSION_ID_HEADER = Some sid"
    "header_value hs AGENT_CONFIG_TOKEN_HEADER = Some (trim t)"
    using request_headers_ok [OF assms(3-8)] by metis
  have "authorized digest hs (st_agent_token server)"
    unfolding authorized_iff using hs(2) assms(1,2) matches_same by metis
  moreover have "agent_has_config_credential digest (lc_config (st_config server)) (ca_agent_id a)
      (ca_hostname a) (Some (trim t))"
    using assms(7,11-15) by (simp add: agent_has_config_credential_def agent_is_enrolled_for_hostname_def
        agent_config_token_matches_def matches_same)
  ultimately show ?thesis
    unfolding fetch_from_server agent_config_Body using hs assms(9,10,12,16) by metis
qed

text \<open>The upgrade of an agent with the right control token is accepted and hands its config token on.\<close>

lemma upgrade_accepted:
  assumes "cc_token control = st_agent_token server" "trim (st_agent_token server) \<noteq> []"
    and "ok (''Bearer '' @ cc_token control)"
    and "cc_agent_config_token control = Some t" "trim t \<noteq> []" "ok (trim t)"
  obtains hs where "websocket_headers ok control = Inr hs"
    "agent_control digest server hs = Body \<lparr>cn_current = None, cn_token = Some (trim t),
       cn_config = lc_config (st_config server), cn_running = True\<rparr>"
proof -
  let ?h = "[AUTHORIZATION \<mapsto> ''Bearer '' @ cc_token control, AGENT_CONFIG_TOKEN_HEADER \<mapsto> trim t]"
  have w: "websocket_headers ok control = Inr ?h"
    unfolding websocket_headers_def header_from_str_def if_P [OF assms(3)]
    using assms by (simp add: config_token_header_def Let_def)
  have "authorized digest ?h (st_agent_token server)"
    unfolding authorized_iff using assms(1,2) matches_same request_header_names by (metis fun_upd_other fun_upd_same)
  moreover have "header_value ?h AGENT_CONFIG_TOKEN_HEADER = Some (trim t)"
    using assms(5) by (simp add: header_value_def)
  ultimately show thesis using w that by (simp add: agent_control_def)
qed

text \<open>The hello of an enrolled agent registers it, unless its id is in another connection's hands.\<close>

lemma hello_registers:
  assumes "parse_msg text = Some (hello_message ver identity)"
    and "bt_get (ccf_agents cfg) (id_agent_id identity) = Some e"
    and "en_hostname e = id_hostname identity" "en_config_token e = Some tok" "trim tok \<noteq> []"
    and "bt_get agents (id_agent_id identity) = None"
  shows "run_agent_socket_step digest parse_msg cfg agents c None (Some tok) (Incoming (WsText text)) now True =
    ((Some (id_agent_id identity),
      bt_insert (id_agent_id identity)
        (new_connected_agent \<lparr>ah_agent_id = id_agent_id identity, ah_hostname = id_hostname identity,
           ah_agent_version = ver, ah_boot_id = id_boot_id identity\<rparr> now c) agents),
     [SendMsg (HelloAck now c)], Continue)"
proof -
  have "agent_hello_authorized digest cfg \<lparr>ah_agent_id = id_agent_id identity, ah_hostname = id_hostname identity,
           ah_agent_version = ver, ah_boot_id = id_boot_id identity\<rparr> (Some tok)"
    using assms(2-5) by (simp add: agent_hello_authorized_def agent_has_config_credential_def
        agent_is_enrolled_for_hostname_def agent_config_token_matches_def matches_same)
  then show ?thesis
    using assms(1,6) by (simp add: run_agent_socket_step_def handle_agent_message_def hello_message_def
        register_agent_connection_def register_locked_def continue_if_ok_def Let_def)
qed

section \<open>Properties\<close>

text \<open>Delivery of a configuration from end to end.  An enrolled agent with the right tokens, whose id
  is not taken, upgrades and says hello; the server registers it and acknowledges with the connection's
  id; the agent, on that acknowledgement, fetches and applies exactly the configuration resolved for
  its host, and keeps the session for later polls.\<close>

lemma enrolled_agent_config_delivery:
  assumes "cc_token control = st_agent_token server" "trim (st_agent_token server) \<noteq> []"
    and "ok (''Bearer '' @ cc_token control)" "header_word ok (id_agent_id identity)" "header_word ok c"
    and "cc_agent_config_token control = Some t" "trim t \<noteq> []" "ok (trim t)"
    and "bt_get (ccf_agents (lc_config (st_config server))) (id_agent_id identity) = Some e"
    and "en_hostname e = id_hostname identity" "en_config_token e = Some (trim t)"
    and "bt_get (st_agents server) (id_agent_id identity) = None"
    and "runtime_config_for to_json (lc_config (st_config server)) (id_hostname identity) = Inr runtime"
    and "parse_agent hello = Some (hello_message ver identity)"
    and "parse_server ack = Some (HelloAck now c)"
    and "fe_header_ok env = ok" "fe_send env = serve_config digest to_json server'" "fe_decode env = id"
    and "server' = server\<lparr>st_agents := agents\<rparr>"
    and "websocket_headers ok control = Inr upgrade" "agent_control digest server upgrade = Body cn"
    and "run_agent_socket_step digest parse_agent (cn_config cn) (st_agents server) c (cn_current cn) (cn_token cn)
           (Incoming (WsText hello)) now True = ((current, agents), writes, outcome)"
  shows "writes = [SendMsg (HelloAck now c)] \<and> outcome = Continue \<and> current = Some (id_agent_id identity) \<and>
    as_config (fst (handle_server_message parse_server env control identity dir ack st)) = runtime \<and>
    as_session (fst (handle_server_message parse_server env control identity dir ack st)) = Some c"
proof -
  obtain hs where hs: "websocket_headers ok control = Inr hs"
    "agent_control digest server hs = Body \<lparr>cn_current = None, cn_token = Some (trim t),
       cn_config = lc_config (st_config server), cn_running = True\<rparr>"
    using upgrade_accepted [OF assms(1-3,6-8)] by metis
  then have cn: "cn = \<lparr>cn_current = None, cn_token = Some (trim t),
       cn_config = lc_config (st_config server), cn_running = True\<rparr>"
    using assms(20,21) by simp
  have tt: "trim (trim t) \<noteq> []" using assms(7) by simp
  note reg = hello_registers [of parse_agent hello ver identity "lc_config (st_config server)" e "trim t"
      "st_agents server" digest c now, OF assms(14,9,10,11) tt assms(12)]
  have cur: "current = Some (id_agent_id identity)" "writes = [SendMsg (HelloAck now c)]" "outcome = Continue"
    and ag: "agents = bt_insert (id_agent_id identity)
        (new_connected_agent \<lparr>ah_agent_id = id_agent_id identity, ah_hostname = id_hostname identity,
           ah_agent_version = ver, ah_boot_id = id_boot_id identity\<rparr> now c) (st_agents server)"
    using assms(22) reg by (simp_all add: cn)
  let ?a = "new_connected_agent \<lparr>ah_agent_id = id_agent_id identity, ah_hostname = id_hostname identity,
           ah_agent_version = ver, ah_boot_id = id_boot_id identity\<rparr> now c"
  have a: "bt_get (st_agents server') (id_agent_id identity) = Some ?a" "ca_connection_id ?a = c"
    "ca_agent_id ?a = id_agent_id identity" "ca_hostname ?a = id_hostname identity"
    using ag assms(19) by simp_all
  have s': "st_agent_token server' = st_agent_token server" "st_config server' = st_config server"
    using assms(19) by simp_all
  have "fetch_remote_config ok (serve_config digest to_json server') id control identity c = Inr runtime"
    by (rule registered_agent_fetches [OF _ _ assms(3-8) a, unfolded s', OF assms(1,2,9-11,13)])
  then have f: "fetch_remote_config (fe_header_ok env) (fe_send env) (fe_decode env) control identity c = Inr runtime"
    by (simp only: assms(16-18))
  have "runtime_wf runtime"
    using assms(13) effective_version_not_blank by (auto simp: runtime_config_for_iff runtime_wf_version)
  then show ?thesis
    using cur assms(15) refresh_applies [OF f, of dir "st\<lparr>as_session := Some c\<rparr>"]
    by (simp add: handle_server_message_def)
qed

definition demo_control :: control_client_config where
  "demo_control = \<lparr>cc_http_url = ''http://127.0.0.1:8080/'', cc_ws_url = ''ws://127.0.0.1:8080/agent/control'',
     cc_token = ''agents'', cc_agent_config_token = Some ''t1''\<rparr>"

definition demo_identity :: agent_identity where
  "demo_identity = \<lparr>id_agent_id = ''a1'', id_hostname = ''web'', id_boot_id = None\<rparr>"

definition demo_header_ok :: "string \<Rightarrow> bool" where
  "demo_header_ok v = list_all (\<lambda>c. (32 \<le> char_code c \<and> char_code c < 127) \<or> char_code c = 9) v"

definition demo_fetch_env :: "(agent_runtime_config option, io_error) fetch_env" where
  "demo_fetch_env =
     \<lparr>fe_header_ok = demo_header_ok,
      fe_send = serve_config demo_digest demo_json (demo_state\<lparr>st_agents := [(''a1'', demo_entry)]\<rparr>),
      fe_decode = id, fe_to_json = demo_json,
      fe_save = \<lparr>sio_create_dir_all = Inr (), sio_write = None\<rparr>\<rparr>"

lemma enrolled_agent_config_delivery_witness:
  "\<exists>runtime. runtime_config_for demo_json demo_config ''web'' = Inr runtime \<and>
     as_config (fst (handle_server_message (\<lambda>_. Some (HelloAck 7 ''c1'')) demo_fetch_env demo_control demo_identity
       ''/var/lib/talia'' [] \<lparr>as_config = runtime_default, as_session = None, as_files = Map.empty\<rparr>)) = runtime"
proof -
  obtain runtime where rt: "runtime_config_for demo_json demo_config ''web'' = Inr runtime"
    using demo_resolved by (auto simp: runtime_config_for_iff)
  have hw: "header_word demo_header_ok ''a1'' \<and> header_word demo_header_ok ''c1'' \<and>
      demo_header_ok (''Bearer '' @ ''agents'') \<and> demo_header_ok ''t1'' \<and>
      trim ''t1'' = ''t1'' \<and> trim ''agents'' = ''agents''"
    by code_simp
  have up: "websocket_headers demo_header_ok demo_control = Inr demo_headers"
    by (auto simp: websocket_headers_def demo_control_def demo_headers_def header_from_str_def
        config_token_header_def demo_header_ok_def char_code_def hw)
  have "as_config (fst (handle_server_message (\<lambda>_. Some (HelloAck 7 ''c1'')) demo_fetch_env demo_control demo_identity
       ''/var/lib/talia'' [] \<lparr>as_config = runtime_default, as_session = None, as_files = Map.empty\<rparr>)) = runtime"
    by (rule enrolled_agent_config_delivery [where server = demo_state and ok = demo_header_ok and server' = "demo_state\<lparr>st_agents := [(''a1'', demo_entry)]\<rparr>" and t = "''t1''"
            and e = "\<lparr>en_hostname = ''web'', en_config_token = Some ''t1''\<rparr>" and parse_agent = demo_hello
            and hello = "''hello''" and ver = "''0.1.0''" and cn = demo_connection and upgrade = demo_headers
            and now = 7 and c = "''c1''" and digest = demo_digest and to_json = demo_json,
          THEN conjunct2, THEN conjunct2, THEN conjunct2, THEN conjunct1])
      (use hw rt up demo_upgrade demo_step in
        \<open>simp_all add: demo_control_def demo_identity_def demo_state_def demo_config_def demo_fetch_env_def
           demo_hello_def hello_message_def demo_connection_def\<close>)
  with rt show ?thesis by blast
qed

end
