(* ===== verification/Openapi.thy ===== *)
theory Openapi
  imports Control_Router Agent_Server
begin

text \<open>
  The OpenAPI contract of the control server (\<open>talia-control/src/openapi.rs\<close>): for each documented
  operation its method, path, id, tag, security scheme, header parameters and answer statuses.  The
  prose and the body schemas are left out.  It is compared with the routes and handlers.
\<close>

record api_operation =
  op_method :: http_method
  op_path :: string
  op_operation_id :: string
  op_tag :: string
  op_security :: "string list"
  op_headers :: "string list"
  op_statuses :: "nat list"

definition health_contract :: api_operation where
  "health_contract =
     \<lparr>op_method = MethodGet, op_path = ''/health'', op_operation_id = ''health'', op_tag = ''system'',
      op_security = [], op_headers = [], op_statuses = [200]\<rparr>"

definition agent_config_contract :: api_operation where
  "agent_config_contract =
     \<lparr>op_method = MethodGet, op_path = ''/agent/config'', op_operation_id = ''agentConfig'', op_tag = ''agents'',
      op_security = [''agent_bearer''],
      op_headers = [''x-talia-agent-id'', ''x-talia-config-session-id'', ''x-talia-agent-config-token''],
      op_statuses = [200, 400, 401, 403, 500]\<rparr>"

definition agent_control_contract :: api_operation where
  "agent_control_contract =
     \<lparr>op_method = MethodGet, op_path = ''/agent/control'', op_operation_id = ''agentControl'', op_tag = ''agents'',
      op_security = [''agent_bearer''],
      op_headers = [''x-talia-agent-config-token'', ''Connection'', ''Upgrade'', ''Sec-WebSocket-Key'',
        ''Sec-WebSocket-Version''],
      op_statuses = [101, 401, 400]\<rparr>"

definition admin_agents_contract :: api_operation where
  "admin_agents_contract =
     \<lparr>op_method = MethodGet, op_path = ''/admin/agents'', op_operation_id = ''adminAgents'', op_tag = ''admin'',
      op_security = [''admin_bearer''], op_headers = [], op_statuses = [200, 401]\<rparr>"

definition admin_config_reload_contract :: api_operation where
  "admin_config_reload_contract =
     \<lparr>op_method = MethodPost, op_path = ''/admin/config/reload'', op_operation_id = ''adminConfigReload'',
      op_tag = ''admin'', op_security = [''admin_bearer''], op_headers = [], op_statuses = [200, 401, 500]\<rparr>"

definition api_document :: "api_operation list" where
  "api_document =
     [health_contract, agent_config_contract, agent_control_contract, admin_agents_contract,
      admin_config_reload_contract]"

definition security_schemes :: "(string \<times> string) list" where
  "security_schemes =
     [(''agent_bearer'', ''TALIA_CONTROL_TOKEN used by enrolled agents.''),
      (''admin_bearer'', ''TALIA_ADMIN_TOKEN used by control-plane operators.'')]"

section \<open>Statuses of the answers\<close>

fun response_status :: "nat \<Rightarrow> 'a response \<Rightarrow> nat" where
  "response_status ok (Body _) = ok"
| "response_status ok (Failure s) = status_code s"

text \<open>\<open>rejection\<close> is the status of the WebSocket extractor.\<close>

definition answer_status :: "nat \<Rightarrow> app_answer \<Rightarrow> nat" where
  "answer_status rejection answer =
     (case answer of
        NoRoute \<Rightarrow> 404
      | MethodNotAllowed \<Rightarrow> 405
      | UpgradeRejected \<Rightarrow> rejection
      | OpenApiAnswer \<Rightarrow> 200
      | HealthAnswer _ \<Rightarrow> 200
      | ConfigAnswer r \<Rightarrow> response_status 200 r
      | UpgradeAnswer r \<Rightarrow> response_status 101 r
      | AgentsAnswer r \<Rightarrow> response_status 200 r
      | ReloadAnswer r \<Rightarrow> response_status 200 r)"

text \<open>The token a security scheme stands for.\<close>

definition scheme_token :: "app_state \<Rightarrow> string \<Rightarrow> string" where
  "scheme_token state scheme = (if scheme = ''agent_bearer'' then st_agent_token state else st_admin_token state)"

section \<open>Facts\<close>

lemma status_code_cases: "status_code s \<in> {400, 401, 403, 500}"
  by (cases s) (simp_all add: status_code_def)

lemma config_status: "response_status 200 (agent_config digest to_json token agents config hs) \<in> {200, 400, 401, 403, 500}"
  using status_code_cases by (cases "agent_config digest to_json token agents config hs") auto

lemma reload_statuses:
  "response_status 200 (snd (admin_config_reload digest rd toml to_json state hs)) \<in> {200, 401, 500}"
  by (auto simp: admin_config_reload_def status_code_def Let_def split: sum.splits)

text \<open>The answer on each documented operation.\<close>

lemma app_on_contracts:
  "rq_path r = ''/health'' \<Longrightarrow> rq_method r = MethodGet \<Longrightarrow>
     snd (app digest rd toml to_json state r) = HealthAnswer health"
  "rq_path r = ''/agent/config'' \<Longrightarrow> rq_method r = MethodGet \<Longrightarrow>
     snd (app digest rd toml to_json state r) =
       ConfigAnswer (agent_config digest to_json (st_agent_token state) (st_agents state)
         (lc_config (st_config state)) (rq_headers r))"
  "rq_path r = ''/agent/control'' \<Longrightarrow> rq_method r = MethodGet \<Longrightarrow>
     snd (app digest rd toml to_json state r) =
       (if rq_upgrade r then UpgradeAnswer (agent_control digest state (rq_headers r)) else UpgradeRejected)"
  "rq_path r = ''/admin/agents'' \<Longrightarrow> rq_method r = MethodGet \<Longrightarrow>
     snd (app digest rd toml to_json state r) = AgentsAnswer (admin_agents digest state (rq_headers r))"
  "rq_path r = ''/admin/config/reload'' \<Longrightarrow> rq_method r = MethodPost \<Longrightarrow>
     snd (app digest rd toml to_json state r) =
       ReloadAnswer (snd (admin_config_reload digest rd toml to_json state (rq_headers r)))"
  by (simp_all add: app_def app_routes_def route_accepts_def case_prod_unfold Let_def)

lemmas contract_defs = health_contract_def agent_config_contract_def agent_control_contract_def
  admin_agents_contract_def admin_config_reload_contract_def

lemma contract_statuses:
  assumes "op \<in> set api_document" "rq_path r = op_path op" "rq_method r = op_method op"
    and "snd (app digest rd toml to_json state r) \<noteq> UpgradeRejected"
  shows "answer_status rejection (snd (app digest rd toml to_json state r)) \<in> set (op_statuses op)"
proof -
  consider "op = health_contract" | "op = agent_config_contract" | "op = agent_control_contract"
    | "op = admin_agents_contract" | "op = admin_config_reload_contract"
    using assms(1) by (auto simp: api_document_def)
  then show ?thesis
  proof cases
    case 1
    with assms(2,3) show ?thesis by (simp add: app_on_contracts(1) answer_status_def health_contract_def)
  next
    case 2
    with assms(2,3) config_status show ?thesis by (simp add: app_on_contracts(2) answer_status_def agent_config_contract_def)
  next
    case 3
    with assms(2-4) show ?thesis
      by (simp add: app_on_contracts(3) answer_status_def agent_control_contract_def agent_control_def status_code_def
          split: if_splits)
  next
    case 4
    with assms(2,3) show ?thesis
      by (simp add: app_on_contracts(4) answer_status_def admin_agents_contract_def admin_agents_def status_code_def)
  next
    case 5
    with assms(2,3) reload_statuses show ?thesis
      by (simp add: app_on_contracts(5) answer_status_def admin_config_reload_contract_def)
  qed
qed

lemma contract_security:
  assumes "op \<in> set api_document" "rq_path r = op_path op" "rq_method r = op_method op"
    and "snd (app digest rd toml to_json state r) \<noteq> UpgradeRejected"
    and "scheme \<in> set (op_security op)" "\<not> authorized digest (rq_headers r) (scheme_token state scheme)"
  shows "answer_status rejection (snd (app digest rd toml to_json state r)) = 401"
  using assms
  by (auto simp: api_document_def contract_defs app_on_contracts answer_status_def agent_control_def admin_agents_def
      admin_config_reload_def agent_config_def scheme_token_def status_code_def split: if_splits)

lemma config_answer_headers:
  assumes "snd (app digest rd toml to_json state r) = ConfigAnswer (Body config)"
    and "h \<in> set (op_headers agent_config_contract)"
  shows "header_value (rq_headers r) h \<noteq> None"
proof -
  have c: "agent_config digest to_json (st_agent_token state) (st_agents state) (lc_config (st_config state)) (rq_headers r) =
      Body config"
    using assms(1)
    by (auto simp: app_def case_prod_unfold Let_def split: option.splits if_splits route_handler.splits)
  then have "header_value (rq_headers r) AGENT_ID_HEADER \<noteq> None"
    "header_value (rq_headers r) CONFIG_SESSION_ID_HEADER \<noteq> None"
    "header_value (rq_headers r) AGENT_CONFIG_TOKEN_HEADER \<noteq> None"
    by (auto simp: agent_config_def Let_def agent_has_config_credential_def split: if_splits option.splits)
  then show ?thesis using assms(2) by (auto simp: contract_defs header_names)
qed

text \<open>The WebSocket extractor rejects exactly the requests to its route that are no upgrade.\<close>

lemma rejected_iff:
  assumes "op \<in> set api_document" "rq_path r = op_path op" "rq_method r = op_method op"
  shows "snd (app digest rd toml to_json state r) = UpgradeRejected \<longleftrightarrow> op = agent_control_contract \<and> \<not> rq_upgrade r"
proof -
  consider "op = health_contract" | "op = agent_config_contract" | "op = agent_control_contract"
    | "op = admin_agents_contract" | "op = admin_config_reload_contract"
    using assms(1) by (auto simp: api_document_def)
  then show ?thesis
    by cases (use assms(2,3) in \<open>simp_all add: contract_defs app_on_contracts\<close>)
qed

section \<open>Properties\<close>

text \<open>A GET request with neither headers nor an upgrade.\<close>

definition get_at :: "string \<Rightarrow> http_request" where
  "get_at path = \<lparr>rq_method = MethodGet, rq_path = path, rq_headers = Map.empty, rq_upgrade = False\<rparr>"

text \<open>C20: The contract and the server.  The routes are the document's own and, in this order, exactly the
  documented operations.  A request to a documented operation is answered with one of its documented
  statuses, and with 401 when it lacks the token of the operation's security scheme.  The one exception
  is a request to \<open>/agent/control\<close> that is no WebSocket upgrade: whatever its token, the WebSocket
  extractor answers it with its own status before the handler runs, and that is a documented one
  when it is 400.  The configuration is only granted to requests that carry each documented header.\<close>

theorem contract_is_implemented:
  "map (\<lambda>(path, routed, handler). (path, routed)) app_routes =
      (''/openapi.json'', MethodGet) # map (\<lambda>op. (op_path op, op_method op)) api_document \<and>
   (\<forall>op\<in>set api_document. rq_path r = op_path op \<and> rq_method r = op_method op \<longrightarrow>
      (let status = answer_status rejection (snd (app digest rd toml to_json state r)) in
       if op = agent_control_contract \<and> \<not> rq_upgrade r
       then snd (app digest rd toml to_json state r) = UpgradeRejected \<and> status = rejection \<and>
         (rejection = 400 \<longrightarrow> status \<in> set (op_statuses op))
       else status \<in> set (op_statuses op) \<and>
         (\<forall>scheme\<in>set (op_security op). scheme \<in> set (map fst security_schemes) \<and>
           (\<not> authorized digest (rq_headers r) (scheme_token state scheme) \<longrightarrow> status = 401)))) \<and>
   (\<forall>config. snd (app digest rd toml to_json state r) = ConfigAnswer (Body config) \<longrightarrow>
      (\<forall>h\<in>set (op_headers agent_config_contract). header_value (rq_headers r) h \<noteq> None))"
proof (intro conjI ballI impI)
  show "map (\<lambda>(path, routed, handler). (path, routed)) app_routes =
      (''/openapi.json'', MethodGet) # map (\<lambda>op. (op_path op, op_method op)) api_document"
    by (simp add: api_document_def contract_defs app_routes_def)
  show "\<forall>config. snd (app digest rd toml to_json state r) = ConfigAnswer (Body config) \<longrightarrow>
      (\<forall>h\<in>set (op_headers agent_config_contract). header_value (rq_headers r) h \<noteq> None)"
    using config_answer_headers by blast
  fix op assume op: "op \<in> set api_document" and at: "rq_path r = op_path op \<and> rq_method r = op_method op"
  let ?answer = "snd (app digest rd toml to_json state r)"
  have rejected: "?answer = UpgradeRejected \<longleftrightarrow> op = agent_control_contract \<and> \<not> rq_upgrade r"
    by (rule rejected_iff [OF op]) (use at in simp_all)
  have schemes: "scheme \<in> set (map fst security_schemes)" if "scheme \<in> set (op_security op)" for scheme
    using op that by (auto simp: api_document_def contract_defs security_schemes_def)
  show "let status = answer_status rejection ?answer in
       if op = agent_control_contract \<and> \<not> rq_upgrade r
       then ?answer = UpgradeRejected \<and> status = rejection \<and> (rejection = 400 \<longrightarrow> status \<in> set (op_statuses op))
       else status \<in> set (op_statuses op) \<and>
         (\<forall>scheme\<in>set (op_security op). scheme \<in> set (map fst security_schemes) \<and>
           (\<not> authorized digest (rq_headers r) (scheme_token state scheme) \<longrightarrow> status = 401))"
  proof (cases "op = agent_control_contract \<and> \<not> rq_upgrade r")
    case True
    then have "?answer = UpgradeRejected" using rejected by simp
    then show ?thesis using True by (simp add: Let_def answer_status_def agent_control_contract_def)
  next
    case False
    then have "?answer \<noteq> UpgradeRejected" using rejected by blast
    then show ?thesis
      using False contract_statuses [OF op] contract_security [OF op] schemes at by (simp only: Let_def if_False) blast
  qed
qed

lemma contract_is_implemented_witness:
  "answer_status 400 (snd (app demo_digest (\<lambda>_. Inr []) demo_toml demo_json demo_state
     (get_at ''/admin/agents''))) = 401 \<and>
   answer_status 400 (snd (app demo_digest (\<lambda>_. Inr []) demo_toml demo_json demo_state
     (get_at ''/agent/control''))) = 400"
proof -
  let ?status = "\<lambda>r. answer_status 400 (snd (app demo_digest (\<lambda>_. Inr []) demo_toml demo_json demo_state r))"
  note contract = contract_is_implemented [where digest = demo_digest and rd = "\<lambda>_. Inr []" and toml = demo_toml and
      to_json = demo_json and state = demo_state and rejection = 400, THEN conjunct2, THEN conjunct1, rule_format]
  have doc: "admin_agents_contract \<in> set api_document" "agent_control_contract \<in> set api_document"
    by (simp_all add: api_document_def)
  have at: "rq_path (get_at ''/admin/agents'') = op_path admin_agents_contract \<and>
      rq_method (get_at ''/admin/agents'') = op_method admin_agents_contract"
    "rq_path (get_at ''/agent/control'') = op_path agent_control_contract \<and>
      rq_method (get_at ''/agent/control'') = op_method agent_control_contract"
    by (simp_all add: get_at_def contract_defs)
  have "\<not> authorized demo_digest (rq_headers (get_at ''/admin/agents'')) (scheme_token demo_state ''admin_bearer'')"
    "admin_agents_contract \<noteq> agent_control_contract" "''admin_bearer'' \<in> set (op_security admin_agents_contract)"
    by (simp_all add: authorized_def get_at_def contract_defs)
  with contract [OF doc(1) at(1)] have "?status (get_at ''/admin/agents'') = 401" by (simp add: Let_def)
  moreover have "\<not> rq_upgrade (get_at ''/agent/control'')" by (simp add: get_at_def)
  with contract [OF doc(2) at(2)] have "?status (get_at ''/agent/control'') = 400"
    by (simp add: Let_def answer_status_def)
  ultimately show ?thesis ..
qed

end
