(* ===== verification/Control_Json.thy ===== *)
theory Control_Json
  imports Control_Server Json
begin

text \<open>
  What the control protocol puts on the wire: the JSON values of the WebSocket messages
  (\<open>talia-core/src/control.rs\<close>) and of the admin answers (\<open>talia-control/src/main.rs\<close>), as the serde
  derivations of the types define them.  The messages are internally tagged by \<open>type\<close> with names in
  snake case.  The text of a value is printed and parsed by serde_json, a parameter.
\<close>

section \<open>Decoding a tagged message\<close>

text \<open>The tag and the rest: an object with the tag among its fields, or an array that starts with it.\<close>

definition tagged :: "json \<Rightarrow> (string \<times> json) option" where
  "tagged j =
     (case j of
        JsonObject kvs \<Rightarrow> map_option (\<lambda>t. (t, j)) (Option.bind (bt_get kvs ''type'') json_as_str)
      | JsonArray (first # rest) \<Rightarrow> map_option (\<lambda>t. (t, JsonArray rest)) (json_as_str first)
      | _ \<Rightarrow> None)"

definition agent_message_from_value :: "json \<Rightarrow> agent_control_message option" where
  "agent_message_from_value j =
     (case tagged j of
        None \<Rightarrow> None
      | Some (tag, v) \<Rightarrow>
          if tag = ''hello'' \<and> variant_shape 4 v then
            Option.bind (required json_as_str (struct_field v 0 ''agent_id'')) (\<lambda>agent_id.
            Option.bind (required json_as_str (struct_field v 1 ''hostname'')) (\<lambda>hostname.
            Option.bind (required json_as_str (struct_field v 2 ''agent_version'')) (\<lambda>agent_version.
            Option.bind (optional json_as_str (struct_field v 3 ''boot_id'')) (\<lambda>boot_id.
              Some (Hello agent_id hostname agent_version boot_id)))))
          else if tag = ''heartbeat'' \<and> variant_shape 5 v then
            Option.bind (required json_as_str (struct_field v 0 ''agent_id'')) (\<lambda>agent_id.
            Option.bind (required json_as_str (struct_field v 1 ''hostname'')) (\<lambda>hostname.
            Option.bind (required json_as_str (struct_field v 2 ''agent_version'')) (\<lambda>agent_version.
            Option.bind (required json_as_str (struct_field v 3 ''config_version'')) (\<lambda>config_version.
            Option.bind (required json_as_strings (struct_field v 4 ''enabled_collectors'')) (\<lambda>enabled_collectors.
              Some (Heartbeat agent_id hostname agent_version config_version enabled_collectors))))))
          else None)"

definition server_message_from_value :: "json \<Rightarrow> server_control_message option" where
  "server_message_from_value j =
     (case tagged j of
        None \<Rightarrow> None
      | Some (tag, v) \<Rightarrow>
          if tag = ''hello_ack'' \<and> variant_shape 2 v then
            Option.bind (required json_as_u64 (struct_field v 0 ''server_time_unix_seconds'')) (\<lambda>now.
            Option.bind (required json_as_str (struct_field v 1 ''config_session_id'')) (\<lambda>session.
              Some (HelloAck now session)))
          else if tag = ''config_changed'' \<and> variant_shape 1 v then
            Option.bind (required json_as_str (struct_field v 0 ''version'')) (\<lambda>version. Some (ConfigChanged version))
          else None)"

section \<open>Encoding\<close>

definition json_option :: "string option \<Rightarrow> json" where
  "json_option s = (case s of None \<Rightarrow> JsonNull | Some x \<Rightarrow> JsonString x)"

fun agent_message_to_value :: "agent_control_message \<Rightarrow> json" where
  "agent_message_to_value (Hello agent_id hostname agent_version boot_id) =
     json_object [(''type'', JsonString ''hello''), (''agent_id'', JsonString agent_id),
       (''hostname'', JsonString hostname), (''agent_version'', JsonString agent_version),
       (''boot_id'', json_option boot_id)]"
| "agent_message_to_value (Heartbeat agent_id hostname agent_version config_version enabled_collectors) =
     json_object [(''type'', JsonString ''heartbeat''), (''agent_id'', JsonString agent_id),
       (''hostname'', JsonString hostname), (''agent_version'', JsonString agent_version),
       (''config_version'', JsonString config_version),
       (''enabled_collectors'', JsonArray (map JsonString enabled_collectors))]"

fun server_message_to_value :: "server_control_message \<Rightarrow> json" where
  "server_message_to_value (HelloAck now session) =
     json_object [(''type'', JsonString ''hello_ack''), (''server_time_unix_seconds'', JsonU64 now),
       (''config_session_id'', JsonString session)]"
| "server_message_to_value (ConfigChanged version) =
     json_object [(''type'', JsonString ''config_changed''), (''version'', JsonString version)]"

text \<open>The admin answers.\<close>

definition served_agent_to_value :: "served_agent \<Rightarrow> json" where
  "served_agent_to_value a =
     json_object [(''agent_id'', JsonString (sa_agent_id a)), (''hostname'', JsonString (sa_hostname a)),
       (''agent_version'', JsonString (sa_agent_version a)), (''boot_id'', json_option (sa_boot_id a)),
       (''config_version'', json_option (sa_config_version a)),
       (''enabled_collectors'', JsonArray (map JsonString (sa_enabled_collectors a))),
       (''connected_at_unix_seconds'', JsonU64 (sa_connected_at_unix_seconds a)),
       (''last_seen_unix_seconds'', JsonU64 (sa_last_seen_unix_seconds a))]"

definition reload_response_to_value :: "reload_response \<Rightarrow> json" where
  "reload_response_to_value r =
     json_object [(''version'', JsonString (rr_version r)), (''notified_agents'', JsonU64 (of_nat (rr_notified_agents r)))]"

section \<open>Facts\<close>

lemma tagged_json_object:
  assumes "distinct (map fst kvs)" "map_of kvs ''type'' = Some (JsonString t)"
  shows "tagged (json_object kvs) = Some (t, json_object kvs)"
  using json_get_json_object [OF assms(1), of "''type''"] assms(2)
  by (simp add: tagged_def json_object_def)

lemma optional_json_option [simp]: "optional json_as_str (Some (json_option s)) = Some s"
  by (cases s) (simp_all add: optional_def json_option_def)

lemmas wire_defs = agent_message_from_value_def server_message_from_value_def

lemma tagged_messages:
  "tagged (agent_message_to_value m) =
     Some (case m of Hello _ _ _ _ \<Rightarrow> ''hello'' | Heartbeat _ _ _ _ _ \<Rightarrow> ''heartbeat'', agent_message_to_value m)"
  "tagged (server_message_to_value s) =
     Some (case s of HelloAck _ _ \<Rightarrow> ''hello_ack'' | ConfigChanged _ \<Rightarrow> ''config_changed'', server_message_to_value s)"
  by (cases m; simp add: tagged_json_object) (cases s; simp add: tagged_json_object)

text \<open>What one side writes the other reads, and neither side reads its own.\<close>

lemma agent_message_read_back: "agent_message_from_value (agent_message_to_value m) = Some m"
  unfolding wire_defs tagged_messages by (cases m) (simp_all add: struct_json_object)

lemma server_message_read_back: "server_message_from_value (server_message_to_value s) = Some s"
  unfolding wire_defs tagged_messages by (cases s) (simp_all add: struct_json_object)

lemma messages_apart:
  "agent_message_from_value (server_message_to_value s) = None"
  "server_message_from_value (agent_message_to_value m) = None"
  unfolding wire_defs tagged_messages by (cases s; simp) (cases m; simp)

section \<open>Properties\<close>

text \<open>C18: The wire format of the control protocol is faithful: what one side writes the other reads as the
  same message, with or without a boot id and whatever the collectors and texts; and neither side
  takes a message of its own direction for one of the other.\<close>

theorem wire_messages_roundtrip:
  "agent_message_from_value (agent_message_to_value m) = Some m \<and>
   server_message_from_value (server_message_to_value s) = Some s \<and>
   agent_message_from_value (server_message_to_value s) = None \<and>
   server_message_from_value (agent_message_to_value m) = None"
  by (simp add: agent_message_read_back server_message_read_back messages_apart)

end
