(* ===== verification/Config_Decode.thy ===== *)
theory Config_Decode
  imports Config_Json Config_Bootstrap Config_Control
begin

text \<open>
  How the two configuration files are read: the \<open>Deserialize\<close> derivations of the bootstrap file and of
  the control file with its overrides (\<open>talia-core/src/config.rs\<close>), over the tree of values the TOML
  parser makes of a file.  The parser itself is a parameter.
\<close>

section \<open>The overrides\<close>

definition agent_settings_override_from_value :: "json \<Rightarrow> agent_settings_override option" where
  "agent_settings_override_from_value j =
     (if \<not> variant_shape 2 j then None
      else
        Option.bind (optional json_as_u64 (struct_field j 0 ''config_poll_interval_seconds'')) (\<lambda>poll.
        Option.bind (optional json_as_u64 (struct_field j 1 ''heartbeat_interval_seconds'')) (\<lambda>beat.
          Some \<lparr>ov_config_poll_interval_seconds = poll, ov_heartbeat_interval_seconds = beat\<rparr>)))"

definition storage_override_from_value :: "json \<Rightarrow> storage_override option" where
  "storage_override_from_value j =
     (if \<not> variant_shape 3 j then None
      else
        Option.bind (optional json_as_bool (struct_field j 0 ''enabled'')) (\<lambda>enabled.
        Option.bind (optional json_as_u64 (struct_field j 1 ''interval_seconds'')) (\<lambda>interval_seconds.
        Option.bind (optional json_as_strings (struct_field j 2 ''mounts'')) (\<lambda>mounts.
          Some \<lparr>ov_storage_enabled = enabled, ov_storage_interval_seconds = interval_seconds,
                ov_storage_mounts = mounts\<rparr>))))"

definition scheduled_override_from_value :: "json \<Rightarrow> (bool option \<times> u64 option) option" where
  "scheduled_override_from_value j =
     (if \<not> variant_shape 2 j then None
      else
        Option.bind (optional json_as_bool (struct_field j 0 ''enabled'')) (\<lambda>enabled.
        Option.bind (optional json_as_u64 (struct_field j 1 ''interval_seconds'')) (\<lambda>interval_seconds.
          Some (enabled, interval_seconds))))"

definition memory_override_from_value :: "json \<Rightarrow> memory_override option" where
  "memory_override_from_value j =
     map_option (\<lambda>(enabled, interval_seconds).
         \<lparr>ov_memory_enabled = enabled, ov_memory_interval_seconds = interval_seconds\<rparr>)
       (scheduled_override_from_value j)"

definition cpu_override_from_value :: "json \<Rightarrow> cpu_override option" where
  "cpu_override_from_value j =
     map_option (\<lambda>(enabled, interval_seconds).
         \<lparr>ov_cpu_enabled = enabled, ov_cpu_interval_seconds = interval_seconds\<rparr>)
       (scheduled_override_from_value j)"

definition network_override_from_value :: "json \<Rightarrow> network_override option" where
  "network_override_from_value j =
     map_option (\<lambda>(enabled, interval_seconds).
         \<lparr>ov_network_enabled = enabled, ov_network_interval_seconds = interval_seconds\<rparr>)
       (scheduled_override_from_value j)"

definition disk_io_override_from_value :: "json \<Rightarrow> disk_io_override option" where
  "disk_io_override_from_value j =
     map_option (\<lambda>(enabled, interval_seconds).
         \<lparr>ov_disk_io_enabled = enabled, ov_disk_io_interval_seconds = interval_seconds\<rparr>)
       (scheduled_override_from_value j)"

definition tcp_override_from_value :: "json \<Rightarrow> tcp_override option" where
  "tcp_override_from_value j =
     map_option (\<lambda>(enabled, interval_seconds).
         \<lparr>ov_tcp_enabled = enabled, ov_tcp_interval_seconds = interval_seconds\<rparr>)
       (scheduled_override_from_value j)"

definition pod_discovery_override_from_value :: "json \<Rightarrow> pod_discovery_override option" where
  "pod_discovery_override_from_value j =
     (if \<not> variant_shape 1 j then None
      else Option.bind (optional json_as_str (struct_field j 0 ''cri_socket'')) (\<lambda>socket. Some \<lparr>ov_cri_socket = socket\<rparr>))"

text \<open>The TCP section under its name or its old name, at position \<open>i\<close> of an array, but not under both.\<close>

definition tcp_section :: "nat \<Rightarrow> json \<Rightarrow> json option option" where
  "tcp_section i j =
     (case (struct_field j i ''tcp'', json_get j ''tcp_pod_retrans'') of
        (Some _, Some _) \<Rightarrow> None
      | (Some v, None) \<Rightarrow> Some (Some v)
      | (None, alias) \<Rightarrow> Some alias)"

definition host_override_from_value :: "json \<Rightarrow> host_config_override option" where
  "host_override_from_value j =
     (if \<not> struct_shape 8 j then None
      else
        Option.bind (defaulted agent_settings_override_from_value agent_settings_override_default
            (struct_field j 0 ''agent'')) (\<lambda>agent.
        Option.bind (defaulted storage_override_from_value storage_override_default
            (struct_field j 1 ''storage'')) (\<lambda>storage.
        Option.bind (defaulted memory_override_from_value memory_override_default
            (struct_field j 2 ''memory'')) (\<lambda>memory.
        Option.bind (defaulted cpu_override_from_value cpu_override_default (struct_field j 3 ''cpu'')) (\<lambda>cpu.
        Option.bind (defaulted network_override_from_value network_override_default
            (struct_field j 4 ''network'')) (\<lambda>network.
        Option.bind (defaulted disk_io_override_from_value disk_io_override_default
            (struct_field j 5 ''disk_io'')) (\<lambda>disk_io.
        Option.bind (defaulted pod_discovery_override_from_value pod_discovery_override_default
            (struct_field j 6 ''pod_discovery'')) (\<lambda>pods.
        Option.bind (tcp_section 7 j) (\<lambda>tcp_value.
        Option.bind (defaulted tcp_override_from_value tcp_override_default tcp_value) (\<lambda>tcp.
          Some \<lparr>ov_agent = agent, ov_storage = storage, ov_memory = memory, ov_cpu = cpu, ov_network = network,
                ov_disk_io = disk_io, ov_pod_discovery = pods, ov_tcp = tcp\<rparr>))))))))))"

section \<open>The control file\<close>

definition enrollment_from_value :: "json \<Rightarrow> agent_enrollment option" where
  "enrollment_from_value j =
     (if \<not> variant_shape 2 j then None
      else
        Option.bind (required json_as_str (struct_field j 0 ''hostname'')) (\<lambda>hostname.
        Option.bind (optional json_as_str (struct_field j 1 ''config_token'')) (\<lambda>config_token.
          Some \<lparr>en_hostname = hostname, en_config_token = config_token\<rparr>)))"

definition control_file_from_value :: "json \<Rightarrow> control_config_file option" where
  "control_file_from_value j =
     (if \<not> struct_shape 3 j then None
      else
        Option.bind (defaulted host_override_from_value host_override_default (struct_field j 0 ''defaults'')) (\<lambda>defaults.
        Option.bind (defaulted (json_as_map host_override_from_value) [] (struct_field j 1 ''hosts'')) (\<lambda>hosts.
        Option.bind (defaulted (json_as_map enrollment_from_value) [] (struct_field j 2 ''agents'')) (\<lambda>agents.
          Some \<lparr>ccf_defaults = defaults, ccf_hosts = hosts, ccf_agents = agents\<rparr>))))"

section \<open>The bootstrap file\<close>

definition bootstrap_from_value :: "json \<Rightarrow> agent_bootstrap_config option" where
  "bootstrap_from_value j =
     (if \<not> struct_shape 15 j then None
      else
        Option.bind (defaulted json_as_str default_control_http_url (struct_field j 0 ''control_http_url'')) (\<lambda>http.
        Option.bind (defaulted json_as_str default_control_ws_url (struct_field j 1 ''control_ws_url'')) (\<lambda>ws.
        Option.bind (defaulted json_as_bool False (struct_field j 2 ''allow_insecure_control_url'')) (\<lambda>insecure.
        Option.bind (optional json_as_str (struct_field j 3 ''control_token'')) (\<lambda>token.
        Option.bind (optional json_as_str (struct_field j 4 ''agent_config_token'')) (\<lambda>config_token.
        Option.bind (defaulted json_as_str default_otlp_endpoint (struct_field j 5 ''otlp_endpoint'')) (\<lambda>otlp.
        Option.bind (defaulted json_as_str default_state_dir (struct_field j 6 ''state_dir'')) (\<lambda>state_dir.
        Option.bind (defaulted agent_settings_from_value agent_settings_default (struct_field j 7 ''agent'')) (\<lambda>agent.
        Option.bind (defaulted storage_from_value storage_default (struct_field j 8 ''storage'')) (\<lambda>storage.
        Option.bind (defaulted memory_from_value memory_default (struct_field j 9 ''memory'')) (\<lambda>memory.
        Option.bind (defaulted cpu_from_value cpu_default (struct_field j 10 ''cpu'')) (\<lambda>cpu.
        Option.bind (defaulted network_from_value network_default (struct_field j 11 ''network'')) (\<lambda>network.
        Option.bind (defaulted disk_io_from_value disk_io_default (struct_field j 12 ''disk_io'')) (\<lambda>disk_io.
        Option.bind (defaulted pod_discovery_from_value pod_discovery_default (struct_field j 13 ''pod_discovery'')) (\<lambda>pods.
        Option.bind (tcp_section 14 j) (\<lambda>tcp_value.
        Option.bind (defaulted tcp_from_value tcp_default tcp_value) (\<lambda>tcp.
          Some \<lparr>bs_control_http_url = http, bs_control_ws_url = ws, bs_allow_insecure_control_url = insecure,
                bs_control_token = token, bs_agent_config_token = config_token, bs_otlp_endpoint = otlp,
                bs_state_dir = state_dir, bs_agent = agent, bs_storage = storage, bs_memory = memory,
                bs_cpu = cpu, bs_network = network, bs_disk_io = disk_io, bs_pod_discovery = pods,
                bs_tcp = tcp\<rparr>)))))))))))))))))"

text \<open>\<open>toml::from_str\<close>: parse, then decode.\<close>

definition from_toml ::
    "(string \<Rightarrow> (toml_error, json) result) \<Rightarrow> toml_error \<Rightarrow> (json \<Rightarrow> 'a option) \<Rightarrow> string \<Rightarrow> (toml_error, 'a) result" where
  "from_toml parse mismatch decode contents =
     and_then (parse contents) (\<lambda>v. ok_or mismatch (decode v))"

section \<open>A section and its override\<close>

text \<open>What the decoder of a section reads from a table is what the decoder of its override reads, applied
  to the defaults.\<close>

definition reads_alike :: "(json \<Rightarrow> 'c option) \<Rightarrow> (json \<Rightarrow> 'o option) \<Rightarrow> ('o \<Rightarrow> 'c \<Rightarrow> 'c) \<Rightarrow> 'c \<Rightarrow> bool" where
  "reads_alike section_from override_from apply_to base \<longleftrightarrow>
     (\<forall>table c. section_from (JsonObject table) = Some c \<longrightarrow>
        (\<exists>ov. override_from (JsonObject table) = Some ov \<and> c = apply_to ov base))"

lemma variant_shape_object [simp]: "variant_shape n (JsonObject table)"
  by (simp add: variant_shape_def)

lemma defaulted_or_else:
  assumes "defaulted d v f = Some x" "d JsonNull = None"
  obtains y where "optional d f = Some y" "x = or_else y v"
  using defaulted_optional [OF assms] by (auto simp: or_else_def)

text \<open>Applying an override to the defaults, field by field.\<close>

lemma apply_to_defaults:
  "agent_settings_apply_to \<lparr>ov_config_poll_interval_seconds = a, ov_heartbeat_interval_seconds = b\<rparr> agent_settings_default =
     \<lparr>config_poll_interval_seconds = or_else a default_config_poll_interval_seconds,
      heartbeat_interval_seconds = or_else b default_heartbeat_interval_seconds\<rparr>"
  "storage_apply_to \<lparr>ov_storage_enabled = e, ov_storage_interval_seconds = i, ov_storage_mounts = m\<rparr> storage_default =
     \<lparr>storage_enabled = or_else e True, storage_interval_seconds = or_else i default_storage_interval_seconds,
      storage_mounts = or_else m default_storage_mounts\<rparr>"
  "pod_discovery_apply_to \<lparr>ov_cri_socket = s\<rparr> pod_discovery_default =
     \<lparr>cri_socket = or_else s default_pod_discovery_cri_socket\<rparr>"
    apply (cases a; cases b; simp add: agent_settings_apply_to_def agent_settings_default_def)
   apply (cases e; cases i; cases m; simp add: storage_apply_to_def storage_default_def)
  apply (cases s; simp add: pod_discovery_apply_to_def pod_discovery_default_def)
  done

lemma agent_settings_alike:
  "reads_alike agent_settings_from_value agent_settings_override_from_value agent_settings_apply_to agent_settings_default"
  unfolding reads_alike_def
proof (intro allI impI)
  fix table c assume "agent_settings_from_value (JsonObject table) = Some c"
  then obtain poll beat where d:
    "defaulted json_as_u64 default_config_poll_interval_seconds (bt_get table ''config_poll_interval_seconds'') = Some poll"
    "defaulted json_as_u64 default_heartbeat_interval_seconds (bt_get table ''heartbeat_interval_seconds'') = Some beat"
    "c = \<lparr>config_poll_interval_seconds = poll, heartbeat_interval_seconds = beat\<rparr>"
    by (auto simp: agent_settings_from_value_def bind_eq_Some_conv)
  obtain a where "optional json_as_u64 (bt_get table ''config_poll_interval_seconds'') = Some a"
    "poll = or_else a default_config_poll_interval_seconds" using d(1) by (rule defaulted_or_else) simp
  moreover obtain b where "optional json_as_u64 (bt_get table ''heartbeat_interval_seconds'') = Some b"
    "beat = or_else b default_heartbeat_interval_seconds" using d(2) by (rule defaulted_or_else) simp
  ultimately show "\<exists>ov. agent_settings_override_from_value (JsonObject table) = Some ov \<and>
      c = agent_settings_apply_to ov agent_settings_default"
    using d(3) by (simp add: agent_settings_override_from_value_def apply_to_defaults)
qed

lemma storage_alike: "reads_alike storage_from_value storage_override_from_value storage_apply_to storage_default"
  unfolding reads_alike_def
proof (intro allI impI)
  fix table c assume "storage_from_value (JsonObject table) = Some c"
  then obtain enabled interval mounts where d:
    "defaulted json_as_bool True (bt_get table ''enabled'') = Some enabled"
    "defaulted json_as_u64 default_storage_interval_seconds (bt_get table ''interval_seconds'') = Some interval"
    "defaulted json_as_strings default_storage_mounts (bt_get table ''mounts'') = Some mounts"
    "c = \<lparr>storage_enabled = enabled, storage_interval_seconds = interval, storage_mounts = mounts\<rparr>"
    by (auto simp: storage_from_value_def bind_eq_Some_conv)
  obtain e where "optional json_as_bool (bt_get table ''enabled'') = Some e" "enabled = or_else e True"
    using d(1) by (rule defaulted_or_else) simp
  moreover obtain i where "optional json_as_u64 (bt_get table ''interval_seconds'') = Some i"
    "interval = or_else i default_storage_interval_seconds" using d(2) by (rule defaulted_or_else) simp
  moreover obtain m where "optional json_as_strings (bt_get table ''mounts'') = Some m"
    "mounts = or_else m default_storage_mounts" using d(3) by (rule defaulted_or_else) simp
  ultimately show "\<exists>ov. storage_override_from_value (JsonObject table) = Some ov \<and> c = storage_apply_to ov storage_default"
    using d(4) by (simp add: storage_override_from_value_def apply_to_defaults)
qed

lemma pod_discovery_alike:
  "reads_alike pod_discovery_from_value pod_discovery_override_from_value pod_discovery_apply_to pod_discovery_default"
  unfolding reads_alike_def
proof (intro allI impI)
  fix table c assume "pod_discovery_from_value (JsonObject table) = Some c"
  then obtain socket where d:
    "defaulted json_as_str default_pod_discovery_cri_socket (bt_get table ''cri_socket'') = Some socket"
    "c = \<lparr>cri_socket = socket\<rparr>"
    by (auto simp: pod_discovery_from_value_def bind_eq_Some_conv)
  obtain s where "optional json_as_str (bt_get table ''cri_socket'') = Some s"
    "socket = or_else s default_pod_discovery_cri_socket" using d(1) by (rule defaulted_or_else) simp
  then show "\<exists>ov. pod_discovery_override_from_value (JsonObject table) = Some ov \<and>
      c = pod_discovery_apply_to ov pod_discovery_default"
    using d(2) by (simp add: pod_discovery_override_from_value_def apply_to_defaults)
qed

text \<open>The five sections with a switch and an interval.\<close>

lemma scheduled_alike:
  assumes "scheduled_from_value e i (JsonObject table) = Some (enabled, interval)"
  shows "\<exists>oe oi. scheduled_override_from_value (JsonObject table) = Some (oe, oi) \<and>
    enabled = or_else oe e \<and> interval = or_else oi i"
proof -
  have d: "defaulted json_as_bool e (bt_get table ''enabled'') = Some enabled"
    "defaulted json_as_u64 i (bt_get table ''interval_seconds'') = Some interval"
    using assms by (auto simp: scheduled_from_value_def bind_eq_Some_conv)
  obtain oe where "optional json_as_bool (bt_get table ''enabled'') = Some oe" "enabled = or_else oe e"
    using d(1) by (rule defaulted_or_else) simp
  moreover obtain oi where "optional json_as_u64 (bt_get table ''interval_seconds'') = Some oi" "interval = or_else oi i"
    using d(2) by (rule defaulted_or_else) simp
  ultimately show ?thesis by (simp add: scheduled_override_from_value_def)
qed

lemma memory_alike: "reads_alike memory_from_value memory_override_from_value memory_apply_to memory_default"
  by (auto simp: reads_alike_def memory_from_value_def memory_override_from_value_def memory_apply_to_def
      memory_default_def set_opt_def or_else_def dest!: scheduled_alike split: option.splits)

lemma cpu_alike: "reads_alike cpu_from_value cpu_override_from_value cpu_apply_to cpu_default"
  by (auto simp: reads_alike_def cpu_from_value_def cpu_override_from_value_def cpu_apply_to_def
      cpu_default_def set_opt_def or_else_def dest!: scheduled_alike split: option.splits)

lemma network_alike: "reads_alike network_from_value network_override_from_value network_apply_to network_default"
  by (auto simp: reads_alike_def network_from_value_def network_override_from_value_def network_apply_to_def
      network_default_def set_opt_def or_else_def dest!: scheduled_alike split: option.splits)

lemma disk_io_alike: "reads_alike disk_io_from_value disk_io_override_from_value disk_io_apply_to disk_io_default"
  by (auto simp: reads_alike_def disk_io_from_value_def disk_io_override_from_value_def disk_io_apply_to_def
      disk_io_default_def set_opt_def or_else_def dest!: scheduled_alike split: option.splits)

lemma tcp_alike: "reads_alike tcp_from_value tcp_override_from_value tcp_apply_to tcp_default"
  by (auto simp: reads_alike_def tcp_from_value_def tcp_override_from_value_def tcp_apply_to_def
      tcp_default_def set_opt_def or_else_def dest!: scheduled_alike split: option.splits)

text \<open>A section that may be missing from a file of tables.\<close>

definition tables_at :: "(string, json) btree \<Rightarrow> string set \<Rightarrow> bool" where
  "tables_at kvs names \<longleftrightarrow>
     list_all (\<lambda>(k, v). k \<in> names \<longrightarrow> (case v of JsonObject _ \<Rightarrow> True | _ \<Rightarrow> False)) kvs"

lemma tables_at_get: "tables_at kvs names \<Longrightarrow> k \<in> names \<Longrightarrow> bt_get kvs k = Some v \<Longrightarrow> \<exists>t. v = JsonObject t"
  by (cases v) (auto simp: tables_at_def list_all_iff dest!: map_of_SomeD)

lemma reads_alike_section:
  assumes "reads_alike section_from override_from apply_to base" "apply_to unset base = base"
    and "defaulted section_from base f = Some c" "\<And>v. f = Some v \<Longrightarrow> \<exists>t. v = JsonObject t"
  obtains ov where "defaulted override_from unset f = Some ov" "c = apply_to ov base"
proof (cases f)
  case None
  then show ?thesis using assms(2,3) that [of unset] by simp
next
  case (Some v)
  then obtain t where "v = JsonObject t" using assms(4) by blast
  with Some assms(1,3) obtain ov where "override_from v = Some ov" "c = apply_to ov base"
    by (auto simp: reads_alike_def)
  then show ?thesis using Some that by simp
qed

lemma unset_keeps:
  "agent_settings_apply_to agent_settings_override_default a = a" "storage_apply_to storage_override_default s = s"
  "memory_apply_to memory_override_default m = m" "cpu_apply_to cpu_override_default c = c"
  "network_apply_to network_override_default n = n" "disk_io_apply_to disk_io_override_default d = d"
  "pod_discovery_apply_to pod_discovery_override_default p = p" "tcp_apply_to tcp_override_default t = t"
  by (simp_all add: agent_settings_apply_to_def agent_settings_override_default_def storage_apply_to_def
      storage_override_default_def memory_apply_to_def memory_override_default_def cpu_apply_to_def
      cpu_override_default_def network_apply_to_def network_override_default_def disk_io_apply_to_def
      disk_io_override_default_def pod_discovery_apply_to_def pod_discovery_override_default_def tcp_apply_to_def
      tcp_override_default_def)

definition section_names :: "string set" where
  "section_names = {''agent'', ''storage'', ''memory'', ''cpu'', ''network'', ''disk_io'', ''pod_discovery'',
     ''tcp'', ''tcp_pod_retrans''}"

lemma bootstrap_sections:
  assumes "bootstrap_from_value (JsonObject kvs) = Some b"
  obtains tcp_value where "tcp_section 14 (JsonObject kvs) = Some tcp_value"
    "defaulted agent_settings_from_value agent_settings_default (bt_get kvs ''agent'') = Some (bs_agent b)"
    "defaulted storage_from_value storage_default (bt_get kvs ''storage'') = Some (bs_storage b)"
    "defaulted memory_from_value memory_default (bt_get kvs ''memory'') = Some (bs_memory b)"
    "defaulted cpu_from_value cpu_default (bt_get kvs ''cpu'') = Some (bs_cpu b)"
    "defaulted network_from_value network_default (bt_get kvs ''network'') = Some (bs_network b)"
    "defaulted disk_io_from_value disk_io_default (bt_get kvs ''disk_io'') = Some (bs_disk_io b)"
    "defaulted pod_discovery_from_value pod_discovery_default (bt_get kvs ''pod_discovery'') = Some (bs_pod_discovery b)"
    "defaulted tcp_from_value tcp_default tcp_value = Some (bs_tcp b)"
  using assms by (auto simp: bootstrap_from_value_def bind_eq_Some_conv)

lemma tcp_section_object:
  assumes "tcp_section i (JsonObject kvs) = Some f" "f = Some v"
  shows "bt_get kvs ''tcp'' = Some v \<or> bt_get kvs ''tcp_pod_retrans'' = Some v"
  using assms by (auto simp: tcp_section_def split: option.splits)

lemma tcp_section_position: "tcp_section i (JsonObject kvs) = tcp_section j (JsonObject kvs)"
  by (simp add: tcp_section_def)

lemma override_of_bootstrap:
  assumes b: "bootstrap_from_value (JsonObject kvs) = Some b" and t: "tables_at kvs section_names"
  shows "\<exists>ov. host_override_from_value (JsonObject kvs) = Some ov \<and>
    fallback_runtime_config b = (host_apply_to ov runtime_default)\<lparr>cfg_version := LOCAL_CONFIG_VERSION\<rparr>"
proof (rule bootstrap_sections [OF b])
  fix tcp_value
  assume tcp: "tcp_section 14 (JsonObject kvs) = Some tcp_value"
    and s: "defaulted agent_settings_from_value agent_settings_default (bt_get kvs ''agent'') = Some (bs_agent b)"
    "defaulted storage_from_value storage_default (bt_get kvs ''storage'') = Some (bs_storage b)"
    "defaulted memory_from_value memory_default (bt_get kvs ''memory'') = Some (bs_memory b)"
    "defaulted cpu_from_value cpu_default (bt_get kvs ''cpu'') = Some (bs_cpu b)"
    "defaulted network_from_value network_default (bt_get kvs ''network'') = Some (bs_network b)"
    "defaulted disk_io_from_value disk_io_default (bt_get kvs ''disk_io'') = Some (bs_disk_io b)"
    "defaulted pod_discovery_from_value pod_discovery_default (bt_get kvs ''pod_discovery'') = Some (bs_pod_discovery b)"
    "defaulted tcp_from_value tcp_default tcp_value = Some (bs_tcp b)"
  have obj: "\<exists>u. v = JsonObject u" if "k \<in> section_names" "bt_get kvs k = Some v" for k v
    using tables_at_get [OF t that] .
  have tcp_obj: "\<exists>u. v = JsonObject u" if "tcp_value = Some v" for v
    using tcp_section_object [OF tcp that] obj by (auto simp: section_names_def)
  obtain agent where 1: "defaulted agent_settings_override_from_value agent_settings_override_default (bt_get kvs ''agent'') = Some agent"
    "bs_agent b = agent_settings_apply_to agent agent_settings_default"
    by (rule reads_alike_section [OF agent_settings_alike unset_keeps(1) s(1)])
      (use obj [of "''agent''"] in \<open>auto simp: section_names_def\<close>)
  obtain storage where 2: "defaulted storage_override_from_value storage_override_default (bt_get kvs ''storage'') = Some storage"
    "bs_storage b = storage_apply_to storage storage_default"
    by (rule reads_alike_section [OF storage_alike unset_keeps(2) s(2)])
      (use obj [of "''storage''"] in \<open>auto simp: section_names_def\<close>)
  obtain memory where 3: "defaulted memory_override_from_value memory_override_default (bt_get kvs ''memory'') = Some memory"
    "bs_memory b = memory_apply_to memory memory_default"
    by (rule reads_alike_section [OF memory_alike unset_keeps(3) s(3)])
      (use obj [of "''memory''"] in \<open>auto simp: section_names_def\<close>)
  obtain cpu where 4: "defaulted cpu_override_from_value cpu_override_default (bt_get kvs ''cpu'') = Some cpu"
    "bs_cpu b = cpu_apply_to cpu cpu_default"
    by (rule reads_alike_section [OF cpu_alike unset_keeps(4) s(4)])
      (use obj [of "''cpu''"] in \<open>auto simp: section_names_def\<close>)
  obtain network where 5: "defaulted network_override_from_value network_override_default (bt_get kvs ''network'') = Some network"
    "bs_network b = network_apply_to network network_default"
    by (rule reads_alike_section [OF network_alike unset_keeps(5) s(5)])
      (use obj [of "''network''"] in \<open>auto simp: section_names_def\<close>)
  obtain disk_io where 6: "defaulted disk_io_override_from_value disk_io_override_default (bt_get kvs ''disk_io'') = Some disk_io"
    "bs_disk_io b = disk_io_apply_to disk_io disk_io_default"
    by (rule reads_alike_section [OF disk_io_alike unset_keeps(6) s(6)])
      (use obj [of "''disk_io''"] in \<open>auto simp: section_names_def\<close>)
  obtain pods where 7: "defaulted pod_discovery_override_from_value pod_discovery_override_default (bt_get kvs ''pod_discovery'') = Some pods"
    "bs_pod_discovery b = pod_discovery_apply_to pods pod_discovery_default"
    by (rule reads_alike_section [OF pod_discovery_alike unset_keeps(7) s(7)])
      (use obj [of "''pod_discovery''"] in \<open>auto simp: section_names_def\<close>)
  obtain tcp' where 8: "defaulted tcp_override_from_value tcp_override_default tcp_value = Some tcp'"
    "bs_tcp b = tcp_apply_to tcp' tcp_default"
    by (rule reads_alike_section [OF tcp_alike unset_keeps(8) s(8)]) (use tcp_obj in simp_all)
  have tcp7: "tcp_section 7 (JsonObject kvs) = Some tcp_value" using tcp tcp_section_position by metis
  let ?ov = "\<lparr>ov_agent = agent, ov_storage = storage, ov_memory = memory, ov_cpu = cpu, ov_network = network,
      ov_disk_io = disk_io, ov_pod_discovery = pods, ov_tcp = tcp'\<rparr>"
  have "host_override_from_value (JsonObject kvs) = Some ?ov"
    by (simp add: host_override_from_value_def 1 2 3 4 5 6 7 8 tcp7)
  moreover have "fallback_runtime_config b = (host_apply_to ?ov runtime_default)\<lparr>cfg_version := LOCAL_CONFIG_VERSION\<rparr>"
    by (simp add: fallback_runtime_config_def host_apply_to_def runtime_default_def 1 2 3 4 5 6 7 8)
  ultimately show ?thesis by blast
qed

section \<open>Properties\<close>

text \<open>C19: The same sections mean the same to the agent and to the server: the tables of a bootstrap file
  that loads, put into the \<open>[defaults]\<close> of a control file, load there as well, and resolve for every
  host to the settings the agent runs on its bootstrap file alone.\<close>

theorem same_sections_same_settings:
  assumes "bootstrap_from_value (JsonObject kvs) = Some b" "tables_at kvs section_names"
  shows "\<exists>config. control_file_from_value (JsonObject [(''defaults'', JsonObject kvs)]) = Some config \<and>
    (\<forall>h. (resolved config h)\<lparr>cfg_version := LOCAL_CONFIG_VERSION\<rparr> = fallback_runtime_config b)"
proof -
  obtain ov where ov: "host_override_from_value (JsonObject kvs) = Some ov"
    "fallback_runtime_config b = (host_apply_to ov runtime_default)\<lparr>cfg_version := LOCAL_CONFIG_VERSION\<rparr>"
    using override_of_bootstrap [OF assms] by blast
  have "control_file_from_value (JsonObject [(''defaults'', JsonObject kvs)]) =
      Some \<lparr>ccf_defaults = ov, ccf_hosts = [], ccf_agents = []\<rparr>"
    by (simp add: control_file_from_value_def ov(1))
  with ov(2) show ?thesis by (simp add: resolved_def)
qed

definition demo_tables :: "(string, json) btree" where
  "demo_tables = [(''cpu'', JsonObject [(''enabled'', JsonBool True)]), (''state_dir'', JsonString ''/srv'')]"

lemma same_sections_same_settings_witness:
  "\<exists>config (b :: agent_bootstrap_config).
     control_file_from_value (JsonObject [(''defaults'', JsonObject demo_tables)]) = Some config \<and>
     cfg_cpu (resolved config ''web'') = bs_cpu b \<and> cpu_enabled (bs_cpu b)"
proof -
  have "\<exists>b. bootstrap_from_value (JsonObject demo_tables) = Some b \<and> cpu_enabled (bs_cpu b)"
    by (simp add: bootstrap_from_value_def demo_tables_def tcp_section_def cpu_from_value_def scheduled_from_value_def)
  then obtain b where b: "bootstrap_from_value (JsonObject demo_tables) = Some b" "cpu_enabled (bs_cpu b)" by blast
  have "tables_at demo_tables section_names" by (simp add: tables_at_def demo_tables_def section_names_def)
  from same_sections_same_settings [OF b(1) this] obtain config where
    "control_file_from_value (JsonObject [(''defaults'', JsonObject demo_tables)]) = Some config"
    "(resolved config ''web'')\<lparr>cfg_version := LOCAL_CONFIG_VERSION\<rparr> = fallback_runtime_config b" by blast
  moreover from this(2) have "cfg_cpu (resolved config ''web'') = bs_cpu b"
    by (metis fallback_runtime_config_def agent_runtime_config.select_convs(5) agent_runtime_config.surjective
        agent_runtime_config.update_convs(1))
  ultimately have "control_file_from_value (JsonObject [(''defaults'', JsonObject demo_tables)]) = Some config \<and>
      cfg_cpu (resolved config ''web'') = bs_cpu b \<and> cpu_enabled (bs_cpu b)" using b(2) by simp
  then show ?thesis by blast
qed

text \<open>The two ways the source states its defaults agree: an empty file, an empty section and a missing
  section all give the values of the \<open>Default\<close> implementations, for the bootstrap file, the control
  file, each runtime section and a runtime configuration with nothing but its version.\<close>

lemma empty_files_give_defaults:
  "bootstrap_from_value (JsonObject []) = Some bootstrap_default \<and>
   control_file_from_value (JsonObject []) = Some control_config_default \<and>
   host_override_from_value (JsonObject []) = Some host_override_default \<and>
   agent_settings_from_value (JsonObject []) = Some agent_settings_default \<and>
   storage_from_value (JsonObject []) = Some storage_default \<and>
   memory_from_value (JsonObject []) = Some memory_default \<and>
   cpu_from_value (JsonObject []) = Some cpu_default \<and>
   network_from_value (JsonObject []) = Some network_default \<and>
   disk_io_from_value (JsonObject []) = Some disk_io_default \<and>
   pod_discovery_from_value (JsonObject []) = Some pod_discovery_default \<and>
   tcp_from_value (JsonObject []) = Some tcp_default \<and>
   runtime_from_value (JsonObject [(''version'', JsonString v)]) = Some (runtime_default\<lparr>cfg_version := v\<rparr>)"
  by (simp add: bootstrap_from_value_def bootstrap_default_def tcp_section_def control_file_from_value_def
      control_config_default_def host_override_from_value_def host_override_default_def agent_settings_from_value_def
      agent_settings_default_def storage_from_value_def storage_default_def memory_from_value_def memory_default_def
      cpu_from_value_def cpu_default_def network_from_value_def network_default_def disk_io_from_value_def
      disk_io_default_def pod_discovery_from_value_def pod_discovery_default_def tcp_from_value_def tcp_default_def
      scheduled_from_value_def runtime_from_value_def runtime_default_def tcp_field_def)

end
