(* ===== verification/Wire.thy ===== *)
theory Wire
  imports Openapi Control_Json Config_Decode
begin

text \<open>
  Agent and control server over the wire: requests go through the route table of
  \<open>talia-control/src/main.rs\<close> at the path that \<open>talia-agent/src/control.rs\<close> appends to its URL, and
  configurations and messages travel as texts.  serde_json's printing and parsing of texts is third-party
  code and a parameter; between text and message stand the decoders of \<open>Config_Json\<close> and
  \<open>Control_Json\<close>.  A text that serde refuses for a repeated key is one that \<open>wt_parse\<close> does not read.
\<close>

text \<open>What serde_json does with texts: the value a text stands for, and the texts it prints for the types the
  program sends or saves.\<close>

record wire_text =
  wt_parse :: "string \<Rightarrow> json option"
  wt_config :: "agent_runtime_config \<Rightarrow> string option"
  wt_pretty :: "agent_runtime_config \<Rightarrow> string option"
  wt_agent_message :: "agent_control_message \<Rightarrow> string"
  wt_server_message :: "server_control_message \<Rightarrow> string"
  wt_agents :: "served_agent list \<Rightarrow> string option"
  wt_reload :: "reload_response \<Rightarrow> string option"
  wt_openapi :: "string option"

text \<open>\<open>serde_json::from_str\<close>: parse, then decode.\<close>

definition from_text :: "wire_text \<Rightarrow> (json \<Rightarrow> 'a option) \<Rightarrow> string \<Rightarrow> 'a option" where
  "from_text w decode contents = Option.bind (wt_parse w contents) decode"

text \<open>A handler's answer as status and body; \<open>Json\<close> answers 500 when its value cannot be printed.\<close>

definition json_answer :: "string option \<Rightarrow> nat \<times> string" where
  "json_answer printed = (case printed of Some body \<Rightarrow> (200, body) | None \<Rightarrow> (500, []))"

fun response_answer :: "('a \<Rightarrow> nat \<times> string) \<Rightarrow> 'a response \<Rightarrow> nat \<times> string" where
  "response_answer served (Body x) = served x"
| "response_answer served (Failure s) = (status_code s, [])"

definition http_answer :: "wire_text \<Rightarrow> nat \<Rightarrow> app_answer \<Rightarrow> nat \<times> string" where
  "http_answer w rejection answer =
     (case answer of
        OpenApiAnswer \<Rightarrow> json_answer (wt_openapi w)
      | HealthAnswer text \<Rightarrow> (200, text)
      | ConfigAnswer r \<Rightarrow> response_answer (\<lambda>c. json_answer (wt_config w c)) r
      | UpgradeAnswer r \<Rightarrow> response_answer (\<lambda>_. (101, [])) r
      | AgentsAnswer r \<Rightarrow> response_answer (\<lambda>agents. json_answer (wt_agents w agents)) r
      | ReloadAnswer r \<Rightarrow> response_answer (\<lambda>reload. json_answer (wt_reload w reload)) r
      | _ \<Rightarrow> (answer_status rejection answer, []))"

text \<open>A GET request to a server in state \<open>server\<close> that listens at \<open>base\<close>.\<close>

definition get_request :: "string \<Rightarrow> headers \<Rightarrow> bool \<Rightarrow> http_request" where
  "get_request path hs upgrade = \<lparr>rq_method = MethodGet, rq_path = path, rq_headers = hs, rq_upgrade = upgrade\<rparr>"

definition http_get ::
    "(u8 list \<Rightarrow> 'd) \<Rightarrow> (string \<Rightarrow> (io_error, string) result) \<Rightarrow> (string \<Rightarrow> (toml_error, control_config_file) result) \<Rightarrow>
     wire_text \<Rightarrow> nat \<Rightarrow> string \<Rightarrow> app_state \<Rightarrow> string \<Rightarrow> headers \<Rightarrow> (nat \<times> string) option" where
  "http_get digest rd toml w rejection base server url hs =
     (case strip_prefix base url of
        None \<Rightarrow> None
      | Some path \<Rightarrow>
          Some (http_answer w rejection (snd (app digest rd toml (wt_config w) server (get_request path hs False)))))"

text \<open>The opening of a session: the upgrade at \<open>/agent/control\<close>, and the agent's hello as the first frame of
  connection \<open>c\<close>; the server afterwards and what it wrote.\<close>

definition open_session ::
    "(u8 list \<Rightarrow> 'd) \<Rightarrow> (string \<Rightarrow> (io_error, string) result) \<Rightarrow> (string \<Rightarrow> (toml_error, control_config_file) result) \<Rightarrow>
     wire_text \<Rightarrow> (string \<Rightarrow> bool) \<Rightarrow> control_client_config \<Rightarrow> agent_identity \<Rightarrow> string \<Rightarrow> string \<Rightarrow> u64 \<Rightarrow> app_state \<Rightarrow>
     (app_state \<times> socket_write list) option" where
  "open_session digest rd toml w ok control identity version c now server =
     (case websocket_headers ok control of
        Inl _ \<Rightarrow> None
      | Inr hs \<Rightarrow>
          (case snd (app digest rd toml (wt_config w) server (get_request ''/agent/control'' hs True)) of
             UpgradeAnswer (Body cn) \<Rightarrow>
               (let frame = wt_agent_message w (hello_message version identity);
                    ((current, agents), writes, outcome) =
                      run_agent_socket_step digest (from_text w agent_message_from_value) (cn_config cn)
                        (st_agents server) c (cn_current cn) (cn_token cn) (Incoming (WsText frame)) now True
                in Some (server\<lparr>st_agents := agents\<rparr>, writes))
           | _ \<Rightarrow> None))"

text \<open>What the agent meets when it fetches from such a server and saves what it fetched.\<close>

definition wire_env ::
    "(u8 list \<Rightarrow> 'd) \<Rightarrow> (string \<Rightarrow> (io_error, string) result) \<Rightarrow> (string \<Rightarrow> (toml_error, control_config_file) result) \<Rightarrow>
     wire_text \<Rightarrow> nat \<Rightarrow> string \<Rightarrow> (string \<Rightarrow> bool) \<Rightarrow> 'io save_io \<Rightarrow> app_state \<Rightarrow> (string, 'io) fetch_env" where
  "wire_env digest rd toml w rejection base ok io server =
     \<lparr>fe_header_ok = ok, fe_send = http_get digest rd toml w rejection base server,
      fe_decode = from_text w runtime_from_value, fe_to_json = wt_pretty w, fe_save = io\<rparr>"

section \<open>Facts\<close>

lemma strip_prefix_append [simp]: "strip_prefix p (p @ s) = Some s"
  by (simp add: strip_prefix_eq_Some)

lemma from_text_eq_Some: "wt_parse w s = Some v \<Longrightarrow> from_text w decode s = decode v"
  by (simp add: from_text_def)

text \<open>The path the agent asks for is the route of the configuration.\<close>

lemma http_get_config:
  assumes "base @ ''/agent/config'' = url"
  shows "http_get digest rd toml w rejection base server url hs =
    Some (case agent_config digest (wt_config w) (st_agent_token server) (st_agents server)
            (lc_config (st_config server)) hs of
        Body c \<Rightarrow> json_answer (wt_config w c)
      | Failure s \<Rightarrow> (status_code s, []))"
  using app_on_contracts(2) [of "get_request ''/agent/config'' hs False" digest rd toml "wt_config w" server]
  by (auto simp: http_get_def get_request_def http_answer_def assms [symmetric] split: response.splits)

text \<open>A fetch over the wire gets what a fetch of the configuration itself gets, as long as the text of that
  configuration is read back.\<close>

lemma fetch_over_wire:
  assumes "trim_end_char (CHR ''/'') (cc_http_url control) = base"
    and "fetch_remote_config ok (serve_config digest (wt_config w) server) id control identity sid = Inr c"
    and "wt_config w c = Some body" "wt_parse w body = Some (runtime_to_value c)"
  shows "fetch_remote_config ok (http_get digest rd toml w rejection base server) (from_text w runtime_from_value)
    control identity sid = Inr c"
proof -
  obtain hs where "config_request_headers ok control identity sid = Inr hs"
    "agent_config digest (wt_config w) (st_agent_token server) (st_agents server) (lc_config (st_config server)) hs = Body c"
    using assms(2) by (auto simp: fetch_from_server)
  then show ?thesis
    using assms(3,4) by (simp add: fetch_remote_config_def assms(1) http_get_config json_answer_def from_text_eq_Some)
qed

text \<open>And nothing else, when every text the server prints is read back.\<close>

lemma fetched_over_wire:
  assumes "trim_end_char (CHR ''/'') (cc_http_url control) = base"
    and "\<And>c body. wt_config w c = Some body \<Longrightarrow> wt_parse w body = Some (runtime_to_value c)"
    and "fetch_remote_config ok (http_get digest rd toml w rejection base server) (from_text w runtime_from_value)
      control identity sid = Inr c"
  shows "fetch_remote_config ok (serve_config digest (wt_config w) server) id control identity sid = Inr c"
proof -
  obtain hs where hs: "config_request_headers ok control identity sid = Inr hs"
    using assms(3) by (auto simp: fetch_remote_config_def Let_def)
  let ?a = "agent_config digest (wt_config w) (st_agent_token server) (st_agents server) (lc_config (st_config server)) hs"
  have "?a = Body c"
  proof (cases ?a)
    case (Failure s)
    then show ?thesis
      using assms(3) hs by (cases s) (simp_all add: fetch_remote_config_def assms(1) http_get_config status_code_def)
  next
    case (Body x)
    with assms(3) hs obtain body where "wt_config w x = Some body" "from_text w runtime_from_value body = Some c"
      by (cases "wt_config w x")
        (auto simp: fetch_remote_config_def assms(1) http_get_config json_answer_def ok_or_eq_Inr)
    with assms(2) [of x body] show ?thesis using Body by (simp add: from_text_eq_Some)
  qed
  with hs show ?thesis by (auto simp: fetch_from_server)
qed

text \<open>The agent's credentials are those of its enrolment, and they and the session id can be sent.\<close>

definition enrolled :: "control_client_config \<Rightarrow> agent_identity \<Rightarrow> control_config_file \<Rightarrow> bool" where
  "enrolled control identity config \<longleftrightarrow>
     (\<exists>t e. cc_agent_config_token control = Some t \<and> trim t \<noteq> [] \<and>
        bt_get (ccf_agents config) (id_agent_id identity) = Some e \<and>
        en_hostname e = id_hostname identity \<and> en_config_token e = Some (trim t))"

definition sendable :: "(string \<Rightarrow> bool) \<Rightarrow> control_client_config \<Rightarrow> agent_identity \<Rightarrow> string \<Rightarrow> bool" where
  "sendable ok control identity sid \<longleftrightarrow>
     ok (''Bearer '' @ cc_token control) \<and> header_word ok (id_agent_id identity) \<and> header_word ok sid \<and>
     (\<forall>t. cc_agent_config_token control = Some t \<longrightarrow> ok (trim t))"

text \<open>Opening a session registers an enrolled agent whose id is free, under the id of the connection.\<close>

lemma open_session_registers:
  assumes "cc_token control = st_agent_token server" "trim (st_agent_token server) \<noteq> []"
    and "enrolled control identity (lc_config (st_config server))" "sendable ok control identity c"
    and "bt_get (st_agents server) (id_agent_id identity) = None"
    and "wt_parse w (wt_agent_message w (hello_message version identity)) =
      Some (agent_message_to_value (hello_message version identity))"
  shows "open_session digest rd toml w ok control identity version c now server =
    Some (server\<lparr>st_agents := bt_insert (id_agent_id identity)
        (new_connected_agent \<lparr>ah_agent_id = id_agent_id identity, ah_hostname = id_hostname identity,
           ah_agent_version = version, ah_boot_id = id_boot_id identity\<rparr> now c) (st_agents server)\<rparr>,
      [SendMsg (HelloAck now c)])"
proof -
  obtain t e where e: "cc_agent_config_token control = Some t" "trim t \<noteq> []"
    "bt_get (ccf_agents (lc_config (st_config server))) (id_agent_id identity) = Some e"
    "en_hostname e = id_hostname identity" "en_config_token e = Some (trim t)" "ok (trim t)"
    using assms(3,4) by (auto simp: enrolled_def sendable_def)
  have s: "ok (''Bearer '' @ cc_token control)" using assms(4) by (simp add: sendable_def)
  obtain hs where hs: "websocket_headers ok control = Inr hs"
    "agent_control digest server hs = Body \<lparr>cn_current = None, cn_token = Some (trim t),
       cn_config = lc_config (st_config server), cn_running = True\<rparr>"
    using upgrade_accepted [OF assms(1,2) s e(1,2,6)] by metis
  have frame: "from_text w agent_message_from_value (wt_agent_message w (hello_message version identity)) =
      Some (hello_message version identity)"
    unfolding from_text_eq_Some [OF assms(6)] by (rule agent_message_read_back)
  have "trim (trim t) \<noteq> []" using e(2) by simp
  note reg = hello_registers [where parse_msg = "from_text w agent_message_from_value" and ver = version and digest = digest
      and c = c and now = now, OF frame e(3-5) this assms(5)]
  show ?thesis
    using reg by (simp add: open_session_def hs app_on_contracts(3) get_request_def)
qed

lemma taken_id_refused:
  assumes "cc_token control = st_agent_token server" "trim (st_agent_token server) \<noteq> []"
    and "enrolled control identity (lc_config (st_config server))" "sendable ok control identity c"
    and "bt_get (st_agents server) (id_agent_id identity) = Some a" "ca_connection_id a \<noteq> c"
    and "wt_parse w (wt_agent_message w (hello_message version identity)) =
      Some (agent_message_to_value (hello_message version identity))"
  shows "open_session digest rd toml w ok control identity version c now server = Some (server, [CloseSocket])"
proof -
  obtain t e where e: "cc_agent_config_token control = Some t" "trim t \<noteq> []" "ok (trim t)"
    using assms(3,4) by (auto simp: enrolled_def sendable_def)
  have s: "ok (''Bearer '' @ cc_token control)" using assms(4) by (simp add: sendable_def)
  obtain hs where hs: "websocket_headers ok control = Inr hs"
    "agent_control digest server hs = Body \<lparr>cn_current = None, cn_token = Some (trim t),
       cn_config = lc_config (st_config server), cn_running = True\<rparr>"
    using upgrade_accepted [OF assms(1,2) s e] by metis
  have frame: "from_text w agent_message_from_value (wt_agent_message w (hello_message version identity)) =
      Some (hello_message version identity)"
    unfolding from_text_eq_Some [OF assms(7)] by (rule agent_message_read_back)
  show ?thesis
    using assms(5,6) frame
    by (simp add: open_session_def hs app_on_contracts(3) get_request_def run_agent_socket_step_def handle_agent_message_def
        hello_message_def register_agent_connection_def register_locked_def continue_if_ok_def Let_def)
qed

section \<open>Properties\<close>

text \<open>C3: Delivery of a configuration from end to end, over routes, headers and texts.  Take a reachable state of
  the server that resolves a configuration for the agent's host, an enrolled agent with the agents'
  token whose credentials can be sent as headers, and texts (the configuration, the hello, the
  acknowledgement) that are printed and read back.  If no connection holds the agent's id, the agent
  opens a session: its hello is understood, it is registered, and the one answer is the
  acknowledgement with the connection's id.  The text of that acknowledgement makes the agent keep the
  session and fetch and run exactly the configuration resolved for its host; and if it could be
  saved, the text on disk is read back as that configuration by the next start.  If another
  connection holds the id, the server closes the socket and its table stays as it is.\<close>

theorem delivery_over_the_wire:
  assumes "sys_reachable digest (from_text w agent_message_from_value) toml (wt_config w) sys" "server = sys_state sys"
    and "cc_token control = st_agent_token server" "trim_end_char (CHR ''/'') (cc_http_url control) = base"
    and "enrolled control identity (lc_config (st_config server))" "sendable ok control identity c"
    and "runtime_config_for (wt_config w) (lc_config (st_config server)) (id_hostname identity) = Inr config"
    and "wt_config w config = Some body" "wt_parse w body = Some (runtime_to_value config)"
    and "wt_pretty w config = Some file" "wt_parse w file = Some (runtime_to_value config)"
    and "wt_parse w (wt_agent_message w (hello_message version identity)) =
      Some (agent_message_to_value (hello_message version identity))"
    and "wt_parse w (wt_server_message w (HelloAck now c)) = Some (server_message_to_value (HelloAck now c))"
  shows "(bt_get (st_agents server) (id_agent_id identity) = None \<longrightarrow>
      (\<exists>server'. open_session digest rd toml w ok control identity version c now server =
        Some (server', [SendMsg (HelloAck now c)]) \<and>
      (let (st', r) = handle_server_message (from_text w server_message_from_value)
             (wire_env digest rd toml w rejection base ok io server') control identity dir
             (wt_server_message w (HelloAck now c)) st
       in r = Inr () \<and> as_config st' = config \<and> as_session st' = Some c \<and>
          (sio_create_dir_all io = Inr () \<and> sio_write io = None \<longrightarrow>
             load_last_known_config (from_text w runtime_from_value) (as_files st') dir = Some config)))) \<and>
    (\<forall>a. bt_get (st_agents server) (id_agent_id identity) = Some a \<and> ca_connection_id a \<noteq> c \<longrightarrow>
      open_session digest rd toml w ok control identity version c now server = Some (server, [CloseSocket]))"
proof (intro conjI impI allI; (elim conjE)?)
  have "tokens_ok server" using sys_reachable_tokens_ok [OF assms(1)] assms(2) by simp
  then have token: "trim (st_agent_token server) \<noteq> []" by (simp add: tokens_ok_def)
  show "open_session digest rd toml w ok control identity version c now server = Some (server, [CloseSocket])"
    if "bt_get (st_agents server) (id_agent_id identity) = Some a" "ca_connection_id a \<noteq> c" for a
    by (rule taken_id_refused [OF assms(3) token assms(5,6) that assms(12)])
  assume free: "bt_get (st_agents server) (id_agent_id identity) = None"
  let ?a = "new_connected_agent \<lparr>ah_agent_id = id_agent_id identity, ah_hostname = id_hostname identity,
      ah_agent_version = version, ah_boot_id = id_boot_id identity\<rparr> now c"
  define server' where "server' = server\<lparr>st_agents := bt_insert (id_agent_id identity) ?a (st_agents server)\<rparr>"
  let ?env = "wire_env digest rd toml w rejection base ok io server'"
  obtain t e where e: "cc_agent_config_token control = Some t" "trim t \<noteq> []" "ok (trim t)"
    "bt_get (ccf_agents (lc_config (st_config server))) (id_agent_id identity) = Some e"
    "en_hostname e = id_hostname identity" "en_config_token e = Some (trim t)"
    using assms(5,6) by (auto simp: enrolled_def sendable_def)
  have "fetch_remote_config ok (serve_config digest (wt_config w) server') id control identity c = Inr config"
    by (rule registered_agent_fetches [where t = t and a = ?a and e = e])
      (use assms(3,6,7) token e in \<open>simp_all add: server'_def sendable_def\<close>)
  from fetch_over_wire [OF assms(4) this assms(8,9)] have fetch:
    "fetch_remote_config (fe_header_ok ?env) (fe_send ?env) (fe_decode ?env) control identity c = Inr config"
    by (simp add: wire_env_def)
  have wf: "runtime_wf config"
    using assms(7) effective_version_not_blank by (auto simp: runtime_config_for_iff runtime_wf_version)
  have ack: "from_text w server_message_from_value (wt_server_message w (HelloAck now c)) = Some (HelloAck now c)"
    unfolding from_text_eq_Some [OF assms(13)] by (rule server_message_read_back)
  have saved: "fe_to_json ?env config = Some file" "from_text w runtime_from_value file = Some config"
    using assms(10,11) by (simp_all add: wire_env_def from_text_eq_Some)
  have opened: "open_session digest rd toml w ok control identity version c now server =
      Some (server', [SendMsg (HelloAck now c)])"
    unfolding server'_def by (rule open_session_registers [OF assms(3) token assms(5,6) free assms(12)])
  let ?st = "refresh_remote_config ?env control identity c dir (st\<lparr>as_session := Some c\<rparr>)"
  have running: "as_config ?st = config" using refresh_applies [OF fetch] wf by simp
  have kept: "load_last_known_config (from_text w runtime_from_value) (as_files ?st) dir = Some config"
    if "sio_create_dir_all io = Inr ()" "sio_write io = None"
    by (rule refresh_saves [where json = "file", OF fetch wf]) (simp_all add: saved, simp_all add: wire_env_def that)
  show "\<exists>server'. open_session digest rd toml w ok control identity version c now server =
        Some (server', [SendMsg (HelloAck now c)]) \<and>
      (let (st', r) = handle_server_message (from_text w server_message_from_value)
             (wire_env digest rd toml w rejection base ok io server') control identity dir
             (wt_server_message w (HelloAck now c)) st
       in r = Inr () \<and> as_config st' = config \<and> as_session st' = Some c \<and>
          (sio_create_dir_all io = Inr () \<and> sio_write io = None \<longrightarrow>
             load_last_known_config (from_text w runtime_from_value) (as_files st') dir = Some config))"
    by (intro exI [of _ server'] conjI) (simp_all add: opened handle_server_message_def ack running kept)
qed


definition demo_wire :: "agent_runtime_config \<Rightarrow> wire_text" where
  "demo_wire config =
     \<lparr>wt_parse = (\<lambda>s. if s = ''hello'' then Some (agent_message_to_value (hello_message ''0.1.0'' demo_identity))
        else if s = ''ack'' then Some (server_message_to_value (HelloAck 7 ''c1''))
        else Some (runtime_to_value config)),
      wt_config = demo_json, wt_pretty = demo_json, wt_agent_message = (\<lambda>_. ''hello''),
      wt_server_message = (\<lambda>_. ''ack''), wt_agents = (\<lambda>_. None), wt_reload = (\<lambda>_. None), wt_openapi = None\<rparr>"

lemma delivery_over_the_wire_witness:
  "\<exists>config server' (st' :: agent_state). runtime_config_for demo_json demo_config ''web'' = Inr config \<and>
     open_session demo_digest (\<lambda>_. Inr []) demo_toml (demo_wire config) demo_header_ok demo_control demo_identity
       ''0.1.0'' ''c1'' 7 demo_state = Some (server', [SendMsg (HelloAck 7 ''c1'')]) \<and> as_config st' = config \<and>
     load_last_known_config (from_text (demo_wire config) runtime_from_value) (as_files st') ''/var/lib/talia'' =
       Some config"
proof -
  obtain config where c: "runtime_config_for demo_json demo_config ''web'' = Inr config"
    using demo_resolved by (auto simp: runtime_config_for_iff)
  let ?w = "demo_wire config"
  have w: "wt_config ?w = demo_json" "wt_pretty ?w config = Some []" "wt_config ?w config = Some []"
    "wt_parse ?w [] = Some (runtime_to_value config)" by (simp_all add: demo_wire_def demo_json_def)
  have reach: "sys_reachable demo_digest (from_text ?w agent_message_from_value) demo_toml (wt_config ?w) (sys_start demo_state)"
    unfolding w(1) by (rule reach_start [OF demo_initial])
  have texts: "wt_parse ?w (wt_agent_message ?w (hello_message ''0.1.0'' demo_identity)) =
      Some (agent_message_to_value (hello_message ''0.1.0'' demo_identity))"
    "wt_parse ?w (wt_server_message ?w (HelloAck 7 ''c1'')) = Some (server_message_to_value (HelloAck 7 ''c1''))"
    by (simp_all add: demo_wire_def)
  have words: "header_word demo_header_ok ''a1'' \<and> header_word demo_header_ok ''c1'' \<and>
      demo_header_ok (''Bearer '' @ ''agents'') \<and> demo_header_ok ''t1'' \<and> trim ''t1'' = ''t1''"
    by code_simp
  have url: "trim_end_char (CHR ''/'') (cc_http_url demo_control) = ''http://127.0.0.1:8080''"
    by code_simp
  have agent: "enrolled demo_control demo_identity (lc_config (st_config demo_state))"
    "sendable demo_header_ok demo_control demo_identity ''c1''"
    using words by (simp_all add: enrolled_def sendable_def demo_control_def demo_identity_def demo_state_def demo_config_def)
  have server: "demo_state = sys_state (sys_start demo_state)" "cc_token demo_control = st_agent_token demo_state"
    "bt_get (st_agents demo_state) (id_agent_id demo_identity) = None"
    by (simp_all add: sys_start_def demo_control_def demo_state_def)
  have resolves: "runtime_config_for (wt_config ?w) (lc_config (st_config demo_state)) (id_hostname demo_identity) = Inr config"
    using c by (simp add: w(1) demo_state_def demo_identity_def)
  from delivery_over_the_wire [where rejection = 400 and rd = "\<lambda>_. Inr []" and dir = "''/var/lib/talia''"
      and io = "\<lparr>sio_create_dir_all = Inr (), sio_write = None\<rparr>"
      and st = "\<lparr>as_config = runtime_default, as_session = None, as_files = Map.empty\<rparr>",
      OF reach server(1,2) url agent resolves w(3,4,2,4) texts, THEN conjunct1, rule_format, OF server(3)]
  have "\<exists>server' (st' :: agent_state). open_session demo_digest (\<lambda>_. Inr []) demo_toml ?w demo_header_ok demo_control demo_identity
       ''0.1.0'' ''c1'' 7 demo_state = Some (server', [SendMsg (HelloAck 7 ''c1'')]) \<and> as_config st' = config \<and>
      load_last_known_config (from_text ?w runtime_from_value) (as_files st') ''/var/lib/talia'' = Some config"
    by (simp add: Let_def case_prod_unfold) blast
  with c show ?thesis by blast
qed

end
