(* ===== verification/Agent_System.thy ===== *)
theory Agent_System
  imports Agent_Control
begin

text \<open>
  The running agent: the poll task and the socket task of \<open>talia-agent/src/control.rs\<close> refresh the
  same shared configuration and the same last-known file.  A refresh gives up control twice, while it
  fetches and before it takes the write lock, so the tasks interleave there; one step is the code
  between two such points.
\<close>

datatype refresh_task = PollTask | SocketTask

datatype refresh_phase = Idle | Fetching string | Publishing agent_runtime_config

record agent_system =
  ag_state :: agent_state
  ag_phase :: "refresh_task \<Rightarrow> refresh_phase"

definition agent_sys_start :: "agent_state \<Rightarrow> agent_system" where
  "agent_sys_start st = \<lparr>ag_state = st, ag_phase = (\<lambda>_. Idle)\<rparr>"

text \<open>A refresh up to the write lock, and what follows it.\<close>

definition fetch_done ::
    "('b, 'io) fetch_env \<Rightarrow> control_client_config \<Rightarrow> agent_identity \<Rightarrow> string \<Rightarrow> string \<Rightarrow> agent_state \<Rightarrow>
     agent_state \<times> refresh_phase" where
  "fetch_done env control identity config_session_id state_dir st =
     (case fetch_remote_config (fe_header_ok env) (fe_send env) (fe_decode env) control identity config_session_id of
        Inl _ \<Rightarrow> (st, Idle)
      | Inr config \<Rightarrow>
          (case runtime_validate config of
             Inl _ \<Rightarrow> (st, Idle)
           | Inr _ \<Rightarrow>
               (let (files, _) = save_last_known_config (fe_to_json env) (fe_save env) state_dir config (as_files st)
                in (st\<lparr>as_files := files\<rparr>, Publishing config))))"

definition publish :: "agent_runtime_config \<Rightarrow> agent_state \<Rightarrow> agent_state" where
  "publish config st = st\<lparr>as_config := config\<rparr>"

definition begin_refresh :: "agent_state \<Rightarrow> refresh_phase" where
  "begin_refresh st = (case as_session st of None \<Rightarrow> Idle | Some session \<Rightarrow> Fetching session)"

inductive agent_sys_step ::
    "(string \<Rightarrow> server_control_message option) \<Rightarrow> control_client_config \<Rightarrow> agent_identity \<Rightarrow> string \<Rightarrow>
     ('b, 'io) fetch_env \<Rightarrow> agent_system \<Rightarrow> agent_system \<Rightarrow> bool"
  for parse_msg :: "string \<Rightarrow> server_control_message option"
    and control :: control_client_config
    and identity :: agent_identity
    and state_dir :: string where
  hello_ack:
    "parse_msg msg = Some (HelloAck now session) \<Longrightarrow> ag_phase s SocketTask = Idle \<Longrightarrow>
     agent_sys_step parse_msg control identity state_dir env s
       \<lparr>ag_state = (ag_state s)\<lparr>as_session := Some session\<rparr>, ag_phase = (ag_phase s)(SocketTask := Fetching session)\<rparr>"
| config_changed:
    "parse_msg msg = Some (ConfigChanged version) \<Longrightarrow> ag_phase s SocketTask = Idle \<Longrightarrow>
     agent_sys_step parse_msg control identity state_dir env s
       (s\<lparr>ag_phase := (ag_phase s)(SocketTask := begin_refresh (ag_state s))\<rparr>)"
| poll_due:
    "ag_phase s PollTask = Idle \<Longrightarrow>
     agent_sys_step parse_msg control identity state_dir env s
       (s\<lparr>ag_phase := (ag_phase s)(PollTask := begin_refresh (ag_state s))\<rparr>)"
| socket_lost:
    "ag_phase s SocketTask = Idle \<Longrightarrow>
     agent_sys_step parse_msg control identity state_dir env s (s\<lparr>ag_state := session_ended (ag_state s)\<rparr>)"
| fetched:
    "ag_phase s t = Fetching session \<Longrightarrow>
     fetch_done env control identity session state_dir (ag_state s) = (st', phase) \<Longrightarrow>
     agent_sys_step parse_msg control identity state_dir env s
       \<lparr>ag_state = st', ag_phase = (ag_phase s)(t := phase)\<rparr>"
| published:
    "ag_phase s t = Publishing config \<Longrightarrow>
     agent_sys_step parse_msg control identity state_dir env s
       \<lparr>ag_state = publish config (ag_state s), ag_phase = (ag_phase s)(t := Idle)\<rparr>"

text \<open>Every step may find other answers of the server and the file system, among those of \<open>envs\<close>.\<close>

inductive agent_sys_reachable ::
    "(string \<Rightarrow> server_control_message option) \<Rightarrow> control_client_config \<Rightarrow> agent_identity \<Rightarrow> string \<Rightarrow>
     ('b, 'io) fetch_env set \<Rightarrow> agent_system \<Rightarrow> agent_system \<Rightarrow> bool"
  for parse_msg :: "string \<Rightarrow> server_control_message option"
    and control :: control_client_config
    and identity :: agent_identity
    and state_dir :: string
    and envs :: "('b, 'io) fetch_env set"
    and s0 :: agent_system where
  agent_begin: "agent_sys_reachable parse_msg control identity state_dir envs s0 s0"
| agent_more: "agent_sys_reachable parse_msg control identity state_dir envs s0 s \<Longrightarrow> env \<in> envs \<Longrightarrow>
    agent_sys_step parse_msg control identity state_dir env s s' \<Longrightarrow>
    agent_sys_reachable parse_msg control identity state_dir envs s0 s'"

inductive_cases agent_sys_stepE [elim]: "agent_sys_step parse_msg control identity state_dir env s s'"

section \<open>One refresh alone\<close>

text \<open>Without interference the two steps are \<open>refresh_remote_config\<close>.\<close>

lemma refresh_in_steps:
  "refresh_remote_config env control identity sid dir st =
     (case fetch_done env control identity sid dir st of
        (st', Publishing config) \<Rightarrow> publish config st'
      | (st', _) \<Rightarrow> st')"
  by (auto simp: refresh_remote_config_def fetch_done_def publish_def Let_def split: sum.splits prod.splits)

lemma fetch_done_facts:
  assumes "fetch_done env control identity sid dir st = (st', phase)"
  shows "as_config st' = as_config st" "as_session st' = as_session st"
    "phase = Publishing config \<Longrightarrow> runtime_wf config"
    "p \<noteq> last_known_config_path dir \<Longrightarrow> as_files st' p = as_files st p"
    "phase \<noteq> Fetching sid'"
  using assms
  by (auto simp: fetch_done_def runtime_validate_iff [symmetric] split: sum.splits prod.splits
      dest: save_touches_one_file)

section \<open>What every reachable state keeps\<close>

definition agent_sys_ok :: "string \<Rightarrow> agent_system \<Rightarrow> agent_system \<Rightarrow> bool" where
  "agent_sys_ok dir s0 s \<longleftrightarrow>
     runtime_wf (as_config (ag_state s)) \<and>
     (\<forall>t config. ag_phase s t = Publishing config \<longrightarrow> runtime_wf config) \<and>
     (\<forall>p. p \<noteq> last_known_config_path dir \<longrightarrow> as_files (ag_state s) p = as_files (ag_state s0) p)"

lemma begin_refresh_not_publishing [simp]: "begin_refresh st \<noteq> Publishing config"
  by (simp add: begin_refresh_def split: option.splits)

lemma agent_sys_step_ok:
  "agent_sys_step parse_msg control identity dir env s s' \<Longrightarrow> agent_sys_ok dir s0 s \<Longrightarrow> agent_sys_ok dir s0 s'"
  by (erule agent_sys_stepE)
    (auto simp: agent_sys_ok_def session_ended_def publish_def fetch_done_facts split: if_splits)

lemma agent_sys_reachable_ok:
  "agent_sys_reachable parse_msg control identity dir envs s0 s \<Longrightarrow> agent_sys_ok dir s0 s0 \<Longrightarrow> agent_sys_ok dir s0 s"
  by (induction rule: agent_sys_reachable.induct) (auto intro: agent_sys_step_ok)

section \<open>Properties\<close>

text \<open>C14: Whatever the server sends and however the two refreshing tasks interleave, the collectors only
  ever see a configuration that passes validation, from the agent's start on, and the tasks touch no
  file but the last-known configuration.\<close>

theorem running_config_always_valid:
  assumes "agent_start sink read toml var from_json files id_fs id_file hostname boot path = Inr (client, identity, b, st)"
    and "agent_sys_reachable parse_msg control identity dir envs (agent_sys_start st) s"
  shows "runtime_wf (as_config (ag_state s)) \<and>
    (\<forall>p. p \<noteq> last_known_config_path dir \<longrightarrow> as_files (ag_state s) p = as_files st p)"
proof -
  have "agent_sys_ok dir (agent_sys_start st) (agent_sys_start st)"
    using agent_start_wf [OF assms(1)] by (simp add: agent_sys_ok_def agent_sys_start_def)
  from agent_sys_reachable_ok [OF assms(2) this] show ?thesis
    by (simp add: agent_sys_ok_def agent_sys_start_def)
qed

definition demo_fetch :: "string \<Rightarrow> (string, io_error) fetch_env" where
  "demo_fetch version =
     \<lparr>fe_header_ok = (\<lambda>_. True), fe_send = (\<lambda>_ _. Some (200, version)),
      fe_decode = (\<lambda>v. Some (runtime_default\<lparr>cfg_version := v\<rparr>)), fe_to_json = (\<lambda>c. Some (cfg_version c)),
      fe_save = \<lparr>sio_create_dir_all = Inr (), sio_write = None\<rparr>\<rparr>"

definition demo_client :: control_client_config where
  "demo_client = \<lparr>cc_http_url = ''http://127.0.0.1:8080'', cc_ws_url = ''ws://127.0.0.1:8080/agent/control'',
     cc_token = ''agents'', cc_agent_config_token = None\<rparr>"

definition demo_agent :: agent_identity where
  "demo_agent = \<lparr>id_agent_id = ''a1'', id_hostname = ''web'', id_boot_id = None\<rparr>"

definition demo_ack :: "string \<Rightarrow> server_control_message option" where
  "demo_ack _ = Some (HelloAck 7 ''c1'')"

definition demo_start :: agent_state where
  "demo_start = \<lparr>as_config = runtime_default, as_session = None, as_files = Map.empty\<rparr>"

definition demo_id_fs :: "io_error id_fs" where
  "demo_id_fs = \<lparr>ifs_create_dir_all = Inr (), ifs_read_error = None, ifs_write = Written, ifs_uuid = ''u''\<rparr>"

lemma demo_agent_start:
  "agent_start (\<lambda>_ _. True) (\<lambda>_. Inl e) (\<lambda>_. Inr bootstrap_default) (\<lambda>_. NotPresent) (\<lambda>_. None) Map.empty demo_id_fs (Some ''a1'')
     ''web'' None None =
   Inr (None, demo_agent, bootstrap_default,
     \<lparr>as_config = fallback_runtime_config bootstrap_default, as_session = None, as_files = Map.empty\<rparr>)"
proof -
  have "runtime_validate (fallback_runtime_config bootstrap_default) = Inr ()"
    using bootstrap_default_ok by (auto simp: bootstrap_validate_def)
  moreover have "load_or_create_agent_id demo_id_fs (Some ''a1'') = (Some ''a1'', Inr ''a1'')"
    by (simp add: load_or_create_agent_id_def demo_id_fs_def trim_def is_ws_def char_code_def)
  moreover have "bs_control_token bootstrap_default = None" by (simp add: bootstrap_default_def)
  ultimately show ?thesis
    by (simp add: agent_start_def load_bootstrap_no_path optional_env_secret_def load_last_known_config_def
        demo_agent_def)
qed

lemma running_config_always_valid_witness:
  "runtime_wf (as_config (ag_state (agent_sys_start
     \<lparr>as_config = fallback_runtime_config bootstrap_default, as_session = Some ''c1'', as_files = Map.empty\<rparr>)))"
proof -
  let ?st = "\<lparr>as_config = fallback_runtime_config bootstrap_default, as_session = None, as_files = Map.empty\<rparr>"
  let ?s = "\<lparr>ag_state = ?st\<lparr>as_session := Some ''c1''\<rparr>, ag_phase = (\<lambda>_. Idle)(SocketTask := Fetching ''c1'')\<rparr>"
  have "agent_sys_reachable demo_ack demo_client demo_agent ''/state'' (range demo_fetch) (agent_sys_start ?st) ?s"
    by (rule agent_more [OF agent_begin rangeI [of demo_fetch "''A''"]])
      (use hello_ack [of demo_ack "''hello''" 7 "''c1''" "agent_sys_start ?st"] in
        \<open>simp add: demo_ack_def agent_sys_start_def\<close>)
  from running_config_always_valid [OF demo_agent_start this] show ?thesis by (simp add: agent_sys_start_def)
qed

lemma demo_wf: "v \<in> {''A'', ''B''} \<Longrightarrow> runtime_validate (runtime_default\<lparr>cfg_version := v\<rparr>) = Inr ()"
  using runtime_default_wf
  by (auto simp: runtime_validate_iff runtime_wf_version is_ws_def char_code_def runtime_wf_def sections_wf_def)

lemma demo_fetch_done:
  assumes "v \<in> {''A'', ''B''}"
  shows "fetch_done (demo_fetch v) demo_client demo_agent sid dir st =
    (st\<lparr>as_files := (as_files st)(last_known_config_path dir \<mapsto> v)\<rparr>,
     Publishing (runtime_default\<lparr>cfg_version := v\<rparr>))"
proof -
  have "fetch_remote_config (fe_header_ok (demo_fetch v)) (fe_send (demo_fetch v)) (fe_decode (demo_fetch v))
      demo_client demo_agent sid = Inr (runtime_default\<lparr>cfg_version := v\<rparr>)"
    by (simp add: fetch_remote_config_def config_request_headers_def request_header_def demo_fetch_def
        demo_client_def config_token_header_def Let_def)
  moreover have "save_last_known_config (fe_to_json (demo_fetch v)) (fe_save (demo_fetch v)) dir
      (runtime_default\<lparr>cfg_version := v\<rparr>) (as_files st) =
      ((as_files st)(last_known_config_path dir \<mapsto> v), Inr ())"
    by (simp add: save_last_known_config_def demo_fetch_def)
  ultimately show ?thesis using demo_wf [OF assms] by (simp add: fetch_done_def)
qed

text \<open>The socket task fetches version A, the poll task fetches B, saves and applies it, and the socket
  task, which had saved A before, applies A last.\<close>

definition demo_shared :: "string option \<Rightarrow> string \<Rightarrow> string option \<Rightarrow> agent_state" where
  "demo_shared session running saved =
     \<lparr>as_config = runtime_default\<lparr>cfg_version := running\<rparr>, as_session = session,
      as_files = (case saved of None \<Rightarrow> Map.empty | Some v \<Rightarrow> [last_known_config_path ''/state'' \<mapsto> v])\<rparr>"

definition demo_phases :: "refresh_phase \<Rightarrow> refresh_phase \<Rightarrow> refresh_task \<Rightarrow> refresh_phase" where
  "demo_phases socket poll t = (case t of SocketTask \<Rightarrow> socket | PollTask \<Rightarrow> poll)"

lemma demo_phases_simps [simp]:
  "demo_phases socket poll SocketTask = socket" "demo_phases socket poll PollTask = poll"
  "(demo_phases socket poll)(SocketTask := p) = demo_phases p poll"
  "(demo_phases socket poll)(PollTask := p) = demo_phases socket p"
  by (auto simp: demo_phases_def fun_eq_iff split: refresh_task.splits)

definition demo_point :: "string option \<Rightarrow> string \<Rightarrow> string option \<Rightarrow> refresh_phase \<Rightarrow> refresh_phase \<Rightarrow> agent_system" where
  "demo_point session running saved socket poll =
     \<lparr>ag_state = demo_shared session running saved, ag_phase = demo_phases socket poll\<rparr>"

abbreviation demo_reach :: "agent_system \<Rightarrow> bool" where
  "demo_reach \<equiv> agent_sys_reachable demo_ack demo_client demo_agent ''/state'' (range demo_fetch)
     (demo_point None ''local'' None Idle Idle)"

lemma demo_reach_step:
  "demo_reach s \<Longrightarrow> agent_sys_step demo_ack demo_client demo_agent ''/state'' (demo_fetch v) s s' \<Longrightarrow> demo_reach s'"
  by (rule agent_more) simp_all

lemma demo_reach_ack: "demo_reach (demo_point (Some ''c1'') ''local'' None (Fetching ''c1'') Idle)"
proof -
  have "agent_sys_step demo_ack demo_client demo_agent ''/state'' (demo_fetch ''A'')
      (demo_point None ''local'' None Idle Idle) (demo_point (Some ''c1'') ''local'' None (Fetching ''c1'') Idle)"
    using hello_ack [of demo_ack "''hello''" 7 "''c1''" "demo_point None ''local'' None Idle Idle"]
    by (simp add: demo_ack_def demo_point_def demo_shared_def)
  then show ?thesis by (rule demo_reach_step [OF agent_begin])
qed

lemma demo_reach_fetched:
  assumes "demo_reach (demo_point session running saved socket poll)" "v \<in> {''A'', ''B''}"
  shows "socket = Fetching sid \<Longrightarrow>
      demo_reach (demo_point session running (Some v) (Publishing (runtime_default\<lparr>cfg_version := v\<rparr>)) poll)"
    and "poll = Fetching sid \<Longrightarrow>
      demo_reach (demo_point session running (Some v) socket (Publishing (runtime_default\<lparr>cfg_version := v\<rparr>)))"
proof -
  have f: "fetch_done (demo_fetch v) demo_client demo_agent sid ''/state'' (demo_shared session running saved) =
      (demo_shared session running (Some v), Publishing (runtime_default\<lparr>cfg_version := v\<rparr>))"
    unfolding demo_fetch_done [OF assms(2)] by (simp add: demo_shared_def split: option.splits)
  let ?s = "demo_point session running saved socket poll"
  show "demo_reach (demo_point session running (Some v) (Publishing (runtime_default\<lparr>cfg_version := v\<rparr>)) poll)"
    if "socket = Fetching sid"
    by (rule demo_reach_step [OF assms(1), of v], use fetched [of ?s SocketTask sid "demo_fetch v" demo_client demo_agent "''/state''"] f that in
        \<open>simp add: demo_point_def\<close>)
  show "demo_reach (demo_point session running (Some v) socket (Publishing (runtime_default\<lparr>cfg_version := v\<rparr>)))"
    if "poll = Fetching sid"
    by (rule demo_reach_step [OF assms(1), of v], use fetched [of ?s PollTask sid "demo_fetch v" demo_client demo_agent "''/state''"] f that in
        \<open>simp add: demo_point_def\<close>)
qed

lemma demo_reach_published:
  assumes "demo_reach (demo_point session running saved socket poll)"
  shows "socket = Publishing (runtime_default\<lparr>cfg_version := v\<rparr>) \<Longrightarrow> demo_reach (demo_point session v saved Idle poll)"
    and "poll = Publishing (runtime_default\<lparr>cfg_version := v\<rparr>) \<Longrightarrow> demo_reach (demo_point session v saved socket Idle)"
proof -
  let ?s = "demo_point session running saved socket poll"
  have p: "publish (runtime_default\<lparr>cfg_version := v\<rparr>) (demo_shared session running saved) = demo_shared session v saved"
    by (simp add: publish_def demo_shared_def)
  show "demo_reach (demo_point session v saved Idle poll)"
    if "socket = Publishing (runtime_default\<lparr>cfg_version := v\<rparr>)"
    by (rule demo_reach_step [OF assms, of v], use published [of ?s SocketTask _ demo_ack demo_client demo_agent "''/state''" "demo_fetch v"] p that in \<open>simp add: demo_point_def\<close>)
  show "demo_reach (demo_point session v saved socket Idle)"
    if "poll = Publishing (runtime_default\<lparr>cfg_version := v\<rparr>)"
    by (rule demo_reach_step [OF assms, of v], use published [of ?s PollTask _ demo_ack demo_client demo_agent "''/state''" "demo_fetch v"] p that in \<open>simp add: demo_point_def\<close>)
qed

lemma demo_reach_polling:
  "demo_reach (demo_point (Some sid) running saved socket Idle) \<Longrightarrow>
     demo_reach (demo_point (Some sid) running saved socket (Fetching sid))"
  by (erule demo_reach_step [where v = "[]"], use poll_due [of "demo_point (Some sid) running saved socket Idle"] in
      \<open>simp add: demo_point_def demo_shared_def begin_refresh_def\<close>)

text \<open>C40: Nothing orders the save and the publication of one task against those of the other: there is a run
  in which every request and every write succeeds and which leaves both tasks idle with one version
  running and another in the last-known file, so that a restart brings up the other one.\<close>

theorem interleaved_refreshes_diverge:
  "\<exists>s. agent_sys_reachable demo_ack demo_client demo_agent ''/state'' (range demo_fetch)
       (demo_point None ''local'' None Idle Idle) s \<and>
     (\<forall>t. ag_phase s t = Idle) \<and> cfg_version (as_config (ag_state s)) = ''A'' \<and>
     as_files (ag_state s) (last_known_config_path ''/state'') = Some ''B''"
proof -
  have "demo_reach (demo_point (Some ''c1'') ''local'' (Some ''A'')
      (Publishing (runtime_default\<lparr>cfg_version := ''A''\<rparr>)) Idle)"
    by (rule demo_reach_fetched(1) [OF demo_reach_ack _ refl]) simp
  from demo_reach_fetched(2) [OF demo_reach_polling [OF this], of "''B''", OF _ refl]
  have "demo_reach (demo_point (Some ''c1'') ''local'' (Some ''B'')
      (Publishing (runtime_default\<lparr>cfg_version := ''A''\<rparr>)) (Publishing (runtime_default\<lparr>cfg_version := ''B''\<rparr>)))"
    by simp
  from demo_reach_published(1) [OF demo_reach_published(2) [OF this refl] refl]
  have "demo_reach (demo_point (Some ''c1'') ''A'' (Some ''B'') Idle Idle)" .
  then show ?thesis
    by (rule_tac exI [of _ "demo_point (Some ''c1'') ''A'' (Some ''B'') Idle Idle"])
      (simp add: demo_point_def demo_shared_def demo_phases_def split: refresh_task.splits)
qed

end
