(* ===== verification/Agent_Runtime.thy ===== *)
theory Agent_Runtime
  imports Agent_System Collectors
begin

text \<open>
  The whole running agent (\<open>talia-agent/src/commands/run.rs\<close>): the two tasks that refresh the shared
  configuration and one task per collector of the registry, interleaved.  A collector task copies the
  shared configuration at the top of its loop and works on the copy for the rest of the round, while
  the refreshing tasks may publish others.
\<close>

text \<open>What \<open>execute\<close> hands to every collector: no processor and the OTLP sink alone.\<close>

definition run_processors :: "processor list" where "run_processors = []"

definition run_sinks :: nat where "run_sinks = 1"

text \<open>A collector waits for the read lock, or holds its copy of the configuration.\<close>

datatype collector_phase = AtRead | Holding agent_runtime_config

record runtime =
  rt_sys :: agent_system
  rt_phase :: "nat \<Rightarrow> collector_phase"
  rt_runner :: "nat \<Rightarrow> boxed_provider runner_state"
  rt_log :: "nat \<Rightarrow> action list"

definition runtime_start :: "agent_state \<Rightarrow> runtime" where
  "runtime_start st =
     \<lparr>rt_sys = agent_sys_start st, rt_phase = (\<lambda>_. AtRead), rt_runner = (\<lambda>_. runner_start), rt_log = (\<lambda>_. [])\<rparr>"

text \<open>One step of some task; \<open>env\<close> is what the control server answers, \<open>mn\<close> what the machine answers.\<close>

inductive runtime_step ::
    "(string \<Rightarrow> server_control_message option) \<Rightarrow> control_client_config \<Rightarrow> agent_identity \<Rightarrow> string \<Rightarrow>
     ('b, 'io) fetch_env \<Rightarrow> 'e machine \<Rightarrow> runtime \<Rightarrow> runtime \<Rightarrow> bool"
  for parse_msg :: "string \<Rightarrow> server_control_message option"
    and control :: control_client_config
    and identity :: agent_identity
    and state_dir :: string
    and env :: "('b, 'io) fetch_env"
    and mn :: "'e machine" where
  refreshing:
    "agent_sys_step parse_msg control identity state_dir env (rt_sys s) sys' \<Longrightarrow>
     runtime_step parse_msg control identity state_dir env mn s (s\<lparr>rt_sys := sys'\<rparr>)"
| config_read:
    "i < length collector_specs \<Longrightarrow> rt_phase s i = AtRead \<Longrightarrow>
     runtime_step parse_msg control identity state_dir env mn s
       (s\<lparr>rt_phase := (rt_phase s)(i := Holding (as_config (ag_state (rt_sys s))))\<rparr>)"
| round_done:
    "rt_phase s i = Holding config \<Longrightarrow>
     run_iteration (collector_specs ! i) (machine_ops (collector_specs ! i) mn) run_processors run_sinks config
       (rt_runner s i) = (st', actions) \<Longrightarrow>
     runtime_step parse_msg control identity state_dir env mn s
       (s\<lparr>rt_phase := (rt_phase s)(i := AtRead), rt_runner := (rt_runner s)(i := st'),
          rt_log := (rt_log s)(i := rt_log s i @ actions)\<rparr>)"

inductive runtime_reachable ::
    "(string \<Rightarrow> server_control_message option) \<Rightarrow> control_client_config \<Rightarrow> agent_identity \<Rightarrow> string \<Rightarrow>
     ('b, 'io) fetch_env set \<Rightarrow> 'e machine set \<Rightarrow> runtime \<Rightarrow> runtime \<Rightarrow> bool"
  for parse_msg :: "string \<Rightarrow> server_control_message option"
    and control :: control_client_config
    and identity :: agent_identity
    and state_dir :: string
    and envs :: "('b, 'io) fetch_env set"
    and machines :: "'e machine set"
    and s0 :: runtime where
  runtime_begin: "runtime_reachable parse_msg control identity state_dir envs machines s0 s0"
| runtime_more: "runtime_reachable parse_msg control identity state_dir envs machines s0 s \<Longrightarrow> env \<in> envs \<Longrightarrow>
    mn \<in> machines \<Longrightarrow> runtime_step parse_msg control identity state_dir env mn s s' \<Longrightarrow>
    runtime_reachable parse_msg control identity state_dir envs machines s0 s'"

section \<open>Where a running configuration comes from\<close>

text \<open>A configuration is legitimate when it validates and is the one of the start or was fetched.\<close>

definition legitimate ::
    "control_client_config \<Rightarrow> agent_identity \<Rightarrow> ('b, 'io) fetch_env set \<Rightarrow> agent_runtime_config \<Rightarrow>
     agent_runtime_config \<Rightarrow> bool" where
  "legitimate control identity envs initial config \<longleftrightarrow>
     runtime_wf config \<and>
     (config = initial \<or>
      (\<exists>env\<in>envs. \<exists>sid. fetch_remote_config (fe_header_ok env) (fe_send env) (fe_decode env) control identity sid =
        Inr config))"

lemma fetch_done_legitimate:
  assumes "fetch_done env control identity sid dir st = (st', Publishing config)" "env \<in> envs"
  shows "legitimate control identity envs initial config"
  using assms
  by (auto simp: fetch_done_def legitimate_def runtime_validate_iff [symmetric] split: sum.splits prod.splits)

text \<open>Every copy of a configuration in the system is legitimate.\<close>

definition configs_legitimate ::
    "control_client_config \<Rightarrow> agent_identity \<Rightarrow> ('b, 'io) fetch_env set \<Rightarrow> agent_runtime_config \<Rightarrow> agent_system \<Rightarrow>
     bool" where
  "configs_legitimate control identity envs initial s \<longleftrightarrow>
     legitimate control identity envs initial (as_config (ag_state s)) \<and>
     (\<forall>t config. ag_phase s t = Publishing config \<longrightarrow> legitimate control identity envs initial config)"

lemma agent_sys_step_legitimate:
  assumes "agent_sys_step parse_msg control identity dir env s s'" "env \<in> envs"
    and "configs_legitimate control identity envs initial s"
  shows "configs_legitimate control identity envs initial s'"
  using assms
proof (cases rule: agent_sys_step.cases)
  case (fetched t session st' phase)
  have "as_config st' = as_config (ag_state s)" by (rule fetch_done_facts(1) [OF fetched(3)])
  with assms(2,3) fetched show ?thesis
    by (auto simp: configs_legitimate_def dest: fetch_done_legitimate)
qed (auto simp: configs_legitimate_def session_ended_def publish_def)

section \<open>What the collectors have done\<close>

text \<open>An action of collector \<open>i\<close> is accounted for by a configuration it read.\<close>

fun accounted :: "(agent_runtime_config \<Rightarrow> bool) \<Rightarrow> collector_spec \<Rightarrow> action \<Rightarrow> bool" where
  "accounted ok spec (SleepFor d) \<longleftrightarrow> (\<exists>config. ok config \<and> d = snd (sp_schedule spec config) \<and> 0 < d)"
| "accounted ok spec (EmitTo j x version) \<longleftrightarrow>
     j < run_sinks \<and>
     (\<exists>config. ok config \<and> fst (sp_schedule spec config) \<and> version = cfg_version config) \<and>
     (\<exists>i. otlp_emit x version = Some (i, sample_value x, sample_attributes x @ [(CONFIG_VERSION_ATTRIBUTE, version)]) \<and>
        fst (instrument_spec i) = sample_name x \<and> kind_takes (fst (snd (instrument_spec i))) (sample_value x))"

lemma sleep_in_sleeps: "SleepFor d \<in> set as \<Longrightarrow> d \<in> set (sleeps as)"
  by (induction as rule: sleeps.induct) auto

lemma emit_in_emissions: "EmitTo j x v \<in> set as \<Longrightarrow> (j, x, v) \<in> set (emissions as)"
  by (induction as rule: emissions.induct) auto

lemma accepted_export:
  assumes "otlp_accepts x"
  shows "\<exists>i. otlp_emit x version = Some (i, sample_value x, sample_attributes x @ [(CONFIG_VERSION_ATTRIBUTE, version)]) \<and>
    fst (instrument_spec i) = sample_name x \<and> kind_takes (fst (snd (instrument_spec i))) (sample_value x)"
proof -
  from assms obtain i where i: "otlp_instrument (sample_name x) (sample_value x) = Some i"
    by (auto simp: otlp_accepts_def)
  then have "otlp_emit x version =
      Some (i, sample_value x, sample_attributes x @ [(CONFIG_VERSION_ATTRIBUTE, version)])"
    by (simp add: otlp_emit_def sample_attributes_of_def)
  with otlp_instrument_matches [OF i] show ?thesis by blast
qed

lemma round_accounted:
  assumes "spec \<in> set collector_specs" "ok config" "runtime_wf config"
    and "a \<in> set (snd (run_iteration spec (machine_ops spec mn) run_processors run_sinks config st))"
  shows "accounted ok spec a"
proof (cases a)
  case (SleepFor d)
  with assms(4) have "d = snd (sp_schedule spec config)"
    using sleep_in_sleeps [of d] run_iteration_sleeps [of spec "machine_ops spec mn" run_processors run_sinks config st]
    by fastforce
  with assms(1-3) SleepFor show ?thesis by (auto simp: runtime_wf_def intro: schedule_positive)
next
  case (EmitTo j x v)
  from emit_in_emissions [OF assms(4) [unfolded EmitTo]] have e:
    "(j, x, v) \<in> set (emissions (snd (run_iteration spec (machine_ops spec mn) run_processors run_sinks config st)))" .
  from run_iteration_emissions [OF e] obtain p samples where r: "fst (sp_schedule spec config)" "v = cfg_version config"
    "j < run_sinks" "snd (provider_collect mn p) = Inr samples" "x \<in> set samples"
    by (auto simp: machine_ops_def run_processors_def split: if_splits) (metis snd_conv)
  from r(4,5) have "otlp_accepts x" by (rule boxed_exports.accepted)
  from accepted_export [OF this] r(1-3) assms(2) EmitTo show ?thesis by auto
qed

text \<open>The invariant of the running agent.\<close>

definition runtime_ok ::
    "control_client_config \<Rightarrow> agent_identity \<Rightarrow> ('b, 'io) fetch_env set \<Rightarrow> agent_runtime_config \<Rightarrow> runtime \<Rightarrow> bool" where
  "runtime_ok control identity envs initial s \<longleftrightarrow>
     configs_legitimate control identity envs initial (rt_sys s) \<and>
     (\<forall>i config. rt_phase s i = Holding config \<longrightarrow>
        i < length collector_specs \<and> legitimate control identity envs initial config) \<and>
     (\<forall>i. \<forall>a\<in>set (rt_log s i).
        i < length collector_specs \<and> accounted (legitimate control identity envs initial) (collector_specs ! i) a)"

lemma runtime_step_ok:
  assumes "runtime_step parse_msg control identity dir env mn s s'" "env \<in> envs"
    and ok: "runtime_ok control identity envs initial s"
  shows "runtime_ok control identity envs initial s'"
  using assms(1)
proof (cases rule: runtime_step.cases)
  case (refreshing sys')
  with assms(2) ok show ?thesis by (auto simp: runtime_ok_def intro: agent_sys_step_legitimate)
next
  case (config_read i)
  with ok show ?thesis by (auto simp: runtime_ok_def configs_legitimate_def)
next
  case (round_done i config st' actions)
  from ok round_done(2) have h: "i < length collector_specs" "legitimate control identity envs initial config"
    by (auto simp: runtime_ok_def)
  have "accounted (legitimate control identity envs initial) (collector_specs ! i) a" if "a \<in> set actions" for a
    using round_accounted [of "collector_specs ! i" "legitimate control identity envs initial" config a mn "rt_runner s i"]
      h round_done(3) that by (auto simp: legitimate_def)
  with ok round_done h show ?thesis by (auto simp: runtime_ok_def)
qed

lemma runtime_reachable_ok:
  "runtime_reachable parse_msg control identity dir envs machines s0 s \<Longrightarrow>
   runtime_ok control identity envs initial s0 \<Longrightarrow> runtime_ok control identity envs initial s"
  by (induction rule: runtime_reachable.induct) (auto intro: runtime_step_ok)

text \<open>From the agent's start on.\<close>

lemma start_accounted:
  assumes "agent_start sink read toml var from_json files id_fs id_file hostname boot path = Inr (client, identity, b, st)"
    and "runtime_reachable parse_msg control identity dir envs machines (runtime_start st) s"
    and "a \<in> set (rt_log s i)"
  shows "i < length collector_specs \<and>
    accounted (legitimate control identity envs (as_config st)) (collector_specs ! i) a"
proof -
  have "runtime_ok control identity envs (as_config st) (runtime_start st)"
    using agent_start_wf [OF assms(1)]
    by (simp add: runtime_ok_def runtime_start_def configs_legitimate_def agent_sys_start_def legitimate_def)
  from runtime_reachable_ok [OF assms(2) this] assms(3) show ?thesis by (auto simp: runtime_ok_def)
qed

section \<open>Properties\<close>

text \<open>C15: From the agent's start on, however refreshes and collectors interleave and whatever the server
  and the machine answer, every collector sleeps only for positive intervals and every sample that
  reaches the OTLP sink has an instrument that takes its value and carries the version of a
  configuration which validates, enables that collector, and is the one of the start or was fetched
  from the control server.\<close>

theorem agent_exports_legitimate:
  assumes "agent_start sink read toml var from_json files id_fs id_file hostname boot path = Inr (client, identity, b, st)"
    and "runtime_reachable parse_msg control identity dir envs machines (runtime_start st) s"
    and "a \<in> set (rt_log s i)"
  shows "i < length collector_specs \<and>
    accounted (legitimate control identity envs (as_config st)) (collector_specs ! i) a"
  by (rule start_accounted [OF assms])

lemma demo_emission_of:
  assumes "memory_enabled (cfg_memory config)"
  shows "EmitTo 0 demo_total (cfg_version config) \<in>
     set (snd (run_iteration (collector_specs ! 1) (machine_ops (collector_specs ! 1) demo_machine) run_processors
       run_sinks config runner_start))"
proof -
  have "demo_total \<in> set (memory_samples 0 (sample_from_proc demo_meminfo swap previous size))" for swap previous size
    by (simp add: demo_total_def memory_samples_def sample_from_proc_def Let_def demo_meminfo_def)
  with assms show ?thesis
    by (auto simp: runner_start_def run_iteration_def collector_specs_def machine_ops_def run_processors_def run_sinks_def
        provider_factory_def provider_set_window_def provider_reconfigure_def provider_collect_def
        memory_provider_collect_def memory_collect_def demo_machine_def memory_collector_new_def
        demo_proc_files emit_all_def Let_def)
qed

lemma agent_exports_legitimate_witness:
  "accounted (legitimate demo_client demo_agent (range demo_fetch) (fallback_runtime_config bootstrap_default))
     (collector_specs ! 1) (EmitTo 0 demo_total LOCAL_CONFIG_VERSION)"
proof -
  let ?config = "fallback_runtime_config bootstrap_default"
  let ?st = "\<lparr>as_config = ?config, as_session = None, as_files = Map.empty\<rparr>"
  let ?reach = "runtime_reachable demo_ack demo_client demo_agent ''/state'' (range demo_fetch) {demo_machine} (runtime_start ?st)"
  let ?ops = "machine_ops (collector_specs ! 1) demo_machine"
  obtain st' actions where r: "run_iteration (collector_specs ! 1) ?ops run_processors run_sinks ?config runner_start =
      (st', actions)" by fastforce
  let ?s1 = "(runtime_start ?st)\<lparr>rt_phase := (\<lambda>_. AtRead)(1 := Holding ?config)\<rparr>"
  let ?s2 = "?s1\<lparr>rt_phase := (rt_phase ?s1)(1 := AtRead), rt_runner := (rt_runner ?s1)(1 := st'),
      rt_log := (rt_log ?s1)(1 := rt_log ?s1 1 @ actions)\<rparr>"
  have "?reach ?s1"
    by (rule runtime_more [OF runtime_begin rangeI [of demo_fetch "''A''"] singletonI],
      use config_read [of 1 "runtime_start ?st"] in \<open>simp add: runtime_start_def agent_sys_start_def collector_specs_def\<close>)
  then have "?reach ?s2"
    by (rule runtime_more [OF _ rangeI [of demo_fetch "''A''"] singletonI],
      intro round_done) (use r in \<open>simp_all add: runtime_start_def\<close>)
  moreover have "EmitTo 0 demo_total LOCAL_CONFIG_VERSION \<in> set (rt_log ?s2 1)"
    using demo_emission_of [of ?config] r
    by (simp add: runtime_start_def fallback_runtime_config_def bootstrap_default_def memory_default_def)
  ultimately show ?thesis using agent_exports_legitimate [OF demo_agent_start] by fastforce
qed

end
