(* ===== verification/Fleet.thy ===== *)
theory Fleet
  imports Wire Agent_Runtime
begin

text \<open>
  The whole deployment: one run of the control server, as the list of the states it has gone through, and
  an agent whose tasks and collectors run against it.  A configuration request takes the agent table
  and the configuration under two locks, so the two may come from different states of the run; and any
  request may fail on the way.
\<close>

inductive sys_run ::
    "(u8 list \<Rightarrow> 'd) \<Rightarrow> (string \<Rightarrow> agent_control_message option) \<Rightarrow> (string \<Rightarrow> (toml_error, control_config_file) result) \<Rightarrow>
     (agent_runtime_config \<Rightarrow> string option) \<Rightarrow> control_system list \<Rightarrow> bool"
  for digest :: "u8 list \<Rightarrow> 'd"
    and parse_msg :: "string \<Rightarrow> agent_control_message option"
    and toml :: "string \<Rightarrow> (toml_error, control_config_file) result"
    and to_json :: "agent_runtime_config \<Rightarrow> string option" where
  run_start: "initial_state env read_to_string toml to_json path = Inr state \<Longrightarrow>
    sys_run digest parse_msg toml to_json [sys_start state]"
| run_step: "sys_run digest parse_msg toml to_json (sys # past) \<Longrightarrow> sys_step digest parse_msg toml to_json sys sys' \<Longrightarrow>
    sys_run digest parse_msg toml to_json (sys' # sys # past)"

text \<open>The server as a request meets it that finds the table of one state and the configuration of another.\<close>

definition met :: "control_system \<Rightarrow> control_system \<Rightarrow> app_state" where
  "met table_sys config_sys = (sys_state table_sys)\<lparr>st_config := st_config (sys_state config_sys)\<rparr>"

definition served_by ::
    "(u8 list \<Rightarrow> 'd) \<Rightarrow> (string \<Rightarrow> (toml_error, control_config_file) result) \<Rightarrow> wire_text \<Rightarrow> string \<Rightarrow>
     control_system list \<Rightarrow> (string, 'io) fetch_env \<Rightarrow> bool" where
  "served_by digest toml w base history env \<longleftrightarrow>
     fe_decode env = from_text w runtime_from_value \<and>
     (\<exists>rd rejection. \<exists>table_sys\<in>set history. \<exists>config_sys\<in>set history. \<forall>url hs.
        fe_send env url hs \<in> {None, http_get digest rd toml w rejection base (met table_sys config_sys) url hs})"

section \<open>Facts\<close>

lemma sys_run_reachable:
  "sys_run digest parse_msg toml to_json history \<Longrightarrow> sys \<in> set history \<Longrightarrow> sys_reachable digest parse_msg toml to_json sys"
proof (induction arbitrary: sys rule: sys_run.induct)
  case (run_start env read_to_string path state)
  then show ?case by (auto intro: reach_start)
next
  case (run_step now past next_sys)
  then show ?case by (auto intro: reach_step)
qed

lemma fetch_or_fail:
  assumes "\<forall>url hs. send url hs \<in> {None, send' url hs}" "fetch_remote_config ok send decode control identity sid = Inr c"
  shows "fetch_remote_config ok send' decode control identity sid = Inr c"
proof -
  let ?url = "trim_end_char (CHR ''/'') (cc_http_url control) @ ''/agent/config''"
  obtain hs where hs: "config_request_headers ok control identity sid = Inr hs" "send ?url hs \<noteq> None"
    using assms(2) by (auto simp: fetch_remote_config_def Let_def)
  with assms(1) have "send' ?url hs = send ?url hs" by (metis insertE singletonD)
  with hs(1) have "fetch_remote_config ok send' decode control identity sid =
      fetch_remote_config ok send decode control identity sid"
    by (simp add: fetch_remote_config_def Let_def)
  with assms(2) show ?thesis by simp
qed

lemma config_request_agent_id:
  assumes "config_request_headers ok control identity sid = Inr hs"
  shows "hs AGENT_ID_HEADER = Some (id_agent_id identity)"
proof -
  have "AGENT_ID_HEADER \<noteq> AUTHORIZATION" "AGENT_ID_HEADER \<noteq> CONFIG_SESSION_ID_HEADER"
    "AGENT_ID_HEADER \<noteq> AGENT_CONFIG_TOKEN_HEADER"
    using request_header_names by metis+
  then show ?thesis
    using assms
    by (auto simp: config_request_headers_def request_header_def Let_def split: if_splits option.splits)
qed

text \<open>A configuration was granted to an agent in a run of the server: the agent was registered for a host
  that it is enrolled for, and the configuration is the one resolved for that host.\<close>

definition granted :: "(agent_runtime_config \<Rightarrow> string option) \<Rightarrow> control_system list \<Rightarrow> string \<Rightarrow> agent_runtime_config \<Rightarrow> bool" where
  "granted to_json history agent_id config \<longleftrightarrow>
     (\<exists>table_sys\<in>set history. \<exists>config_sys\<in>set history. \<exists>a e.
        bt_get (st_agents (sys_state table_sys)) agent_id = Some a \<and>
        bt_get (ccf_agents (lc_config (st_config (sys_state config_sys)))) agent_id = Some e \<and>
        en_hostname e = ca_hostname a \<and>
        runtime_config_for to_json (lc_config (st_config (sys_state config_sys))) (ca_hostname a) = Inr config)"

lemma fetched_is_granted:
  assumes run: "sys_run digest parse_msg toml (wt_config w) history"
    and url: "trim_end_char (CHR ''/'') (cc_http_url control) = base"
    and printed: "\<And>c body. wt_config w c = Some body \<Longrightarrow> wt_parse w body = Some (runtime_to_value c)"
    and served: "served_by digest toml w base history env"
    and fetched: "fetch_remote_config (fe_header_ok env) (fe_send env) (fe_decode env) control identity sid = Inr c"
  shows "granted (wt_config w) history (trim (id_agent_id identity)) c"
proof -
  obtain rd rejection table_sys config_sys where s: "table_sys \<in> set history" "config_sys \<in> set history"
    "\<forall>url hs. fe_send env url hs \<in> {None, http_get digest rd toml w rejection base (met table_sys config_sys) url hs}"
    "fe_decode env = from_text w runtime_from_value"
    using served by (auto simp: served_by_def)
  from fetched_over_wire [OF url printed fetch_or_fail [OF s(3) fetched [unfolded s(4)]]]
  obtain hs where hs: "config_request_headers (fe_header_ok env) control identity sid = Inr hs"
    "agent_config digest (wt_config w) (st_agent_token (met table_sys config_sys)) (st_agents (met table_sys config_sys))
       (lc_config (st_config (met table_sys config_sys))) hs = Body c"
    by (auto simp: fetch_from_server)
  have "sys_ok table_sys" by (rule sys_reachable_ok [OF sys_run_reachable [OF run s(1)]])
  then have key: "keyed_by_id (st_agents (sys_state table_sys))" by (simp add: sys_ok_def sessions_ok_def)
  from hs(2) [unfolded agent_config_Body] obtain i a where a: "header_value hs AGENT_ID_HEADER = Some i"
    "bt_get (st_agents (sys_state table_sys)) i = Some a"
    "agent_has_config_credential digest (lc_config (st_config (sys_state config_sys))) (ca_agent_id a) (ca_hostname a)
       (header_value hs AGENT_CONFIG_TOKEN_HEADER)"
    "runtime_config_for (wt_config w) (lc_config (st_config (sys_state config_sys))) (ca_hostname a) = Inr c"
    by (auto simp: met_def)
  have "i = trim (id_agent_id identity)"
    using a(1) config_request_agent_id [OF hs(1)] by (auto simp: header_value_def Let_def split: if_splits)
  moreover have "ca_agent_id a = i" using key a(2) by (simp add: keyed_by_id_def)
  ultimately show ?thesis
    using s(1,2) a(2-4)
    by (auto simp: granted_def agent_has_config_credential_def agent_is_enrolled_for_hostname_def split: option.splits)
qed

section \<open>Properties\<close>

text \<open>C13: What an agent exports was granted.  Take one run of the control server and an agent that runs
  against it, with requests that meet any two states of the run or fail, and every interleaving of
  refreshes and collectors.  Every sample handed to the sink carries the version of a valid configuration
  that enables its collector and is the one the agent started with or one that the server resolved for
  a host at which the agent was both registered and enrolled.\<close>

theorem exported_configs_were_granted:
  assumes "sys_run digest (from_text w agent_message_from_value) toml (wt_config w) history"
    and "\<And>c body. wt_config w c = Some body \<Longrightarrow> wt_parse w body = Some (runtime_to_value c)"
    and "agent_start sink read toml' var from_json files id_fs id_file hostname boot path = Inr (client, identity, b, st)"
    and "trim (ifs_uuid id_fs) = ifs_uuid id_fs" "ifs_uuid id_fs \<noteq> []"
    and "trim_end_char (CHR ''/'') (cc_http_url control) = base" "\<forall>env\<in>envs. served_by digest toml w base history env"
    and "runtime_reachable (from_text w server_message_from_value) control identity dir envs machines (runtime_start st) s"
    and "EmitTo j x version \<in> set (rt_log s i)"
  shows "\<exists>config. version = cfg_version config \<and> runtime_wf config \<and> fst (sp_schedule (collector_specs ! i) config) \<and>
    (config = as_config st \<or> granted (wt_config w) history (id_agent_id identity) config)"
proof -
  have "accounted (legitimate control identity envs (as_config st)) (collector_specs ! i) (EmitTo j x version)"
    using start_accounted [OF assms(3,8,9)] by blast
  then obtain config where c: "legitimate control identity envs (as_config st) config"
    "fst (sp_schedule (collector_specs ! i) config)" "version = cfg_version config"
    by auto
  have id: "trim (id_agent_id identity) = id_agent_id identity"
    by (rule agent_start_id_trimmed [OF assms(3-5)])
  have "config = as_config st \<or> granted (wt_config w) history (id_agent_id identity) config"
    using c(1) fetched_is_granted [OF assms(1,6,2)] assms(7) id by (fastforce simp: legitimate_def)
  with c show ?thesis by (auto simp: legitimate_def)
qed

text \<open>An example: the agent of \<open>Agent_System\<close> against the server of \<open>Control_System\<close>, up to one export.\<close>

definition fleet_config :: agent_runtime_config where
  "fleet_config = (resolved demo_config ''web'')\<lparr>cfg_version :=
     effective_config_version (\<lambda>_. None) ''web'' (resolved demo_config ''web'')\<rparr>"

definition fleet_wire :: wire_text where
  "fleet_wire = (demo_wire fleet_config)\<lparr>wt_config := (\<lambda>c. if c = fleet_config then Some [] else None)\<rparr>"

definition fleet_history :: "control_system list" where
  "fleet_history =
     [socket_step demo_digest (from_text fleet_wire agent_message_from_value) ''c1'' demo_connection
        (Incoming (WsText ''hello'')) 7 True demo_connected,
      demo_connected, sys_start demo_state]"

definition fleet_env :: "(string, io_error) fetch_env" where
  "fleet_env =
     \<lparr>fe_header_ok = demo_header_ok,
      fe_send = http_get demo_digest (\<lambda>_. Inr []) demo_toml fleet_wire 400 ''http://127.0.0.1:8080''
        (met (hd fleet_history) (hd fleet_history)),
      fe_decode = from_text fleet_wire runtime_from_value, fe_to_json = wt_pretty fleet_wire,
      fe_save = \<lparr>sio_create_dir_all = Inl ''read-only'', sio_write = None\<rparr>\<rparr>"

lemma fleet_config_resolved: "runtime_config_for (wt_config fleet_wire) demo_config ''web'' = Inr fleet_config"
proof -
  have "cfg_version fleet_config \<noteq> []"
    using effective_version_not_blank [of "\<lambda>_. None" "''web''" "resolved demo_config ''web''"]
    by (auto simp: fleet_config_def)
  moreover have "cfg_version (r\<lparr>cfg_version := []\<rparr>) = []" for r :: agent_runtime_config by simp
  ultimately have "r\<lparr>cfg_version := []\<rparr> \<noteq> fleet_config" for r by metis
  then have "wt_config fleet_wire (r\<lparr>cfg_version := []\<rparr>) = None" for r
    by (simp add: fleet_wire_def)
  then have "effective_config_version (wt_config fleet_wire) h r = effective_config_version (\<lambda>_. None) h r" for h r
    by (simp add: effective_config_version_def)
  then show ?thesis by (simp add: runtime_config_for_iff demo_resolved fleet_config_def)
qed

lemma fleet_texts:
  "wt_config fleet_wire c = Some body \<Longrightarrow> wt_parse fleet_wire body = Some (runtime_to_value c)"
  "from_text fleet_wire agent_message_from_value ''hello'' = Some (Hello ''a1'' ''web'' ''0.1.0'' None)"
  "from_text fleet_wire server_message_from_value ''ack'' = Some (HelloAck 7 ''c1'')"
proof -
  show "wt_parse fleet_wire body = Some (runtime_to_value c)" if "wt_config fleet_wire c = Some body"
    using that by (auto simp: fleet_wire_def demo_wire_def split: if_splits)
  have "from_text fleet_wire agent_message_from_value ''hello'' = Some (hello_message ''0.1.0'' demo_identity)"
    unfolding agent_message_read_back [symmetric] by (rule from_text_eq_Some) (simp add: fleet_wire_def demo_wire_def)
  then show "from_text fleet_wire agent_message_from_value ''hello'' = Some (Hello ''a1'' ''web'' ''0.1.0'' None)"
    by (simp add: hello_message_def demo_identity_def)
  show "from_text fleet_wire server_message_from_value ''ack'' = Some (HelloAck 7 ''c1'')"
    unfolding server_message_read_back [symmetric] by (rule from_text_eq_Some) (simp add: fleet_wire_def demo_wire_def)
qed

lemma fleet_table: "st_agents (sys_state (hd fleet_history)) = [(''a1'', demo_entry)]"
proof -
  have "run_agent_socket_step demo_digest (from_text fleet_wire agent_message_from_value) demo_config [] ''c1'' None
      (Some ''t1'') (Incoming (WsText ''hello'')) 7 True =
    run_agent_socket_step demo_digest demo_hello demo_config [] ''c1'' None (Some ''t1'') (Incoming (WsText ''hello'')) 7 True"
    by (simp add: run_agent_socket_step_def handle_agent_message_def fleet_texts demo_hello_def)
  then show ?thesis
    by (simp add: fleet_history_def socket_step_def demo_connected_def connect_def sys_start_def demo_connection_def
        demo_state_def demo_step)
qed

lemma fleet_run: "sys_run demo_digest (from_text fleet_wire agent_message_from_value) demo_toml (wt_config fleet_wire) fleet_history"
  unfolding fleet_history_def
proof (rule run_step [OF run_step [OF run_start [OF demo_initial]]])
  show "sys_step demo_digest (from_text fleet_wire agent_message_from_value) demo_toml (wt_config fleet_wire)
      (sys_start demo_state) demo_connected"
    unfolding demo_connected_def by (rule step_connect) (use demo_upgrade in \<open>simp_all add: sys_start_def\<close>)
  show "sys_step demo_digest (from_text fleet_wire agent_message_from_value) demo_toml (wt_config fleet_wire) demo_connected
      (socket_step demo_digest (from_text fleet_wire agent_message_from_value) ''c1'' demo_connection
        (Incoming (WsText ''hello'')) 7 True demo_connected)"
    by (rule step_socket) (simp_all add: demo_connected_def connect_def demo_connection_def)
qed

lemma fleet_fetch: "fetch_done fleet_env demo_control demo_agent ''c1'' dir st = (st, Publishing fleet_config)"
proof -
  let ?server = "met (hd fleet_history) (hd fleet_history)"
  have state: "st_agents ?server = [(''a1'', demo_entry)]" "st_agent_token ?server = ''agents''"
    "lc_config (st_config ?server) = demo_config"
    using fleet_table
    by (simp_all add: met_def fleet_history_def socket_step_def demo_connected_def connect_def sys_start_def demo_state_def
        split: prod.splits)
  have words: "header_word demo_header_ok ''a1'' \<and> header_word demo_header_ok ''c1'' \<and>
      demo_header_ok (''Bearer '' @ ''agents'') \<and> demo_header_ok ''t1'' \<and> trim ''t1'' = ''t1'' \<and> trim ''agents'' = ''agents''"
    by code_simp
  have "fetch_remote_config demo_header_ok (serve_config demo_digest (wt_config fleet_wire) ?server) id demo_control
      demo_agent ''c1'' = Inr fleet_config"
    by (rule registered_agent_fetches [where t = "''t1''" and a = demo_entry and
          e = "\<lparr>en_hostname = ''web'', en_config_token = Some ''t1''\<rparr>"])
      (use words in \<open>simp_all add: state demo_control_def demo_agent_def demo_entry_def demo_config_def [symmetric]
         fleet_config_resolved\<close>, simp add: demo_config_def)
  moreover have "trim_end_char (CHR ''/'') (cc_http_url demo_control) = ''http://127.0.0.1:8080''" by code_simp
  moreover have "wt_config fleet_wire fleet_config = Some []" by (simp add: fleet_wire_def)
  moreover have "wt_parse fleet_wire [] = Some (runtime_to_value fleet_config)" by (simp add: fleet_wire_def demo_wire_def)
  ultimately have "fetch_remote_config (fe_header_ok fleet_env) (fe_send fleet_env) (fe_decode fleet_env) demo_control
      demo_agent ''c1'' = Inr fleet_config"
    using fetch_over_wire by (simp add: fleet_env_def)
  moreover have "runtime_validate fleet_config = Inr ()"
    using runtime_config_for_wf [OF fleet_config_resolved] by (simp add: runtime_validate_iff)
  ultimately show ?thesis
    by (simp add: fetch_done_def save_last_known_config_def fleet_env_def)
qed

text \<open>From the start: the acknowledgement, the fetch, the publication, and one round of the memory collector.\<close>

lemma fleet_exports:
  assumes "st = \<lparr>as_config = fallback_runtime_config bootstrap_default, as_session = None, as_files = Map.empty\<rparr>"
  shows "\<exists>s. runtime_reachable (from_text fleet_wire server_message_from_value) demo_control demo_agent ''/state''
      {fleet_env} {demo_machine} (runtime_start st) s \<and>
    EmitTo 0 demo_total (cfg_version fleet_config) \<in> set (rt_log s 1)"
proof -
  let ?parse = "from_text fleet_wire server_message_from_value"
  let ?reach = "runtime_reachable ?parse demo_control demo_agent ''/state'' {fleet_env} {demo_machine} (runtime_start st)"
  let ?ops = "machine_ops (collector_specs ! 1) demo_machine"
  obtain st' actions where r: "run_iteration (collector_specs ! 1) ?ops run_processors run_sinks fleet_config runner_start =
      (st', actions)" by fastforce
  note more = runtime_more [OF _ singletonI singletonI]
  define a1 where "a1 = \<lparr>ag_state = st\<lparr>as_session := Some ''c1''\<rparr>, ag_phase = (\<lambda>_. Idle)(SocketTask := Fetching ''c1'')\<rparr>"
  define a2 where "a2 = \<lparr>ag_state = st\<lparr>as_session := Some ''c1''\<rparr>, ag_phase = (ag_phase a1)(SocketTask := Publishing fleet_config)\<rparr>"
  define a3 where "a3 = \<lparr>ag_state = publish fleet_config (ag_state a2), ag_phase = (ag_phase a2)(SocketTask := Idle)\<rparr>"
  have agent: "agent_sys_step ?parse demo_control demo_agent ''/state'' fleet_env (agent_sys_start st) a1"
    "agent_sys_step ?parse demo_control demo_agent ''/state'' fleet_env a1 a2"
    "agent_sys_step ?parse demo_control demo_agent ''/state'' fleet_env a2 a3"
    using hello_ack [of ?parse "''ack''" 7 "''c1''" "agent_sys_start st" demo_control demo_agent "''/state''" fleet_env]
      fetched [of a1 SocketTask "''c1''" fleet_env demo_control demo_agent "''/state''" _ _ ?parse, OF _ fleet_fetch]
      published [of a2 SocketTask fleet_config ?parse demo_control demo_agent "''/state''" fleet_env]
    by (simp_all add: a1_def a2_def a3_def agent_sys_start_def fleet_texts)
  have refresh: "?reach (s\<lparr>rt_sys := b\<rparr>)" if "?reach s" "agent_sys_step ?parse demo_control demo_agent ''/state'' fleet_env (rt_sys s) b" for s b
    by (rule more [OF that(1) refreshing [OF that(2)]])
  have "?reach ((runtime_start st)\<lparr>rt_sys := a1\<rparr>)"
    by (rule refresh [OF runtime_begin]) (use agent(1) in \<open>simp add: runtime_start_def\<close>)
  from refresh [OF this, of a2] have "?reach ((runtime_start st)\<lparr>rt_sys := a2\<rparr>)" using agent(2) by simp
  from refresh [OF this, of a3] have "?reach ((runtime_start st)\<lparr>rt_sys := a3\<rparr>)" using agent(3) by simp
  moreover have "as_config (ag_state a3) = fleet_config" by (simp add: a3_def publish_def)
  ultimately have held: "?reach ((runtime_start st)\<lparr>rt_sys := a3, rt_phase := (\<lambda>_. AtRead)(1 := Holding fleet_config)\<rparr>)"
    using more [OF _ config_read [of 1 "(runtime_start st)\<lparr>rt_sys := a3\<rparr>"]]
    by (simp add: runtime_start_def collector_specs_def)
  let ?s = "(runtime_start st)\<lparr>rt_sys := a3, rt_phase := (\<lambda>_. AtRead)(1 := Holding fleet_config)\<rparr>"
  let ?s' = "?s\<lparr>rt_phase := (rt_phase ?s)(1 := AtRead), rt_runner := (rt_runner ?s)(1 := st'),
      rt_log := (rt_log ?s)(1 := rt_log ?s 1 @ actions)\<rparr>"
  have "?reach ?s'"
    by (rule more [OF held], rule round_done) (use r in \<open>simp_all add: runtime_start_def\<close>)
  moreover have "memory_enabled (cfg_memory fleet_config)" by code_simp
  then have "EmitTo 0 demo_total (cfg_version fleet_config) \<in> set (rt_log ?s' 1)"
    using demo_emission_of [of fleet_config] r by (simp add: runtime_start_def)
  ultimately show ?thesis by blast
qed

lemma exported_configs_were_granted_witness:
  "\<exists>config. cfg_version fleet_config = cfg_version config \<and> memory_enabled (cfg_memory config) \<and>
     (config = fallback_runtime_config bootstrap_default \<or> granted (wt_config fleet_wire) fleet_history ''a1'' config)"
proof -
  let ?st = "\<lparr>as_config = fallback_runtime_config bootstrap_default, as_session = None, as_files = Map.empty\<rparr>"
  obtain s where s: "runtime_reachable (from_text fleet_wire server_message_from_value) demo_control demo_agent ''/state''
      {fleet_env} {demo_machine} (runtime_start ?st) s"
    "EmitTo 0 demo_total (cfg_version fleet_config) \<in> set (rt_log s 1)"
    using fleet_exports [OF refl] by blast
  have uuid: "trim (ifs_uuid demo_id_fs) = ifs_uuid demo_id_fs" "ifs_uuid demo_id_fs \<noteq> []"
    by (simp_all add: demo_id_fs_def trim_def is_ws_def char_code_def)
  have url: "trim_end_char (CHR ''/'') (cc_http_url demo_control) = ''http://127.0.0.1:8080''" by code_simp
  have served: "\<forall>env\<in>{fleet_env}. served_by demo_digest demo_toml fleet_wire ''http://127.0.0.1:8080'' fleet_history env"
    by (auto simp: served_by_def fleet_env_def fleet_history_def)
  from exported_configs_were_granted [OF fleet_run fleet_texts(1) demo_agent_start uuid url served s] show ?thesis
    by (auto simp: demo_agent_def collector_specs_def)
qed

end
