(* ===== verification/Discovery_Worker.thy ===== *)
theory Discovery_Worker
  imports Pod_Discovery Pipeline
begin

text \<open>
  The discovery's worker thread and its caller in time (\<open>talia-agent/src/pod_discovery/mod.rs\<close>): the
  caller sends a job and waits for its reply up to a deadline; the worker takes the jobs in order and
  gives each refresh a deadline of its own.  A call carries what the refresh meets and how long it
  takes: \<open>call_takes\<close> up to its last await, \<open>call_blocks\<close> for the scan of \<open>/proc\<close> that no deadline can
  interrupt.  A refresh that misses its deadline at an await never gets to that scan.
\<close>

definition REFRESH_TIMEOUT :: duration where
  "REFRESH_TIMEOUT = from_secs 30"

definition WORKER_REFRESH_TIMEOUT :: duration where
  "WORKER_REFRESH_TIMEOUT = from_secs 25"

record ('e, 'c) discovery_call =
  call_wait :: duration
  call_selection :: socket_selection
  call_cri :: "('e, 'c) cri_api"
  call_proc :: proc_view
  call_orders :: map_orders
  call_takes :: duration
  call_blocks :: duration

text \<open>What the worker does with a job, and for how long.\<close>

definition worker_job ::
    "(string \<Rightarrow> json option) \<Rightarrow> ('e, 'c) discovery_call \<Rightarrow> 'c worker_state \<Rightarrow>
     'c worker_state \<times> ('e discovery_error, pod_info list) result" where
  "worker_job from_json c w =
     worker_step (call_cri c) from_json (call_proc c) (call_orders c)
       (WORKER_REFRESH_TIMEOUT < call_takes c) (call_selection c) w"

definition job_time :: "('e, 'c) discovery_call \<Rightarrow> duration" where
  "job_time c =
     (if WORKER_REFRESH_TIMEOUT < call_takes c then WORKER_REFRESH_TIMEOUT else call_takes c + call_blocks c)"

text \<open>Calls one after the other: each with its result and its duration.  The worker is free at \<open>free\<close>.\<close>

fun discovery_calls ::
    "(string \<Rightarrow> json option) \<Rightarrow> 'c worker_state \<Rightarrow> duration \<Rightarrow> duration \<Rightarrow> ('e, 'c) discovery_call list \<Rightarrow>
     (('e discovery_error, pod_info list) result \<times> duration) list" where
  "discovery_calls from_json w free now [] = []"
| "discovery_calls from_json w free now (c # cs) =
     (let sent = now + call_wait c;
          (w', r) = worker_job from_json c w;
          replied = max sent free + job_time c;
          deadline = sent + REFRESH_TIMEOUT;
          reply = (if replied \<le> deadline then Received r else RecvTimeout);
          done = min replied deadline
      in (discovery_refresh True reply, done - sent) # discovery_calls from_json w' replied done cs)"

text \<open>The same calls without a thread: the jobs, done when they are asked for.\<close>

fun worker_results ::
    "(string \<Rightarrow> json option) \<Rightarrow> 'c worker_state \<Rightarrow> ('e, 'c) discovery_call list \<Rightarrow>
     ('e discovery_error, pod_info list) result list" where
  "worker_results from_json w [] = []"
| "worker_results from_json w (c # cs) =
     (let (w', r) = worker_job from_json c w in r # worker_results from_json w' cs)"

section \<open>Facts\<close>

lemma job_time_le:
  "call_blocks c \<le> REFRESH_TIMEOUT - WORKER_REFRESH_TIMEOUT \<Longrightarrow> job_time c \<le> REFRESH_TIMEOUT"
  by (simp add: job_time_def REFRESH_TIMEOUT_def WORKER_REFRESH_TIMEOUT_def from_secs_def)

lemma discovery_calls_in_time:
  "free \<le> now \<Longrightarrow> \<forall>c\<in>set cs. job_time c \<le> REFRESH_TIMEOUT \<Longrightarrow>
     map fst (discovery_calls from_json w free now cs) = worker_results from_json w cs \<and>
     map snd (discovery_calls from_json w free now cs) = map job_time cs"
proof (induction from_json w free now cs rule: discovery_calls.induct)
  case (1 from_json w free now)
  then show ?case by simp
next
  case (2 from_json w free now c cs)
  obtain w' r where j: "worker_job from_json c w = (w', r)" by fastforce
  have m: "max (now + call_wait c) free = now + call_wait c" using 2(2) by simp
  have "job_time c \<le> REFRESH_TIMEOUT" using 2(3) by simp
  then show ?case
    using 2(1) [OF refl j [symmetric] refl refl refl refl] 2(3)
    by (simp add: j m discovery_refresh_def Let_def)
qed

lemma discovery_calls_bounded:
  "x \<in> set (discovery_calls from_json w free now cs) \<Longrightarrow> snd x \<le> REFRESH_TIMEOUT"
  by (induction cs arbitrary: w free now) (auto simp: Let_def case_prod_unfold)

lemma discovery_calls_length [simp]: "length (discovery_calls from_json w free now cs) = length cs"
  by (induction cs arbitrary: w free now) (simp_all add: Let_def case_prod_unfold)

text \<open>An answer with pods is the answer of a refresh: no pod is in it twice.\<close>

lemma worker_job_distinct:
  assumes "worker_job from_json c w = (w', Inr pods)" "orders_ok (call_orders c)"
  shows "distinct (map pi_uid pods)"
proof -
  obtain clients clients' where "refresh_async (call_cri c) from_json (call_proc c) (call_orders c)
      (call_selection c) clients = (clients', Inr pods)"
    using assms(1) by (auto simp: worker_job_def worker_step_def Let_def split: if_splits prod.splits)
  then show ?thesis using assms(2) by (rule refresh_async_ok)
qed

lemma discovery_calls_distinct:
  "(Inr pods, took) \<in> set (discovery_calls from_json w free now cs) \<Longrightarrow> \<forall>c\<in>set cs. orders_ok (call_orders c) \<Longrightarrow>
     distinct (map pi_uid pods)"
proof (induction from_json w free now cs rule: discovery_calls.induct)
  case (1 from_json w free now)
  then show ?case by simp
next
  case (2 from_json w free now c cs)
  obtain w' r where j: "worker_job from_json c w = (w', r)" by fastforce
  show ?case
    using 2(1) [OF refl j [symmetric] refl refl refl refl] 2(2,3) worker_job_distinct [of from_json c w w' pods] j
    by (auto simp: Let_def discovery_refresh_def split: if_splits)
qed

section \<open>Properties\<close>

text \<open>C23: The thread is invisible: as long as the uninterruptible scan of a refresh stays within the five
  seconds between the two deadlines, every call gets the answer of its own job, exactly as if the
  jobs were done when asked for, after the time the job takes; and even without that, no call waits
  longer than its deadline.\<close>

theorem discovery_calls_answered:
  shows "((\<forall>c\<in>set calls. call_blocks c \<le> REFRESH_TIMEOUT - WORKER_REFRESH_TIMEOUT) \<longrightarrow>
      discovery_calls from_json worker_start now now calls =
        zip (worker_results from_json worker_start calls) (map job_time calls)) \<and>
    (\<forall>(r, took)\<in>set (discovery_calls from_json w free now calls). took \<le> REFRESH_TIMEOUT)"
proof
  show "(\<forall>c\<in>set calls. call_blocks c \<le> REFRESH_TIMEOUT - WORKER_REFRESH_TIMEOUT) \<longrightarrow>
      discovery_calls from_json worker_start now now calls =
        zip (worker_results from_json worker_start calls) (map job_time calls)"
  proof
    assume "\<forall>c\<in>set calls. call_blocks c \<le> REFRESH_TIMEOUT - WORKER_REFRESH_TIMEOUT"
    then have "\<forall>c\<in>set calls. job_time c \<le> REFRESH_TIMEOUT" using job_time_le by blast
    from discovery_calls_in_time [OF order_refl this, of from_json worker_start now]
    show "discovery_calls from_json worker_start now now calls =
        zip (worker_results from_json worker_start calls) (map job_time calls)"
      by (metis zip_map_fst_snd)
  qed
  show "\<forall>(r, took)\<in>set (discovery_calls from_json w free now calls). took \<le> REFRESH_TIMEOUT"
    using discovery_calls_bounded by fastforce
qed

definition demo_call :: "(string, nat) discovery_call" where
  "demo_call =
     \<lparr>call_wait = 0, call_selection = Explicit ''k'', call_cri = demo_cri, call_proc = demo_proc_view,
      call_orders = demo_orders, call_takes = from_secs 90, call_blocks = from_secs 1\<rparr>"

lemma discovery_calls_answered_witness:
  "discovery_calls (\<lambda>_. None) worker_start 0 0 [demo_call] = [(Inl RefreshTimeout, from_secs 25)]"
proof -
  have "\<forall>c\<in>set [demo_call]. call_blocks c \<le> REFRESH_TIMEOUT - WORKER_REFRESH_TIMEOUT"
    by (simp add: demo_call_def REFRESH_TIMEOUT_def WORKER_REFRESH_TIMEOUT_def from_secs_def)
  with discovery_calls_answered [of "[demo_call]"] have
    "discovery_calls (\<lambda>_. None) worker_start 0 0 [demo_call] =
      zip (worker_results (\<lambda>_. None) worker_start [demo_call]) (map job_time [demo_call])" by blast
  then show ?thesis
    by (simp add: worker_job_def worker_step_def demo_call_def job_time_def WORKER_REFRESH_TIMEOUT_def from_secs_def
        worker_start_def)
qed

end
