(* ===== verification/Tcp_System.thy ===== *)
theory Tcp_System
  imports Tcp Discovery_Worker
begin

text \<open>
  The TCP provider over the life of the agent: its collections one after the other
  (\<open>talia-agent/src/modules/tcp/provider.rs\<close>, \<open>collect\<close>), each with the answer the discovery's worker gives
  in time and the files of its own moment.  The baselines are the provider's state between rounds.
\<close>

record ('e, 'c) tcp_round =
  rd_call :: "('e, 'c) discovery_call"
  rd_files :: "string \<Rightarrow> string option"
  rd_time :: system_time

text \<open>What a round meets: the discovery's answer, the files, the time.\<close>

type_synonym 'e tcp_meeting =
  "('e discovery_error, pod_info list) result \<times> (string \<Rightarrow> string option) \<times> system_time"

definition tcp_history ::
    "(string \<Rightarrow> json option) \<Rightarrow> duration \<Rightarrow> ('e, 'c) tcp_round list \<Rightarrow> 'e tcp_meeting list" where
  "tcp_history from_json started rounds =
     zip (map fst (discovery_calls from_json worker_start started started (map rd_call rounds)))
       (map (\<lambda>round. (rd_files round, rd_time round)) rounds)"

fun tcp_collections ::
    "tcp_baselines \<Rightarrow> 'e tcp_meeting list \<Rightarrow> ('e discovery_error provider_error, sample list) result list" where
  "tcp_collections previous [] = []"
| "tcp_collections previous ((discovered, read, timestamp) # meetings) =
     (let (previous', r) = tcp_collect read timestamp discovered previous
      in r # tcp_collections previous' meetings)"

definition tcp_run ::
    "(string \<Rightarrow> json option) \<Rightarrow> duration \<Rightarrow> ('e, 'c) tcp_round list \<Rightarrow>
     ('e discovery_error provider_error, sample list) result list" where
  "tcp_run from_json started rounds = tcp_collections Map.empty (tcp_history from_json started rounds)"

text \<open>What a round knows of a pod: a reading of its process, or none although the pod may be there.\<close>

fun reading :: "'e tcp_meeting \<Rightarrow> pod_uid \<Rightarrow> pod_baseline \<Rightarrow> bool" where
  "reading (discovered, read, _) uid p \<longleftrightarrow>
     (case discovered of
        Inl _ \<Rightarrow> False
      | Inr pods \<Rightarrow>
          list_ex (\<lambda>pod. pi_uid pod = uid \<and> pi_pid pod = pb_pid p) pods \<and>
          read_pod_snapshot read (pb_pid p) = Some (pb_snapshot p))"

fun no_reading :: "'e tcp_meeting \<Rightarrow> pod_uid \<Rightarrow> bool" where
  "no_reading (discovered, read, _) uid \<longleftrightarrow>
     (case discovered of
        Inl _ \<Rightarrow> True
      | Inr pods \<Rightarrow> list_ex (\<lambda>pod. pi_uid pod = uid \<and> read_pod_snapshot read (pi_pid pod) = None) pods)"

section \<open>The state between rounds\<close>

definition tcp_step :: "'e tcp_meeting \<Rightarrow> tcp_baselines \<Rightarrow> tcp_baselines" where
  "tcp_step meeting previous =
     (case meeting of (discovered, read, timestamp) \<Rightarrow> fst (tcp_collect read timestamp discovered previous))"

lemma tcp_collections_length [simp]: "length (tcp_collections previous meetings) = length meetings"
  by (induction meetings arbitrary: previous) (auto simp: case_prod_unfold Let_def)

lemma tcp_collections_nth:
  "i < length meetings \<Longrightarrow> meetings ! i = (discovered, read, timestamp) \<Longrightarrow>
     tcp_collections previous meetings ! i =
       snd (tcp_collect read timestamp discovered (fold tcp_step (take i meetings) previous))"
proof (induction previous meetings arbitrary: i rule: tcp_collections.induct)
  case (1 previous)
  then show ?case by simp
next
  case (2 previous d r t meetings)
  obtain previous' x where "tcp_collect r t d previous = (previous', x)" by fastforce
  then show ?case using 2 by (cases i) (simp_all add: tcp_step_def)
qed

definition pods_distinct :: "'e tcp_meeting \<Rightarrow> bool" where
  "pods_distinct meeting = (case fst meeting of Inl _ \<Rightarrow> True | Inr pods \<Rightarrow> distinct (map pi_uid pods))"

text \<open>One round: a baseline is a reading of this round, or it was there before and the round has none.\<close>

lemma tcp_step_cases:
  assumes "tcp_step meeting previous uid = Some p" "pods_distinct meeting"
  shows "reading meeting uid p \<or> previous uid = Some p \<and> no_reading meeting uid"
proof -
  obtain discovered read timestamp where m: "meeting = (discovered, read, timestamp)" by (cases meeting)
  show ?thesis
  proof (cases discovered)
    case (Inl e)
    then show ?thesis using assms by (simp add: m tcp_step_def tcp_collect_def)
  next
    case (Inr pods)
    then have "distinct (map pi_uid pods)" using assms(2) by (simp add: m pods_distinct_def)
    from assms(1) have "(case find (\<lambda>pod. pi_uid pod = uid) pods of
        None \<Rightarrow> None | Some pod \<Rightarrow> pod_baseline_after read previous pod) = Some p"
      by (simp add: m Inr tcp_step_def tcp_collect_baselines [OF \<open>distinct (map pi_uid pods)\<close>])
    then obtain pod where pod: "find (\<lambda>pod. pi_uid pod = uid) pods = Some pod"
      "pod_baseline_after read previous pod = Some p"
      by (cases "find (\<lambda>pod. pi_uid pod = uid) pods") auto
    then have "pod \<in> set pods" "pi_uid pod = uid" by (auto simp: find_Some_iff)
    then show ?thesis
      using pod(2) by (auto simp: m Inr pod_baseline_after_def list_ex_iff split: option.splits)
  qed
qed

text \<open>Every baseline is the latest reading of its pod.\<close>

lemma tcp_baseline_latest:
  "fold tcp_step meetings Map.empty uid = Some p \<Longrightarrow> \<forall>m\<in>set meetings. pods_distinct m \<Longrightarrow>
     \<exists>j<length meetings. reading (meetings ! j) uid p \<and>
       (\<forall>k. j < k \<and> k < length meetings \<longrightarrow> no_reading (meetings ! k) uid)"
proof (induction meetings arbitrary: p rule: rev_induct)
  case Nil
  then show ?case by simp
next
  case (snoc m ms)
  let ?l = "length ms"
  have d: "pods_distinct m" "\<forall>m\<in>set ms. pods_distinct m" using snoc.prems(2) by simp_all
  have "tcp_step m (fold tcp_step ms Map.empty) uid = Some p" using snoc.prems(1) by simp
  from tcp_step_cases [OF this d(1)] consider "reading m uid p"
    | "fold tcp_step ms Map.empty uid = Some p" "no_reading m uid" by blast
  then show ?case
  proof cases
    case 1
    then show ?thesis by (intro exI [of _ ?l]) auto
  next
    case 2
    from snoc.IH [OF 2(1) d(2)] obtain j where j: "j < ?l" "reading (ms ! j) uid p"
      "\<forall>k. j < k \<and> k < ?l \<longrightarrow> no_reading (ms ! k) uid" by blast
    then show ?thesis
      using 2(2) by (intro exI [of _ j]) (auto simp: nth_append less_Suc_eq)
  qed
qed

lemma tcp_history_length [simp]: "length (tcp_history from_json started rounds) = length rounds"
  by (simp add: tcp_history_def)

lemma tcp_history_distinct:
  assumes "\<forall>round\<in>set rounds. orders_ok (call_orders (rd_call round))" "m \<in> set (tcp_history from_json started rounds)"
  shows "pods_distinct m"
proof (cases "fst m")
  case (Inl e)
  then show ?thesis by (simp add: pods_distinct_def)
next
  case (Inr pods)
  have "fst m \<in> fst ` set (discovery_calls from_json worker_start started started (map rd_call rounds))"
    using assms(2) unfolding tcp_history_def
    by (subst (asm) prod.collapse [of m, symmetric]) (drule set_zip_leftD, simp)
  then obtain took where
    "(Inr pods, took) \<in> set (discovery_calls from_json worker_start started started (map rd_call rounds))"
    using Inr by force
  then have "distinct (map pi_uid pods)" by (rule discovery_calls_distinct) (use assms(1) in simp)
  then show ?thesis using Inr by (simp add: pods_distinct_def)
qed

text \<open>What a round of a run met and answered.\<close>

lemma tcp_run_round:
  fixes rounds :: "('e, 'c) tcp_round list"
  assumes "i < length rounds" "tcp_run from_json started rounds ! i = Inr samples"
  obtains pods read timestamp where "tcp_history from_json started rounds ! i = (Inr pods, read, timestamp)"
    "snd (tcp_collect read timestamp (Inr pods :: ('e discovery_error, pod_info list) result)
       (fold tcp_step (take i (tcp_history from_json started rounds)) Map.empty)) = Inr samples"
proof -
  obtain discovered read timestamp where h: "tcp_history from_json started rounds ! i = (discovered, read, timestamp)"
    by (metis surj_pair)
  have r: "snd (tcp_collect read timestamp discovered
      (fold tcp_step (take i (tcp_history from_json started rounds)) Map.empty)) = Inr samples"
    using assms tcp_collections_nth [of i "tcp_history from_json started rounds", OF _ h] by (simp add: tcp_run_def)
  then obtain pods where "discovered = Inr pods" by (cases discovered) (simp_all add: tcp_collect_def)
  with that h r show thesis by blast
qed

section \<open>Properties\<close>

text \<open>C29: Over any run of the TCP provider, every counter it reports is the exact growth between two readings of
  one process of one pod: the reading of the round itself and the pod's latest earlier one.  Since
  then the discovery failed or saw the pod without being able to read it; a round that did not
  report the pod, or another process in between, would have broken the chain.\<close>

theorem tcp_counters_between_readings:
  fixes rounds :: "('e, 'c) tcp_round list"
  assumes orders: "\<forall>round\<in>set rounds. orders_ok (call_orders (rd_call round))"
    and i: "i < length rounds" "tcp_run from_json started rounds ! i = Inr samples"
    and s: "s \<in> set samples" "sample_name s \<noteq> TCP_ESTABLISHED_SAMPLE"
  shows "\<exists>j pods pod before now v f. j < i \<and>
    fst (tcp_history from_json started rounds ! i) = Inr pods \<and> pod \<in> set pods \<and>
    reading (tcp_history from_json started rounds ! j) (pi_uid pod) \<lparr>pb_pid = pi_pid pod, pb_snapshot = before\<rparr> \<and>
    reading (tcp_history from_json started rounds ! i) (pi_uid pod) \<lparr>pb_pid = pi_pid pod, pb_snapshot = now\<rparr> \<and>
    (\<forall>k. j < k \<and> k < i \<longrightarrow> no_reading (tcp_history from_json started rounds ! k) (pi_uid pod)) \<and>
    sample_value s = Counter v \<and> sample_attributes s = pod_attributes pod \<and>
    (sample_name s, f) \<in> {(TCP_RETRANSMITS_SAMPLE, ts_retrans_segs), (TCP_SEGMENTS_SENT_SAMPLE, ts_out_segs),
      (TCP_SEGMENTS_RECEIVED_SAMPLE, ts_in_segs), (TCP_TIMEOUTS_SAMPLE, ts_tcp_timeouts),
      (TCP_FAST_RETRANSMITS_SAMPLE, ts_tcp_fast_retrans)} \<and>
    unat (f now) = unat (f before) + unat v"
proof -
  let ?h = "tcp_history from_json started rounds"
  have distinct: "\<forall>m\<in>set ?h. pods_distinct m" using tcp_history_distinct [OF orders] by blast
  obtain pods read timestamp where h: "?h ! i = (Inr pods, read, timestamp)"
    and r: "snd (tcp_collect read timestamp (Inr pods :: ('e discovery_error, pod_info list) result)
      (fold tcp_step (take i ?h) Map.empty)) = Inr samples"
    by (rule tcp_run_round [OF i])
  have "pods_distinct (?h ! i)" using distinct i(1) by simp
  then have d: "distinct (map pi_uid pods)" by (simp add: h pods_distinct_def)
  obtain previous' where c: "tcp_collect read timestamp (Inr pods :: ('e discovery_error, pod_info list) result)
      (fold tcp_step (take i ?h) Map.empty) = (previous', Inr samples)"
    using r by (metis prod.collapse)
  from tcp_deltas_exact [OF d c s]
  obtain pod p snapshot v f where pod: "pod \<in> set pods"
    "fold tcp_step (take i ?h) Map.empty (pi_uid pod) = Some p" "pb_pid p = pi_pid pod"
    "read_pod_snapshot read (pi_pid pod) = Some snapshot" and val: "sample_value s = Counter v"
    "sample_attributes s = pod_attributes pod"
    "(sample_name s, f) \<in> {(TCP_RETRANSMITS_SAMPLE, ts_retrans_segs), (TCP_SEGMENTS_SENT_SAMPLE, ts_out_segs),
      (TCP_SEGMENTS_RECEIVED_SAMPLE, ts_in_segs), (TCP_TIMEOUTS_SAMPLE, ts_tcp_timeouts),
      (TCP_FAST_RETRANSMITS_SAMPLE, ts_tcp_fast_retrans)}"
    "unat (f snapshot) = unat (f (pb_snapshot p)) + unat v"
    by blast
  have "\<forall>m\<in>set (take i ?h). pods_distinct m" using distinct by (meson in_set_takeD)
  from tcp_baseline_latest [OF pod(2) this] i(1) obtain j where j: "j < i" "reading (?h ! j) (pi_uid pod) p"
    "\<forall>k. j < k \<and> k < i \<longrightarrow> no_reading (?h ! k) (pi_uid pod)" by auto
  have p: "p = \<lparr>pb_pid = pi_pid pod, pb_snapshot = pb_snapshot p\<rparr>" using pod(3) by (cases p) simp
  have "reading (?h ! i) (pi_uid pod) \<lparr>pb_pid = pi_pid pod, pb_snapshot = snapshot\<rparr>"
    using pod(1,4) by (auto simp: h list_ex_iff)
  then show ?thesis
    by (intro exI [of _ j] exI [of _ pods] exI [of _ pod] exI [of _ "pb_snapshot p"] exI [of _ snapshot] exI [of _ v]
        exI [of _ f] conjI) (use j pod(1) val h p in simp_all)
qed

text \<open>Two rounds with one pod, whose counters grow in between.\<close>

definition demo_pod :: pod_info where
  "demo_pod = \<lparr>pi_uid = ''ab-cd'', pi_name = ''web-0'', pi_namespace = ''default'', pi_pid = 42\<rparr>"

definition demo_files :: "string \<Rightarrow> string \<Rightarrow> string \<Rightarrow> string option" where
  "demo_files tcp ext path =
     (if path = ''/proc/42/net/snmp'' then Some (unlines [''Tcp: RetransSegs OutSegs InSegs CurrEstab'', tcp])
      else if path = ''/proc/42/net/netstat'' then Some (unlines [''TcpExt: TCPTimeouts TCPFastRetrans'', ext])
      else None)"

definition demo_snapshot :: "u64 \<Rightarrow> u64 \<Rightarrow> u64 \<Rightarrow> u64 \<Rightarrow> u64 \<Rightarrow> tcp_snapshot" where
  "demo_snapshot a b c d e =
     \<lparr>ts_retrans_segs = a, ts_out_segs = b, ts_in_segs = c, ts_curr_estab = 3, ts_tcp_timeouts = d,
      ts_tcp_fast_retrans = e\<rparr>"

definition demo_tcp_round :: "string \<Rightarrow> string \<Rightarrow> (string, nat) tcp_round" where
  "demo_tcp_round tcp ext =
     \<lparr>rd_call = demo_call\<lparr>call_takes := 0\<rparr>, rd_files = demo_files tcp ext, rd_time = 0\<rparr>"

definition demo_tcp_rounds :: "(string, nat) tcp_round list" where
  "demo_tcp_rounds =
     [demo_tcp_round ''Tcp: 10 100 200 3'' ''TcpExt: 4 6'', demo_tcp_round ''Tcp: 15 150 260 3'' ''TcpExt: 5 9'']"

lemma demo_readings:
  "read_pod_snapshot (demo_files ''Tcp: 10 100 200 3'' ''TcpExt: 4 6'') 42 = Some (demo_snapshot 10 100 200 4 6)"
  "read_pod_snapshot (demo_files ''Tcp: 15 150 260 3'' ''TcpExt: 5 9'') 42 = Some (demo_snapshot 15 150 260 5 9)"
  by code_simp+

lemma demo_refresh_pods:
  assumes "clients = [] \<or> clients = [demo_client_at ''k'']"
  shows "refresh_async demo_cri (\<lambda>_. None) demo_proc_view demo_orders (Explicit ''k'') clients =
    ([demo_client_at ''k''], Inr [demo_pod])"
proof -
  have e: "ensure_clients demo_cri (Explicit ''k'') clients = ([demo_client_at ''k''], Inr ())"
    using assms by (auto simp: ensure_clients_def target_sockets_def demo_cri_def demo_client_at_def)
  have p: "pod_pid demo_proc_view ''ab-cd'' (pid_from_status_info (\<lambda>_. None) Map.empty) = Some 42"
    by code_simp
  have r: "resolve_pids demo_proc_view (mo_hints demo_orders)
      [''ab-cd'' \<mapsto> pid_from_status_info (\<lambda>_. None) Map.empty] ''ab-cd'' = Some 42"
    by (subst resolve_pids_eq) (simp_all add: demo_orders_def p)
  let ?s = "\<lparr>dsb_socket = ''k'', dsb_sandbox_id = ''s1'', dsb_name = ''web-0'', dsb_namespace = ''default''\<rparr>"
  have l: "list_sandboxes demo_cri Map.empty False [] [demo_client_at ''k''] = ([''ab-cd'' \<mapsto> ?s], True, [])"
    by (simp add: demo_cri_def demo_client_at_def add_sandbox_def hm_entry_or_insert_def)
  have o: "mo_sandboxes demo_orders [''ab-cd'' \<mapsto> ?s] = [''ab-cd'']" by (simp add: demo_orders_def)
  have st: "read_statuses demo_cri (\<lambda>_. None) [demo_client_at ''k''] [] Map.empty [(''ab-cd'', ?s)] =
      ([\<lparr>pc_uid = ''ab-cd'', pc_name = ''web-0'', pc_namespace = ''default''\<rparr>],
       [''ab-cd'' \<mapsto> pid_from_status_info (\<lambda>_. None) Map.empty])"
    by (simp add: demo_cri_def demo_client_at_def host_network_def hm_insert_def)
  show ?thesis
    unfolding refresh_async_def e prod.case sum.case l Let_def
    by (simp add: o st r List.map_filter_simps demo_pod_def del: read_statuses.simps)
qed

lemma demo_history:
  "tcp_history (\<lambda>_. None) 0 demo_tcp_rounds =
     [(Inr [demo_pod], demo_files ''Tcp: 10 100 200 3'' ''TcpExt: 4 6'', 0),
      (Inr [demo_pod], demo_files ''Tcp: 15 150 260 3'' ''TcpExt: 5 9'', 0)]"
  by (simp add: tcp_history_def demo_tcp_rounds_def demo_tcp_round_def demo_call_def worker_job_def worker_step_def worker_start_def
      demo_refresh_pods discovery_refresh_def job_time_def WORKER_REFRESH_TIMEOUT_def REFRESH_TIMEOUT_def from_secs_def)

lemma demo_deltas:
  "pod_deltas (Some \<lparr>pb_pid = 42, pb_snapshot = demo_snapshot 10 100 200 4 6\<rparr>) 42 (demo_snapshot 15 150 260 5 9) =
     Some (5, 50, 60, 1, 3)"
  by code_simp

lemma tcp_counters_between_readings_witness:
  "\<exists>samples v. tcp_run (\<lambda>_. None) 0 demo_tcp_rounds ! 1 = Inr samples \<and>
     counter_sample TCP_TIMEOUTS_SAMPLE v (pod_attributes demo_pod) 0 \<in> set samples \<and>
     unat (5 :: u64) = unat (4 :: u64) + unat v"
proof -
  let ?s = "counter_sample TCP_TIMEOUTS_SAMPLE 1 (pod_attributes demo_pod) 0"
  have orders: "\<forall>round\<in>set demo_tcp_rounds. orders_ok (call_orders (rd_call round))"
    by (simp add: demo_tcp_rounds_def demo_tcp_round_def demo_call_def demo_orders_ok)
  have i: "1 < length demo_tcp_rounds" by (simp add: demo_tcp_rounds_def)
  let ?r1 = "demo_files ''Tcp: 10 100 200 3'' ''TcpExt: 4 6''" and ?r2 = "demo_files ''Tcp: 15 150 260 3'' ''TcpExt: 5 9''"
  let ?b = "tcp_step (Inr [demo_pod] :: (string discovery_error, pod_info list) result, ?r1, 0) Map.empty"
  have d: "distinct (map pi_uid [demo_pod])" by simp
  have b: "?b ''ab-cd'' = Some \<lparr>pb_pid = 42, pb_snapshot = demo_snapshot 10 100 200 4 6\<rparr>"
    unfolding tcp_step_def prod.case tcp_collect_baselines [OF d]
    by (simp add: pod_baseline_after_def demo_pod_def demo_readings)
  have "tcp_run (\<lambda>_. None) 0 demo_tcp_rounds ! 1 = Inr (concat (map (pod_samples ?r2 0 ?b) [demo_pod]))"
    unfolding tcp_run_def
    by (subst tcp_collections_nth) (auto simp: demo_history tcp_collect_samples [OF d])
  moreover have "?s \<in> set (pod_samples ?r2 0 ?b demo_pod)"
    using b by (simp add: pod_samples_def demo_pod_def demo_readings demo_deltas)
  ultimately obtain samples where r: "tcp_run (\<lambda>_. None) 0 demo_tcp_rounds ! 1 = Inr samples" "?s \<in> set samples"
    by simp
  have n: "sample_name ?s \<noteq> TCP_ESTABLISHED_SAMPLE"
    by (simp add: counter_sample_def TCP_TIMEOUTS_SAMPLE_def TCP_ESTABLISHED_SAMPLE_def)
  from tcp_counters_between_readings [OF orders i r n] obtain before now v f where c:
    "reading (tcp_history (\<lambda>_. None) 0 demo_tcp_rounds ! 0) ''ab-cd'' \<lparr>pb_pid = 42, pb_snapshot = before\<rparr>"
    "reading (tcp_history (\<lambda>_. None) 0 demo_tcp_rounds ! 1) ''ab-cd'' \<lparr>pb_pid = 42, pb_snapshot = now\<rparr>"
    "sample_value ?s = Counter v"
    "(sample_name ?s, f) \<in> {(TCP_RETRANSMITS_SAMPLE, ts_retrans_segs), (TCP_SEGMENTS_SENT_SAMPLE, ts_out_segs),
      (TCP_SEGMENTS_RECEIVED_SAMPLE, ts_in_segs), (TCP_TIMEOUTS_SAMPLE, ts_tcp_timeouts),
      (TCP_FAST_RETRANSMITS_SAMPLE, ts_tcp_fast_retrans)}" "unat (f now) = unat (f before) + unat v"
    by (auto simp: demo_history demo_pod_def)
  have "before = demo_snapshot 10 100 200 4 6" "now = demo_snapshot 15 150 260 5 9"
    using c(1,2) by (simp_all add: demo_history demo_readings)
  moreover have "f = ts_tcp_timeouts" "v = 1"
    using c(3,4) by (auto simp: counter_sample_def TCP_TIMEOUTS_SAMPLE_def TCP_RETRANSMITS_SAMPLE_def
        TCP_SEGMENTS_SENT_SAMPLE_def TCP_SEGMENTS_RECEIVED_SAMPLE_def TCP_FAST_RETRANSMITS_SAMPLE_def)
  ultimately show ?thesis using r c(5) by (auto simp: demo_snapshot_def)
qed

end
