(* ===== verification/Spec2Isabelle.thy ===== *)
theory Spec2Isabelle
  imports Build_Script Cli Control_Start Cri_Client Fleet Tcp_System
begin

text \<open>
  A verification development of Talia: a host monitoring agent (\<open>talia-agent\<close>), its control server
  (\<open>talia-control\<close>) and the crate they share (\<open>talia-core\<close>).

  \<^bold>\<open>The program.\<close>  The control server keeps one control file, resolved per host from built-in defaults, a
  defaults block and host blocks, and a table of connected agents.  An agent opens a WebSocket, says
  hello, and on the server's acknowledgement or notice fetches its configuration over HTTP under the id
  of its session; it validates the configuration, saves it as last-known configuration and publishes
  it to its collector tasks.  Each collector task reads the shared configuration once per round, loads
  its provider when needed, sleeps, collects, and passes the samples through the processors to the
  sinks.

  \<^bold>\<open>Shared layers.\<close>
  \<^item> \<open>Prelude\<close>: word types, results as sums with \<open>and_then\<close>, \<open>map_err\<close> and \<open>ok_or\<close> for the \<open>?\<close> chains of the
    source, and the collections of simplification rules.
  \<^item> \<open>Rust_Std\<close>, \<open>Ordered_Map\<close>, \<open>Rust_Float\<close>, \<open>Net_Addr\<close>: what the source uses of Rust's standard library:
    saturating arithmetic, string splitting and trimming, number parsing; the laws of ordered and hash
    maps as the locale \<open>keyed_map\<close>, interpreted on both; f64 as rationals rounded to nearest even;
    the parser of IP addresses.
  \<^item> \<open>Json\<close>: JSON values, the derived decoders with their defaults, and updates along a path.
  \<^item> \<open>Fnv\<close>: the hash of \<open>config.rs\<close> and the UTF-8 bytes it reads.

  \<^bold>\<open>talia-core.\<close>
  \<^item> \<open>Config_Sections\<close>: the sections of the runtime configuration, their defaults and \<open>validate\<close>
    (\<open>config.rs\<close>); every \<open>ConfigError\<close> is a constructor.
  \<^item> \<open>Config_Override\<close>: the override sections and \<open>apply_to\<close>; the locale \<open>override_layer\<close> states what a layer
    of overrides does and is interpreted on all nine sections.
  \<^item> \<open>Config_Control\<close>, \<open>Config_Bootstrap\<close>: the control file with its resolution per host and its versions,
    and the agent's bootstrap file with the check of control URLs.
  \<^item> \<open>Config_Json\<close>: the JSON form of a runtime configuration that the serde derivations define.
  \<^item> \<open>Config_Decode\<close>: the derived decoders of the bootstrap file, the control file and the overrides, and how a
    section and its override read the same table (\<open>reads_alike\<close>).  TOML values are taken as JSON values; a
    TOML date has no counterpart, and no type of the files reads one.
  \<^item> \<open>Secret\<close>, \<open>Control_Protocol\<close>, \<open>Pipeline\<close>: constant-time comparison through digests, the messages, and
    samples, processors and the name filter (locale \<open>filter_stage\<close>).

  \<^bold>\<open>talia-control.\<close>
  \<^item> \<open>Control_Server\<close>: tokens, loading and checking a control file, the handlers, and one event of the
    socket loop, each with the state it reads and writes.
  \<^item> \<open>Control_System\<close>: all connections, reloads and disconnects interleaved lock by lock, as a step relation
    with an invariant of every reachable state, and its refinement of a lease of agent ids
    (\<open>lease_step\<close>, \<open>lease_of\<close>).
  \<^item> \<open>Control_Router\<close>: the routes over the handlers.
  \<^item> \<open>Control_Start\<close>: the arguments, the checks before the server listens, and its exit status.
  \<^item> \<open>Control_Json\<close>: the JSON values of the WebSocket messages and of the admin answers.
  \<^item> \<open>Openapi\<close>: the documented operations, compared with the routes and the answers of the handlers.

  \<^bold>\<open>talia-agent.\<close>
  \<^item> \<open>Identity\<close>, \<open>Local_Config\<close>, \<open>Agent_Control\<close>: agent id, local files, requests, refresh, the WebSocket session
    and its reconnect loop, the poll, and the start.
  \<^item> \<open>Agent_System\<close>: the two tasks that refresh the shared configuration, interleaved at their awaits.
  \<^item> \<open>Agent_Server\<close>: agent and server composed, the requests of one answered by the handlers of the other.
  \<^item> \<open>Wire\<close>: the same over the route table, with configurations and messages as texts (\<open>wire_text\<close>).
  \<^item> \<open>Fleet\<close>: a run of the server (\<open>sys_run\<close>) and the running agent against it; a request may meet the table
    of one state and the configuration of another, or fail.
  \<^item> \<open>Memory\<close>, \<open>Storage\<close>, \<open>Cpu\<close>, \<open>Network\<close>, \<open>Disk_Io\<close>, \<open>Tcp_Parse\<close>, \<open>Tcp\<close>: the providers.  The counters of the BPF
    providers meet in the locale \<open>delta_collector\<close> of \<open>Counter_Delta\<close>, interpreted on each of them;
    \<open>Collector_Error\<close> holds their errors and the loading of tracepoints.
  \<^item> \<open>Pod_Pid\<close>, \<open>Pod_Discovery\<close>: the processes of pods, and the discovery over the container runtime.
  \<^item> \<open>Discovery_Worker\<close>: the worker thread behind the discovery and its caller, in time, with both deadlines.
  \<^item> \<open>Tcp_System\<close>: the TCP provider over a run, its baselines traced to the rounds that read them.
  \<^item> \<open>Cri_Client\<close>: the two calls of the discovery over a gRPC channel.
  \<^item> \<open>Set_Overrides\<close>, \<open>Collect_Command\<close>, \<open>Provider_Commands\<close>: the commands: \<open>--set\<close> assignments, \<open>collect\<close> with
    its time limit, and \<open>providers list\<close>, \<open>describe\<close> and \<open>config show\<close>.
  \<^item> \<open>Cli\<close>: the parsed command line, the dispatch of \<open>main.rs\<close> to the commands, and the exit status.
  \<^item> \<open>Sinks\<close>, \<open>Runner\<close>, \<open>Collectors\<close>: instruments and routing of the OTLP sink with the contract
    \<open>exported_provider\<close>, the collector loop, and the six providers behind it.
  \<^item> \<open>Agent_Runtime\<close>: the refreshing tasks and all collector tasks interleaved around the shared
    configuration, as a step relation with an invariant (\<open>runtime_ok\<close>).
  \<^item> \<open>Build_Script\<close>: the build script (\<open>build.rs\<close>): what is compiled, and the placeholders.

  \<^bold>\<open>What is shown.\<close>  The server: its table is consistent in every reachable state, an entry needs an enrolled
  credential, sessions do not disturb each other, the agents' token opens no admin handler, no request without a token is served, and the
  configuration endpoint grants exactly what it should; no other answer depends on session ids, the
  OpenAPI document is what the server implements, up to the WebSocket extractor's own rejection, and its
  messages are read back as they were sent.  The configuration: validation is exact,
  overrides have the documented precedence, a loaded file serves every host with one stated exception,
  and the same tables mean the same in the agent's file and in the server's.
  The agent: it only ever runs valid configurations, keeps its id and its last configuration over
  restarts, paces polls and reconnects, and exports samples only under configurations it was started
  with or the server granted it.  The collectors: the network's reported bytes add up to
  the growth of the counters over whole runs, and never to more when collections fail; TCP deltas lie
  between two readings of one process; parsers read back what the kernel prints, samples reach an
  instrument that fits them, and every round sleeps.  The commands: assignments stay with their provider, the described settings are the
  accepted ones, and a limited collection ends.  Some theorems record behaviour that is a defect; they are listed as findings.

  \<^bold>\<open>Parameters.\<close>  Third-party code enters as arguments: the SHA-256 digest (with the hypothesis that it does not
  collide on the two secrets compared), the printing and parsing of JSON and TOML texts, the HTTP and WebSocket libraries'
  answers, \<open>statvfs\<close>, the BPF loader and maps, the container runtime's answers, clocks and UUIDs.

  \<^bold>\<open>Loops.\<close>  Every loop over data is structural recursion.  The endless loops of the program (sockets,
  collectors, polls) are functions of the finite list of events they have met, or step relations, so no
  fuel is needed and the statements hold after any number of rounds.

  \<^bold>\<open>Not modelled.\<close>  Clap's parsing of the command line, the C programs that run in the kernel, logging and
  its setup, the prose and the body schemas of the OpenAPI document, and the OpenTelemetry SDK behind
  the sink: they are third-party code, not Rust, or have no effect on the program's results.
\<close>

end
